(* ===== verification/CW_Prelude.thy ===== *)
theory CW_Prelude
  imports Complex_Main "HOL-Library.Char_ord" "HOL-Library.List_Lexorder"
begin

text \<open>
  Shared vocabulary of the development: JSON values, the exceptions the code raises, the Python
  string operations it uses, the state-and-exception monad every database or cluster handler is
  written in, its weakest-precondition equations, the frame predicates, and the table interface.

  A handler is a function from a state to an exception or a value, together with the state it
  leaves: an exception in Python does not undo what was done before it, so \<open>raiseM\<close> keeps the
  state. \<open>wp m Q E s\<close> says that running \<open>m\<close> from \<open>s\<close> ends in \<open>Q\<close> when it returns and in \<open>E\<close>
  when it raises; the equations in \<open>wp_simps\<close> compute it. \<open>keeps f m\<close> says that \<open>m\<close> never changes
  the observation \<open>f\<close>, whether it returns or raises, and \<open>preserves I m\<close> that it keeps an
  invariant.
\<close>

named_theorems wp_simps "equations that compute the weakest precondition of a handler"
named_theorems frame "rules showing that a handler keeps an observation of the state"
named_theorems inv_rules "rules showing that a handler preserves an invariant"
named_theorems result_rules "rules bounding the values a handler can return"
named_theorems raise_rules "rules bounding the exceptions a handler can raise"

section \<open>JSON values and exceptions\<close>

text \<open>A Python value that can be serialised as JSON; an object keeps the insertion order of its
  keys. Floating-point numbers are exact rationals.\<close>

datatype json =
    JNull
  | JBool bool
  | JInt int
  | JFloat rat
  | JStr string
  | JList "json list"
  | JObj "(string \<times> json) list"

text \<open>\<open>CloudWardError\<close> carries code, message, HTTP status and optional details, as the class in
  \<open>errors.py\<close> does; a violated table constraint surfaces as \<open>IntegrityError\<close>, any other Python
  exception as \<open>PyError\<close> with its class name.\<close>

datatype exn =
    CloudWardError string string nat "json option"
  | IntegrityError string
  | PyError string

fun exn_code :: "exn \<Rightarrow> string" where
  "exn_code (CloudWardError c m st d) = c"
| "exn_code (IntegrityError c) = ''IntegrityError''"
| "exn_code (PyError c) = c"

fun exn_message :: "exn \<Rightarrow> string" where
  "exn_message (CloudWardError c m st d) = m"
| "exn_message e = []"

fun cw_code :: "exn \<Rightarrow> string option" where
  "cw_code (CloudWardError c m st d) = Some c"
| "cw_code e = None"

fun is_cloudward :: "exn \<Rightarrow> bool" where
  "is_cloudward (CloudWardError c m st d) = True"
| "is_cloudward e = False"

abbreviation cw_error :: "string \<Rightarrow> string \<Rightarrow> nat \<Rightarrow> exn" where
  "cw_error c m st \<equiv> CloudWardError c m st None"

section \<open>Python operations on dictionaries and strings\<close>

definition dict_get :: "(string \<times> 'v) list \<Rightarrow> string \<Rightarrow> 'v option" where
  "dict_get d k = map_of d k"

definition jopt :: "('a \<Rightarrow> json) \<Rightarrow> 'a option \<Rightarrow> json" where
  "jopt f x = (case x of None \<Rightarrow> JNull | Some v \<Rightarrow> f v)"

abbreviation jstr_opt :: "string option \<Rightarrow> json" where
  "jstr_opt \<equiv> jopt JStr"

text \<open>\<open>lower\<close>, \<open>startswith\<close>, \<open>endswith\<close>, \<open>in\<close>, \<open>replace\<close> of one character and \<open>strip\<close> of one
  character, on ASCII strings.\<close>

definition lower_char :: "char \<Rightarrow> char" where
  "lower_char c = (let n = (of_char c :: nat) in
     if 65 \<le> n \<and> n \<le> 90 then char_of (n + 32) else c)"

definition py_lower :: "string \<Rightarrow> string" where
  "py_lower s = map lower_char s"

definition py_startswith :: "string \<Rightarrow> string \<Rightarrow> bool" where
  "py_startswith s p = (take (length p) s = p)"

definition py_endswith :: "string \<Rightarrow> string \<Rightarrow> bool" where
  "py_endswith s p = (length p \<le> length s \<and> drop (length s - length p) s = p)"

fun py_in :: "string \<Rightarrow> string \<Rightarrow> bool" where
  "py_in p [] = (p = [])"
| "py_in p (c # cs) = (py_startswith (c # cs) p \<or> py_in p cs)"

definition py_replace1 :: "char \<Rightarrow> string \<Rightarrow> string \<Rightarrow> string" where
  "py_replace1 c r s = concat (map (\<lambda>x. if x = c then r else [x]) s)"

definition py_strip :: "(char \<Rightarrow> bool) \<Rightarrow> string \<Rightarrow> string" where
  "py_strip p s = rev (dropWhile p (rev (dropWhile p s)))"

definition is_digit_char :: "char \<Rightarrow> bool" where
  "is_digit_char c = (48 \<le> (of_char c :: nat) \<and> (of_char c :: nat) \<le> 57)"

definition is_lower_char :: "char \<Rightarrow> bool" where
  "is_lower_char c = (97 \<le> (of_char c :: nat) \<and> (of_char c :: nat) \<le> 122)"

definition is_upper_char :: "char \<Rightarrow> bool" where
  "is_upper_char c = (65 \<le> (of_char c :: nat) \<and> (of_char c :: nat) \<le> 90)"

definition is_alnum_char :: "char \<Rightarrow> bool" where
  "is_alnum_char c = (is_digit_char c \<or> is_lower_char c \<or> is_upper_char c)"

definition is_space_char :: "char \<Rightarrow> bool" where
  "is_space_char c = ((of_char c :: nat) \<in> {9, 10, 11, 12, 13, 28, 29, 30, 31, 32})"

text \<open>Decimal rendering of \<open>str(n)\<close> and the hexadecimal rendering of UUIDs (a UUID is its
  128-bit value).\<close>

type_synonym uuid = nat

fun str_of_nat :: "nat \<Rightarrow> string" where
  "str_of_nat n = (if n < 10 then [char_of (48 + n)]
     else str_of_nat (n div 10) @ [char_of (48 + n mod 10)])"

declare str_of_nat.simps [simp del]

definition str_of_int :: "int \<Rightarrow> string" where
  "str_of_int i = (if i < 0 then CHR ''-'' # str_of_nat (nat (- i)) else str_of_nat (nat i))"

definition hex_digit :: "nat \<Rightarrow> char" where
  "hex_digit d = (if d < 10 then char_of (48 + d) else char_of (87 + d))"

fun hex_digits :: "nat \<Rightarrow> nat \<Rightarrow> string" where
  "hex_digits 0 n = []"
| "hex_digits (Suc k) n = hex_digits k (n div 16) @ [hex_digit (n mod 16)]"

definition uuid_hex :: "uuid \<Rightarrow> string" where
  "uuid_hex u = hex_digits 32 u"

definition uuid_str :: "uuid \<Rightarrow> string" where
  "uuid_str u = (let h = uuid_hex u in
     take 8 h @ ''-'' @ take 4 (drop 8 h) @ ''-'' @ take 4 (drop 12 h) @ ''-'' @
     take 4 (drop 16 h) @ ''-'' @ drop 20 h)"

lemma length_hex_digits [simp]: "length (hex_digits k n) = k"
  by (induction k arbitrary: n) auto

lemma py_startswith_append [simp]: "py_startswith (p @ s) p"
  by (simp add: py_startswith_def)

lemma py_in_append: "py_in p (a @ p @ b)"
proof (induction a)
  case Nil
  have "py_startswith (p @ b) p" by simp
  then show ?case by (cases "p @ b") auto
next
  case (Cons c a)
  then show ?case by simp
qed

lemma py_in_iff: "py_in p s \<longleftrightarrow> (\<exists>a b. s = a @ p @ b)"
proof
  show "py_in p s \<Longrightarrow> \<exists>a b. s = a @ p @ b"
  proof (induction p s rule: py_in.induct)
    case (1 p)
    then show ?case by simp
  next
    case (2 p c cs)
    show ?case
    proof (cases "py_startswith (c # cs) p")
      case True
      then have "c # cs = [] @ p @ drop (length p) (c # cs)"
        by (metis append_Nil append_take_drop_id py_startswith_def)
      then show ?thesis by blast
    next
      case False
      with "2.prems" have "py_in p cs" by simp
      with "2.IH" False obtain a b where "cs = a @ p @ b" by blast
      then have "c # cs = (c # a) @ p @ b" by simp
      then show ?thesis by blast
    qed
  qed
qed (auto simp: py_in_append)

section \<open>Rounding\<close>

text \<open>Python's \<open>round\<close> to an integer: to the nearest, ties to the even neighbour.\<close>

definition py_round :: "rat \<Rightarrow> int" where
  "py_round x = (let f = \<lfloor>x\<rfloor>; d = x - of_int f in
     if d < 1 / 2 then f else if d > 1 / 2 then f + 1 else if even f then f else f + 1)"

lemma py_round_cases: "py_round x = \<lfloor>x\<rfloor> \<or> (py_round x = \<lfloor>x\<rfloor> + 1 \<and> x \<noteq> of_int \<lfloor>x\<rfloor>)"
  by (auto simp: py_round_def Let_def)

lemma py_round_mono: "x \<le> y \<Longrightarrow> py_round x \<le> py_round y"
proof -
  assume le: "x \<le> y"
  then have fl: "\<lfloor>x\<rfloor> \<le> \<lfloor>y\<rfloor>" by (rule floor_mono)
  show ?thesis
  proof (cases "\<lfloor>x\<rfloor> = \<lfloor>y\<rfloor>")
    case True
    with le show ?thesis by (auto simp: py_round_def Let_def)
  next
    case False
    with fl have "\<lfloor>x\<rfloor> + 1 \<le> \<lfloor>y\<rfloor>" by simp
    then show ?thesis using py_round_cases [of x] py_round_cases [of y] by linarith
  qed
qed

lemma py_round_of_int [simp]: "py_round (of_int n) = n"
  by (simp add: py_round_def Let_def)

lemma py_round_bounds: "of_int a \<le> x \<Longrightarrow> x \<le> of_int b \<Longrightarrow> a \<le> py_round x \<and> py_round x \<le> b"
  using py_round_mono [of "of_int a" x] py_round_mono [of x "of_int b"] by simp

section \<open>The state-and-exception monad\<close>

type_synonym ('s, 'a) M = "'s \<Rightarrow> (exn + 'a) \<times> 's"

definition returnM :: "'a \<Rightarrow> ('s, 'a) M" where
  "returnM x = (\<lambda>s. (Inr x, s))"

definition raiseM :: "exn \<Rightarrow> ('s, 'a) M" where
  "raiseM e = (\<lambda>s. (Inl e, s))"

definition bindM :: "('s, 'a) M \<Rightarrow> ('a \<Rightarrow> ('s, 'b) M) \<Rightarrow> ('s, 'b) M" where
  "bindM m f = (\<lambda>s. case m s of (Inl e, t) \<Rightarrow> (Inl e, t) | (Inr x, t) \<Rightarrow> f x t)"

definition thenM :: "('s, 'a) M \<Rightarrow> ('s, 'b) M \<Rightarrow> ('s, 'b) M" where
  "thenM m n = bindM m (\<lambda>_. n)"

definition readM :: "('s \<Rightarrow> 'a) \<Rightarrow> ('s, 'a) M" where
  "readM f = (\<lambda>s. (Inr (f s), s))"

definition modifyM :: "('s \<Rightarrow> 's) \<Rightarrow> ('s, unit) M" where
  "modifyM f = (\<lambda>s. (Inr (), f s))"

definition liftR :: "exn + 'a \<Rightarrow> ('s, 'a) M" where
  "liftR r = (\<lambda>s. (r, s))"

definition whenM :: "bool \<Rightarrow> ('s, unit) M \<Rightarrow> ('s, unit) M" where
  "whenM c m = (if c then m else returnM ())"

text \<open>\<open>raise_if c e\<close> is \<^verbatim>\<open>if c: raise e\<close>.\<close>

definition raise_if :: "bool \<Rightarrow> exn \<Rightarrow> ('s, unit) M" where
  "raise_if c e = (if c then raiseM e else returnM ())"

definition tryM :: "('s, 'a) M \<Rightarrow> (exn \<Rightarrow> ('s, 'a) M) \<Rightarrow> ('s, 'a) M" where
  "tryM m h = (\<lambda>s. case m s of (Inl e, t) \<Rightarrow> h e t | (Inr x, t) \<Rightarrow> (Inr x, t))"

text \<open>\<^verbatim>\<open>except CloudWardError\<close>: every other exception passes through.\<close>

definition catch_cloudward :: "('s, 'a) M \<Rightarrow> (exn \<Rightarrow> ('s, 'a) M) \<Rightarrow> ('s, 'a) M" where
  "catch_cloudward m h = tryM m (\<lambda>e. if is_cloudward e then h e else raiseM e)"

text \<open>An awaited call whose result is not used.\<close>

definition voidM :: "('s, 'a) M \<Rightarrow> ('s, unit) M" where
  "voidM m = thenM m (returnM ())"

primrec seqM :: "('s, unit) M list \<Rightarrow> ('s, unit) M" where
  "seqM [] = returnM ()"
| "seqM (m # ms) = thenM m (seqM ms)"

primrec mapM :: "('x \<Rightarrow> ('s, 'y) M) \<Rightarrow> 'x list \<Rightarrow> ('s, 'y list) M" where
  "mapM f [] = returnM []"
| "mapM f (x # xs) = bindM (f x) (\<lambda>y. bindM (mapM f xs) (\<lambda>ys. returnM (y # ys)))"

subsection \<open>Weakest preconditions\<close>

definition wp :: "('s, 'a) M \<Rightarrow> ('a \<Rightarrow> 's \<Rightarrow> bool) \<Rightarrow> (exn \<Rightarrow> 's \<Rightarrow> bool) \<Rightarrow> 's \<Rightarrow> bool" where
  "wp m Q E s = (case m s of (Inl e, t) \<Rightarrow> E e t | (Inr x, t) \<Rightarrow> Q x t)"

lemma wp_returnM [wp_simps, simp]: "wp (returnM x) Q E = Q x"
  by (rule ext) (simp add: wp_def returnM_def)

lemma wp_raiseM [wp_simps, simp]: "wp (raiseM e) Q E = E e"
  by (rule ext) (simp add: wp_def raiseM_def)

lemma wp_bindM [wp_simps]: "wp (bindM m f) Q E s = wp m (\<lambda>x. wp (f x) Q E) E s"
  by (auto simp: wp_def bindM_def split: prod.splits sum.splits)

lemma wp_thenM [wp_simps]: "wp (thenM m n) Q E s = wp m (\<lambda>_. wp n Q E) E s"
  by (simp add: thenM_def wp_bindM)

lemma wp_voidM [wp_simps]: "wp (voidM m) Q E = wp m (\<lambda>_. Q ()) E"
  by (rule ext) (auto simp: voidM_def thenM_def bindM_def returnM_def wp_def split: prod.splits sum.splits)

lemma wp_readM [wp_simps, simp]: "wp (readM f) Q E s = Q (f s) s"
  by (simp add: wp_def readM_def)

lemma wp_modifyM [wp_simps, simp]: "wp (modifyM f) Q E s = Q () (f s)"
  by (simp add: wp_def modifyM_def)

lemma wp_liftR [wp_simps]: "wp (liftR r) Q E s = (case r of Inl e \<Rightarrow> E e s | Inr x \<Rightarrow> Q x s)"
  by (simp add: wp_def liftR_def split: sum.splits)

lemma wp_whenM [wp_simps]: "wp (whenM c m) Q E s = (if c then wp m Q E s else Q () s)"
  by (simp add: whenM_def)

lemma wp_raise_if [wp_simps]: "wp (raise_if c e) Q E s = (if c then E e s else Q () s)"
  by (simp add: raise_if_def)

lemma wp_tryM [wp_simps]: "wp (tryM m h) Q E s = wp m Q (\<lambda>e. wp (h e) Q E) s"
  by (auto simp: wp_def tryM_def split: prod.splits sum.splits)

lemma wp_catch_cloudward [wp_simps]:
  "wp (catch_cloudward m h) Q E s =
     wp m Q (\<lambda>e t. if is_cloudward e then wp (h e) Q E t else E e t) s"
  by (auto simp: catch_cloudward_def wp_def tryM_def raiseM_def split: prod.splits sum.splits)

lemma wp_seqM_Nil [wp_simps, simp]: "wp (seqM []) Q E = Q ()"
  by simp

lemma wp_seqM_Cons [wp_simps]: "wp (seqM (m # ms)) Q E s = wp m (\<lambda>_. wp (seqM ms) Q E) E s"
  by (simp add: wp_thenM)

lemma wp_if [wp_simps]: "wp (if c then m else n) Q E s = (if c then wp m Q E s else wp n Q E s)"
  by simp

lemma wp_Let [wp_simps]: "wp (let x = v in m x) Q E s = (let x = v in wp (m x) Q E s)"
  by (simp add: Let_def)

lemma wp_mono:
  assumes "wp m Q E s" and "\<And>x t. Q x t \<Longrightarrow> Q' x t" and "\<And>e t. E e t \<Longrightarrow> E' e t"
  shows "wp m Q' E' s"
  using assms by (auto simp: wp_def split: prod.splits sum.splits)

lemma wp_always: "(\<And>x t. Q x t) \<Longrightarrow> (\<And>e t. E e t) \<Longrightarrow> wp m Q E s"
  by (simp add: wp_def split: prod.splits sum.splits)

lemma wp_conj: "wp m Q E s \<Longrightarrow> wp m Q' E' s \<Longrightarrow>
    wp m (\<lambda>x t. Q x t \<and> Q' x t) (\<lambda>e t. E e t \<and> E' e t) s"
  by (auto simp: wp_def split: prod.splits sum.splits)

lemma wp_returned: "wp m Q E s \<Longrightarrow> m s = (Inr x, t) \<Longrightarrow> Q x t"
  by (simp add: wp_def)

lemma wp_raised: "wp m Q E s \<Longrightarrow> m s = (Inl e, t) \<Longrightarrow> E e t"
  by (simp add: wp_def)

lemma wp_total: "wp m (\<lambda>x t. P t) (\<lambda>e t. P t) s = P (snd (m s))"
  by (auto simp: wp_def split: prod.splits sum.splits)

lemma bindM_returnedE:
  assumes "bindM m f s = (Inr y, u)"
  obtains x t where "m s = (Inr x, t)" and "f x t = (Inr y, u)"
  using assms by (auto simp: bindM_def split: prod.splits sum.splits)

subsection \<open>Frames and invariants\<close>

definition keeps :: "('s \<Rightarrow> 'o) \<Rightarrow> ('s, 'a) M \<Rightarrow> bool" where
  "keeps f m \<longleftrightarrow> (\<forall>s. f (snd (m s)) = f s)"

definition preserves :: "('s \<Rightarrow> bool) \<Rightarrow> ('s, 'a) M \<Rightarrow> bool" where
  "preserves I m \<longleftrightarrow> (\<forall>s. I s \<longrightarrow> I (snd (m s)))"

lemma keepsD: "keeps f m \<Longrightarrow> f (snd (m s)) = f s"
  by (simp add: keeps_def)

lemma keeps_wp: "keeps f m \<Longrightarrow> wp m (\<lambda>_ t. f t = f s) (\<lambda>_ t. f t = f s) s"
  by (simp add: wp_total keeps_def)

lemma keeps_returnM [frame]: "keeps f (returnM x)"
  by (simp add: keeps_def returnM_def)

lemma keeps_raiseM [frame]: "keeps f (raiseM e)"
  by (simp add: keeps_def raiseM_def)

lemma keeps_readM [frame]: "keeps f (readM g)"
  by (simp add: keeps_def readM_def)

lemma keeps_liftR [frame]: "keeps f (liftR r)"
  by (simp add: keeps_def liftR_def)

lemma keeps_modifyM: "(\<And>s. f (g s) = f s) \<Longrightarrow> keeps f (modifyM g)"
  by (simp add: keeps_def modifyM_def)

lemma keeps_bindM [frame]: "keeps f m \<Longrightarrow> (\<And>x. keeps f (g x)) \<Longrightarrow> keeps f (bindM m g)"
  by (auto simp: keeps_def bindM_def split: prod.splits sum.splits) (metis snd_conv)+

lemma keeps_thenM [frame]: "keeps f m \<Longrightarrow> keeps f n \<Longrightarrow> keeps f (thenM m n)"
  by (simp add: thenM_def keeps_bindM)

lemma keeps_voidM [frame]: "keeps f m \<Longrightarrow> keeps f (voidM m)"
  by (simp add: voidM_def keeps_thenM keeps_returnM)

lemma keeps_tryM [frame]: "keeps f m \<Longrightarrow> (\<And>e. keeps f (h e)) \<Longrightarrow> keeps f (tryM m h)"
  by (auto simp: keeps_def tryM_def split: prod.splits sum.splits) (metis snd_conv)+

lemma keeps_whenM [frame]: "(c \<Longrightarrow> keeps f m) \<Longrightarrow> keeps f (whenM c m)"
  by (simp add: whenM_def keeps_returnM)

lemma keeps_raise_if [frame]: "keeps f (raise_if c e)"
  by (simp add: raise_if_def keeps_returnM keeps_raiseM)

lemma keeps_if [frame]:
  "(c \<Longrightarrow> keeps f m) \<Longrightarrow> (\<not> c \<Longrightarrow> keeps f n) \<Longrightarrow> keeps f (if c then m else n)"
  by simp

lemma keeps_option [frame]:
  "keeps f n \<Longrightarrow> (\<And>x. keeps f (g x)) \<Longrightarrow> keeps f (case v of None \<Rightarrow> n | Some x \<Rightarrow> g x)"
  by (cases v) auto

lemma keeps_sum [frame]:
  "(\<And>e. keeps f (h e)) \<Longrightarrow> (\<And>x. keeps f (g x)) \<Longrightarrow>
     keeps f (case v of Inl e \<Rightarrow> h e | Inr x \<Rightarrow> g x)"
  by (cases v) auto

lemma keeps_prod [frame]: "(\<And>x y. keeps f (g x y)) \<Longrightarrow> keeps f (case v of (x, y) \<Rightarrow> g x y)"
  by (cases v) auto

lemma keeps_list [frame]:
  "keeps f n \<Longrightarrow> (\<And>x xs. keeps f (g x xs)) \<Longrightarrow> keeps f (case v of [] \<Rightarrow> n | x # xs \<Rightarrow> g x xs)"
  by (cases v) auto

lemma keeps_Let [frame]: "(\<And>x. keeps f (g x)) \<Longrightarrow> keeps f (Let v g)"
  by (simp add: Let_def)

lemma keeps_seqM_Nil [frame]: "keeps f (seqM [])"
  by (simp add: keeps_returnM)

lemma keeps_seqM_Cons [frame]: "keeps f m \<Longrightarrow> keeps f (seqM ms) \<Longrightarrow> keeps f (seqM (m # ms))"
  by (simp add: keeps_thenM)

declare seqM.simps [simp del]

lemma keeps_catch_cloudward [frame]:
  "keeps f m \<Longrightarrow> (\<And>e. keeps f (h e)) \<Longrightarrow> keeps f (catch_cloudward m h)"
  by (auto simp: catch_cloudward_def intro!: keeps_tryM keeps_raiseM)

lemma keeps_mapM [frame]: "(\<And>x. keeps f (g x)) \<Longrightarrow> keeps f (mapM g xs)"
  by (induction xs) (auto intro!: frame)

lemma preserves_keeps: "keeps f m \<Longrightarrow> preserves (\<lambda>s. P (f s)) m"
  by (simp add: keeps_def preserves_def)

lemma preserves_wp: "preserves I m \<longleftrightarrow> (\<forall>s. I s \<longrightarrow> wp m (\<lambda>_. I) (\<lambda>_. I) s)"
  by (simp add: preserves_def wp_total)

lemma preservesD: "preserves I m \<Longrightarrow> I s \<Longrightarrow> wp m (\<lambda>_. I) (\<lambda>_. I) s"
  by (simp add: preserves_wp)

text \<open>Sequencing: a step that keeps an invariant, then the rest from any state of the invariant; and a
  step with a postcondition of its own.\<close>

lemma wp_bind_inv:
  assumes "preserves I m" and "I s" and "\<And>e t. I t \<Longrightarrow> X e t" and "\<And>x t. I t \<Longrightarrow> wp (f x) Q X t"
  shows "wp (bindM m f) Q X s"
  unfolding wp_bindM by (rule wp_mono [OF preservesD [OF assms(1,2)]]) (use assms(3,4) in auto)

lemma wp_then_inv:
  assumes "preserves I m" and "I s" and "\<And>e t. I t \<Longrightarrow> X e t" and "\<And>t. I t \<Longrightarrow> wp n Q X t"
  shows "wp (thenM m n) Q X s"
  unfolding thenM_def by (rule wp_bind_inv [OF assms])

lemma wp_bind_post:
  assumes "wp m J X s" and "\<And>x t. J x t \<Longrightarrow> wp (f x) Q X t"
  shows "wp (bindM m f) Q X s"
  unfolding wp_bindM by (rule wp_mono [OF assms(1)]) (use assms(2) in auto)

lemma wp_then_post:
  assumes "wp m (\<lambda>_. J) X s" and "\<And>t. J t \<Longrightarrow> wp n Q X t"
  shows "wp (thenM m n) Q X s"
  unfolding thenM_def by (rule wp_bind_post [OF assms])

lemma wp_catch_inv:
  assumes "wp m Q (\<lambda>_. I) s" and "\<And>e t. I t \<Longrightarrow> wp (h e) Q X t" and "\<And>e t. I t \<Longrightarrow> X e t"
  shows "wp (catch_cloudward m h) Q X s"
  unfolding wp_catch_cloudward by (rule wp_mono [OF assms(1)]) (use assms(2,3) in auto)

lemma wp_seq_post:
  assumes "wp m (\<lambda>_. J) X s" and "\<And>t. J t \<Longrightarrow> wp (seqM ms) Q X t"
  shows "wp (seqM (m # ms)) Q X s"
  unfolding seqM.simps by (rule wp_then_post [OF assms])

lemma preserves_returnM [inv_rules]: "preserves I (returnM x)"
  by (simp add: preserves_def returnM_def)

lemma preserves_raiseM [inv_rules]: "preserves I (raiseM e)"
  by (simp add: preserves_def raiseM_def)

lemma preserves_readM [inv_rules]: "preserves I (readM g)"
  by (simp add: preserves_def readM_def)

lemma preserves_liftR [inv_rules]: "preserves I (liftR r)"
  by (simp add: preserves_def liftR_def)

lemma preserves_modifyM: "(\<And>s. I s \<Longrightarrow> I (g s)) \<Longrightarrow> preserves I (modifyM g)"
  by (simp add: preserves_def modifyM_def)

lemma preserves_bindM [inv_rules]:
  "preserves I m \<Longrightarrow> (\<And>x. preserves I (g x)) \<Longrightarrow> preserves I (bindM m g)"
  by (fastforce simp: preserves_def bindM_def split: prod.splits sum.splits)

lemma preserves_thenM [inv_rules]:
  "preserves I m \<Longrightarrow> preserves I n \<Longrightarrow> preserves I (thenM m n)"
  by (simp add: thenM_def preserves_bindM)

lemma preserves_voidM [inv_rules]: "preserves I m \<Longrightarrow> preserves I (voidM m)"
  by (simp add: voidM_def preserves_thenM preserves_returnM)

lemma preserves_tryM [inv_rules]:
  "preserves I m \<Longrightarrow> (\<And>e. preserves I (h e)) \<Longrightarrow> preserves I (tryM m h)"
  by (fastforce simp: preserves_def tryM_def split: prod.splits sum.splits)

lemma preserves_whenM [inv_rules]: "(c \<Longrightarrow> preserves I m) \<Longrightarrow> preserves I (whenM c m)"
  by (simp add: whenM_def preserves_returnM)

lemma preserves_raise_if [inv_rules]: "preserves I (raise_if c e)"
  by (simp add: raise_if_def preserves_returnM preserves_raiseM)

lemma preserves_if [inv_rules]:
  "(c \<Longrightarrow> preserves I m) \<Longrightarrow> (\<not> c \<Longrightarrow> preserves I n) \<Longrightarrow> preserves I (if c then m else n)"
  by simp

lemma preserves_option [inv_rules]:
  "preserves I n \<Longrightarrow> (\<And>x. preserves I (g x)) \<Longrightarrow>
     preserves I (case v of None \<Rightarrow> n | Some x \<Rightarrow> g x)"
  by (cases v) auto

lemma preserves_sum [inv_rules]:
  "(\<And>e. preserves I (h e)) \<Longrightarrow> (\<And>x. preserves I (g x)) \<Longrightarrow>
     preserves I (case v of Inl e \<Rightarrow> h e | Inr x \<Rightarrow> g x)"
  by (cases v) auto

lemma preserves_prod [inv_rules]:
  "(\<And>x y. preserves I (g x y)) \<Longrightarrow> preserves I (case v of (x, y) \<Rightarrow> g x y)"
  by (cases v) auto

lemma preserves_list [inv_rules]:
  "preserves I n \<Longrightarrow> (\<And>x xs. preserves I (g x xs)) \<Longrightarrow>
     preserves I (case v of [] \<Rightarrow> n | x # xs \<Rightarrow> g x xs)"
  by (cases v) auto

lemma preserves_Let [inv_rules]: "(\<And>x. preserves I (g x)) \<Longrightarrow> preserves I (Let v g)"
  by (simp add: Let_def)

lemma preserves_seqM_Nil [inv_rules]: "preserves I (seqM [])"
  by (simp add: seqM.simps preserves_returnM)

lemma preserves_seqM_Cons [inv_rules]:
  "preserves I m \<Longrightarrow> preserves I (seqM ms) \<Longrightarrow> preserves I (seqM (m # ms))"
  by (simp add: seqM.simps preserves_thenM)

lemma thenM_assoc: "thenM (thenM m n) k = thenM m (thenM n k)"
  by (auto simp: thenM_def bindM_def split: prod.splits sum.splits)

lemma seqM_snoc: "seqM (ns @ [m]) = thenM (seqM ns) (thenM m (returnM ()))"
proof (induction ns)
  case Nil
  show ?case by (simp add: seqM.simps thenM_def bindM_def returnM_def)
qed (simp add: seqM.simps thenM_assoc)

lemma seqM_append: "seqM (as @ bs) = thenM (seqM as) (seqM bs)"
proof (induction as)
  case Nil
  show ?case by (simp add: seqM.simps thenM_def bindM_def returnM_def)
qed (simp add: seqM.simps thenM_assoc)

lemma preserves_catch_cloudward [inv_rules]:
  "preserves I m \<Longrightarrow> (\<And>e. preserves I (h e)) \<Longrightarrow> preserves I (catch_cloudward m h)"
  by (auto simp: catch_cloudward_def intro!: preserves_tryM preserves_raiseM)

lemma preserves_mapM [inv_rules]: "(\<And>x. preserves I (g x)) \<Longrightarrow> preserves I (mapM g xs)"
  by (induction xs) (auto intro!: inv_rules)

subsection \<open>The exceptions a handler can raise\<close>

definition raises :: "(exn \<Rightarrow> bool) \<Rightarrow> ('s, 'a) M \<Rightarrow> bool" where
  "raises P m \<longleftrightarrow> (\<forall>s. wp m (\<lambda>_ _. True) (\<lambda>e _. P e) s)"

lemma raisesD: "raises P m \<Longrightarrow> wp m (\<lambda>_ _. True) (\<lambda>e _. P e) s"
  by (simp add: raises_def)

lemma raises_returnM [raise_rules]: "raises P (returnM x)"
  by (simp add: raises_def)

lemma raises_raiseM [raise_rules]: "P e \<Longrightarrow> raises P (raiseM e)"
  by (simp add: raises_def)

lemma raises_readM [raise_rules]: "raises P (readM f)"
  by (simp add: raises_def)

lemma raises_modifyM [raise_rules]: "raises P (modifyM f)"
  by (simp add: raises_def)

lemma raises_liftR [raise_rules]: "(\<And>e. r = Inl e \<Longrightarrow> P e) \<Longrightarrow> raises P (liftR r)"
  by (simp add: raises_def wp_liftR split: sum.splits)

lemma raises_bindM [raise_rules]: "raises P m \<Longrightarrow> (\<And>x. raises P (f x)) \<Longrightarrow> raises P (bindM m f)"
  unfolding raises_def wp_bindM by (meson wp_mono)

lemma raises_thenM [raise_rules]: "raises P m \<Longrightarrow> raises P n \<Longrightarrow> raises P (thenM m n)"
  by (simp add: thenM_def raises_bindM)

lemma raises_voidM [raise_rules]: "raises P m \<Longrightarrow> raises P (voidM m)"
  by (simp add: voidM_def raises_thenM raises_returnM)

lemma raises_whenM [raise_rules]: "(c \<Longrightarrow> raises P m) \<Longrightarrow> raises P (whenM c m)"
  by (simp add: whenM_def raises_returnM)

lemma raises_raise_if [raise_rules]: "(c \<Longrightarrow> P e) \<Longrightarrow> raises P (raise_if c e)"
  by (simp add: raise_if_def raises_returnM raises_raiseM)

lemma raises_if [raise_rules]:
  "(c \<Longrightarrow> raises P m) \<Longrightarrow> (\<not> c \<Longrightarrow> raises P n) \<Longrightarrow> raises P (if c then m else n)"
  by simp

lemma raises_option [raise_rules]:
  "raises P n \<Longrightarrow> (\<And>x. raises P (g x)) \<Longrightarrow> raises P (case v of None \<Rightarrow> n | Some x \<Rightarrow> g x)"
  by (cases v) auto

lemma raises_sum [raise_rules]:
  "(\<And>e. raises P (h e)) \<Longrightarrow> (\<And>x. raises P (g x)) \<Longrightarrow>
     raises P (case v of Inl e \<Rightarrow> h e | Inr x \<Rightarrow> g x)"
  by (cases v) auto

lemma raises_Let [raise_rules]: "(\<And>x. raises P (g x)) \<Longrightarrow> raises P (Let v g)"
  by (simp add: Let_def)

lemma raises_seqM_Nil [raise_rules]: "raises P (seqM [])"
  by (simp add: raises_def)

lemma raises_seqM_Cons [raise_rules]:
  "raises P m \<Longrightarrow> raises P (seqM ms) \<Longrightarrow> raises P (seqM (m # ms))"
  by (simp add: seqM.simps raises_thenM)

lemma raises_catch_cloudward:
  "(\<And>e. is_cloudward e \<Longrightarrow> raises P (h e)) \<Longrightarrow> raises (\<lambda>e. is_cloudward e \<or> P e) m \<Longrightarrow>
     raises P (catch_cloudward m h)"
  unfolding raises_def wp_catch_cloudward by (auto elim!: wp_mono dest: spec)

subsection \<open>The values a handler can return\<close>

definition results :: "('a \<Rightarrow> bool) \<Rightarrow> ('s, 'a) M \<Rightarrow> bool" where
  "results P m \<longleftrightarrow> (\<forall>s. wp m (\<lambda>x _. P x) (\<lambda>_ _. True) s)"

lemma resultsD: "results P m \<Longrightarrow> wp m (\<lambda>x _. P x) (\<lambda>_ _. True) s"
  by (simp add: results_def)

lemma wp_trivial [simp]: "wp m (\<lambda>_ _. True) (\<lambda>_ _. True) s"
  by (simp add: wp_def split: prod.splits sum.splits)

lemma results_returnM [result_rules]: "P x \<Longrightarrow> results P (returnM x)"
  by (simp add: results_def)

lemma results_raiseM [result_rules]: "results P (raiseM e)"
  by (simp add: results_def)

lemma results_bindM [result_rules]: "(\<And>x. results P (f x)) \<Longrightarrow> results P (bindM m f)"
  unfolding results_def wp_bindM by (auto intro: wp_mono [OF wp_trivial])

lemma results_bindM_of:
  "results J m \<Longrightarrow> (\<And>x. J x \<Longrightarrow> results P (f x)) \<Longrightarrow> results P (bindM m f)"
  unfolding results_def wp_bindM by (blast intro: wp_mono)

lemma results_thenM [result_rules]: "results P n \<Longrightarrow> results P (thenM m n)"
  by (simp add: thenM_def results_bindM)

lemma results_if [result_rules]:
  "(c \<Longrightarrow> results P m) \<Longrightarrow> (\<not> c \<Longrightarrow> results P n) \<Longrightarrow> results P (if c then m else n)"
  by simp

lemma results_option [result_rules]:
  "results P n \<Longrightarrow> (\<And>x. results P (g x)) \<Longrightarrow> results P (case v of None \<Rightarrow> n | Some x \<Rightarrow> g x)"
  by (cases v) auto

lemma results_list [result_rules]:
  "results P n \<Longrightarrow> (\<And>x xs. results P (g x xs)) \<Longrightarrow>
     results P (case v of [] \<Rightarrow> n | x # xs \<Rightarrow> g x xs)"
  by (cases v) auto

lemma results_Let [result_rules]: "(\<And>x. results P (g x)) \<Longrightarrow> results P (Let v g)"
  by (simp add: Let_def)

section \<open>Tables\<close>

text \<open>
  A table is the list of its rows in insertion order. \<open>find_row\<close> is a select by primary key,
  \<open>upd_row\<close> an attribute assignment on the object with that key, and \<open>newest\<close> the select with
  \<^verbatim>\<open>order_by(created_at.desc()).limit(1)\<close>: the row with the greatest creation time, the one
  inserted last among equals.
\<close>

definition find_row :: "('r \<Rightarrow> uuid) \<Rightarrow> uuid \<Rightarrow> 'r list \<Rightarrow> 'r option" where
  "find_row key i rows = find (\<lambda>r. key r = i) rows"

definition upd_row :: "('r \<Rightarrow> uuid) \<Rightarrow> uuid \<Rightarrow> ('r \<Rightarrow> 'r) \<Rightarrow> 'r list \<Rightarrow> 'r list" where
  "upd_row key i f rows = map (\<lambda>r. if key r = i then f r else r) rows"

fun newest_from :: "('r \<Rightarrow> int) \<Rightarrow> 'r option \<Rightarrow> 'r list \<Rightarrow> 'r option" where
  "newest_from created best [] = best"
| "newest_from created None (r # rs) = newest_from created (Some r) rs"
| "newest_from created (Some b) (r # rs) =
     newest_from created (Some (if created b \<le> created r then r else b)) rs"

definition newest :: "('r \<Rightarrow> int) \<Rightarrow> ('r \<Rightarrow> bool) \<Rightarrow> 'r list \<Rightarrow> 'r option" where
  "newest created P rows = newest_from created None (filter P rows)"

lemma newest_from_mem: "newest_from c b rs = Some r \<Longrightarrow> b = Some r \<or> r \<in> set rs"
proof (induction c b rs rule: newest_from.induct)
  case (3 c b r' rs)
  then show ?case by (auto split: if_splits)
qed auto

lemma newest_mem: "newest c P rows = Some r \<Longrightarrow> r \<in> set rows \<and> P r"
  unfolding newest_def by (auto dest: newest_from_mem)

lemma newest_from_Some: "newest_from c (Some b) rs \<noteq> None"
  by (induction rs arbitrary: b) auto

lemma newest_None_iff: "newest c P rows = None \<longleftrightarrow> (\<forall>r \<in> set rows. \<not> P r)"
proof (cases "filter P rows")
  case Nil
  then show ?thesis by (auto simp: newest_def filter_empty_conv)
next
  case (Cons r rs)
  then have "r \<in> set (filter P rows)" by simp
  then have "r \<in> set rows" and "P r" by auto
  with Cons show ?thesis using newest_from_Some [of c r rs] by (auto simp: newest_def)
qed

text \<open>
  The table interface: \<open>rows\<close> reads a table out of the database, \<open>set_rows\<close> rewrites it and \<open>key\<close>
  is its primary key. Every table of the model interprets it, and the select-after-write laws
  follow once for all of them.
\<close>

locale table =
  fixes rows :: "'d \<Rightarrow> 'r list"
    and set_rows :: "('r list \<Rightarrow> 'r list) \<Rightarrow> 'd \<Rightarrow> 'd"
    and key :: "'r \<Rightarrow> uuid"
  assumes rows_set_rows: "rows (set_rows f d) = f (rows d)"
begin

lemma find_upd_same:
  assumes "\<And>r. key (f r) = key r"
  shows "find_row key i (rows (set_rows (upd_row key i f) d)) =
     map_option f (find_row key i (rows d))"
proof -
  have "find_row key i (upd_row key i f rs) = map_option f (find_row key i rs)" for rs
    using assms by (induction rs) (auto simp: find_row_def upd_row_def)
  then show ?thesis by (simp add: rows_set_rows)
qed

lemma find_upd_other:
  assumes "\<And>r. key (f r) = key r" and "j \<noteq> i"
  shows "find_row key j (rows (set_rows (upd_row key i f) d)) = find_row key j (rows d)"
proof -
  have "find_row key j (upd_row key i f rs) = find_row key j rs" for rs
    using assms by (induction rs) (auto simp: find_row_def upd_row_def)
  then show ?thesis by (simp add: rows_set_rows)
qed

lemma find_insert_new:
  assumes "\<forall>r \<in> set (rows d). key r \<noteq> key x"
  shows "find_row key (key x) (rows (set_rows (\<lambda>rs. rs @ [x]) d)) = Some x"
proof -
  have "\<forall>r \<in> set rs. key r \<noteq> key x \<Longrightarrow> find_row key (key x) (rs @ [x]) = Some x" for rs
    by (induction rs) (auto simp: find_row_def)
  then show ?thesis using assms by (simp add: rows_set_rows)
qed

lemma find_insert_other:
  "i \<noteq> key x \<Longrightarrow> find_row key i (rows (set_rows (\<lambda>rs. rs @ [x]) d)) = find_row key i (rows d)"
proof -
  have "i \<noteq> key x \<Longrightarrow> find_row key i (rs @ [x]) = find_row key i rs" for rs
    by (induction rs) (auto simp: find_row_def)
  then show "i \<noteq> key x \<Longrightarrow> ?thesis" by (simp add: rows_set_rows)
qed

lemma keys_upd:
  assumes "\<And>r. key (f r) = key r"
  shows "map key (rows (set_rows (upd_row key i f) d)) = map key (rows d)"
  using assms by (simp add: rows_set_rows upd_row_def comp_def)

end

lemma find_row_key: "find_row key i rows = Some r \<Longrightarrow> key r = i \<and> r \<in> set rows"
  by (induction rows) (auto simp: find_row_def split: if_splits)

lemma find_row_append: "find_row key i (rs @ [x]) =
    (case find_row key i rs of None \<Rightarrow> if key x = i then Some x else None | Some r \<Rightarrow> Some r)"
  by (induction rs) (auto simp: find_row_def)

lemma find_row_distinct:
  "distinct (map key rows) \<Longrightarrow> r \<in> set rows \<Longrightarrow> find_row key (key r) rows = Some r"
  by (induction rows) (auto simp: find_row_def)

text \<open>\<open>scalar_one_or_none\<close> on a unique column: at most one row satisfies a predicate that pins the column
  down.\<close>

lemma filter_unique:
  assumes "distinct (map f rows)" and "\<And>r. P r \<Longrightarrow> f r = c"
  shows "filter P rows = (case find P rows of None \<Rightarrow> [] | Some r \<Rightarrow> [r])"
  using assms(1)
proof (induction rows)
  case (Cons r rows)
  have "filter P rows = []" if "P r"
    using that Cons.prems assms(2) by (auto simp: filter_empty_conv image_iff)
  with Cons show ?case by auto
qed simp

lemma filter_upd_row:
  "(\<And>x. P (f x) = P x) \<Longrightarrow> filter P (upd_row key i f rows) = upd_row key i f (filter P rows)"
  by (induction rows) (auto simp: upd_row_def)

lemma length_upd_row [simp]: "length (upd_row key i f rows) = length rows"
  by (simp add: upd_row_def)

lemma upd_row_mem: "r' \<in> set (upd_row key i f rows) \<Longrightarrow>
    \<exists>r \<in> set rows. r' = (if key r = i then f r else r)"
  by (auto simp: upd_row_def)

lemma upd_row_upd_row:
  "(\<And>r. key (f r) = key r) \<Longrightarrow> upd_row key i g (upd_row key i f rows) = upd_row key i (\<lambda>r. g (f r)) rows"
  by (simp add: upd_row_def)

lemma upd_row_comp:
  "(\<And>r. key (f r) = key r) \<Longrightarrow> upd_row key i g \<circ> upd_row key i f = upd_row key i (\<lambda>r. g (f r))"
  by (rule ext) (simp add: upd_row_upd_row)

lemma find_upd_row:
  "(\<And>r. key (f r) = key r) \<Longrightarrow>
     find_row key j (upd_row key i f rows) = (if j = i then map_option f (find_row key j rows)
       else find_row key j rows)"
  by (induction rows) (auto simp: find_row_def upd_row_def)

end
