(* ===== verification/CW_StateMachine.thy ===== *)
theory CW_StateMachine
  imports CW_Prelude
begin

text \<open>
  The incident state machine (\<open>incidents/state_machine.py\<close>): the thirteen states, the table of
  allowed transitions and \<open>transition_incident\<close>, with the lifecycle interface that the safety
  arguments about whole runs go through.
\<close>

datatype incident_state =
    DETECTED
  | COLLECTING_EVIDENCE
  | CLASSIFYING
  | DIAGNOSING
  | ACTION_PROPOSED
  | POLICY_EVALUATION
  | AWAITING_APPROVAL
  | EXECUTING
  | VERIFYING
  | ROLLBACK
  | RESOLVED
  | BLOCKED
  | ESCALATED

fun incident_state_value :: "incident_state \<Rightarrow> string" where
  "incident_state_value DETECTED = ''DETECTED''"
| "incident_state_value COLLECTING_EVIDENCE = ''COLLECTING_EVIDENCE''"
| "incident_state_value CLASSIFYING = ''CLASSIFYING''"
| "incident_state_value DIAGNOSING = ''DIAGNOSING''"
| "incident_state_value ACTION_PROPOSED = ''ACTION_PROPOSED''"
| "incident_state_value POLICY_EVALUATION = ''POLICY_EVALUATION''"
| "incident_state_value AWAITING_APPROVAL = ''AWAITING_APPROVAL''"
| "incident_state_value EXECUTING = ''EXECUTING''"
| "incident_state_value VERIFYING = ''VERIFYING''"
| "incident_state_value ROLLBACK = ''ROLLBACK''"
| "incident_state_value RESOLVED = ''RESOLVED''"
| "incident_state_value BLOCKED = ''BLOCKED''"
| "incident_state_value ESCALATED = ''ESCALATED''"

fun allowed_transitions :: "incident_state \<Rightarrow> incident_state set" where
  "allowed_transitions DETECTED = {COLLECTING_EVIDENCE, BLOCKED, ESCALATED}"
| "allowed_transitions COLLECTING_EVIDENCE = {CLASSIFYING, BLOCKED, ESCALATED}"
| "allowed_transitions CLASSIFYING = {DIAGNOSING, ACTION_PROPOSED, BLOCKED, ESCALATED}"
| "allowed_transitions DIAGNOSING = {ACTION_PROPOSED, BLOCKED, ESCALATED}"
| "allowed_transitions ACTION_PROPOSED = {POLICY_EVALUATION, BLOCKED, ESCALATED}"
| "allowed_transitions POLICY_EVALUATION = {AWAITING_APPROVAL, EXECUTING, BLOCKED, ESCALATED}"
| "allowed_transitions AWAITING_APPROVAL = {POLICY_EVALUATION, EXECUTING, BLOCKED, ESCALATED}"
| "allowed_transitions EXECUTING = {VERIFYING, ROLLBACK, ESCALATED}"
| "allowed_transitions VERIFYING = {EXECUTING, ROLLBACK, RESOLVED, ESCALATED}"
| "allowed_transitions ROLLBACK = {VERIFYING, RESOLVED, ESCALATED}"
| "allowed_transitions RESOLVED = {}"
| "allowed_transitions BLOCKED = {}"
| "allowed_transitions ESCALATED = {}"

definition transition_incident :: "incident_state \<Rightarrow> incident_state \<Rightarrow> exn + incident_state" where
  "transition_incident current target =
     (if target \<notin> allowed_transitions current then
        Inl (CloudWardError ''INVALID_INCIDENT_TRANSITION''
          (''Cannot transition from '' @ incident_state_value current @ '' to '' @
             incident_state_value target)
          409
          (Some (JObj [(''from_state'', JStr (incident_state_value current)),
                       (''to_state'', JStr (incident_state_value target))])))
      else Inr target)"

text \<open>A caller that requests a sequence of targets, stopping at the first refusal.\<close>

fun transition_all :: "incident_state \<Rightarrow> incident_state list \<Rightarrow> exn + incident_state" where
  "transition_all s [] = Inr s"
| "transition_all s (t # ts) =
     (case transition_incident s t of Inl e \<Rightarrow> Inl e | Inr u \<Rightarrow> transition_all u ts)"

definition terminal_state :: "incident_state \<Rightarrow> bool" where
  "terminal_state s \<longleftrightarrow> s \<in> {RESOLVED, BLOCKED, ESCALATED}"

lemma transition_incident_Inr [simp]:
  "transition_incident s t = Inr u \<longleftrightarrow> t \<in> allowed_transitions s \<and> u = t"
  by (auto simp: transition_incident_def)

lemma terminal_no_transition: "terminal_state s \<longleftrightarrow> allowed_transitions s = {}"
  by (cases s) (auto simp: terminal_state_def)

lemma escalation_allowed: "\<not> terminal_state s \<Longrightarrow> ESCALATED \<in> allowed_transitions s"
  by (cases s) (auto simp: terminal_state_def)

lemma transition_irreflexive: "s \<notin> allowed_transitions s"
  by (cases s) auto

lemma incident_state_value_inj: "incident_state_value s = incident_state_value t \<Longrightarrow> s = t"
  by (cases s; cases t) auto

section \<open>Lifecycles with a gate\<close>

text \<open>
  A lifecycle is a step relation with terminal states; a gate is a predicate that every step into
  the guarded part of the machine must come through. Any run that starts outside the guarded part
  and ends inside it has visited the gate.
\<close>

locale lifecycle =
  fixes step :: "'st \<Rightarrow> 'st \<Rightarrow> bool"
    and terminal :: "'st \<Rightarrow> bool"
  assumes terminal_stuck: "terminal a \<Longrightarrow> \<not> step a b"
begin

fun run :: "'st \<Rightarrow> 'st list \<Rightarrow> bool" where
  "run a [] = True"
| "run a (b # bs) = (step a b \<and> run b bs)"

lemma run_terminal: "terminal a \<Longrightarrow> run a bs \<Longrightarrow> bs = []"
  by (cases bs) (auto dest: terminal_stuck)

lemma run_terminal_last:
  assumes "run a bs" and "b \<in> set bs" and "terminal b"
  shows "b = last bs"
  using assms
proof (induction bs arbitrary: a)
  case (Cons c bs)
  show ?case
  proof (cases "b \<in> set bs")
    case True
    with Cons show ?thesis by auto
  next
    case False
    with Cons.prems have "b = c" and "run c bs" by auto
    with Cons.prems(3) have "bs = []" using run_terminal by blast
    with \<open>b = c\<close> show ?thesis by simp
  qed
qed simp

end

locale gated_lifecycle = lifecycle +
  fixes guarded :: "'a \<Rightarrow> bool"
    and gate :: "'a \<Rightarrow> bool"
  assumes enter_through_gate: "step a b \<Longrightarrow> guarded b \<Longrightarrow> guarded a \<or> gate a"
begin

lemma guarded_run_visits_gate:
  "run a bs \<Longrightarrow> \<not> guarded a \<Longrightarrow> bs \<noteq> [] \<Longrightarrow> guarded (last bs) \<Longrightarrow> \<exists>g \<in> set (a # bs). gate g"
proof (induction bs arbitrary: a)
  case (Cons b bs)
  show ?case
  proof (cases "gate a \<or> gate b")
    case True
    then show ?thesis by auto
  next
    case False
    with Cons.prems have "\<not> guarded b" using enter_through_gate by auto
    moreover from this Cons.prems(4) have "bs \<noteq> []" by auto
    ultimately have "\<exists>g \<in> set (b # bs). gate g" using Cons by auto
    then show ?thesis by auto
  qed
qed simp

end

abbreviation incident_step :: "incident_state \<Rightarrow> incident_state \<Rightarrow> bool" where
  "incident_step a b \<equiv> b \<in> allowed_transitions a"

interpretation incident: lifecycle incident_step terminal_state
  by unfold_locales (auto simp: terminal_no_transition)

definition past_policy :: "incident_state \<Rightarrow> bool" where
  "past_policy s \<longleftrightarrow> s \<in> {AWAITING_APPROVAL, EXECUTING, VERIFYING, ROLLBACK, RESOLVED}"

definition past_execution :: "incident_state \<Rightarrow> bool" where
  "past_execution s \<longleftrightarrow> s \<in> {VERIFYING, ROLLBACK, RESOLVED}"

interpretation policy_gate: gated_lifecycle incident_step terminal_state past_policy
    "\<lambda>s. s = POLICY_EVALUATION"
proof unfold_locales
  fix a b
  assume "b \<in> allowed_transitions a" and "past_policy b"
  then show "past_policy a \<or> a = POLICY_EVALUATION"
    by (cases a) (auto simp: past_policy_def)
qed

interpretation execution_gate: gated_lifecycle incident_step terminal_state past_execution
    "\<lambda>s. s = EXECUTING"
proof unfold_locales
  fix a b
  assume "b \<in> allowed_transitions a" and "past_execution b"
  then show "past_execution a \<or> a = EXECUTING"
    by (cases a) (auto simp: past_execution_def)
qed

lemma transition_all_run:
  "transition_all s ts = Inr t \<longleftrightarrow> incident.run s ts \<and> t = last (s # ts)"
proof (induction ts arbitrary: s)
  case (Cons u ts)
  then show ?case by (auto simp: transition_incident_def)
qed auto

text \<open>C28. No sequence of requested transitions brings a freshly detected incident to
  \<open>RESOLVED\<close> without evaluating policy and executing an action on the way: every accepted
  sequence contains both states.\<close>

theorem resolved_only_after_policy_and_execution:
  assumes "transition_all DETECTED ts = Inr RESOLVED"
  shows "POLICY_EVALUATION \<in> set ts \<and> EXECUTING \<in> set ts"
proof -
  from assms have run: "incident.run DETECTED ts" and last: "last (DETECTED # ts) = RESOLVED"
    by (auto simp: transition_all_run)
  then have ne: "ts \<noteq> []" by auto
  with last have l: "last ts = RESOLVED" by simp
  have "\<exists>g \<in> set (DETECTED # ts). g = POLICY_EVALUATION"
    by (rule policy_gate.guarded_run_visits_gate [OF run _ ne]) (simp_all add: past_policy_def l)
  moreover have "\<exists>g \<in> set (DETECTED # ts). g = EXECUTING"
    by (rule execution_gate.guarded_run_visits_gate [OF run _ ne])
      (simp_all add: past_execution_def l)
  ultimately show ?thesis by auto
qed

theorem resolved_only_after_policy_and_execution_witness:
  "POLICY_EVALUATION \<in> set [COLLECTING_EVIDENCE, CLASSIFYING, ACTION_PROPOSED, POLICY_EVALUATION,
      EXECUTING, VERIFYING, RESOLVED] \<and>
   EXECUTING \<in> set [COLLECTING_EVIDENCE, CLASSIFYING, ACTION_PROPOSED, POLICY_EVALUATION,
      EXECUTING, VERIFYING, RESOLVED]"
  by (rule resolved_only_after_policy_and_execution) (simp add: transition_incident_def)

end
