(* ===== verification/CW_Rbac.thy ===== *)
theory CW_Rbac
  imports CW_Prelude
begin

text \<open>
  Roles, permissions and the permission check (\<open>rbac/policy.py\<close>). The three roles form a chain, which
  the instance of \<open>linorder\<close> makes explicit, and authority grows along it.
\<close>

datatype role = Viewer | Operator | Admin

datatype permission =
    PLATFORM_READ
  | INCIDENT_READ
  | AUDIT_READ
  | INCIDENT_CREATE
  | ACTION_APPROVE_STANDARD
  | ACTION_REJECT
  | DEMO_TRIGGER
  | ROLE_MANAGE
  | SETTINGS_MANAGE
  | POLICY_MANAGE
  | ACTION_APPROVE_HIGHER_RISK

fun role_value :: "role \<Rightarrow> string" where
  "role_value Viewer = ''Viewer''"
| "role_value Operator = ''Operator''"
| "role_value Admin = ''Admin''"

fun permission_value :: "permission \<Rightarrow> string" where
  "permission_value PLATFORM_READ = ''platform:read''"
| "permission_value INCIDENT_READ = ''incident:read''"
| "permission_value AUDIT_READ = ''audit:read''"
| "permission_value INCIDENT_CREATE = ''incident:create''"
| "permission_value ACTION_APPROVE_STANDARD = ''action:approve-standard''"
| "permission_value ACTION_REJECT = ''action:reject''"
| "permission_value DEMO_TRIGGER = ''demo:trigger''"
| "permission_value ROLE_MANAGE = ''role:manage''"
| "permission_value SETTINGS_MANAGE = ''settings:manage''"
| "permission_value POLICY_MANAGE = ''policy:manage''"
| "permission_value ACTION_APPROVE_HIGHER_RISK = ''action:approve-higher-risk''"

fun role_permissions :: "role \<Rightarrow> permission set" where
  "role_permissions Viewer = {PLATFORM_READ, INCIDENT_READ, AUDIT_READ}"
| "role_permissions Operator =
     {PLATFORM_READ, INCIDENT_READ, AUDIT_READ, INCIDENT_CREATE, ACTION_APPROVE_STANDARD,
      ACTION_REJECT, DEMO_TRIGGER}"
| "role_permissions Admin =
     {PLATFORM_READ, INCIDENT_READ, AUDIT_READ, INCIDENT_CREATE, ACTION_APPROVE_STANDARD,
      ACTION_REJECT, DEMO_TRIGGER, ROLE_MANAGE, SETTINGS_MANAGE, POLICY_MANAGE,
      ACTION_APPROVE_HIGHER_RISK}"

definition has_permission :: "role \<Rightarrow> permission \<Rightarrow> bool" where
  "has_permission r p \<longleftrightarrow> p \<in> role_permissions r"

definition require_permission :: "permission \<Rightarrow> role \<Rightarrow> exn + role" where
  "require_permission p r =
     (if \<not> has_permission r p then
        Inl (cw_error ''FORBIDDEN''
          (''Role '' @ role_value r @ '' lacks permission '' @ permission_value p) 403)
      else Inr r)"

fun role_rank :: "role \<Rightarrow> nat" where
  "role_rank Viewer = 0"
| "role_rank Operator = 1"
| "role_rank Admin = 2"

lemma role_rank_inj: "role_rank a = role_rank b \<Longrightarrow> a = b"
  by (cases a; cases b) auto

instantiation role :: linorder
begin

definition less_eq_role :: "role \<Rightarrow> role \<Rightarrow> bool" where
  "less_eq_role a b = (role_rank a \<le> role_rank b)"

definition less_role :: "role \<Rightarrow> role \<Rightarrow> bool" where
  "less_role a b = (role_rank a < role_rank b)"

instance
  by standard (auto simp: less_eq_role_def less_role_def intro: role_rank_inj)

end

text \<open>The enumeration behind \<^verbatim>\<open>frozenset(Permission)\<close>: an administrator holds every permission.\<close>

lemma admin_has_all [simp]: "has_permission Admin p"
  by (cases p) (auto simp: has_permission_def)

text \<open>Authority grows along the chain Viewer, Operator, Admin: a permission granted to a role is
  granted to every higher role, and the dependency guarding a route then accepts the higher role
  too.\<close>

theorem require_permission_mono:
  assumes "require_permission p r = Inr q" and "r \<le> r'"
  shows "require_permission p r' = Inr r'"
proof -
  from assms(1) have "has_permission r p" by (auto simp: require_permission_def split: if_splits)
  with assms(2) have "has_permission r' p"
    by (cases r; cases r') (auto simp: has_permission_def less_eq_role_def)
  then show ?thesis by (simp add: require_permission_def)
qed

theorem require_permission_mono_witness:
  "require_permission DEMO_TRIGGER Admin = Inr Admin"
  by (rule require_permission_mono [of DEMO_TRIGGER Operator Operator])
    (simp_all add: require_permission_def has_permission_def less_eq_role_def)

end
