(* ===== verification/CW_Actions.thy ===== *)
theory CW_Actions
  imports CW_Rbac
begin

text \<open>
  The closed allowlist of remediation actions (\<open>remediation/actions.py\<close>): the action types, the
  immutable metadata registered for each, and the two lookups every executor goes through.
\<close>

datatype action_type =
    DELETE_UNHEALTHY_POD
  | RESTART_POD
  | SCALE_STAGING_DEPLOYMENT
  | SCALE_WORKLOAD
  | REVERT_IMAGE
  | ROLLBACK_DEPLOYMENT
  | APPLY_QUARANTINE
  | QUARANTINE_WORKLOAD
  | REMOVE_QUARANTINE
  | CREATE_GITOPS_PR
  | CREATE_TERRAFORM_PR
  | CREATE_GITHUB_ISSUE
  | REQUEST_APPROVAL
  | NO_ACTION

definition all_actions :: "action_type list" where
  "all_actions = [DELETE_UNHEALTHY_POD, RESTART_POD, SCALE_STAGING_DEPLOYMENT, SCALE_WORKLOAD,
     REVERT_IMAGE, ROLLBACK_DEPLOYMENT, APPLY_QUARANTINE, QUARANTINE_WORKLOAD, REMOVE_QUARANTINE,
     CREATE_GITOPS_PR, CREATE_TERRAFORM_PR, CREATE_GITHUB_ISSUE, REQUEST_APPROVAL, NO_ACTION]"

fun action_value :: "action_type \<Rightarrow> string" where
  "action_value DELETE_UNHEALTHY_POD = ''DELETE_UNHEALTHY_POD''"
| "action_value RESTART_POD = ''RESTART_POD''"
| "action_value SCALE_STAGING_DEPLOYMENT = ''SCALE_STAGING_DEPLOYMENT''"
| "action_value SCALE_WORKLOAD = ''SCALE_WORKLOAD''"
| "action_value REVERT_IMAGE = ''REVERT_IMAGE''"
| "action_value ROLLBACK_DEPLOYMENT = ''ROLLBACK_DEPLOYMENT''"
| "action_value APPLY_QUARANTINE = ''APPLY_QUARANTINE''"
| "action_value QUARANTINE_WORKLOAD = ''QUARANTINE_WORKLOAD''"
| "action_value REMOVE_QUARANTINE = ''REMOVE_QUARANTINE''"
| "action_value CREATE_GITOPS_PR = ''CREATE_GITOPS_PR''"
| "action_value CREATE_TERRAFORM_PR = ''CREATE_TERRAFORM_PR''"
| "action_value CREATE_GITHUB_ISSUE = ''CREATE_GITHUB_ISSUE''"
| "action_value REQUEST_APPROVAL = ''REQUEST_APPROVAL''"
| "action_value NO_ACTION = ''NO_ACTION''"

text \<open>\<^verbatim>\<open>ActionType(value)\<close>: the member with that value, or a \<open>ValueError\<close>.\<close>

definition action_of_value :: "string \<Rightarrow> action_type option" where
  "action_of_value v = find (\<lambda>a. action_value a = v) all_actions"

datatype verification_strategy =
    VS_NONE
  | KUBERNETES_AND_HTTP
  | DEPLOYMENT_ROLLOUT
  | POLICY_STATE
  | EXTERNAL_RECORD

record action_metadata =
  am_action_type :: action_type
  am_reversible :: bool
  am_persistent :: bool
  am_allowed_environments :: "string list"
  am_required_permission :: permission
  am_verification_strategy :: verification_strategy
  am_rollback_capable :: bool
  am_implemented :: bool

abbreviation (input) am_entry :: "action_type \<Rightarrow> bool \<Rightarrow> bool \<Rightarrow> string list \<Rightarrow> permission \<Rightarrow>
    verification_strategy \<Rightarrow> bool \<Rightarrow> bool \<Rightarrow> action_metadata" where
  "am_entry a rv pe envs perm vs rb impl \<equiv>
     \<lparr>am_action_type = a, am_reversible = rv, am_persistent = pe, am_allowed_environments = envs,
      am_required_permission = perm, am_verification_strategy = vs, am_rollback_capable = rb,
      am_implemented = impl\<rparr>"

fun action_registry :: "action_type \<Rightarrow> action_metadata" where
  "action_registry DELETE_UNHEALTHY_POD = am_entry DELETE_UNHEALTHY_POD True False
     [''local'', ''staging''] DEMO_TRIGGER KUBERNETES_AND_HTTP False True"
| "action_registry RESTART_POD = am_entry RESTART_POD True False
     [''local'', ''staging'', ''production''] DEMO_TRIGGER KUBERNETES_AND_HTTP False True"
| "action_registry SCALE_STAGING_DEPLOYMENT = am_entry SCALE_STAGING_DEPLOYMENT True False
     [''local'', ''staging''] ACTION_APPROVE_STANDARD DEPLOYMENT_ROLLOUT True True"
| "action_registry SCALE_WORKLOAD = am_entry SCALE_WORKLOAD True False
     [''local'', ''staging'', ''production''] ACTION_APPROVE_STANDARD DEPLOYMENT_ROLLOUT True True"
| "action_registry REVERT_IMAGE = am_entry REVERT_IMAGE True True
     [''local'', ''staging'', ''production''] ACTION_APPROVE_HIGHER_RISK DEPLOYMENT_ROLLOUT True True"
| "action_registry ROLLBACK_DEPLOYMENT = am_entry ROLLBACK_DEPLOYMENT True True
     [''local'', ''staging'', ''production''] ACTION_APPROVE_HIGHER_RISK DEPLOYMENT_ROLLOUT True True"
| "action_registry APPLY_QUARANTINE = am_entry APPLY_QUARANTINE True False
     [''local'', ''staging'', ''production''] ACTION_APPROVE_HIGHER_RISK POLICY_STATE True True"
| "action_registry QUARANTINE_WORKLOAD = am_entry QUARANTINE_WORKLOAD True False
     [''local'', ''staging'', ''production''] ACTION_APPROVE_HIGHER_RISK POLICY_STATE True True"
| "action_registry REMOVE_QUARANTINE = am_entry REMOVE_QUARANTINE True False
     [''local'', ''staging'', ''production''] ACTION_APPROVE_HIGHER_RISK POLICY_STATE True True"
| "action_registry CREATE_GITOPS_PR = am_entry CREATE_GITOPS_PR True True
     [''local'', ''staging'', ''production''] ACTION_APPROVE_STANDARD EXTERNAL_RECORD True False"
| "action_registry CREATE_TERRAFORM_PR = am_entry CREATE_TERRAFORM_PR True True
     [''local'', ''staging'', ''production''] ACTION_APPROVE_HIGHER_RISK EXTERNAL_RECORD True False"
| "action_registry CREATE_GITHUB_ISSUE = am_entry CREATE_GITHUB_ISSUE True True
     [''local'', ''staging'', ''production''] ACTION_APPROVE_STANDARD EXTERNAL_RECORD True False"
| "action_registry REQUEST_APPROVAL = am_entry REQUEST_APPROVAL True False
     [''local'', ''staging'', ''production''] ACTION_APPROVE_STANDARD VS_NONE False False"
| "action_registry NO_ACTION = am_entry NO_ACTION True False
     [''local'', ''staging'', ''production''] PLATFORM_READ VS_NONE False True"

text \<open>\<open>get_action_metadata\<close> on a member of the enumeration cannot fail; on a string it looks the
  member up first.\<close>

definition get_action_metadata :: "action_type \<Rightarrow> action_metadata" where
  "get_action_metadata a = action_registry a"

definition get_action_metadata_str :: "string \<Rightarrow> exn + action_metadata" where
  "get_action_metadata_str v =
     (case action_of_value v of
        None \<Rightarrow> Inl (cw_error ''UNKNOWN_ACTION'' (''Action '' @ v @ '' is not registered'') 422)
      | Some a \<Rightarrow> Inr (action_registry a))"

definition require_executable_action :: "action_type \<Rightarrow> string \<Rightarrow> exn + action_metadata" where
  "require_executable_action action environment =
     (let metadata = get_action_metadata action in
      if environment \<notin> set (am_allowed_environments metadata) then
        Inl (cw_error ''ACTION_ENVIRONMENT_DENIED''
          (action_value (am_action_type metadata) @ '' is not allowed in '' @ environment) 403)
      else if \<not> am_implemented metadata then
        Inl (cw_error ''ACTION_NOT_IMPLEMENTED''
          (action_value (am_action_type metadata) @
             '' is registered but not executable in Part 1'') 501)
      else Inr metadata)"

lemma action_type_induct_list: "a \<in> set all_actions"
  by (cases a) (auto simp: all_actions_def)

lemma action_of_value_value [simp]: "action_of_value (action_value a) = Some a"
  by (cases a) (simp_all add: action_of_value_def all_actions_def)

lemma registry_action_type [simp]: "am_action_type (action_registry a) = a"
  by (cases a) auto

lemma registry_reversible [simp]: "am_reversible (action_registry a)"
  by (cases a) auto

text \<open>Serialising an action type and reading it back finds the metadata registered under it, and
  a string that is the value of no action type is refused with \<open>UNKNOWN_ACTION\<close>: nothing outside
  the allowlist resolves to an action.\<close>

theorem action_lookup_exact:
  "get_action_metadata_str (action_value a) = Inr (get_action_metadata a) \<and>
   (get_action_metadata_str v = Inr m \<longrightarrow> v = action_value (am_action_type m)) \<and>
   (v \<notin> action_value ` UNIV \<longrightarrow>
      (\<exists>msg. get_action_metadata_str v = Inl (cw_error ''UNKNOWN_ACTION'' msg 422)))"
proof -
  have "action_of_value v = Some b \<Longrightarrow> action_value b = v" for b
    by (auto simp: action_of_value_def find_Some_iff)
  then show ?thesis
    by (auto simp: get_action_metadata_str_def get_action_metadata_def split: option.splits)
qed

theorem action_lookup_exact_witness:
  "get_action_metadata_str (action_value NO_ACTION) = Inr (get_action_metadata NO_ACTION) \<and>
   (\<exists>msg. get_action_metadata_str ''rm -rf'' = Inl (cw_error ''UNKNOWN_ACTION'' msg 422))"
proof -
  have "''rm -rf'' \<notin> action_value ` UNIV"
  proof
    assume "''rm -rf'' \<in> action_value ` UNIV"
    then obtain a where "''rm -rf'' = action_value a" by blast
    then show False by (cases a) auto
  qed
  then show ?thesis using action_lookup_exact [of NO_ACTION "''rm -rf''"] by blast
qed

text \<open>The execution gate: \<open>require_executable_action\<close> succeeds exactly when the environment is on
  the action's list and the action is one of the implemented ones (the three external records and
  the approval request are registered only); in production neither the pod deletion nor the
  staging scale passes.\<close>

theorem require_executable_action_iff:
  "(\<exists>m. require_executable_action a env = Inr m) \<longleftrightarrow>
     env \<in> set (am_allowed_environments (get_action_metadata a)) \<and>
     a \<notin> {CREATE_GITOPS_PR, CREATE_TERRAFORM_PR, CREATE_GITHUB_ISSUE, REQUEST_APPROVAL} \<and>
     \<not> (env = ''production'' \<and> a \<in> {DELETE_UNHEALTHY_POD, SCALE_STAGING_DEPLOYMENT})"
  by (cases a) (auto simp: require_executable_action_def get_action_metadata_def Let_def)

end
