(* ===== verification/CW_Risk.thy ===== *)
theory CW_Risk
  imports CW_Actions
begin

text \<open>
  The deterministic risk score (\<open>risk/engine.py\<close>). The pydantic models validate their fields when
  they are built, so each has a constructor function that returns \<open>ValidationError\<close> when a bound is
  violated; \<open>calculate\<close> is proved never to trip them on a valid context.
\<close>

datatype risk_classification = RC_LOW | RC_MEDIUM | RC_HIGH

datatype recommended_mode = AUTO_EXECUTE | APPROVAL_REQUIRED | BLOCK_AND_ESCALATE

datatype sensitivity = SENS_NONE | SENS_LOW | SENS_MODERATE | SENS_HIGH

fun risk_classification_value :: "risk_classification \<Rightarrow> string" where
  "risk_classification_value RC_LOW = ''LOW''"
| "risk_classification_value RC_MEDIUM = ''MEDIUM''"
| "risk_classification_value RC_HIGH = ''HIGH''"

fun recommended_mode_value :: "recommended_mode \<Rightarrow> string" where
  "recommended_mode_value AUTO_EXECUTE = ''AUTO_EXECUTE''"
| "recommended_mode_value APPROVAL_REQUIRED = ''APPROVAL_REQUIRED''"
| "recommended_mode_value BLOCK_AND_ESCALATE = ''BLOCK_AND_ESCALATE''"

record risk_context =
  rc_environment :: string
  rc_action :: action_type
  rc_target_count :: int
  rc_reversible :: "bool option"
  rc_confidence :: rat
  rc_sensitivity :: sensitivity
  rc_destructive_override :: bool

record risk_factors =
  rf_environment :: int
  rf_blast_radius :: int
  rf_destructiveness :: int
  rf_reversibility :: int
  rf_uncertainty :: int
  rf_sensitivity :: int

record risk_result =
  rr_score :: int
  rr_classification :: risk_classification
  rr_recommended_mode :: recommended_mode
  rr_factors :: risk_factors

abbreviation validation_error :: exn where
  "validation_error \<equiv> PyError ''ValidationError''"

definition risk_context_valid :: "risk_context \<Rightarrow> bool" where
  "risk_context_valid c \<longleftrightarrow>
     1 \<le> rc_target_count c \<and> 0 \<le> rc_confidence c \<and> rc_confidence c \<le> 1"

definition mk_risk_context :: "risk_context \<Rightarrow> exn + risk_context" where
  "mk_risk_context c = (if risk_context_valid c then Inr c else Inl validation_error)"

definition risk_factors_valid :: "risk_factors \<Rightarrow> bool" where
  "risk_factors_valid f \<longleftrightarrow>
     0 \<le> rf_environment f \<and> rf_environment f \<le> 15 \<and>
     0 \<le> rf_blast_radius f \<and> rf_blast_radius f \<le> 25 \<and>
     0 \<le> rf_destructiveness f \<and> rf_destructiveness f \<le> 20 \<and>
     0 \<le> rf_reversibility f \<and> rf_reversibility f \<le> 15 \<and>
     0 \<le> rf_uncertainty f \<and> rf_uncertainty f \<le> 15 \<and>
     0 \<le> rf_sensitivity f \<and> rf_sensitivity f \<le> 10"

definition mk_risk_factors :: "risk_factors \<Rightarrow> exn + risk_factors" where
  "mk_risk_factors f = (if risk_factors_valid f then Inr f else Inl validation_error)"

definition factor_sum :: "risk_factors \<Rightarrow> int" where
  "factor_sum f = rf_environment f + rf_blast_radius f + rf_destructiveness f + rf_reversibility f +
     rf_uncertainty f + rf_sensitivity f"

definition mk_risk_result :: "risk_result \<Rightarrow> exn + risk_result" where
  "mk_risk_result r =
     (if 0 \<le> rr_score r \<and> rr_score r \<le> 100 \<and> rr_score r = factor_sum (rr_factors r) then Inr r
      else Inl validation_error)"

fun DESTRUCTIVENESS :: "action_type \<Rightarrow> int" where
  "DESTRUCTIVENESS DELETE_UNHEALTHY_POD = 3"
| "DESTRUCTIVENESS RESTART_POD = 3"
| "DESTRUCTIVENESS SCALE_STAGING_DEPLOYMENT = 5"
| "DESTRUCTIVENESS SCALE_WORKLOAD = 5"
| "DESTRUCTIVENESS REVERT_IMAGE = 8"
| "DESTRUCTIVENESS ROLLBACK_DEPLOYMENT = 8"
| "DESTRUCTIVENESS APPLY_QUARANTINE = 9"
| "DESTRUCTIVENESS QUARANTINE_WORKLOAD = 9"
| "DESTRUCTIVENESS REMOVE_QUARANTINE = 7"
| "DESTRUCTIVENESS CREATE_GITOPS_PR = 2"
| "DESTRUCTIVENESS CREATE_TERRAFORM_PR = 4"
| "DESTRUCTIVENESS CREATE_GITHUB_ISSUE = 0"
| "DESTRUCTIVENESS REQUEST_APPROVAL = 0"
| "DESTRUCTIVENESS NO_ACTION = 0"

definition environment_weight :: "string \<Rightarrow> int" where
  "environment_weight e = (case map_of [(''local'', 1), (''development'', 1), (''staging'', 4),
      (''production'', 15)] e of None \<Rightarrow> 10 | Some w \<Rightarrow> w)"

definition blast_radius_weight :: "int \<Rightarrow> int" where
  "blast_radius_weight n =
     (if n = 1 then 3 else if n \<le> 3 then 8 else if n \<le> 10 then 15 else 25)"

fun sensitivity_weight :: "sensitivity \<Rightarrow> int" where
  "sensitivity_weight SENS_NONE = 0"
| "sensitivity_weight SENS_LOW = 2"
| "sensitivity_weight SENS_MODERATE = 6"
| "sensitivity_weight SENS_HIGH = 10"

definition risk_factors_of :: "risk_context \<Rightarrow> risk_factors" where
  "risk_factors_of c =
     (let metadata = get_action_metadata (rc_action c);
          reversible = (case rc_reversible c of None \<Rightarrow> am_reversible metadata | Some b \<Rightarrow> b)
      in \<lparr>rf_environment = environment_weight (rc_environment c),
          rf_blast_radius = blast_radius_weight (rc_target_count c),
          rf_destructiveness =
            (if rc_destructive_override c then 20 else DESTRUCTIVENESS (rc_action c)),
          rf_reversibility = (if reversible then 2 else 15),
          rf_uncertainty = py_round ((1 - rc_confidence c) * 15),
          rf_sensitivity = sensitivity_weight (rc_sensitivity c)\<rparr>)"

definition classify_score :: "int \<Rightarrow> risk_classification \<times> recommended_mode" where
  "classify_score score =
     (if score \<le> 30 then (RC_LOW, AUTO_EXECUTE)
      else if score \<le> 69 then (RC_MEDIUM, APPROVAL_REQUIRED)
      else (RC_HIGH, BLOCK_AND_ESCALATE))"

definition risk_calculate :: "risk_context \<Rightarrow> exn + risk_result" where
  "risk_calculate c =
     (case mk_risk_factors (risk_factors_of c) of
        Inl e \<Rightarrow> Inl e
      | Inr factors \<Rightarrow>
          (let score = factor_sum factors; (classification, mode) = classify_score score
           in mk_risk_result \<lparr>rr_score = score, rr_classification = classification,
                rr_recommended_mode = mode, rr_factors = factors\<rparr>))"

text \<open>The JSON form stored with a proposal (\<open>model_dump(mode="json")\<close>).\<close>

definition risk_factors_json :: "risk_factors \<Rightarrow> json" where
  "risk_factors_json f = JObj
     [(''environment'', JInt (rf_environment f)), (''blast_radius'', JInt (rf_blast_radius f)),
      (''destructiveness'', JInt (rf_destructiveness f)),
      (''reversibility'', JInt (rf_reversibility f)),
      (''uncertainty'', JInt (rf_uncertainty f)), (''sensitivity'', JInt (rf_sensitivity f))]"

definition risk_result_json :: "risk_result \<Rightarrow> (string \<times> json) list" where
  "risk_result_json r =
     [(''score'', JInt (rr_score r)),
      (''classification'', JStr (risk_classification_value (rr_classification r))),
      (''recommended_mode'', JStr (recommended_mode_value (rr_recommended_mode r))),
      (''factors'', risk_factors_json (rr_factors r))]"

lemma uncertainty_bounds:
  assumes "0 \<le> c" and "c \<le> (1 :: rat)"
  shows "0 \<le> py_round ((1 - c) * 15) \<and> py_round ((1 - c) * 15) \<le> 15"
  using py_round_bounds [of 0 "(1 - c) * 15" 15] assms by simp

lemma DESTRUCTIVENESS_bounds: "0 \<le> DESTRUCTIVENESS a \<and> DESTRUCTIVENESS a \<le> 9"
  by (cases a) auto

lemma environment_weight_bounds: "1 \<le> environment_weight e \<and> environment_weight e \<le> 15"
  by (auto simp: environment_weight_def split: if_splits)

lemma blast_radius_bounds: "3 \<le> blast_radius_weight n \<and> blast_radius_weight n \<le> 25"
  by (simp add: blast_radius_weight_def)

lemma blast_radius_mono: "1 \<le> m \<Longrightarrow> m \<le> n \<Longrightarrow> blast_radius_weight m \<le> blast_radius_weight n"
  by (simp add: blast_radius_weight_def)

lemma sensitivity_bounds: "0 \<le> sensitivity_weight s \<and> sensitivity_weight s \<le> 10"
  by (cases s) auto

lemma risk_factors_of_valid: "risk_context_valid c \<Longrightarrow> risk_factors_valid (risk_factors_of c)"
  using uncertainty_bounds [of "rc_confidence c"] DESTRUCTIVENESS_bounds [of "rc_action c"]
    environment_weight_bounds [of "rc_environment c"] blast_radius_bounds [of "rc_target_count c"]
    sensitivity_bounds [of "rc_sensitivity c"]
  by (simp add: risk_context_valid_def risk_factors_valid_def risk_factors_of_def Let_def)

lemma factor_sum_bounds: "risk_factors_valid f \<Longrightarrow> 0 \<le> factor_sum f \<and> factor_sum f \<le> 100"
  by (simp add: risk_factors_valid_def factor_sum_def)

lemma risk_calculate_eq:
  assumes "risk_context_valid c"
  shows "risk_calculate c = Inr \<lparr>rr_score = factor_sum (risk_factors_of c),
      rr_classification = fst (classify_score (factor_sum (risk_factors_of c))),
      rr_recommended_mode = snd (classify_score (factor_sum (risk_factors_of c))),
      rr_factors = risk_factors_of c\<rparr>"
  using risk_factors_of_valid [OF assms] factor_sum_bounds
  by (simp add: risk_calculate_def mk_risk_factors_def mk_risk_result_def Let_def split: prod.splits)

text \<open>C29. The risk engine is total on valid contexts and its result is bounded and consistent: the
  score is between 6 and 100, equals the sum of its factors, and the classification and mode are
  the ones of its band.\<close>

theorem risk_calculate_bounded:
  assumes "risk_context_valid c"
  shows "\<exists>r. risk_calculate c = Inr r \<and> 6 \<le> rr_score r \<and> rr_score r \<le> 100 \<and>
      rr_score r = factor_sum (rr_factors r) \<and>
      (rr_recommended_mode r = AUTO_EXECUTE \<longleftrightarrow> rr_score r \<le> 30) \<and>
      (rr_recommended_mode r = BLOCK_AND_ESCALATE \<longleftrightarrow> 70 \<le> rr_score r) \<and>
      (rr_classification r = RC_HIGH \<longleftrightarrow> rr_recommended_mode r = BLOCK_AND_ESCALATE)"
proof -
  have "6 \<le> factor_sum (risk_factors_of c)"
    using assms uncertainty_bounds [of "rc_confidence c"] DESTRUCTIVENESS_bounds [of "rc_action c"]
      environment_weight_bounds [of "rc_environment c"]
      blast_radius_bounds [of "rc_target_count c"] sensitivity_bounds [of "rc_sensitivity c"]
    by (simp add: risk_context_valid_def risk_factors_of_def factor_sum_def Let_def)
  then show ?thesis
    using risk_calculate_eq [OF assms] factor_sum_bounds [OF risk_factors_of_valid [OF assms]]
    by (simp add: classify_score_def)
qed

theorem risk_calculate_bounded_witness:
  "\<exists>r. risk_calculate \<lparr>rc_environment = ''staging'', rc_action = DELETE_UNHEALTHY_POD,
        rc_target_count = 1, rc_reversible = Some True, rc_confidence = 49 / 50,
        rc_sensitivity = SENS_NONE, rc_destructive_override = False\<rparr> = Inr r \<and>
      6 \<le> rr_score r \<and> rr_score r \<le> 100"
proof -
  let ?c = "\<lparr>rc_environment = ''staging'', rc_action = DELETE_UNHEALTHY_POD,
        rc_target_count = 1, rc_reversible = Some True, rc_confidence = 49 / 50,
        rc_sensitivity = SENS_NONE, rc_destructive_override = False\<rparr>"
  have "risk_context_valid ?c" by (simp add: risk_context_valid_def)
  from risk_calculate_bounded [OF this] show ?thesis by blast
qed

text \<open>C30. The score is monotone: with the same action and environment, more targets, less
  confidence, or withdrawing reversibility never lowers it.\<close>

theorem risk_score_monotone:
  assumes "risk_context_valid c" and "risk_context_valid d"
    and "rc_environment d = rc_environment c" and "rc_action d = rc_action c"
    and "rc_sensitivity d = rc_sensitivity c"
    and "rc_destructive_override d = rc_destructive_override c"
    and "rc_target_count c \<le> rc_target_count d" and "rc_confidence d \<le> rc_confidence c"
    and "rc_reversible d = rc_reversible c \<or> rc_reversible d = Some False"
    and "risk_calculate c = Inr r" and "risk_calculate d = Inr q"
  shows "rr_score r \<le> rr_score q"
proof -
  have "py_round ((1 - rc_confidence c) * 15) \<le> py_round ((1 - rc_confidence d) * 15)"
    using assms(8) by (intro py_round_mono) simp
  moreover have "blast_radius_weight (rc_target_count c) \<le> blast_radius_weight (rc_target_count d)"
    using assms(1,7) by (intro blast_radius_mono) (simp_all add: risk_context_valid_def)
  ultimately have "factor_sum (risk_factors_of c) \<le> factor_sum (risk_factors_of d)"
    using assms(3-6,9)
    by (auto simp: risk_factors_of_def factor_sum_def Let_def split: option.splits)
  then show ?thesis using assms(10,11) risk_calculate_eq [OF assms(1)] risk_calculate_eq [OF assms(2)]
    by auto
qed

definition risk_example :: "int \<Rightarrow> risk_context" where
  "risk_example n = \<lparr>rc_environment = ''staging'', rc_action = SCALE_WORKLOAD,
     rc_target_count = n, rc_reversible = None, rc_confidence = 1, rc_sensitivity = SENS_NONE,
     rc_destructive_override = False\<rparr>"

theorem risk_score_monotone_witness:
  "\<exists>r q. risk_calculate (risk_example 1) = Inr r \<and> risk_calculate (risk_example 11) = Inr q \<and>
     rr_score r \<le> rr_score q"
proof -
  have v: "risk_context_valid (risk_example 1)" "risk_context_valid (risk_example 11)"
    by (simp_all add: risk_context_valid_def risk_example_def)
  note c = risk_calculate_eq [OF v(1)] and d = risk_calculate_eq [OF v(2)]
  show ?thesis
    using c d risk_score_monotone [OF v _ _ _ _ _ _ _ c d] by (simp add: risk_example_def)
qed

end
