(* ===== verification/CW_Redaction.thy ===== *)
theory CW_Redaction
  imports CW_Prelude
begin

text \<open>
  Redaction of untrusted values (\<open>security/redaction.py\<close>, reached through \<open>redact\<close> of \<open>logging.py\<close>
  and \<open>ai/redaction.py\<close>). The twelve secret patterns are regular expressions; \<open>ms\<close> is Python's
  backtracking matcher as the list of the positions a match may end at, in the order the engine
  tries them, so the first element is the match Python takes. A position is the character before
  it (for \<open>\b\<close>) and the text after it.
\<close>

section \<open>Regular expressions\<close>

datatype re =
    REps
  | RPred "char \<Rightarrow> bool"
  | RSeq re re
  | RAlt re re
  | RStar re
  | RLazy re
  | RWordB

type_synonym pos = "char option \<times> string"

definition word_char :: "char \<Rightarrow> bool" where
  "word_char c \<longleftrightarrow> is_alnum_char c \<or> c = CHR ''_''"

definition at_word_boundary :: "pos \<Rightarrow> bool" where
  "at_word_boundary p =
     ((case fst p of None \<Rightarrow> False | Some c \<Rightarrow> word_char c) \<noteq>
      (case snd p of [] \<Rightarrow> False | c # _ \<Rightarrow> word_char c))"

fun iter_greedy :: "(pos \<Rightarrow> pos list) \<Rightarrow> nat \<Rightarrow> pos \<Rightarrow> pos list" where
  "iter_greedy f 0 p = [p]"
| "iter_greedy f (Suc n) p =
     concat (map (iter_greedy f n) (filter (\<lambda>q. length (snd q) < length (snd p)) (f p))) @ [p]"

fun iter_lazy :: "(pos \<Rightarrow> pos list) \<Rightarrow> nat \<Rightarrow> pos \<Rightarrow> pos list" where
  "iter_lazy f 0 p = [p]"
| "iter_lazy f (Suc n) p =
     p # concat (map (iter_lazy f n) (filter (\<lambda>q. length (snd q) < length (snd p)) (f p)))"

primrec ms :: "re \<Rightarrow> pos \<Rightarrow> pos list" where
  "ms REps p = [p]"
| "ms (RPred P) p = (case snd p of [] \<Rightarrow> [] | c # cs \<Rightarrow> if P c then [(Some c, cs)] else [])"
| "ms (RSeq a b) p = concat (map (ms b) (ms a p))"
| "ms (RAlt a b) p = ms a p @ ms b p"
| "ms (RStar a) p = iter_greedy (ms a) (length (snd p)) p"
| "ms (RLazy a) p = iter_lazy (ms a) (length (snd p)) p"
| "ms RWordB p = (if at_word_boundary p then [p] else [])"

definition rlit :: "string \<Rightarrow> re" where
  "rlit s = foldr (\<lambda>c r. RSeq (RPred (\<lambda>x. x = c)) r) s REps"

definition rlit_ci :: "string \<Rightarrow> re" where
  "rlit_ci s = foldr (\<lambda>c r. RSeq (RPred (\<lambda>x. lower_char x = lower_char c)) r) s REps"

definition ralts :: "re list \<Rightarrow> re" where
  "ralts rs = foldr RAlt (butlast rs) (last rs)"

definition rseqs :: "re list \<Rightarrow> re" where
  "rseqs rs = foldr RSeq rs REps"

definition ropt :: "re \<Rightarrow> re" where
  "ropt r = RAlt r REps"

definition rplus :: "re \<Rightarrow> re" where
  "rplus r = RSeq r (RStar r)"

primrec rtimes :: "nat \<Rightarrow> re \<Rightarrow> re" where
  "rtimes 0 r = REps"
| "rtimes (Suc n) r = RSeq r (rtimes n r)"

definition ratleast :: "nat \<Rightarrow> re \<Rightarrow> re" where
  "ratleast n r = RSeq (rtimes n r) (RStar r)"

primrec ratmost :: "nat \<Rightarrow> re \<Rightarrow> re" where
  "ratmost 0 r = REps"
| "ratmost (Suc n) r = ropt (RSeq r (ratmost n r))"

definition rbetween :: "nat \<Rightarrow> nat \<Rightarrow> re \<Rightarrow> re" where
  "rbetween m n r = RSeq (rtimes m r) (ratmost (n - m) r)"

abbreviation rspace :: re where
  "rspace \<equiv> RPred is_space_char"

abbreviation rword :: "string \<Rightarrow> re" where
  "rword extra \<equiv> RPred (\<lambda>c. is_alnum_char c \<or> c \<in> set extra)"

abbreviation rnot :: "string \<Rightarrow> re" where
  "rnot excluded \<equiv> RPred (\<lambda>c. \<not> is_space_char c \<and> c \<notin> set excluded)"

text \<open>\<open>Pattern.sub\<close>: the leftmost match is replaced and the search resumes behind it. \<open>keep\<close> is
  the part of the pattern whose text is kept in front of the marker (group 1 of the authorization
  pattern, empty for the others).\<close>

definition REDACTED :: string where
  "REDACTED = ''[REDACTED]''"

fun first_match :: "re \<Rightarrow> pos list \<Rightarrow> (pos \<times> pos) option" where
  "first_match body [] = None"
| "first_match body (q # qs) =
     (case ms body q of [] \<Rightarrow> first_match body qs | e # _ \<Rightarrow> Some (q, e))"

function rsub :: "re \<Rightarrow> re \<Rightarrow> pos \<Rightarrow> string" where
  "rsub keep body p =
     (case first_match body (ms keep p) of
        Some (q, e) \<Rightarrow>
          if length (snd e) < length (snd p) then
            take (length (snd p) - length (snd q)) (snd p) @ REDACTED @ rsub keep body e
          else (case snd p of [] \<Rightarrow> [] | c # cs \<Rightarrow> c # rsub keep body (Some c, cs))
      | None \<Rightarrow> (case snd p of [] \<Rightarrow> [] | c # cs \<Rightarrow> c # rsub keep body (Some c, cs)))"
  by pat_completeness auto
termination
  by (relation "measure (\<lambda>(keep, body, p). length (snd p))") auto

declare rsub.simps [simp del]

section \<open>The patterns and the recursion\<close>

definition SENSITIVE_KEY_PARTS :: "string list" where
  "SENSITIVE_KEY_PARTS = [''authorization'', ''api_key'', ''apikey'', ''cookie'', ''credential'',
     ''database_url'', ''private_key'', ''password'', ''secret'', ''session'', ''token'',
     ''webhook_url'']"

definition rprivate_key_kind :: re where
  "rprivate_key_kind = ropt (ralts [rlit_ci ''RSA '', rlit_ci ''EC '', rlit_ci ''OPENSSH ''])"

definition STRING_PATTERNS :: "(re \<times> re) list" where
  "STRING_PATTERNS =
     [(rseqs [rlit_ci ''authorization'', RStar rspace, RPred (\<lambda>c. c \<in> set '':=''), RStar rspace,
          ralts [rlit_ci ''bearer'', rlit_ci ''basic''], rplus rspace],
        rplus (rnot '',;'')),
      (REps, rseqs [RWordB, rlit_ci ''Bearer'', rplus rspace, ratleast 8 (rword ''._~+/=-'')]),
      (REps, rseqs [RWordB, ralts (map rlit_ci [''ghp'', ''gho'', ''ghu'', ''ghs'', ''ghr'']),
          rlit ''_'', ratleast 8 (rword ''_'')]),
      (REps, rseqs [RWordB, rlit_ci ''github_pat_'', ratleast 8 (rword ''_'')]),
      (REps, rseqs [RWordB, rlit_ci ''sk-'', ropt (rlit_ci ''or-v1-''), ratleast 8 (rword ''_-'')]),
      (REps, rseqs [RWordB, ralts [rlit ''AKIA'', rlit ''ASIA''],
          rbetween 12 20 (RPred (\<lambda>c. is_digit_char c \<or> is_upper_char c)), RWordB]),
      (REps, rseqs [RWordB, rlit ''eyJ'', ratleast 8 (rword ''_-''), rlit ''.'',
          ratleast 8 (rword ''_-''), rlit ''.'', ratleast 8 (rword ''_-''), RWordB]),
      (REps, rseqs [rlit_ci ''-----BEGIN '', rprivate_key_kind, rlit_ci ''PRIVATE KEY-----'',
          RLazy (RPred (\<lambda>_. True)), rlit_ci ''-----END '', rprivate_key_kind,
          rlit_ci ''PRIVATE KEY-----'']),
      (REps, rseqs [RWordB, ralts [RSeq (rlit_ci ''postgres'') (ropt (rlit_ci ''ql'')),
          rlit_ci ''mysql'', rlit_ci ''mariadb'', RSeq (rlit_ci ''mongodb'') (ropt (rlit_ci ''+srv'')),
          rlit_ci ''redis''], rlit ''://'', rplus (rnot [])]),
      (REps, rseqs [RWordB, ralts [RSeq (rlit_ci ''http'') (ropt (rlit_ci ''s'')),
          RSeq (rlit_ci ''amqp'') (ropt (rlit_ci ''s'')), rlit_ci ''kafka''], rlit ''://'',
          rplus (rnot ''/@:''), rlit '':'', rplus (rnot ''/@''), rlit ''@'', rplus (rnot [])]),
      (REps, rseqs [RWordB, ralts [rlit_ci ''password'', rlit_ci ''passwd'', rlit_ci ''pwd'',
          rseqs [rlit_ci ''api'', ropt (RPred (\<lambda>c. c \<in> set ''_-'')), rlit_ci ''key''],
          rlit_ci ''secret'', rlit_ci ''token''], RStar rspace, RPred (\<lambda>c. c \<in> set '':=''),
          RStar rspace, rplus (rnot '',;'')]),
      (REps, rseqs [RWordB, ralts [rlit_ci ''cookie'', rlit_ci ''set-cookie''], RStar rspace,
          rlit '':'', RStar rspace,
          rplus (RPred (\<lambda>c. c \<noteq> CHR 0x0D \<and> c \<noteq> CHR 0x0A))])]"

definition sensitive_key :: "string \<Rightarrow> bool" where
  "sensitive_key key =
     (let normalized = py_replace1 (CHR '' '') ''_'' (py_replace1 (CHR ''-'') ''_'' (py_lower key))
      in list_ex (\<lambda>part. py_in part normalized) SENSITIVE_KEY_PARTS)"

definition redact_text :: "string \<Rightarrow> string" where
  "redact_text value = fold (\<lambda>(keep, body) s. rsub keep body (None, s)) STRING_PATTERNS value"

definition MAX_REDACTION_DEPTH :: nat where
  "MAX_REDACTION_DEPTH = 16"

definition TRUNCATED_DEPTH :: json where
  "TRUNCATED_DEPTH = JStr ''[TRUNCATED_DEPTH]''"

fun redact_untrusted :: "nat \<Rightarrow> json \<Rightarrow> json" where
  "redact_untrusted d v =
     (if MAX_REDACTION_DEPTH \<le> d then TRUNCATED_DEPTH
      else case v of
        JStr s \<Rightarrow> JStr (redact_text s)
      | JObj kvs \<Rightarrow> JObj (map (\<lambda>(k, x). (k, if sensitive_key k then JStr REDACTED
                                              else redact_untrusted (Suc d) x)) kvs)
      | JList xs \<Rightarrow> JList (map (redact_untrusted (Suc d)) xs)
      | _ \<Rightarrow> v)"

declare redact_untrusted.simps [simp del]

definition redact :: "json \<Rightarrow> json" where
  "redact v = redact_untrusted 0 v"

text \<open>What redaction promises: below a sensitive key stands only the marker, at every level.\<close>

fun secrets_masked :: "json \<Rightarrow> bool" where
  "secrets_masked (JObj kvs) =
     list_all (\<lambda>(k, x). if sensitive_key k then x = JStr REDACTED else secrets_masked x) kvs"
| "secrets_masked (JList xs) = list_all secrets_masked xs"
| "secrets_masked v = True"

fun json_depth :: "json \<Rightarrow> nat" where
  "json_depth (JObj kvs) = Suc (fold max (map (\<lambda>(k, x). json_depth x) kvs) 0)"
| "json_depth (JList xs) = Suc (fold max (map json_depth xs) 0)"
| "json_depth v = 0"

lemma fold_max_le: "(\<forall>x \<in> set xs. x \<le> n) \<Longrightarrow> a \<le> n \<Longrightarrow> fold max xs a \<le> (n :: nat)"
  by (induction xs arbitrary: a) auto

lemma redact_untrusted_masked: "secrets_masked (redact_untrusted d v)"
proof (induction d v rule: redact_untrusted.induct)
  case (1 d v)
  show ?case
    using "1.IH"
    by (subst redact_untrusted.simps)
      (auto simp: TRUNCATED_DEPTH_def list_all_iff split: json.splits)
qed

lemma redact_untrusted_depth: "json_depth (redact_untrusted d v) \<le> MAX_REDACTION_DEPTH - d"
proof (induction d v rule: redact_untrusted.induct)
  case (1 d v)
  show ?case
  proof (cases "MAX_REDACTION_DEPTH \<le> d")
    case True
    then show ?thesis by (subst redact_untrusted.simps) (simp add: TRUNCATED_DEPTH_def)
  next
    case False
    then obtain n where n: "MAX_REDACTION_DEPTH - d = Suc n" and n': "MAX_REDACTION_DEPTH - Suc d = n"
      by (metis Suc_diff_Suc not_le)
    show ?thesis
    proof (cases v)
      case (JList xs)
      with "1.IH"(1) [OF False JList] n' show ?thesis
        using False n by (subst redact_untrusted.simps) (auto intro!: fold_max_le)
    next
      case (JObj kvs)
      have "json_depth (redact_untrusted (Suc d) x) \<le> n"
        if "(k, x) \<in> set kvs" and "\<not> sensitive_key k" for k x
        using "1.IH"(2) [OF False JObj that(1) refl that(2)] n' by simp
      with JObj False n show ?thesis
        by (subst redact_untrusted.simps) (auto intro!: fold_max_le)
    qed (subst redact_untrusted.simps, simp add: False)+
  qed
qed

text \<open>C31. Redaction at the persistence boundary: in what \<open>redact\<close> returns, the value under every key
  whose normalised name contains a sensitive part is the marker, at every nesting level, and the
  result is at most sixteen levels deep, whatever the depth of the input.\<close>

theorem redact_masks_and_bounds:
  "secrets_masked (redact v) \<and> json_depth (redact v) \<le> 16"
  using redact_untrusted_masked [of 0 v] redact_untrusted_depth [of 0 v]
  by (simp add: redact_def MAX_REDACTION_DEPTH_def)

section \<open>Short strings are never altered\<close>

text \<open>The length a match of a pattern has at least.\<close>

primrec min_len :: "re \<Rightarrow> nat" where
  "min_len REps = 0"
| "min_len (RPred P) = 1"
| "min_len (RSeq a b) = min_len a + min_len b"
| "min_len (RAlt a b) = min (min_len a) (min_len b)"
| "min_len (RStar a) = 0"
| "min_len (RLazy a) = 0"
| "min_len RWordB = 0"

lemma iter_shrinks:
  "q \<in> set (iter_greedy f n p) \<Longrightarrow> length (snd q) \<le> length (snd p)"
  "q \<in> set (iter_lazy f n p) \<Longrightarrow> length (snd q) \<le> length (snd p)"
proof -
  show "q \<in> set (iter_greedy f n p) \<Longrightarrow> length (snd q) \<le> length (snd p)"
    by (induction n arbitrary: p) (force dest: order_less_imp_le intro: order_trans)+
  show "q \<in> set (iter_lazy f n p) \<Longrightarrow> length (snd q) \<le> length (snd p)"
    by (induction n arbitrary: p) (force dest: order_less_imp_le intro: order_trans)+
qed

lemma ms_min_len: "q \<in> set (ms r p) \<Longrightarrow> length (snd q) + min_len r \<le> length (snd p)"
proof (induction r arbitrary: p q)
  case (RSeq a b)
  then obtain u where "u \<in> set (ms a p)" "q \<in> set (ms b u)" by auto
  from RSeq.IH(1) [OF this(1)] RSeq.IH(2) [OF this(2)] show ?case by simp
next
  case (RAlt a b)
  then show ?case by (fastforce simp: min_def)
qed (auto dest: iter_shrinks split: list.splits if_splits)

lemma first_match_mem: "first_match body qs = Some (q, e) \<Longrightarrow> q \<in> set qs \<and> e \<in> set (ms body q)"
  by (induction qs) (auto split: list.splits)

lemma rsub_short: "length (snd p) < min_len keep + min_len body \<Longrightarrow> rsub keep body p = snd p"
proof (induction "length (snd p)" arbitrary: p rule: less_induct)
  case less
  have "first_match body (ms keep p) = None"
  proof (rule ccontr)
    assume "first_match body (ms keep p) \<noteq> None"
    then obtain q e where "first_match body (ms keep p) = Some (q, e)" by auto
    then have "length (snd e) + min_len body \<le> length (snd q)" "length (snd q) + min_len keep \<le> length (snd p)"
      by (auto dest!: first_match_mem ms_min_len)
    with less.prems show False by simp
  qed
  with less show ?case by (subst rsub.simps) (auto split: list.splits)
qed

lemma redact_text_short:
  assumes "length x < 5"
  shows "redact_text x = x"
proof -
  have "list_all (\<lambda>(keep, body). 5 \<le> min_len keep + min_len body) STRING_PATTERNS" by code_simp
  then have "fold (\<lambda>(keep, body) y. rsub keep body (None, y)) ps x = x" if "set ps \<subseteq> set STRING_PATTERNS" for ps
    using that assms by (induction ps) (force simp: list_all_iff rsub_short)+
  then show ?thesis by (simp add: redact_text_def)
qed

lemma redact_obj: "\<exists>kvs'. redact (JObj kvs) = JObj kvs' \<and> map fst kvs' = map fst kvs"
  by (simp add: redact_def redact_untrusted.simps [of 0] MAX_REDACTION_DEPTH_def comp_def
      case_prod_unfold)

end
