(* ===== verification/CW_Pylib.thy ===== *)
theory CW_Pylib
  imports CW_Prelude "HOL-Library.Word" "HOL-Library.AList" "HOL-Library.Multiset"
begin

unbundle bit_operations_syntax

text \<open>
  The parts of Python's standard library whose results the program stores: dictionary update,
  \<open>str\<close> and \<open>repr\<close>, the canonical \<open>json.dumps\<close> with sorted keys, \<open>hashlib.sha256\<close> and
  \<open>datetime.isoformat\<close>. Strings are ASCII, so encoding a string to bytes is the identity; a float
  is the exact rational its shortest decimal rendering denotes.
\<close>

type_synonym jdict = "(string \<times> json) list"

section \<open>Dictionaries\<close>

text \<open>\<^verbatim>\<open>{**d, **e}\<close>: later keys replace earlier ones in place.\<close>

definition dict_merge :: "(string \<times> 'v) list \<Rightarrow> (string \<times> 'v) list \<Rightarrow> (string \<times> 'v) list" where
  "dict_merge d e = fold (\<lambda>(k, v). AList.update k v) e d"

lemma map_of_update [simp]: "map_of (AList.update k v d) = (map_of d)(k \<mapsto> v)"
  by (rule update_conv')

lemma dict_get_merge:
  "dict_get (dict_merge d e) k =
     (case map_of (rev e) k of None \<Rightarrow> dict_get d k | Some v \<Rightarrow> Some v)"
proof (induction e arbitrary: d)
  case (Cons kv e)
  obtain k' v' where kv: "kv = (k', v')" by (cases kv)
  show ?case
    using Cons [of "AList.update k' v' d"]
    by (auto simp: kv dict_merge_def dict_get_def map_add_def split: option.splits)
qed (simp add: dict_merge_def dict_get_def)

text \<open>Truth of a value in an \<open>if\<close> or an \<open>or\<close>.\<close>

fun py_truth :: "json \<Rightarrow> bool" where
  "py_truth JNull = False"
| "py_truth (JBool b) = b"
| "py_truth (JInt i) = (i \<noteq> 0)"
| "py_truth (JFloat x) = (x \<noteq> 0)"
| "py_truth (JStr s) = (s \<noteq> [])"
| "py_truth (JList xs) = (xs \<noteq> [])"
| "py_truth (JObj kvs) = (kvs \<noteq> [])"

text \<open>\<open>d.get(k)\<close> for a dictionary of values, with None for a missing key; \<open>a or b\<close>.\<close>

definition jget :: "jdict \<Rightarrow> string \<Rightarrow> json" where
  "jget d k = (case dict_get d k of None \<Rightarrow> JNull | Some v \<Rightarrow> v)"

definition py_or :: "json \<Rightarrow> json \<Rightarrow> json" where
  "py_or a b = (if py_truth a then a else b)"

section \<open>Rendering values\<close>

text \<open>\<open>repr\<close> of a float in the range of the program's figures: the shortest decimal expansion, at
  most seventeen digits after the point.\<close>

fun decimals :: "nat \<Rightarrow> nat \<Rightarrow> rat \<Rightarrow> nat" where
  "decimals 0 k x = k"
| "decimals (Suc n) k x = (if x * 10 ^ k = of_int \<lfloor>x * 10 ^ k\<rfloor> then k else decimals n (Suc k) x)"

definition pad_zeros :: "nat \<Rightarrow> string \<Rightarrow> string" where
  "pad_zeros n s = replicate (n - length s) (CHR ''0'') @ s"

definition float_repr :: "rat \<Rightarrow> string" where
  "float_repr x =
     (let k = max 1 (decimals 17 0 \<bar>x\<bar>);
          n = \<lfloor>\<bar>x\<bar> * 10 ^ k\<rfloor>
      in (if x < 0 then ''-'' else []) @ str_of_int (n div 10 ^ k) @ ''.'' @
           pad_zeros k (str_of_int (n mod 10 ^ k)))"

definition repr_char :: "char \<Rightarrow> char \<Rightarrow> string" where
  "repr_char q c =
     (let n = (of_char c :: nat) in
      if c = q \<or> n = 92 then [char_of (92 :: nat), c]
      else if n = 10 then [char_of (92 :: nat), CHR ''n'']
      else if n = 13 then [char_of (92 :: nat), CHR ''r'']
      else if n = 9 then [char_of (92 :: nat), CHR ''t'']
      else if n < 32 \<or> n = 127 then [char_of (92 :: nat), CHR ''x''] @ hex_digits 2 n
      else [c])"

definition repr_string :: "string \<Rightarrow> string" where
  "repr_string s =
     (let q = (if char_of (39 :: nat) \<in> set s \<and> char_of (34 :: nat) \<notin> set s
               then char_of (34 :: nat) else char_of (39 :: nat))
      in [q] @ concat (map (repr_char q) s) @ [q])"

definition join_with :: "string \<Rightarrow> string list \<Rightarrow> string" where
  "join_with sep xs =
     (case xs of [] \<Rightarrow> [] | y # ys \<Rightarrow> y @ concat (map (\<lambda>z. sep @ z) ys))"

fun py_repr :: "json \<Rightarrow> string" where
  "py_repr JNull = ''None''"
| "py_repr (JBool b) = (if b then ''True'' else ''False'')"
| "py_repr (JInt i) = str_of_int i"
| "py_repr (JFloat x) = float_repr x"
| "py_repr (JStr s) = repr_string s"
| "py_repr (JList xs) = ''['' @ join_with '', '' (map py_repr xs) @ '']''"
| "py_repr (JObj kvs) =
     [CHR 0x7B] @ join_with '', '' (map (\<lambda>(k, v). repr_string k @ '': '' @ py_repr v) kvs) @
     [CHR 0x7D]"

fun py_str :: "json \<Rightarrow> string" where
  "py_str (JStr s) = s"
| "py_str v = py_repr v"

text \<open>\<open>int(v)\<close>: truncation of a float, parsing of a string of digits with single underscores
  between them, and the exceptions for everything else.\<close>

fun digits_val :: "int \<Rightarrow> bool \<Rightarrow> string \<Rightarrow> int option" where
  "digits_val acc after_digit [] = (if after_digit then Some acc else None)"
| "digits_val acc after_digit (c # cs) =
     (if is_digit_char c then digits_val (acc * 10 + (of_char c - 48)) True cs
      else if c = CHR ''_'' \<and> after_digit then digits_val acc False cs else None)"

definition int_of_string :: "string \<Rightarrow> int option" where
  "int_of_string s =
     (case py_strip is_space_char s of
        [] \<Rightarrow> None
      | c # cs \<Rightarrow>
          if c = CHR ''-'' then map_option uminus (digits_val 0 False cs)
          else if c = CHR ''+'' then digits_val 0 False cs
          else digits_val 0 False (c # cs))"

fun py_int :: "json \<Rightarrow> exn + int" where
  "py_int (JInt i) = Inr i"
| "py_int (JBool b) = Inr (if b then 1 else 0)"
| "py_int (JFloat x) = Inr (if x < 0 then - \<lfloor>- x\<rfloor> else \<lfloor>x\<rfloor>)"
| "py_int (JStr s) =
     (case int_of_string s of None \<Rightarrow> Inl (PyError ''ValueError'') | Some i \<Rightarrow> Inr i)"
| "py_int v = Inl (PyError ''TypeError'')"

section \<open>Canonical JSON text\<close>

text \<open>\<^verbatim>\<open>json.dumps(value, sort_keys=True, separators=(",", ":"))\<close>.\<close>

definition json_char :: "char \<Rightarrow> string" where
  "json_char c =
     (let n = (of_char c :: nat) in
      if n = 34 \<or> n = 92 then [char_of (92 :: nat), c]
      else if n = 10 then [char_of (92 :: nat), CHR ''n'']
      else if n = 13 then [char_of (92 :: nat), CHR ''r'']
      else if n = 9 then [char_of (92 :: nat), CHR ''t'']
      else if n = 8 then [char_of (92 :: nat), CHR ''b'']
      else if n = 12 then [char_of (92 :: nat), CHR ''f'']
      else if n < 32 then [char_of (92 :: nat), CHR ''u''] @ hex_digits 4 n
      else [c])"

definition json_string :: "string \<Rightarrow> string" where
  "json_string s = [CHR 0x22] @ concat (map json_char s) @ [CHR 0x22]"

fun sorted_json :: "json \<Rightarrow> json" where
  "sorted_json (JList xs) = JList (map sorted_json xs)"
| "sorted_json (JObj kvs) = JObj (sort_key fst (map (\<lambda>(k, v). (k, sorted_json v)) kvs))"
| "sorted_json v = v"

fun json_text :: "json \<Rightarrow> string" where
  "json_text JNull = ''null''"
| "json_text (JBool b) = (if b then ''true'' else ''false'')"
| "json_text (JInt i) = str_of_int i"
| "json_text (JFloat x) = float_repr x"
| "json_text (JStr s) = json_string s"
| "json_text (JList xs) = ''['' @ join_with '','' (map json_text xs) @ '']''"
| "json_text (JObj kvs) =
     [CHR 0x7B] @ join_with '','' (map (\<lambda>(k, v). json_string k @ '':'' @ json_text v) kvs) @
     [CHR 0x7D]"

definition json_dumps :: "json \<Rightarrow> string" where
  "json_dumps v = json_text (sorted_json v)"

section \<open>SHA-256\<close>

type_synonym w32 = "32 word"

definition sha_k :: "w32 list" where
  "sha_k = [
     1116352408, 1899447441, 3049323471, 3921009573, 961987163, 1508970993, 2453635748, 2870763221,
     3624381080, 310598401, 607225278, 1426881987, 1925078388, 2162078206, 2614888103, 3248222580,
     3835390401, 4022224774, 264347078, 604807628, 770255983, 1249150122, 1555081692, 1996064986,
     2554220882, 2821834349, 2952996808, 3210313671, 3336571891, 3584528711, 113926993, 338241895,
     666307205, 773529912, 1294757372, 1396182291, 1695183700, 1986661051, 2177026350, 2456956037,
     2730485921, 2820302411, 3259730800, 3345764771, 3516065817, 3600352804, 4094571909, 275423344,
     430227734, 506948616, 659060556, 883997877, 958139571, 1322822218, 1537002063, 1747873779,
     1955562222, 2024104815, 2227730452, 2361852424, 2428436474, 2756734187, 3204031479, 3329325298]"

definition sha_init :: "w32 list" where
  "sha_init = [1779033703, 3144134277, 1013904242, 2773480762, 1359893119, 2600822924, 528734635,
     1541459225]"

definition rotr :: "nat \<Rightarrow> w32 \<Rightarrow> w32" where
  "rotr n x = drop_bit n x OR push_bit (32 - n) x"

definition sha_bytes :: "string \<Rightarrow> w32 list" where
  "sha_bytes s = map (\<lambda>c. of_nat (of_char c)) s"

definition sha_pad :: "string \<Rightarrow> w32 list" where
  "sha_pad s =
     (let n = length s; z = (119 - n mod 64) mod 64
      in sha_bytes s @ [0x80] @ replicate z 0 @
         map (\<lambda>i. of_int (8 * int n div 256 ^ i mod 256)) [7, 6, 5, 4, 3, 2, 1, 0])"

fun sha_words :: "w32 list \<Rightarrow> w32 list" where
  "sha_words (a # b # c # d # rest) =
     (push_bit 24 a OR push_bit 16 b OR push_bit 8 c OR d) # sha_words rest"
| "sha_words _ = []"

text \<open>The message schedule grows at the end; \<open>k\<close> counts the words still to add.\<close>

fun sha_schedule :: "nat \<Rightarrow> w32 list \<Rightarrow> w32 list" where
  "sha_schedule 0 w = w"
| "sha_schedule (Suc k) w =
     (let t = length w; w15 = w ! (t - 15); w2 = w ! (t - 2);
          s0 = rotr 7 w15 XOR rotr 18 w15 XOR drop_bit 3 w15;
          s1 = rotr 17 w2 XOR rotr 19 w2 XOR drop_bit 10 w2
      in sha_schedule k (w @ [w ! (t - 16) + s0 + w ! (t - 7) + s1]))"

fun sha_round :: "w32 \<times> w32 \<Rightarrow> w32 list \<Rightarrow> w32 list" where
  "sha_round (k, w) [a, b, c, d, e, f, g, h] =
     (let s1 = rotr 6 e XOR rotr 11 e XOR rotr 25 e;
          ch = (e AND f) XOR (NOT e AND g);
          t1 = h + s1 + ch + k + w;
          s0 = rotr 2 a XOR rotr 13 a XOR rotr 22 a;
          maj = (a AND b) XOR (a AND c) XOR (b AND c)
      in [t1 + (s0 + maj), a, b, c, d + t1, e, f, g])"
| "sha_round kw st = st"

definition sha_block :: "w32 list \<Rightarrow> w32 list \<Rightarrow> w32 list" where
  "sha_block block st =
     map2 (+) st (fold sha_round (zip sha_k (sha_schedule 48 block)) st)"

fun sha_blocks :: "nat \<Rightarrow> w32 list \<Rightarrow> w32 list \<Rightarrow> w32 list" where
  "sha_blocks 0 ws st = st"
| "sha_blocks (Suc n) ws st = sha_blocks n (drop 16 ws) (sha_block (take 16 ws) st)"

definition hex_word :: "w32 \<Rightarrow> string" where
  "hex_word w = map (\<lambda>i. hex_digit (unat (drop_bit (4 * i) w AND 15))) [7, 6, 5, 4, 3, 2, 1, 0]"

definition sha256_hex :: "string \<Rightarrow> string" where
  "sha256_hex s =
     (let ws = sha_words (sha_pad s)
      in concat (map hex_word (sha_blocks (length ws div 16) ws sha_init)))"

lemma length_sha_round [simp]: "length (sha_round kw st) = length st"
  by (induction kw st rule: sha_round.induct) (auto simp: Let_def)

lemma length_sha_blocks [simp]: "length st = 8 \<Longrightarrow> length (sha_blocks n ws st) = 8"
proof (induction n arbitrary: ws st)
  case (Suc n)
  have "length (fold sha_round kws st) = length st" for kws
    by (induction kws arbitrary: st) auto
  with Suc show ?case by (simp add: sha_block_def)
qed simp

lemma length_sha256_hex [simp]: "length (sha256_hex s) = 64"
proof -
  have "length (concat (map hex_word ws)) = 8 * length ws" for ws
    by (induction ws) (auto simp: hex_word_def)
  then show ?thesis by (simp add: sha256_hex_def Let_def sha_init_def)
qed

section \<open>Dates\<close>

text \<open>A datetime is its UTC microsecond count since 1970; \<open>isoformat\<close> renders the proleptic
  Gregorian date, omitting the fraction when it is zero.\<close>

type_synonym time = int

definition civil_of_days :: "int \<Rightarrow> int \<times> int \<times> int" where
  "civil_of_days days =
     (let z = days + 719468; era = z div 146097; doe = z mod 146097;
          yoe = (doe - doe div 1460 + doe div 36524 - doe div 146096) div 365;
          doy = doe - (365 * yoe + yoe div 4 - yoe div 100);
          mp = (5 * doy + 2) div 153;
          m = (if mp < 10 then mp + 3 else mp - 9)
      in (yoe + era * 400 + (if m \<le> 2 then 1 else 0), m, doy - (153 * mp + 2) div 5 + 1))"

definition isoformat :: "time \<Rightarrow> string" where
  "isoformat t =
     (let secs = t div 1000000; us = t mod 1000000; sod = secs mod 86400;
          (y, m, d) = civil_of_days (secs div 86400);
          two = (\<lambda>n. pad_zeros 2 (str_of_nat (nat n)))
      in pad_zeros 4 (str_of_nat (nat y)) @ ''-'' @ two m @ ''-'' @ two d @ ''T'' @
         two (sod div 3600) @ '':'' @ two (sod div 60 mod 60) @ '':'' @ two (sod mod 60) @
         (if us = 0 then [] else ''.'' @ pad_zeros 6 (str_of_nat (nat us))) @ ''+00:00'')"

text \<open>The canonical text does not depend on the order in which a dictionary was filled: it is a
  function of the mapping.\<close>

lemma json_dumps_order_insensitive:
  assumes "distinct (map fst d)" and "mset d = mset e"
  shows "json_dumps (JObj d) = json_dumps (JObj e)"
proof -
  let ?f = "\<lambda>(k, v). (k, sorted_json v)"
  have fst_f: "map fst (map ?f xs) = map fst xs" for xs by (simp add: comp_def case_prod_unfold)
  have "distinct (map fst (map ?f d))" using assms(1) by (simp only: fst_f)
  then have "inj_on fst (set (map ?f d))" by (simp only: distinct_map)
  moreover have "mset (map ?f d) = mset (sort_key fst (map ?f e))" using assms(2) by simp
  ultimately have "sort_key fst (map ?f d) = sort_key fst (map ?f e)"
    by (intro sort_key_inj_key_eq) simp_all
  then show ?thesis by (simp add: json_dumps_def)
qed

end
