(* ===== verification/CW_Policy.thy ===== *)
theory CW_Policy
  imports CW_Risk CW_Pylib
begin

text \<open>
  The policy decision contract (\<open>policies/opa.py\<close>): the typed input sent to the policy engine, its
  canonical digest, the validation of what comes back, and the fail-closed reading of every reply.
  The engine itself is a service reached over HTTP; its reply is an argument.
\<close>

section \<open>Input\<close>

record approval_input =
  ai_approved :: bool
  ai_approval_id :: "string option"
  ai_approved_by :: "string option"

record target_input =
  ti_namespace :: string
  ti_pod_name :: string
  ti_labels :: "(string \<times> string) list"
  ti_controller_managed :: bool
  ti_target_pods :: int

record policy_input =
  pi_environment :: string
  pi_action :: action_type
  pi_risk_score :: int
  pi_risk_factors :: risk_factors
  pi_confidence :: rat
  pi_blast_radius :: int
  pi_reversible :: bool
  pi_service_criticality :: string
  pi_target :: target_input
  pi_approval :: approval_input

definition no_approval :: approval_input where
  "no_approval = \<lparr>ai_approved = False, ai_approval_id = None, ai_approved_by = None\<rparr>"

definition policy_input_valid :: "policy_input \<Rightarrow> bool" where
  "policy_input_valid p \<longleftrightarrow>
     0 \<le> pi_risk_score p \<and> pi_risk_score p \<le> 100 \<and> 0 \<le> pi_confidence p \<and> pi_confidence p \<le> 1 \<and>
     0 \<le> pi_blast_radius p \<and> 0 \<le> ti_target_pods (pi_target p) \<and>
     ti_target_pods (pi_target p) \<le> 1000"

definition mk_policy_input :: "policy_input \<Rightarrow> exn + policy_input" where
  "mk_policy_input p = (if policy_input_valid p then Inr p else Inl validation_error)"

definition labels_json :: "(string \<times> string) list \<Rightarrow> json" where
  "labels_json ls = JObj (map (\<lambda>(k, v). (k, JStr v)) ls)"

definition policy_input_json :: "policy_input \<Rightarrow> json" where
  "policy_input_json p = JObj
     [(''environment'', JStr (pi_environment p)), (''action'', JStr (action_value (pi_action p))),
      (''risk_score'', JInt (pi_risk_score p)),
      (''risk_factors'', risk_factors_json (pi_risk_factors p)),
      (''confidence'', JFloat (pi_confidence p)), (''blast_radius'', JInt (pi_blast_radius p)),
      (''reversible'', JBool (pi_reversible p)),
      (''service_criticality'', JStr (pi_service_criticality p)),
      (''target'', JObj [(''namespace'', JStr (ti_namespace (pi_target p))),
         (''pod_name'', JStr (ti_pod_name (pi_target p))),
         (''labels'', labels_json (ti_labels (pi_target p))),
         (''controller_managed'', JBool (ti_controller_managed (pi_target p))),
         (''target_pods'', JInt (ti_target_pods (pi_target p)))]),
      (''approval'', JObj [(''approved'', JBool (ai_approved (pi_approval p))),
         (''approval_id'', jstr_opt (ai_approval_id (pi_approval p))),
         (''approved_by'', jstr_opt (ai_approved_by (pi_approval p)))])]"

definition policy_digest :: "policy_input \<Rightarrow> string" where
  "policy_digest p = sha256_hex (json_dumps (policy_input_json p))"

section \<open>Result\<close>

record policy_result =
  pr_allowed :: bool
  pr_requires_approval :: bool
  pr_reason :: string
  pr_decision_id :: "string option"
  pr_error_code :: "string option"
  pr_extra :: jdict

definition denied :: "string \<Rightarrow> string \<Rightarrow> policy_result" where
  "denied reason code = \<lparr>pr_allowed = False, pr_requires_approval = False, pr_reason = reason,
     pr_decision_id = None, pr_error_code = Some code, pr_extra = []\<rparr>"

definition policy_result_json :: "policy_result \<Rightarrow> jdict" where
  "policy_result_json r =
     [(''allowed'', JBool (pr_allowed r)), (''requires_approval'', JBool (pr_requires_approval r)),
      (''reason'', JStr (pr_reason r)), (''decision_id'', jstr_opt (pr_decision_id r)),
      (''error_code'', jstr_opt (pr_error_code r))] @ pr_extra r"

text \<open>Pydantic's lax reading of a boolean and of an optional string.\<close>

definition parse_bool :: "json \<Rightarrow> bool option" where
  "parse_bool v =
     (case v of
        JBool b \<Rightarrow> Some b
      | JInt i \<Rightarrow> (if i = 1 then Some True else if i = 0 then Some False else None)
      | JFloat x \<Rightarrow> (if x = 1 then Some True else if x = 0 then Some False else None)
      | JStr s \<Rightarrow>
          (if py_lower s \<in> {''1'', ''on'', ''t'', ''true'', ''y'', ''yes''} then Some True
           else if py_lower s \<in> {''0'', ''off'', ''f'', ''false'', ''n'', ''no''} then Some False
           else None)
      | _ \<Rightarrow> None)"

text \<open>Pydantic's lax reading of an integer field.\<close>

definition parse_int :: "json \<Rightarrow> int option" where
  "parse_int v =
     (case v of
        JInt i \<Rightarrow> Some i
      | JBool b \<Rightarrow> Some (if b then 1 else 0)
      | JFloat x \<Rightarrow> (if x = of_int \<lfloor>x\<rfloor> then Some \<lfloor>x\<rfloor> else None)
      | JStr s \<Rightarrow> int_of_string s
      | _ \<Rightarrow> None)"

definition parse_opt_str :: "json option \<Rightarrow> string option option" where
  "parse_opt_str v =
     (case v of None \<Rightarrow> Some None | Some JNull \<Rightarrow> Some None | Some (JStr s) \<Rightarrow> Some (Some s)
      | Some _ \<Rightarrow> None)"

definition policy_fields :: "string list" where
  "policy_fields = [''allowed'', ''requires_approval'', ''reason'', ''decision_id'', ''error_code'']"

text \<open>\<open>PolicyResult.model_validate\<close>: None is a \<open>ValidationError\<close>.\<close>

definition policy_result_validate :: "json \<Rightarrow> policy_result option" where
  "policy_result_validate v =
     (case v of
        JObj d \<Rightarrow>
          (case (Option.bind (dict_get d ''allowed'') parse_bool,
                 Option.bind (dict_get d ''requires_approval'') parse_bool, dict_get d ''reason'',
                 parse_opt_str (dict_get d ''decision_id''),
                 parse_opt_str (dict_get d ''error_code'')) of
             (Some a, Some r, Some (JStr reason), Some did, Some code) \<Rightarrow>
               (if 1 \<le> length reason \<and> length reason \<le> 2000 then
                  Some \<lparr>pr_allowed = a, pr_requires_approval = r, pr_reason = reason,
                    pr_decision_id = did, pr_error_code = code,
                    pr_extra = filter (\<lambda>(k, _). k \<notin> set policy_fields) d\<rparr>
                else None)
           | _ \<Rightarrow> None)
      | _ \<Rightarrow> None)"

section \<open>Reading the reply\<close>

text \<open>How the request can fail: an \<open>httpx.HTTPError\<close> (transport error or an error status), a body
  that is not JSON (\<open>ValueError\<close>), or another exception, which is not caught.\<close>

datatype opa_failure = OPA_HTTP_ERROR | OPA_VALUE_ERROR | OPA_OTHER string

definition opa_decide :: "opa_failure + json \<Rightarrow> exn + policy_result" where
  "opa_decide reply =
     (case reply of
        Inl (OPA_OTHER c) \<Rightarrow> Inl (PyError c)
      | Inl _ \<Rightarrow> Inr (denied ''Policy engine unavailable; action denied'' ''OPA_UNAVAILABLE'')
      | Inr (JObj kvs) \<Rightarrow>
          (case dict_get kvs ''result'' of
             None \<Rightarrow> Inr (denied ''OPA returned no decision'' ''OPA_UNDEFINED_DECISION'')
           | Some v \<Rightarrow>
               (case policy_result_validate v of
                  None \<Rightarrow> Inr (denied ''OPA returned an invalid decision'' ''OPA_INVALID_RESPONSE'')
                | Some r \<Rightarrow> Inr r))
      | Inr _ \<Rightarrow> Inr (denied ''OPA returned no decision'' ''OPA_UNDEFINED_DECISION''))"

lemma denied_simps [simp]:
  "pr_allowed (denied a b) = False" "pr_requires_approval (denied a b) = False"
  "pr_reason (denied a b) = a" "pr_error_code (denied a b) = Some b"
  by (simp_all add: denied_def)

lemma policy_result_validate_Some:
  assumes "policy_result_validate v = Some r"
  obtains d a q reason where "v = JObj d" "dict_get d ''allowed'' = Some a"
    "dict_get d ''requires_approval'' = Some q" "dict_get d ''reason'' = Some (JStr reason)"
    "parse_bool a = Some (pr_allowed r)" "parse_bool q = Some (pr_requires_approval r)"
    "pr_reason r = reason" "1 \<le> length reason" "length reason \<le> 2000"
  using assms
  by (auto simp: policy_result_validate_def bind_eq_Some_conv
      split: json.splits option.splits prod.splits if_splits)



end
