(* ===== verification/CW_Models.thy ===== *)
theory CW_Models
  imports CW_Pylib CW_StateMachine CW_Actions
begin

text \<open>
  The persistent data (\<open>db/models.py\<close>, \<open>ai/models.py\<close>, \<open>incident_memory/models.py\<close>): one record
  per table with the columns as fields, one datatype per enumeration with its stored value, and the
  database as the record of its tables. A JSON column is a dictionary in insertion order, or a JSON
  value where the code stores the result of redaction. The column \<open>updated_at\<close>, which nothing
  reads, and the ORM's relationship attributes are left out. Tables that no modelled operation
  touches (users, clusters, chaos executions, FinOps recommendations and the like) are absent.
\<close>

section \<open>Enumerations\<close>

datatype environment = ENV_LOCAL | ENV_STAGING | ENV_PRODUCTION

fun environment_value :: "environment \<Rightarrow> string" where
  "environment_value ENV_LOCAL = ''local''"
| "environment_value ENV_STAGING = ''staging''"
| "environment_value ENV_PRODUCTION = ''production''"

datatype actor_type = ACTOR_SYSTEM | ACTOR_USER | ACTOR_SERVICE

fun actor_type_value :: "actor_type \<Rightarrow> string" where
  "actor_type_value ACTOR_SYSTEM = ''SYSTEM''"
| "actor_type_value ACTOR_USER = ''USER''"
| "actor_type_value ACTOR_SERVICE = ''SERVICE''"

datatype record_status = RS_PENDING | RS_RUNNING | RS_SUCCEEDED | RS_FAILED | RS_REJECTED
    | RS_CANCELLED

fun record_status_value :: "record_status \<Rightarrow> string" where
  "record_status_value RS_PENDING = ''PENDING''"
| "record_status_value RS_RUNNING = ''RUNNING''"
| "record_status_value RS_SUCCEEDED = ''SUCCEEDED''"
| "record_status_value RS_FAILED = ''FAILED''"
| "record_status_value RS_REJECTED = ''REJECTED''"
| "record_status_value RS_CANCELLED = ''CANCELLED''"

datatype resolution_source = CLOUDWARD_REMEDIATION | PLATFORM_SELF_HEALING | HUMAN_ACTION
    | EXTERNAL_SYSTEM | RESOLUTION_UNKNOWN

fun resolution_source_value :: "resolution_source \<Rightarrow> string" where
  "resolution_source_value CLOUDWARD_REMEDIATION = ''CLOUDWARD_REMEDIATION''"
| "resolution_source_value PLATFORM_SELF_HEALING = ''PLATFORM_SELF_HEALING''"
| "resolution_source_value HUMAN_ACTION = ''HUMAN_ACTION''"
| "resolution_source_value EXTERNAL_SYSTEM = ''EXTERNAL_SYSTEM''"
| "resolution_source_value RESOLUTION_UNKNOWN = ''UNKNOWN''"

datatype alert_status = ALERT_FIRING | ALERT_RESOLVED

fun alert_status_value :: "alert_status \<Rightarrow> string" where
  "alert_status_value ALERT_FIRING = ''firing''"
| "alert_status_value ALERT_RESOLVED = ''resolved''"

datatype evidence_phase = PHASE_BEFORE | PHASE_INCIDENT | PHASE_AFTER

fun evidence_phase_value :: "evidence_phase \<Rightarrow> string" where
  "evidence_phase_value PHASE_BEFORE = ''BEFORE''"
| "evidence_phase_value PHASE_INCIDENT = ''INCIDENT''"
| "evidence_phase_value PHASE_AFTER = ''AFTER''"

datatype approval_decision = AD_PENDING | AD_APPROVED | AD_REJECTED | AD_EXPIRED
    | AD_INVALIDATED

fun approval_decision_value :: "approval_decision \<Rightarrow> string" where
  "approval_decision_value AD_PENDING = ''PENDING''"
| "approval_decision_value AD_APPROVED = ''APPROVED''"
| "approval_decision_value AD_REJECTED = ''REJECTED''"
| "approval_decision_value AD_EXPIRED = ''EXPIRED''"
| "approval_decision_value AD_INVALIDATED = ''INVALIDATED''"

datatype evidence_type = ET_KUBERNETES_STATE | ET_KUBERNETES_EVENT | ET_HEALTH_CHECK | ET_METRIC
    | ET_METRIC_SUMMARY | ET_LOG | ET_LOG_SUMMARY | ET_TRACE | ET_TRACE_SUMMARY | ET_DEPLOYMENT
    | ET_DEPLOYMENT_STATE | ET_GIT_CHANGE | ET_SECURITY_EVENT | ET_FINOPS

fun evidence_type_value :: "evidence_type \<Rightarrow> string" where
  "evidence_type_value ET_KUBERNETES_STATE = ''KUBERNETES_STATE''"
| "evidence_type_value ET_KUBERNETES_EVENT = ''KUBERNETES_EVENT''"
| "evidence_type_value ET_HEALTH_CHECK = ''HEALTH_CHECK''"
| "evidence_type_value ET_METRIC = ''METRIC''"
| "evidence_type_value ET_METRIC_SUMMARY = ''METRIC_SUMMARY''"
| "evidence_type_value ET_LOG = ''LOG''"
| "evidence_type_value ET_LOG_SUMMARY = ''LOG_SUMMARY''"
| "evidence_type_value ET_TRACE = ''TRACE''"
| "evidence_type_value ET_TRACE_SUMMARY = ''TRACE_SUMMARY''"
| "evidence_type_value ET_DEPLOYMENT = ''DEPLOYMENT''"
| "evidence_type_value ET_DEPLOYMENT_STATE = ''DEPLOYMENT_STATE''"
| "evidence_type_value ET_GIT_CHANGE = ''GIT_CHANGE''"
| "evidence_type_value ET_SECURITY_EVENT = ''SECURITY_EVENT''"
| "evidence_type_value ET_FINOPS = ''FINOPS''"

datatype security_category = SUSPICIOUS_PROCESS | UNEXPECTED_EGRESS | PRIVILEGE_BEHAVIOR

fun security_category_value :: "security_category \<Rightarrow> string" where
  "security_category_value SUSPICIOUS_PROCESS = ''SUSPICIOUS_PROCESS''"
| "security_category_value UNEXPECTED_EGRESS = ''UNEXPECTED_EGRESS''"
| "security_category_value PRIVILEGE_BEHAVIOR = ''PRIVILEGE_BEHAVIOR''"

datatype containment_status = CS_NOT_PROPOSED | CS_PROPOSED | CS_AWAITING_APPROVAL | CS_APPLYING
  | CS_CONTAINED | CS_VERIFICATION_FAILED | CS_REMOVING | CS_REMOVED

fun containment_status_value :: "containment_status \<Rightarrow> string" where
  "containment_status_value CS_NOT_PROPOSED = ''NOT_PROPOSED''"
| "containment_status_value CS_PROPOSED = ''PROPOSED''"
| "containment_status_value CS_AWAITING_APPROVAL = ''AWAITING_APPROVAL''"
| "containment_status_value CS_APPLYING = ''APPLYING''"
| "containment_status_value CS_CONTAINED = ''CONTAINED''"
| "containment_status_value CS_VERIFICATION_FAILED = ''VERIFICATION_FAILED''"
| "containment_status_value CS_REMOVING = ''REMOVING''"
| "containment_status_value CS_REMOVED = ''REMOVED''"

datatype finops_status = FS_DETECTED | FS_ANALYZED | FS_RECOMMENDED | FS_PR_CREATED | FS_APPROVED | FS_REJECTED
  | FS_APPLIED | FS_VERIFIED | FS_EXPIRED

fun finops_status_value :: "finops_status \<Rightarrow> string" where
  "finops_status_value FS_DETECTED = ''DETECTED''"
| "finops_status_value FS_ANALYZED = ''ANALYZED''"
| "finops_status_value FS_RECOMMENDED = ''RECOMMENDED''"
| "finops_status_value FS_PR_CREATED = ''PR_CREATED''"
| "finops_status_value FS_APPROVED = ''APPROVED''"
| "finops_status_value FS_REJECTED = ''REJECTED''"
| "finops_status_value FS_APPLIED = ''APPLIED''"
| "finops_status_value FS_VERIFIED = ''VERIFIED''"
| "finops_status_value FS_EXPIRED = ''EXPIRED''"

section \<open>Rows\<close>

record service =
  sv_id :: uuid
  sv_created_at :: time
  sv_cluster_id :: uuid
  sv_name :: string
  sv_namespace :: string
  sv_deployment_name :: string
  sv_health_url :: "string option"
  sv_criticality :: string
  sv_labels :: jdict

record incident =
  inc_id :: uuid
  inc_created_at :: time
  inc_correlation_id :: string
  inc_cluster_id :: "uuid option"
  inc_service_id :: "uuid option"
  inc_incident_type :: string
  inc_title :: string
  inc_summary :: "string option"
  inc_environment :: environment
  inc_state :: incident_state
  inc_severity :: string
  inc_risk_score :: "int option"
  inc_retry_count :: int
  inc_runbook_id :: "string option"
  inc_runbook_version :: "int option"
  inc_resolved_at :: "time option"
  inc_resolution_source :: "resolution_source option"

record incident_event =
  iev_id :: uuid
  iev_incident_id :: uuid
  iev_created_at :: time
  iev_correlation_id :: string
  iev_event_type :: string
  iev_from_state :: "incident_state option"
  iev_to_state :: "incident_state option"
  iev_actor :: string
  iev_actor_type :: actor_type
  iev_details :: jdict

record evidence_snapshot =
  evs_id :: uuid
  evs_incident_id :: uuid
  evs_created_at :: time
  evs_correlation_id :: string
  evs_evidence_type :: evidence_type
  evs_summary :: string
  evs_reference :: "string option"
  evs_query :: "string option"
  evs_window_start :: "time option"
  evs_window_end :: "time option"
  evs_phase :: evidence_phase
  evs_payload :: jdict
  evs_collected_by :: string

record action_proposal =
  prp_id :: uuid
  prp_created_at :: time
  prp_incident_id :: uuid
  prp_correlation_id :: string
  prp_action_type :: action_type
  prp_parameters :: jdict
  prp_status :: record_status
  prp_risk_score :: int
  prp_risk_calculation :: jdict
  prp_proposed_by :: string

record action_execution =
  exe_id :: uuid
  exe_created_at :: time
  exe_incident_id :: uuid
  exe_proposal_id :: uuid
  exe_correlation_id :: string
  exe_action_type :: action_type
  exe_attempt :: int
  exe_status :: record_status
  exe_result :: jdict
  exe_error_code :: "string option"
  exe_started_at :: time
  exe_completed_at :: "time option"
  exe_idempotency_key :: "string option"
  exe_rollback_of_execution_id :: "uuid option"
  exe_rolled_back_at :: "time option"

record alert_record =
  alr_id :: uuid
  alr_created_at :: time
  alr_incident_id :: "uuid option"
  alr_source :: string
  alr_fingerprint :: string
  alr_payload_digest :: string
  alr_alert_name :: string
  alr_status :: alert_status
  alr_severity :: string
  alr_service :: string
  alr_environment :: environment
  alr_namespace :: "string option"
  alr_labels :: jdict
  alr_annotations :: jdict
  alr_starts_at :: time
  alr_ends_at :: "time option"
  alr_last_received_at :: time
  alr_repeat_count :: int

record verification_record =
  ver_id :: uuid
  ver_created_at :: time
  ver_incident_id :: uuid
  ver_action_execution_id :: "uuid option"
  ver_attempt :: int
  ver_success :: bool
  ver_checks :: "json list"
  ver_before_values :: jdict
  ver_after_values :: jdict
  ver_started_at :: time
  ver_completed_at :: time

record stream_event =
  ste_id :: uuid
  ste_created_at :: time
  ste_event_type :: string
  ste_incident_id :: "uuid option"
  ste_payload :: json

record approval =
  apr_id :: uuid
  apr_created_at :: time
  apr_incident_id :: uuid
  apr_proposal_id :: uuid
  apr_actor_id :: "uuid option"
  apr_decision :: approval_decision
  apr_reason :: "string option"
  apr_action :: string
  apr_environment :: environment
  apr_risk_score :: int
  apr_blast_radius :: int
  apr_reversible :: bool
  apr_requested_by :: string
  apr_runbook :: "string option"
  apr_proposal_version :: int
  apr_target_reference :: string
  apr_expected_state :: jdict
  apr_context_digest :: string
  apr_expires_at :: time
  apr_decided_at :: "time option"
  apr_decided_by :: "string option"
  apr_decision_comment :: "string option"
  apr_invalidated_reason :: "string option"
  apr_execution_claimed_at :: "time option"
  apr_execution_reference :: "string option"

record policy_decision =
  pol_id :: uuid
  pol_incident_id :: uuid
  pol_proposal_id :: uuid
  pol_created_at :: time
  pol_correlation_id :: string
  pol_policy_path :: string
  pol_allowed :: bool
  pol_requires_approval :: bool
  pol_reason :: string
  pol_input_digest :: string
  pol_result :: jdict

record runbook_execution =
  rbx_id :: uuid
  rbx_created_at :: time
  rbx_incident_id :: uuid
  rbx_runbook_id :: string
  rbx_runbook_version :: int
  rbx_status :: record_status
  rbx_context :: jdict

record notification =
  ntf_id :: uuid
  ntf_created_at :: time
  ntf_incident_id :: "uuid option"
  ntf_channel :: string
  ntf_status :: record_status
  ntf_destination_reference :: "string option"
  ntf_event_type :: string
  ntf_dedupe_key :: string
  ntf_attempts :: int
  ntf_max_attempts :: int
  ntf_last_error :: "string option"
  ntf_delivered_at :: "time option"
  ntf_next_attempt_at :: "time option"
  ntf_payload :: json

record audit_event =
  aud_id :: uuid
  aud_created_at :: time
  aud_actor :: string
  aud_actor_type :: actor_type
  aud_actor_id :: "uuid option"
  aud_incident_id :: "uuid option"
  aud_correlation_id :: string
  aud_event_type :: string
  aud_action :: "string option"
  aud_risk_score :: "int option"
  aud_policy_decision :: "string option"
  aud_result :: string
  aud_event_metadata :: json

record ai_diagnosis =
  aid_id :: uuid
  aid_created_at :: time
  aid_incident_id :: uuid
  aid_status :: string
  aid_suspected_root_cause :: "string option"
  aid_root_cause_category :: "string option"
  aid_confidence :: "rat option"
  aid_evidence_refs :: "string list"
  aid_related_change :: "json option"
  aid_suggested_runbook :: "string option"
  aid_action_candidates :: "string list"
  aid_explanation :: "string option"
  aid_model :: "string option"
  aid_fallback_used :: bool
  aid_escalation_used :: bool
  aid_failure_code :: "string option"

record incident_memory =
  mem_id :: uuid
  mem_created_at :: time
  mem_incident_id :: uuid
  mem_fingerprint :: string
  mem_service_key :: string
  mem_environment :: string
  mem_incident_type :: string
  mem_alert_name :: string
  mem_namespace :: "string option"
  mem_root_cause_category :: "string option"
  mem_stable_labels :: "(string \<times> string) list"
  mem_runbook_id :: "string option"
  mem_action :: "string option"
  mem_result :: string
  mem_verification_success :: "bool option"
  mem_duration_seconds :: "int option"
  mem_model :: "string option"
  mem_confidence :: "rat option"
  mem_successful :: bool
  mem_resolved_at :: time
  mem_evidence_summary :: json
  mem_operator_summary :: "string option"

record security_event =
  sev_id :: uuid
  sev_created_at :: time
  sev_correlation_id :: string
  sev_incident_id :: "uuid option"
  sev_source :: string
  sev_fingerprint :: string
  sev_event_type :: security_category
  sev_severity :: string
  sev_environment :: environment
  sev_namespace :: string
  sev_pod :: string
  sev_workload :: "string option"
  sev_container_name :: string
  sev_policy :: string
  sev_evidence_ref :: string
  sev_occurred_at :: time
  sev_last_seen_at :: time
  sev_dedup_count :: int
  sev_risk_score :: "int option"
  sev_policy_decision :: "string option"
  sev_containment_status :: containment_status
  sev_payload :: jdict

record quarantine_record =
  qrr_id :: uuid
  qrr_created_at :: time
  qrr_incident_id :: uuid
  qrr_security_event_id :: uuid
  qrr_namespace :: string
  qrr_pod :: string
  qrr_workload :: "string option"
  qrr_policy_name :: string
  qrr_selector :: jdict
  qrr_reason :: string
  qrr_risk_score :: int
  qrr_opa_decision :: string
  qrr_status :: containment_status
  qrr_verification :: jdict
  qrr_applied_at :: "time option"
  qrr_removed_at :: "time option"

record finops_recommendation =
  fr_id :: uuid
  fr_created_at :: time
  fr_service :: string
  fr_environment :: environment
  fr_recommendation_type :: string
  fr_status :: finops_status
  fr_current_config :: jdict
  fr_recommended_config :: jdict
  fr_evidence :: jdict
  fr_estimated_savings :: jdict
  fr_risk_score :: int
  fr_confidence :: rat
  fr_limitations :: "string list"
  fr_evidence_window_start :: time
  fr_evidence_window_end :: time
  fr_source_fingerprint :: string
  fr_proposal_version :: int
  fr_expected_state_digest :: string
  fr_expires_at :: time
  fr_pr_reference :: "string option"
  fr_pr_url :: "string option"
  fr_approved_at :: "time option"
  fr_rejected_at :: "time option"
  fr_details :: jdict

record model_invocation =
  mi_id :: uuid
  mi_created_at :: time
  mi_incident_id :: "uuid option"
  mi_provider :: string
  mi_model :: string
  mi_purpose :: string
  mi_status :: string
  mi_input_digest :: string
  mi_usage :: jdict

record github_automation_record =
  gar_id :: uuid
  gar_created_at :: time
  gar_dedupe_key :: string
  gar_incident_id :: "uuid option"
  gar_operation :: string
  gar_repository :: string
  gar_external_number :: "int option"
  gar_external_url :: "string option"
  gar_status :: string
  gar_title :: "string option"
  gar_summary :: "string option"
  gar_details :: jdict

section \<open>The database\<close>

record database =
  db_services :: "service list"
  db_incidents :: "incident list"
  db_incident_events :: "incident_event list"
  db_evidence_snapshots :: "evidence_snapshot list"
  db_action_proposals :: "action_proposal list"
  db_action_executions :: "action_execution list"
  db_alert_records :: "alert_record list"
  db_verification_records :: "verification_record list"
  db_stream_events :: "stream_event list"
  db_approvals :: "approval list"
  db_policy_decisions :: "policy_decision list"
  db_runbook_executions :: "runbook_execution list"
  db_notifications :: "notification list"
  db_audit_events :: "audit_event list"
  db_ai_diagnoses :: "ai_diagnosis list"
  db_memories :: "incident_memory list"
  db_security_events :: "security_event list"
  db_quarantine_records :: "quarantine_record list"
  db_finops_recommendations :: "finops_recommendation list"
  db_model_invocations :: "model_invocation list"
  db_github_records :: "github_automation_record list"

definition empty_database :: database where
  "empty_database = \<lparr>db_services = [], db_incidents = [], db_incident_events = [],
     db_evidence_snapshots = [], db_action_proposals = [], db_action_executions = [],
     db_alert_records = [], db_verification_records = [], db_stream_events = [],
     db_approvals = [], db_policy_decisions = [], db_runbook_executions = [],
     db_notifications = [], db_audit_events = [], db_ai_diagnoses = [],
     db_memories = [], db_security_events = [], db_quarantine_records = [],
     db_finops_recommendations = [], db_model_invocations = [], db_github_records = []\<rparr>"

text \<open>Every table is an instance of the table interface, so the select-after-write laws are
  available as \<open>tbl_incidents.find_upd_same\<close> and so on.\<close>

interpretation tbl_services: table db_services db_services_update sv_id
  by unfold_locales simp

interpretation tbl_incidents: table db_incidents db_incidents_update inc_id
  by unfold_locales simp

interpretation tbl_incident_events: table db_incident_events db_incident_events_update iev_id
  by unfold_locales simp

interpretation tbl_evidence_snapshots: table db_evidence_snapshots db_evidence_snapshots_update evs_id
  by unfold_locales simp

interpretation tbl_action_proposals: table db_action_proposals db_action_proposals_update prp_id
  by unfold_locales simp

interpretation tbl_action_executions: table db_action_executions db_action_executions_update exe_id
  by unfold_locales simp

interpretation tbl_alert_records: table db_alert_records db_alert_records_update alr_id
  by unfold_locales simp

interpretation tbl_verification_records: table db_verification_records db_verification_records_update ver_id
  by unfold_locales simp

interpretation tbl_stream_events: table db_stream_events db_stream_events_update ste_id
  by unfold_locales simp

interpretation tbl_approvals: table db_approvals db_approvals_update apr_id
  by unfold_locales simp

interpretation tbl_policy_decisions: table db_policy_decisions db_policy_decisions_update pol_id
  by unfold_locales simp

interpretation tbl_runbook_executions: table db_runbook_executions db_runbook_executions_update rbx_id
  by unfold_locales simp

interpretation tbl_notifications: table db_notifications db_notifications_update ntf_id
  by unfold_locales simp

interpretation tbl_audit_events: table db_audit_events db_audit_events_update aud_id
  by unfold_locales simp

interpretation tbl_ai_diagnoses: table db_ai_diagnoses db_ai_diagnoses_update aid_id
  by unfold_locales simp

interpretation tbl_memories: table db_memories db_memories_update mem_id
  by unfold_locales simp

interpretation tbl_security_events: table db_security_events db_security_events_update sev_id
  by unfold_locales simp

interpretation tbl_quarantine_records: table db_quarantine_records db_quarantine_records_update qrr_id
  by unfold_locales simp

interpretation tbl_finops_recommendations: table db_finops_recommendations db_finops_recommendations_update fr_id
  by unfold_locales simp

interpretation tbl_model_invocations: table db_model_invocations db_model_invocations_update mi_id
  by unfold_locales simp

interpretation tbl_github_records: table db_github_records db_github_records_update gar_id
  by unfold_locales simp

section \<open>Constraints\<close>

text \<open>The unique and check constraints of the tables the handlers insert into, as predicates of a
  new row and the database; a violation surfaces as \<open>IntegrityError\<close> when the row is flushed.\<close>

definition incident_ok :: "incident \<Rightarrow> database \<Rightarrow> bool" where
  "incident_ok r d \<longleftrightarrow> 0 \<le> inc_retry_count r \<and> inc_retry_count r \<le> 3"

definition action_proposal_ok :: "action_proposal \<Rightarrow> database \<Rightarrow> bool" where
  "action_proposal_ok r d \<longleftrightarrow> 0 \<le> prp_risk_score r \<and> prp_risk_score r \<le> 100"

definition action_execution_ok :: "action_execution \<Rightarrow> database \<Rightarrow> bool" where
  "action_execution_ok r d \<longleftrightarrow> 1 \<le> exe_attempt r \<and> exe_attempt r \<le> 3 \<and>
     (\<forall>x \<in> set (db_action_executions d).
        \<not> (exe_incident_id x = exe_incident_id r \<and> exe_attempt x = exe_attempt r) \<and>
        (exe_idempotency_key r = None \<or> exe_idempotency_key x \<noteq> exe_idempotency_key r))"

definition approval_ok :: "approval \<Rightarrow> database \<Rightarrow> bool" where
  "approval_ok r d \<longleftrightarrow> 0 \<le> apr_risk_score r \<and> apr_risk_score r \<le> 100 \<and> 1 \<le> apr_proposal_version r \<and>
     (\<forall>x \<in> set (db_approvals d).
        \<not> (apr_proposal_id x = apr_proposal_id r \<and> apr_proposal_version x = apr_proposal_version r))"

definition notification_ok :: "notification \<Rightarrow> database \<Rightarrow> bool" where
  "notification_ok r d \<longleftrightarrow> 0 \<le> ntf_attempts r \<and> 1 \<le> ntf_max_attempts r \<and>
     (\<forall>x \<in> set (db_notifications d).
        \<not> (ntf_channel x = ntf_channel r \<and> ntf_dedupe_key x = ntf_dedupe_key r))"

definition incident_memory_ok :: "incident_memory \<Rightarrow> database \<Rightarrow> bool" where
  "incident_memory_ok r d \<longleftrightarrow>
     (case mem_confidence r of None \<Rightarrow> True | Some c \<Rightarrow> 0 \<le> c \<and> c \<le> 1) \<and>
     (case mem_duration_seconds r of None \<Rightarrow> True | Some n \<Rightarrow> 0 \<le> n) \<and>
     (\<forall>x \<in> set (db_memories d). mem_incident_id x \<noteq> mem_incident_id r)"

definition security_event_ok :: "security_event \<Rightarrow> database \<Rightarrow> bool" where
  "security_event_ok r d \<longleftrightarrow>
     (\<forall>x \<in> set (db_security_events d).
        \<not> (sev_source x = sev_source r \<and> sev_fingerprint x = sev_fingerprint r))"

definition quarantine_record_ok :: "quarantine_record \<Rightarrow> database \<Rightarrow> bool" where
  "quarantine_record_ok r d \<longleftrightarrow>
     (\<forall>x \<in> set (db_quarantine_records d). qrr_policy_name x \<noteq> qrr_policy_name r)"

definition finops_recommendation_ok :: "finops_recommendation \<Rightarrow> database \<Rightarrow> bool" where
  "finops_recommendation_ok r d \<longleftrightarrow> 0 \<le> fr_risk_score r \<and> fr_risk_score r \<le> 100 \<and>
     0 \<le> fr_confidence r \<and> fr_confidence r \<le> 1 \<and>
     (\<forall>x \<in> set (db_finops_recommendations d). fr_source_fingerprint x \<noteq> fr_source_fingerprint r)"

definition github_record_ok :: "github_automation_record \<Rightarrow> database \<Rightarrow> bool" where
  "github_record_ok r d \<longleftrightarrow> (\<forall>x \<in> set (db_github_records d). gar_dedupe_key x \<noteq> gar_dedupe_key r)"

definition no_constraint :: "'r \<Rightarrow> database \<Rightarrow> bool" where
  "no_constraint r d = True"

end
