(* ===== verification/CW_Env.thy ===== *)
theory CW_Env
  imports CW_Models CW_Policy
begin

text \<open>
  What the handlers run in. \<open>settings\<close> holds the configuration values they read (\<open>config.py\<close>).
  \<open>env\<close> is the world outside the program, over an abstract state \<open>'w\<close>: the clocks, the policy
  engine, the Kubernetes API server and the task broker, each call of which may change the world and
  may fail. None of them is assumed to behave in any way. \<open>sys\<close> is the state of one request: the
  session's view of the database, the committed database, the outside world, the gauge of active
  incidents, the supply of primary keys and the log of the external effects in the order they
  happened (the log is not part of the program; the properties speak about it).
\<close>

section \<open>Configuration\<close>

record settings =
  set_app_env :: string
  set_opa_url :: string
  set_opa_decision_path :: string
  set_kubernetes_allowed_namespaces :: string
  set_verification_timeout_seconds :: rat
  set_verification_poll_seconds :: rat
  set_max_remediation_attempts :: nat
  set_max_temporary_replicas :: int
  set_automatic_rollback_max_risk :: int
  set_approval_ttl_seconds :: int
  set_teams_workflow_webhook_url :: "string option"
  set_teams_dashboard_url :: "string option"
  set_notification_max_attempts :: int
  set_notification_events :: string
  set_github_app_issue_repositories :: string
  set_security_dedup_window_seconds :: int
  set_security_quarantine_verify_timeout_seconds :: rat
  set_security_quarantine_verify_poll_seconds :: rat
  set_finops_recommendation_ttl_seconds :: int
  set_finops_gitops_repository :: string
  set_finops_gitops_values_path :: string
  set_ai_max_model_calls_per_incident :: int
  set_ai_circuit_breaker_failure_threshold :: nat
  set_ai_circuit_breaker_window_seconds :: int

fun py_split :: "char \<Rightarrow> string \<Rightarrow> string list" where
  "py_split c [] = [[]]"
| "py_split c (x # xs) =
     (if x = c then [] # py_split c xs
      else case py_split c xs of [] \<Rightarrow> [[x]] | y # ys \<Rightarrow> (x # y) # ys)"

definition comma_items :: "string \<Rightarrow> string list" where
  "comma_items s =
     filter (\<lambda>x. x \<noteq> []) (map (py_strip is_space_char) (py_split (CHR 0x2C) s))"

definition allowed_namespaces :: "settings \<Rightarrow> string set" where
  "allowed_namespaces st = set (comma_items (set_kubernetes_allowed_namespaces st))"

definition enabled_notification_events :: "settings \<Rightarrow> string set" where
  "enabled_notification_events st = set (comma_items (set_notification_events st))"

text \<open>The bounds the configuration class enforces on the values above.\<close>

definition settings_valid :: "settings \<Rightarrow> bool" where
  "settings_valid st \<longleftrightarrow>
     set_app_env st \<in> {''development'', ''test'', ''staging'', ''production''} \<and>
     py_startswith (set_opa_decision_path st) ''/v1/data/'' \<and>
     1 \<le> set_verification_timeout_seconds st \<and> set_verification_timeout_seconds st \<le> 600 \<and>
     1 / 20 \<le> set_verification_poll_seconds st \<and> set_verification_poll_seconds st \<le> 30 \<and>
     1 \<le> set_max_remediation_attempts st \<and> set_max_remediation_attempts st \<le> 3 \<and>
     2 \<le> set_max_temporary_replicas st \<and> set_max_temporary_replicas st \<le> 20 \<and>
     0 \<le> set_automatic_rollback_max_risk st \<and> set_automatic_rollback_max_risk st \<le> 30 \<and>
     60 \<le> set_approval_ttl_seconds st \<and> set_approval_ttl_seconds st \<le> 86400 \<and>
     1 \<le> set_notification_max_attempts st \<and> set_notification_max_attempts st \<le> 10 \<and>
     10 \<le> set_security_dedup_window_seconds st \<and> set_security_dedup_window_seconds st \<le> 3600 \<and>
     1 \<le> set_security_quarantine_verify_timeout_seconds st \<and>
     set_security_quarantine_verify_timeout_seconds st \<le> 120 \<and>
     1 / 10 \<le> set_security_quarantine_verify_poll_seconds st \<and>
     set_security_quarantine_verify_poll_seconds st \<le> 10 \<and>
     900 \<le> set_finops_recommendation_ttl_seconds st \<and> set_finops_recommendation_ttl_seconds st \<le> 2592000 \<and>
     set_finops_gitops_values_path st = ''cloudward-gitops/environments/staging/values.yaml'' \<and>
     1 \<le> set_ai_max_model_calls_per_incident st \<and> set_ai_max_model_calls_per_incident st \<le> 3 \<and>
     2 \<le> set_ai_circuit_breaker_failure_threshold st \<and> set_ai_circuit_breaker_failure_threshold st \<le> 20 \<and>
     30 \<le> set_ai_circuit_breaker_window_seconds st \<and> set_ai_circuit_breaker_window_seconds st \<le> 3600"

section \<open>The outside world\<close>

text \<open>The attributes the program reads of the Kubernetes API objects, and how an API call fails:
  an \<open>ApiException\<close> with its status, or another exception of the client library.\<close>

datatype api_failure = ApiException "int option" | ApiOther string

record k8s_owner =
  ko_controller :: "bool option"
  ko_kind :: string

record k8s_container_status =
  kc_restart_count :: "int option"
  kc_terminated :: "(string option \<times> int) option"

record k8s_pod =
  kp_namespace :: string
  kp_name :: string
  kp_labels :: "(string \<times> string) list option"
  kp_owner_references :: "k8s_owner list option"
  kp_phase :: "string option"
  kp_conditions :: "(string \<times> string) list option"
  kp_container_statuses :: "k8s_container_status list option"

record k8s_deployment =
  kd_spec_replicas :: "int option"
  kd_template_labels :: "(string \<times> string) list option"
  kd_images :: "string list option"
  kd_ready_replicas :: "int option"
  kd_available_replicas :: "int option"
  kd_observed_generation :: "int option"

record k8s_event =
  ke_reason :: "string option"
  ke_type :: "string option"
  ke_message :: "string option"
  ke_count :: "int option"

record 'w env =
  e_settings :: settings
  e_custom_api :: bool
  e_utc_now :: "'w \<Rightarrow> time \<times> 'w"
  e_monotonic :: "'w \<Rightarrow> rat \<times> 'w"
  e_sleep :: "rat \<Rightarrow> 'w \<Rightarrow> unit \<times> 'w"
  e_opa_post :: "string \<Rightarrow> json \<Rightarrow> 'w \<Rightarrow> (opa_failure + json) \<times> 'w"
  e_send_task :: "string \<Rightarrow> string \<Rightarrow> 'w \<Rightarrow> bool \<times> 'w"
  e_read_deployment :: "string \<Rightarrow> string \<Rightarrow> 'w \<Rightarrow> (api_failure + k8s_deployment) \<times> 'w"
  e_list_pods :: "string \<Rightarrow> string \<Rightarrow> 'w \<Rightarrow> (api_failure + k8s_pod list) \<times> 'w"
  e_read_pod :: "string \<Rightarrow> string \<Rightarrow> 'w \<Rightarrow> (api_failure + k8s_pod) \<times> 'w"
  e_delete_pod :: "string \<Rightarrow> string \<Rightarrow> 'w \<Rightarrow> (api_failure + unit) \<times> 'w"
  e_patch_scale :: "string \<Rightarrow> string \<Rightarrow> int \<Rightarrow> 'w \<Rightarrow> (api_failure + unit) \<times> 'w"
  e_service_proxy :: "string \<Rightarrow> string \<Rightarrow> string \<Rightarrow> 'w \<Rightarrow> (api_failure + json) \<times> 'w"
  e_list_events :: "string \<Rightarrow> string \<Rightarrow> 'w \<Rightarrow> (api_failure + k8s_event list) \<times> 'w"
  e_pod_proxy :: "string \<Rightarrow> string \<Rightarrow> string \<Rightarrow> 'w \<Rightarrow> (api_failure + json) \<times> 'w"
  e_patch_pod_label :: "string \<Rightarrow> string \<Rightarrow> string \<Rightarrow> string option \<Rightarrow> 'w \<Rightarrow> (api_failure + unit) \<times> 'w"
  e_get_custom :: "string \<Rightarrow> string \<Rightarrow> string \<Rightarrow> 'w \<Rightarrow> (api_failure + json) \<times> 'w"
  e_create_custom :: "string \<Rightarrow> string \<Rightarrow> json \<Rightarrow> 'w \<Rightarrow> (api_failure + json) \<times> 'w"
  e_delete_custom :: "string \<Rightarrow> string \<Rightarrow> string \<Rightarrow> 'w \<Rightarrow> (api_failure + unit) \<times> 'w"

text \<open>The external effects that are logged: policy evaluations with their decision, and every
  mutating request sent to the cluster or to GitHub (whether or not it is then accepted).\<close>

datatype ext_event =
    EvOpa policy_input policy_result
  | EvDeletePod string string
  | EvScale string string int
  | EvLabelPod string string string "string option"
  | EvCreateCustom string string json
  | EvDeleteCustom string string string
  | EvGitHub string string json
  | EvTask string string

section \<open>The state of a request\<close>

record 'w sys =
  sy_db :: database
  sy_committed :: database
  sy_world :: 'w
  sy_active :: "environment \<Rightarrow> int"
  sy_next :: uuid
  sy_trace :: "ext_event list"

type_synonym ('w, 'a) H = "('w sys, 'a) M"

definition worldM :: "('w \<Rightarrow> 'a \<times> 'w) \<Rightarrow> ('w, 'a) H" where
  "worldM f = (\<lambda>s. let (x, w) = f (sy_world s) in (Inr x, s\<lparr>sy_world := w\<rparr>))"

definition dbM :: "(database \<Rightarrow> 'a) \<Rightarrow> ('w, 'a) H" where
  "dbM f = readM (\<lambda>s. f (sy_db s))"

definition updM :: "(database \<Rightarrow> database) \<Rightarrow> ('w, unit) H" where
  "updM f = modifyM (\<lambda>s. s\<lparr>sy_db := f (sy_db s)\<rparr>)"

definition logM :: "ext_event \<Rightarrow> ('w, unit) H" where
  "logM e = modifyM (\<lambda>s. s\<lparr>sy_trace := sy_trace s @ [e]\<rparr>)"

definition utc_now :: "'w env \<Rightarrow> ('w, time) H" where
  "utc_now E = worldM (e_utc_now E)"

text \<open>\<open>uuid4\<close>: keys are never reused.\<close>

definition fresh_id :: "('w, uuid) H" where
  "fresh_id = (\<lambda>s. (Inr (sy_next s), s\<lparr>sy_next := Suc (sy_next s)\<rparr>))"

definition commit :: "('w, unit) H" where
  "commit = modifyM (\<lambda>s. s\<lparr>sy_committed := sy_db s\<rparr>)"

definition rollback :: "('w, unit) H" where
  "rollback = modifyM (\<lambda>s. s\<lparr>sy_db := sy_committed s\<rparr>)"

text \<open>\<^verbatim>\<open>session.add(row); await session.flush()\<close>: the primary key and the creation time are
  defaults of the columns, the constraints of the table are checked, and the new key is returned.\<close>

definition insert_row :: "'w env \<Rightarrow> (('r list \<Rightarrow> 'r list) \<Rightarrow> database \<Rightarrow> database) \<Rightarrow>
    ('r \<Rightarrow> database \<Rightarrow> bool) \<Rightarrow> (uuid \<Rightarrow> time \<Rightarrow> 'r) \<Rightarrow> ('w, uuid) H" where
  "insert_row E set_rows ok mk =
     bindM fresh_id (\<lambda>i.
     bindM (utc_now E) (\<lambda>t.
     bindM (dbM (ok (mk i t))) (\<lambda>accepted.
     if accepted then thenM (updM (set_rows (\<lambda>rs. rs @ [mk i t]))) (returnM i)
     else raiseM (IntegrityError ''flush''))))"

subsection \<open>Weakest preconditions and frames of the primitives\<close>

lemma wp_worldM [wp_simps]:
  "wp (worldM f) Q X s =
     Q (fst (f (sy_world s))) (s\<lparr>sy_world := snd (f (sy_world s))\<rparr>)"
  by (simp add: wp_def worldM_def split: prod.splits)

lemma wp_dbM [wp_simps]: "wp (dbM f) Q X s = Q (f (sy_db s)) s"
  by (simp add: dbM_def)

lemma wp_updM [wp_simps]: "wp (updM f) Q X s = Q () (s\<lparr>sy_db := f (sy_db s)\<rparr>)"
  by (simp add: updM_def)

lemma wp_logM [wp_simps]: "wp (logM e) Q X s = Q () (s\<lparr>sy_trace := sy_trace s @ [e]\<rparr>)"
  by (simp add: logM_def)

lemma wp_utc_now [wp_simps]:
  "wp (utc_now E) Q X s =
     Q (fst (e_utc_now E (sy_world s))) (s\<lparr>sy_world := snd (e_utc_now E (sy_world s))\<rparr>)"
  by (simp add: utc_now_def wp_worldM)

lemma wp_fresh_id [wp_simps]: "wp fresh_id Q X s = Q (sy_next s) (s\<lparr>sy_next := Suc (sy_next s)\<rparr>)"
  by (simp add: wp_def fresh_id_def)

lemma wp_commit [wp_simps]: "wp commit Q X s = Q () (s\<lparr>sy_committed := sy_db s\<rparr>)"
  by (simp add: commit_def)

lemma wp_rollback [wp_simps]: "wp rollback Q X s = Q () (s\<lparr>sy_db := sy_committed s\<rparr>)"
  by (simp add: rollback_def)

text \<open>An observation of the state is \<open>db_only\<close>-insensitive to the world, to fresh keys and so on;
  the frame rules state which components each primitive leaves alone.\<close>

lemma keeps_worldM: "(\<And>s w. f (s\<lparr>sy_world := w\<rparr>) = f s) \<Longrightarrow> keeps f (worldM g)"
  by (simp add: keeps_def worldM_def split: prod.splits)

lemma keeps_dbM [frame]: "keeps f (dbM g)"
  by (simp add: dbM_def keeps_readM)

lemma keeps_updM: "(\<And>s d. f (s\<lparr>sy_db := d\<rparr>) = f s) \<Longrightarrow> keeps f (updM g)"
  by (simp add: updM_def keeps_modifyM)

lemma keeps_fresh_id: "(\<And>s n. f (s\<lparr>sy_next := n\<rparr>) = f s) \<Longrightarrow> keeps f fresh_id"
  by (simp add: keeps_def fresh_id_def)

lemma keeps_commit: "(\<And>s d. f (s\<lparr>sy_committed := d\<rparr>) = f s) \<Longrightarrow> keeps f commit"
  by (simp add: commit_def keeps_modifyM)

lemma keeps_rollback: "(\<And>s d. f (s\<lparr>sy_db := d\<rparr>) = f s) \<Longrightarrow> keeps f rollback"
  by (simp add: rollback_def keeps_modifyM)

lemma keeps_trace_prims [frame]:
  "keeps sy_trace (worldM g)" "keeps sy_trace (updM h)" "keeps sy_trace fresh_id"
  "keeps sy_trace commit" "keeps sy_trace rollback" "keeps sy_trace (utc_now E)"
  by (simp_all add: keeps_worldM keeps_updM keeps_fresh_id keeps_commit keeps_rollback utc_now_def)

lemma keeps_trace_insert_row [frame]: "keeps sy_trace (insert_row E set_rows ok mk)"
  unfolding insert_row_def by (intro frame)

lemma keeps_committed_prims [frame]:
  "keeps sy_committed (worldM g)" "keeps sy_committed (updM h)" "keeps sy_committed fresh_id"
  "keeps sy_committed rollback" "keeps sy_committed (utc_now E)" "keeps sy_committed (logM e)"
  by (simp_all add: keeps_worldM keeps_updM keeps_fresh_id keeps_rollback utc_now_def logM_def
      keeps_modifyM)

lemma keeps_committed_insert_row [frame]: "keeps sy_committed (insert_row E set_rows ok mk)"
  unfolding insert_row_def by (intro frame)

lemma keeps_active_prims [frame]:
  "keeps sy_active (worldM g)" "keeps sy_active (updM h)" "keeps sy_active fresh_id"
  "keeps sy_active commit" "keeps sy_active rollback" "keeps sy_active (utc_now E)"
  "keeps sy_active (logM e)"
  by (simp_all add: keeps_worldM keeps_updM keeps_fresh_id keeps_commit keeps_rollback utc_now_def
      logM_def keeps_modifyM)

lemma keeps_active_insert_row [frame]: "keeps sy_active (insert_row E set_rows ok mk)"
  unfolding insert_row_def by (intro frame)

lemma keeps_db_prims [frame]:
  "keeps (\<lambda>s. f (sy_db s)) (worldM g)" "keeps (\<lambda>s. f (sy_db s)) fresh_id"
  "keeps (\<lambda>s. f (sy_db s)) commit" "keeps (\<lambda>s. f (sy_db s)) (utc_now E)"
  "keeps (\<lambda>s. f (sy_db s)) (logM e)"
  by (simp_all add: keeps_worldM keeps_fresh_id keeps_commit utc_now_def logM_def keeps_modifyM)

lemma keeps_db_updM: "(\<And>d. f (g d) = f d) \<Longrightarrow> keeps (\<lambda>s. f (sy_db s)) (updM g)"
  by (simp add: updM_def keeps_modifyM)

lemma keeps_db_insert_row:
  "(\<And>g d. f (set_rows g d) = f d) \<Longrightarrow> keeps (\<lambda>s. f (sy_db s)) (insert_row E set_rows ok mk)"
  unfolding insert_row_def by (intro frame keeps_db_updM) simp_all

lemma wp_insert_row [wp_simps]:
  "wp (insert_row E set_rows ok mk) Q X s =
     (let i = sy_next s; (t, w) = e_utc_now E (sy_world s);
          s' = s\<lparr>sy_next := Suc i, sy_world := w\<rparr>
      in if ok (mk i t) (sy_db s)
         then Q i (s'\<lparr>sy_db := set_rows (\<lambda>rs. rs @ [mk i t]) (sy_db s)\<rparr>)
         else X (IntegrityError ''flush'') s')"
  by (simp add: insert_row_def wp_simps Let_def split: prod.splits)

lemma raises_prims [raise_rules]:
  "raises P (worldM f)" "raises P (dbM g)" "raises P (updM h)" "raises P (logM e)"
  "raises P (utc_now E)" "raises P fresh_id" "raises P commit" "raises P rollback"
  by (simp_all add: raises_def wp_simps)

section \<open>The policy client\<close>

text \<open>\<open>OPAClient.evaluate\<close>: one request, read by \<open>opa_decide\<close>; the decision is logged.\<close>

definition opa_url :: "settings \<Rightarrow> string" where
  "opa_url st = rev (dropWhile (\<lambda>c. c = CHR 0x2F) (rev (set_opa_url st))) @
     set_opa_decision_path st"

definition opa_evaluate :: "'w env \<Rightarrow> policy_input \<Rightarrow> ('w, policy_result) H" where
  "opa_evaluate E p =
     bindM (worldM (e_opa_post E (opa_url (e_settings E)) (JObj [(''input'', policy_input_json p)])))
       (\<lambda>reply.
     bindM (liftR (opa_decide reply)) (\<lambda>r.
     thenM (logM (EvOpa p r)) (returnM r)))"

lemma keeps_opa_evaluate [frame]:
  "keeps (\<lambda>s. f (sy_db s)) (opa_evaluate E p)" "keeps sy_committed (opa_evaluate E p)"
  "keeps sy_active (opa_evaluate E p)"
  unfolding opa_evaluate_def by (intro frame)+

end
