(* ===== verification/CW_Audit.thy ===== *)
theory CW_Audit
  imports CW_Env CW_Redaction
begin

text \<open>
  The audit trail (\<open>audit/service.py\<close>) and the stream outbox (\<open>events/service.py\<close>): the two places
  every handler reports to. Both redact what they store. The in-process wake-up of stream readers
  has no persistent effect and is not modelled.
\<close>

section \<open>Audit events\<close>

text \<open>The keyword arguments of \<open>record_audit\<close>; \<open>audit_args\<close> fills in the defaults.\<close>

record audit_call =
  aa_event_type :: string
  aa_correlation_id :: string
  aa_result :: string
  aa_actor :: string
  aa_actor_type :: actor_type
  aa_actor_id :: "uuid option"
  aa_incident_id :: "uuid option"
  aa_action :: "string option"
  aa_risk_score :: "int option"
  aa_policy_decision :: "string option"
  aa_metadata :: jdict

definition audit_args :: "string \<Rightarrow> string \<Rightarrow> string \<Rightarrow> audit_call" where
  "audit_args event_type correlation_id result =
     \<lparr>aa_event_type = event_type, aa_correlation_id = correlation_id, aa_result = result,
      aa_actor = ''cloudward'', aa_actor_type = ACTOR_SYSTEM, aa_actor_id = None,
      aa_incident_id = None, aa_action = None, aa_risk_score = None, aa_policy_decision = None,
      aa_metadata = []\<rparr>"

definition record_audit :: "'w env \<Rightarrow> audit_call \<Rightarrow> ('w, uuid) H" where
  "record_audit E a = insert_row E db_audit_events_update no_constraint
     (\<lambda>i t. \<lparr>aud_id = i, aud_created_at = t, aud_actor = aa_actor a, aud_actor_type = aa_actor_type a,
        aud_actor_id = aa_actor_id a, aud_incident_id = aa_incident_id a,
        aud_correlation_id = aa_correlation_id a, aud_event_type = aa_event_type a,
        aud_action = aa_action a, aud_risk_score = aa_risk_score a,
        aud_policy_decision = aa_policy_decision a, aud_result = aa_result a,
        aud_event_metadata = redact (JObj (aa_metadata a))\<rparr>)"

section \<open>Stream events\<close>

definition append_stream_event :: "'w env \<Rightarrow> string \<Rightarrow> uuid option \<Rightarrow> jdict \<Rightarrow> ('w, uuid) H" where
  "append_stream_event E event_type incident_id payload =
     insert_row E db_stream_events_update no_constraint
       (\<lambda>i t. \<lparr>ste_id = i, ste_created_at = t, ste_event_type = event_type,
          ste_incident_id = incident_id,
          ste_payload = redact (JObj (dict_merge
            [(''type'', JStr event_type), (''event_type'', JStr event_type),
             (''incident_id'', jopt (\<lambda>u. JStr (uuid_str u)) incident_id)] payload))\<rparr>)"

text \<open>Both only append to their own table.\<close>

lemma keeps_record_audit [frame]:
  "keeps sy_trace (record_audit E a)" "keeps sy_committed (record_audit E a)"
  "keeps sy_active (record_audit E a)"
  unfolding record_audit_def by (intro frame)+

lemma keeps_db_record_audit [frame]:
  "(\<And>g d. f (db_audit_events_update g d) = f d) \<Longrightarrow> keeps (\<lambda>s. f (sy_db s)) (record_audit E a)"
  unfolding record_audit_def by (rule keeps_db_insert_row)

lemma keeps_append_stream_event [frame]:
  "keeps sy_trace (append_stream_event E ty i p)"
  "keeps sy_committed (append_stream_event E ty i p)"
  "keeps sy_active (append_stream_event E ty i p)"
  unfolding append_stream_event_def by (intro frame)+

lemma keeps_db_append_stream_event [frame]:
  "(\<And>g d. f (db_stream_events_update g d) = f d) \<Longrightarrow>
     keeps (\<lambda>s. f (sy_db s)) (append_stream_event E ty i p)"
  unfolding append_stream_event_def by (rule keeps_db_insert_row)

lemma wp_record_audit [wp_simps]:
  "wp (record_audit E a) Q X s =
     (let i = sy_next s; (t, w) = e_utc_now E (sy_world s)
      in Q i (s\<lparr>sy_next := Suc i, sy_world := w,
         sy_db := db_audit_events_update (\<lambda>rs. rs @ [\<lparr>aud_id = i, aud_created_at = t,
            aud_actor = aa_actor a, aud_actor_type = aa_actor_type a,
            aud_actor_id = aa_actor_id a, aud_incident_id = aa_incident_id a,
            aud_correlation_id = aa_correlation_id a, aud_event_type = aa_event_type a,
            aud_action = aa_action a, aud_risk_score = aa_risk_score a,
            aud_policy_decision = aa_policy_decision a, aud_result = aa_result a,
            aud_event_metadata = redact (JObj (aa_metadata a))\<rparr>]) (sy_db s)\<rparr>))"
  by (simp add: record_audit_def wp_insert_row no_constraint_def Let_def split: prod.splits)

text \<open>Neither can raise.\<close>

lemma record_audit_returns: "wp (record_audit E a) (\<lambda>_ _. True) (\<lambda>_ _. False) s"
  by (simp add: wp_record_audit Let_def split: prod.splits)

lemma append_stream_event_returns:
  "wp (append_stream_event E ty i p) (\<lambda>_ _. True) (\<lambda>_ _. False) s"
  by (simp add: append_stream_event_def wp_insert_row no_constraint_def Let_def split: prod.splits)

end
