(* ===== verification/CW_Demo.thy ===== *)
theory CW_Demo
  imports CW_Env
begin

text \<open>
  A concrete world in which the witnesses of the properties run: a clock that advances by one
  microsecond per reading, a broker that accepts every task, a policy engine that allows, and a
  cluster with one deployment of two demo pods of which the listed ones are unready; deleting a pod
  makes it come back ready.
\<close>

record demo_world =
  dw_clock :: int
  dw_pods :: "k8s_pod list"

definition demo_pod :: "string \<Rightarrow> bool \<Rightarrow> k8s_pod" where
  "demo_pod name ready =
     \<lparr>kp_namespace = ''cloudward-staging'', kp_name = name,
      kp_labels = Some [(''cloudward.io/demo-target'', ''true'')],
      kp_owner_references = Some [\<lparr>ko_controller = Some True, ko_kind = ''ReplicaSet''\<rparr>],
      kp_phase = Some ''Running'',
      kp_conditions = Some [(''Ready'', if ready then ''True'' else ''False'')],
      kp_container_statuses = None\<rparr>"

definition demo_ready :: "k8s_pod \<Rightarrow> bool" where
  "demo_ready p = (kp_conditions p = Some [(''Ready'', ''True'')])"

definition demo_settings :: settings where
  "demo_settings =
     \<lparr>set_app_env = ''test'', set_opa_url = ''http://opa:8181'',
      set_opa_decision_path = ''/v1/data/cloudward/remediation/decision'',
      set_kubernetes_allowed_namespaces = ''cloudward-staging'',
      set_verification_timeout_seconds = 10, set_verification_poll_seconds = 1,
      set_max_remediation_attempts = 3, set_max_temporary_replicas = 5,
      set_automatic_rollback_max_risk = 30, set_approval_ttl_seconds = 1800,
      set_teams_workflow_webhook_url = None, set_teams_dashboard_url = None,
      set_notification_max_attempts = 5, set_notification_events = ''incident_resolved'',
      set_github_app_issue_repositories = [],
      set_security_dedup_window_seconds = 60, set_security_quarantine_verify_timeout_seconds = 30,
      set_security_quarantine_verify_poll_seconds = 1,
      set_finops_recommendation_ttl_seconds = 86400, set_finops_gitops_repository = ''biraj49/cloudward-gitops'',
      set_finops_gitops_values_path = ''cloudward-gitops/environments/staging/values.yaml'',
      set_ai_max_model_calls_per_incident = 3, set_ai_circuit_breaker_failure_threshold = 5,
      set_ai_circuit_breaker_window_seconds = 300\<rparr>"

definition demo_opa_reply :: json where
  "demo_opa_reply = JObj [(''result'', JObj [(''allowed'', JBool True),
     (''requires_approval'', JBool False), (''reason'', JStr ''allowed'')])]"

definition demo_env :: "demo_world env" where
  "demo_env =
     \<lparr>e_settings = demo_settings, e_custom_api = True,
      e_utc_now = (\<lambda>w. (dw_clock w, w\<lparr>dw_clock := dw_clock w + 1\<rparr>)),
      e_monotonic = (\<lambda>w. (of_int (dw_clock w) / 1000000, w)),
      e_sleep = (\<lambda>x w. ((), w\<lparr>dw_clock := dw_clock w + \<lceil>x * 1000000\<rceil>\<rparr>)),
      e_opa_post = (\<lambda>url body w. (Inr demo_opa_reply, w)),
      e_send_task = (\<lambda>name arg w. (True, w)),
      e_read_deployment = (\<lambda>name ns w. (Inr
        \<lparr>kd_spec_replicas = Some 2,
         kd_template_labels = Some [(''cloudward.io/demo-target'', ''true'')],
         kd_images = Some [''demo:1''],
         kd_ready_replicas = Some (int (length (filter demo_ready (dw_pods w)))),
         kd_available_replicas = None, kd_observed_generation = None\<rparr>, w)),
      e_list_pods = (\<lambda>ns sel w. (Inr (dw_pods w), w)),
      e_read_pod = (\<lambda>name ns w. (case find (\<lambda>p. kp_name p = name) (dw_pods w) of
        None \<Rightarrow> Inl (ApiException (Some 404)) | Some p \<Rightarrow> Inr p, w)),
      e_delete_pod = (\<lambda>name ns w. (Inr (),
        w\<lparr>dw_pods := map (\<lambda>p. if kp_name p = name then demo_pod name True else p) (dw_pods w)\<rparr>)),
      e_patch_scale = (\<lambda>name ns n w. (Inr (), w)),
      e_service_proxy = (\<lambda>name ns path w. (Inr (JObj [(''status'', JStr ''ok'')]), w)),
      e_list_events = (\<lambda>ns sel w. (Inr [], w)),
      e_pod_proxy = (\<lambda>name ns path w. (Inr (JObj [(''reachable'', JBool True)]), w)),
      e_patch_pod_label = (\<lambda>name ns k v w. (Inr (), w)),
      e_get_custom = (\<lambda>ns plural name w. (Inl (ApiException (Some 404)), w)),
      e_create_custom = (\<lambda>ns plural body w. (Inr body, w)),
      e_delete_custom = (\<lambda>ns plural name w. (Inr (), w))\<rparr>"

definition demo_sys :: "demo_world sys" where
  "demo_sys = \<lparr>sy_db = empty_database, sy_committed = empty_database,
     sy_world = \<lparr>dw_clock = 0, dw_pods = [demo_pod ''demo-a'' True, demo_pod ''demo-b'' False]\<rparr>,
     sy_active = (\<lambda>_. 0), sy_next = 1, sy_trace = []\<rparr>"

end
