(* ===== verification/CW_Memory.thy ===== *)
theory CW_Memory
  imports CW_Audit CW_Demo "HOL-Library.Product_Lexorder"
begin

text \<open>
  Incident memory (\<open>incident_memory\<close>): the stable fingerprint of an incident, the memory row written
  when an incident reaches a terminal state, and the deterministic ranking of similar incidents.
\<close>

section \<open>Fingerprints\<close>

definition DEFAULT_STABLE_LABELS :: "string list" where
  "DEFAULT_STABLE_LABELS = [''app'', ''app.kubernetes.io/name'', ''app.kubernetes.io/component'',
     ''cloudward.io/scenario'', ''team'']"

text \<open>The argument is a labels column, always a mapping; a value that is not text is dropped.\<close>

definition select_stable_labels :: "jdict \<Rightarrow> (string \<times> string) list" where
  "select_stable_labels d = List.map_filter
     (\<lambda>(k, v). case v of JStr s \<Rightarrow> if k \<in> set DEFAULT_STABLE_LABELS then Some (k, take 255 s) else None
        | _ \<Rightarrow> None) d"

text \<open>\<^verbatim>\<open>re.sub(r"\s+", "-", s)\<close>.\<close>

fun dash_spaces :: "bool \<Rightarrow> string \<Rightarrow> string" where
  "dash_spaces in_run [] = []"
| "dash_spaces in_run (c # cs) =
     (if is_space_char c then (if in_run then [] else ''-'') @ dash_spaces True cs
      else c # dash_spaces False cs)"

definition component_char :: "char \<Rightarrow> bool" where
  "component_char c \<longleftrightarrow> is_lower_char c \<or> is_digit_char c \<or> c \<in> set ''._/-''"

definition normalize_component :: "string option \<Rightarrow> string" where
  "normalize_component v =
     (case v of
        None \<Rightarrow> ''unknown''
      | Some s \<Rightarrow>
          if s = [] then ''unknown''
          else let n = take 255 (filter component_char
                         (dash_spaces False (py_lower (py_strip is_space_char s))))
               in if n = [] then ''unknown'' else n)"

record fingerprint_input =
  fi_service :: string
  fi_incident_type :: string
  fi_alert_name :: string
  fi_namespace :: "string option"
  fi_root_cause_category :: "string option"
  fi_labels :: "(string \<times> string) list"

definition str_bounds :: "nat \<Rightarrow> nat \<Rightarrow> string \<Rightarrow> bool" where
  "str_bounds lo hi s \<longleftrightarrow> lo \<le> length s \<and> length s \<le> hi"

definition opt_max :: "nat \<Rightarrow> string option \<Rightarrow> bool" where
  "opt_max hi v \<longleftrightarrow> (case v of None \<Rightarrow> True | Some s \<Rightarrow> length s \<le> hi)"

definition fingerprint_input_valid :: "fingerprint_input \<Rightarrow> bool" where
  "fingerprint_input_valid f \<longleftrightarrow>
     str_bounds 1 255 (fi_service f) \<and> str_bounds 1 128 (fi_incident_type f) \<and>
     str_bounds 1 255 (fi_alert_name f) \<and> opt_max 253 (fi_namespace f) \<and>
     opt_max 128 (fi_root_cause_category f) \<and> length (fi_labels f) \<le> 50 \<and>
     (\<forall>(k, v) \<in> set (fi_labels f). length k \<le> 255 \<and> length v \<le> 255)"

definition mk_fingerprint_input :: "fingerprint_input \<Rightarrow> exn + fingerprint_input" where
  "mk_fingerprint_input f = (if fingerprint_input_valid f then Inr f else Inl validation_error)"

definition canonical_labels :: "fingerprint_input \<Rightarrow> (string \<times> string) list" where
  "canonical_labels f = map (\<lambda>(k, v). (k, normalize_component (Some v)))
     (filter (\<lambda>(k, v). k \<in> set DEFAULT_STABLE_LABELS) (sort (fi_labels f)))"

definition fingerprint_canonical :: "fingerprint_input \<Rightarrow> json" where
  "fingerprint_canonical f = JObj
     [(''service'', JStr (normalize_component (Some (fi_service f)))),
      (''incident_type'', JStr (normalize_component (Some (fi_incident_type f)))),
      (''alert_name'', JStr (normalize_component (Some (fi_alert_name f)))),
      (''namespace'', JStr (normalize_component (fi_namespace f))),
      (''root_cause_category'', JStr (normalize_component (fi_root_cause_category f))),
      (''labels'', labels_json (canonical_labels f))]"

definition incident_fingerprint :: "fingerprint_input \<Rightarrow> string" where
  "incident_fingerprint f = sha256_hex (json_dumps (fingerprint_canonical f))"

section \<open>Writing a memory\<close>

record memory_write =
  mw_incident_id :: uuid
  mw_service :: string
  mw_environment :: string
  mw_incident_type :: string
  mw_alert_name :: string
  mw_namespace :: "string option"
  mw_root_cause_category :: "string option"
  mw_labels :: "(string \<times> string) list"
  mw_runbook_id :: "string option"
  mw_action :: "action_type option"
  mw_result :: string
  mw_verification_success :: "bool option"
  mw_duration_seconds :: "int option"
  mw_model :: "string option"
  mw_confidence :: "rat option"
  mw_resolved_at :: time
  mw_evidence_summary :: jdict
  mw_operator_summary :: "string option"

definition memory_write_valid :: "memory_write \<Rightarrow> bool" where
  "memory_write_valid w \<longleftrightarrow>
     str_bounds 1 255 (mw_service w) \<and> str_bounds 1 32 (mw_environment w) \<and>
     str_bounds 1 128 (mw_incident_type w) \<and> str_bounds 1 255 (mw_alert_name w) \<and>
     opt_max 253 (mw_namespace w) \<and> opt_max 128 (mw_root_cause_category w) \<and>
     opt_max 255 (mw_runbook_id w) \<and> str_bounds 1 64 (mw_result w) \<and>
     (case mw_duration_seconds w of None \<Rightarrow> True | Some n \<Rightarrow> 0 \<le> n) \<and> opt_max 128 (mw_model w) \<and>
     (case mw_confidence w of None \<Rightarrow> True | Some c \<Rightarrow> 0 \<le> c \<and> c \<le> 1) \<and>
     opt_max 2000 (mw_operator_summary w)"

definition mk_memory_write :: "memory_write \<Rightarrow> exn + memory_write" where
  "mk_memory_write w = (if memory_write_valid w then Inr w else Inl validation_error)"

definition memory_successful :: "memory_write \<Rightarrow> bool" where
  "memory_successful w \<longleftrightarrow> mw_verification_success w = Some True \<and>
     map (\<lambda>c. if is_lower_char c then char_of (of_char c - 32 :: nat) else c) (mw_result w) \<in>
       {''RESOLVED'', ''SUCCEEDED''}"

definition memory_row :: "uuid \<Rightarrow> time \<Rightarrow> fingerprint_input \<Rightarrow> memory_write \<Rightarrow> incident_memory" where
  "memory_row i t f w =
     \<lparr>mem_id = i, mem_created_at = t, mem_incident_id = mw_incident_id w,
      mem_fingerprint = incident_fingerprint f,
      mem_service_key = normalize_component (Some (fi_service f)),
      mem_environment = mw_environment w,
      mem_incident_type = normalize_component (Some (fi_incident_type f)),
      mem_alert_name = normalize_component (Some (fi_alert_name f)),
      mem_namespace = mw_namespace w, mem_root_cause_category = mw_root_cause_category w,
      mem_stable_labels = canonical_labels f, mem_runbook_id = mw_runbook_id w,
      mem_action = map_option action_value (mw_action w), mem_result = mw_result w,
      mem_verification_success = mw_verification_success w,
      mem_duration_seconds = mw_duration_seconds w, mem_model = mw_model w,
      mem_confidence = mw_confidence w, mem_successful = memory_successful w,
      mem_resolved_at = mw_resolved_at w,
      mem_evidence_summary = redact_untrusted 0 (JObj (mw_evidence_summary w)),
      mem_operator_summary = map_option redact_text (mw_operator_summary w)\<rparr>"

definition remember :: "'w env \<Rightarrow> memory_write \<Rightarrow> string \<Rightarrow> ('w, unit) H" where
  "remember E w correlation_id =
     bindM (liftR (mk_fingerprint_input
       \<lparr>fi_service = mw_service w, fi_incident_type = mw_incident_type w,
        fi_alert_name = mw_alert_name w, fi_namespace = mw_namespace w,
        fi_root_cause_category = mw_root_cause_category w, fi_labels = mw_labels w\<rparr>)) (\<lambda>f.
     bindM (dbM (\<lambda>d. find (\<lambda>m. mem_incident_id m = mw_incident_id w) (db_memories d))) (\<lambda>existing.
     thenM
       (case existing of
          Some m \<Rightarrow> updM (db_memories_update
            (upd_row mem_id (mem_id m) (\<lambda>r. memory_row (mem_id m) (mem_created_at m) f w)))
        | None \<Rightarrow> thenM (insert_row E db_memories_update incident_memory_ok
            (\<lambda>i t. memory_row i t f w)) (returnM ()))
     (thenM (record_audit E
       ((audit_args ''INCIDENT_MEMORY_STORED'' correlation_id ''SUCCEEDED'')
         \<lparr>aa_incident_id := Some (mw_incident_id w),
          aa_metadata := [(''fingerprint'', JStr (incident_fingerprint f)),
            (''successful'', JBool (memory_successful w)), (''result'', JStr (mw_result w))]\<rparr>))
     (returnM ()))))"

section \<open>Capturing a terminal incident\<close>

text \<open>The rows the select statements with \<^verbatim>\<open>order_by(created_at.desc()).limit(n)\<close> return.\<close>

definition newest_list :: "('r \<Rightarrow> time) \<Rightarrow> ('r \<Rightarrow> bool) \<Rightarrow> nat \<Rightarrow> 'r list \<Rightarrow> 'r list" where
  "newest_list created P n rows = take n (rev (sort_key created (filter P rows)))"

definition first_some :: "'a option \<Rightarrow> 'a option \<Rightarrow> 'a option" where
  "first_some a b = (case a of None \<Rightarrow> b | Some x \<Rightarrow> Some x)"

definition evidence_item_json :: "evidence_snapshot \<Rightarrow> json" where
  "evidence_item_json e = JObj [(''type'', JStr (evidence_type_value (evs_evidence_type e))),
     (''summary'', JStr (evs_summary e)), (''reference'', jstr_opt (evs_reference e)),
     (''phase'', JStr (evidence_phase_value (evs_phase e)))]"

definition capture_write :: "incident \<Rightarrow> time \<Rightarrow> database \<Rightarrow> memory_write" where
  "capture_write inc terminal_at d =
     (let i = inc_id inc;
          service = (case inc_service_id inc of None \<Rightarrow> None
                     | Some sid \<Rightarrow> find_row sv_id sid (db_services d));
          alert = newest alr_created_at (\<lambda>a. alr_incident_id a = Some i) (db_alert_records d);
          diagnosis = newest aid_created_at (\<lambda>a. aid_incident_id a = i) (db_ai_diagnoses d);
          execution = newest exe_created_at (\<lambda>x. exe_incident_id x = i) (db_action_executions d);
          proposal = newest prp_created_at (\<lambda>p. prp_incident_id p = i) (db_action_proposals d);
          verification = newest ver_created_at (\<lambda>v. ver_incident_id v = i) (db_verification_records d);
          evidence = newest_list evs_created_at (\<lambda>e. evs_incident_id e = i) 12
                       (db_evidence_snapshots d);
          action = first_some (map_option exe_action_type execution)
                     (map_option prp_action_type proposal);
          result = incident_state_value (inc_state inc)
      in \<lparr>mw_incident_id = i,
          mw_service = (case service of Some s \<Rightarrow> sv_name s | None \<Rightarrow>
             (case alert of Some a \<Rightarrow> alr_service a | None \<Rightarrow> ''unassigned'')),
          mw_environment = environment_value (inc_environment inc),
          mw_incident_type = inc_incident_type inc,
          mw_alert_name = (case alert of Some a \<Rightarrow> alr_alert_name a | None \<Rightarrow> inc_title inc),
          mw_namespace = (case service of Some s \<Rightarrow> Some (sv_namespace s) | None \<Rightarrow>
             (case alert of Some a \<Rightarrow> alr_namespace a | None \<Rightarrow> None)),
          mw_root_cause_category = (case diagnosis of Some x \<Rightarrow> aid_root_cause_category x
             | None \<Rightarrow> Some (inc_incident_type inc)),
          mw_labels = select_stable_labels (case service of Some s \<Rightarrow> sv_labels s | None \<Rightarrow>
             (case alert of Some a \<Rightarrow> alr_labels a | None \<Rightarrow> [])),
          mw_runbook_id = inc_runbook_id inc, mw_action = action, mw_result = result,
          mw_verification_success = map_option ver_success verification,
          mw_duration_seconds = Some (max 0 ((terminal_at - inc_created_at inc) div 1000000)),
          mw_model = Option.bind diagnosis aid_model,
          mw_confidence = Option.bind diagnosis aid_confidence,
          mw_resolved_at = terminal_at,
          mw_evidence_summary =
            [(''items'', JList (map evidence_item_json evidence)),
             (''verification'', jopt (\<lambda>v. JObj [(''success'', JBool (ver_success v)),
                (''checks'', JList (take 10 (ver_checks v)))]) verification),
             (''execution_status'',
                jopt (\<lambda>x. JStr (record_status_value (exe_status x))) execution)],
          mw_operator_summary = Some (inc_title inc @ ''; terminal state '' @ result @ ''; action '' @
             (case action of Some a \<Rightarrow> action_value a | None \<Rightarrow> ''none'') @ ''; verification '' @
             (case verification of Some v \<Rightarrow> py_str (JBool (ver_success v))
              | None \<Rightarrow> ''not recorded''))\<rparr>)"

definition capture_terminal_incident :: "'w env \<Rightarrow> incident \<Rightarrow> ('w, unit) H" where
  "capture_terminal_incident E inc =
     bindM (dbM (\<lambda>d. find (\<lambda>m. mem_incident_id m = inc_id inc) (db_memories d))) (\<lambda>existing.
     bindM (case first_some (inc_resolved_at inc) (map_option mem_resolved_at existing) of
              Some t \<Rightarrow> returnM t | None \<Rightarrow> utc_now E) (\<lambda>terminal_at.
     bindM (dbM (capture_write inc terminal_at)) (\<lambda>w.
     bindM (liftR (mk_memory_write w)) (\<lambda>w'. remember E w' (inc_correlation_id inc)))))"

section \<open>Similar incidents\<close>

record ranked_memory =
  rm_record :: incident_memory
  rm_score :: int
  rm_reasons :: "string list"

definition points :: "bool \<Rightarrow> int \<Rightarrow> string \<Rightarrow> int \<times> string list" where
  "points c n reason = (if c then (n, [reason]) else (0, []))"

definition rank :: "incident_memory \<Rightarrow> fingerprint_input \<Rightarrow> ranked_memory" where
  "rank m q =
     (if mem_service_key m \<noteq> normalize_component (Some (fi_service q))
      then \<lparr>rm_record = m, rm_score = 0, rm_reasons = []\<rparr>
      else
        let parts =
          [points (mem_fingerprint m = incident_fingerprint q) 65 ''same fingerprint'',
           points (mem_service_key m = normalize_component (Some (fi_service q))) 30
             ''same service'',
           points (mem_incident_type m = normalize_component (Some (fi_incident_type q))) 20
             ''same incident type'',
           points (mem_alert_name m = normalize_component (Some (fi_alert_name q))) 12 ''same alert'',
           points (mem_namespace m \<notin> {None, Some []} \<and> mem_namespace m = fi_namespace q) 6
             ''same namespace'',
           points (mem_root_cause_category m \<notin> {None, Some []} \<and>
               mem_root_cause_category m = fi_root_cause_category q) 15 ''same root cause'',
           points (mem_successful m) 4 ''verified successful outcome'']
        in \<lparr>rm_record = m, rm_score = min (sum_list (map fst parts)) 100,
            rm_reasons = concat (map snd parts)\<rparr>)"

text \<open>Python's sort with \<^verbatim>\<open>reverse=True\<close> keeps the order of equal elements, so sorting by the
  negated key is the same.\<close>

definition rank_key :: "ranked_memory \<Rightarrow> int \<times> int \<times> int" where
  "rank_key r = (- rm_score r, (if mem_successful (rm_record r) then 0 else 1),
     - mem_resolved_at (rm_record r))"

definition select_similar :: "fingerprint_input \<Rightarrow> uuid option \<Rightarrow> int \<Rightarrow> incident_memory list \<Rightarrow>
    ranked_memory list" where
  "select_similar q exclude limit rows =
     (let bounded = nat (min (max limit 1) 20);
          records = newest_list mem_resolved_at (\<lambda>m. Some (mem_incident_id m) \<noteq> exclude) 500 rows;
          ranked = filter (\<lambda>r. 40 \<le> rm_score r) (map (\<lambda>m. rank m q) records)
      in take bounded (sort_key rank_key ranked))"

definition find_similar :: "'w env \<Rightarrow> fingerprint_input \<Rightarrow> uuid option \<Rightarrow> int \<Rightarrow> string option \<Rightarrow>
    ('w, ranked_memory list) H" where
  "find_similar E q exclude limit correlation_id =
     bindM (dbM (\<lambda>d. select_similar q exclude limit (db_memories d))) (\<lambda>selected.
     thenM (case correlation_id of None \<Rightarrow> returnM () | Some c \<Rightarrow>
       thenM (record_audit E ((audit_args ''INCIDENT_MEMORY_MATCHED'' c ''SUCCEEDED'')
         \<lparr>aa_incident_id := exclude,
          aa_metadata := [(''matches'', JInt (int (length selected))),
            (''fingerprints'', JList (map (\<lambda>r. JStr (mem_fingerprint (rm_record r))) selected))]\<rparr>))
       (returnM ()))
     (returnM selected))"

section \<open>Properties\<close>

subsection \<open>Normalisation\<close>

lemma dash_spaces_no_space: "\<forall>c \<in> set s. \<not> is_space_char c \<Longrightarrow> dash_spaces b s = s"
  by (induction s arbitrary: b) auto

lemma component_char_facts:
  assumes "component_char c"
  shows "\<not> is_space_char c" and "lower_char c = c"
proof -
  have "(of_char c :: nat) \<in> {45, 46, 47, 95} \<or> (48 \<le> (of_char c :: nat) \<and> (of_char c :: nat) \<le> 57) \<or>
      (97 \<le> (of_char c :: nat) \<and> (of_char c :: nat) \<le> 122)"
    using assms by (auto simp: component_char_def is_lower_char_def is_digit_char_def)
  then show "\<not> is_space_char c" and "lower_char c = c"
    by (auto simp: is_space_char_def lower_char_def Let_def)
qed

lemma py_strip_no_space: "\<forall>c \<in> set s. \<not> P c \<Longrightarrow> py_strip P s = s"
proof -
  assume a: "\<forall>c \<in> set s. \<not> P c"
  then have "dropWhile P s = s" by (cases s) auto
  moreover from a have "dropWhile P (rev s) = rev s" by (cases s rule: rev_cases) auto
  ultimately show ?thesis by (simp add: py_strip_def)
qed

lemma normalize_component_fixed:
  assumes "s \<noteq> []" and "length s \<le> 255" and "\<forall>c \<in> set s. component_char c"
  shows "normalize_component (Some s) = s"
proof -
  have "py_strip is_space_char s = s"
    using assms(3) component_char_facts(1) by (intro py_strip_no_space) blast
  moreover have "py_lower s = s"
    using assms(3) component_char_facts(2) by (simp add: py_lower_def map_idI)
  moreover have "dash_spaces False s = s"
    using assms(3) component_char_facts(1) by (intro dash_spaces_no_space) blast
  moreover have "filter component_char s = s" using assms(3) by (simp add: filter_id_conv)
  ultimately show ?thesis using assms(1,2) by (simp add: normalize_component_def)
qed

lemma normalize_component_shape:
  "normalize_component v \<noteq> [] \<and> length (normalize_component v) \<le> 255 \<and>
   (\<forall>c \<in> set (normalize_component v). component_char c)"
proof -
  have u: "\<forall>c \<in> set ''unknown''. component_char c"
    by (simp add: component_char_def is_lower_char_def)
  have "set (take 255 (filter component_char s)) \<subseteq> {c. component_char c}" for s
    by (auto dest: in_set_takeD)
  then show ?thesis using u
    by (cases v) (auto simp: normalize_component_def Let_def)
qed

text \<open>Fingerprint components are canonical: whatever the input, the normalised component is
  non-empty, at most 255 characters long and made of lower-case letters, digits and the four
  separators only, and normalising it again changes nothing. A stored service key therefore matches
  itself when it is used as a query.\<close>

theorem normalize_component_canonical:
  "normalize_component v \<noteq> [] \<and> length (normalize_component v) \<le> 255 \<and>
   filter component_char (normalize_component v) = normalize_component v \<and>
   normalize_component (Some (normalize_component v)) = normalize_component v"
  using normalize_component_shape [of v] normalize_component_fixed [of "normalize_component v"]
  by (simp add: filter_id_conv)

subsection \<open>Ranking\<close>

lemma rank_record [simp]: "rm_record (rank m q) = m"
  by (simp add: rank_def Let_def)

lemma rank_score_bounds: "0 \<le> rm_score (rank m q) \<and> rm_score (rank m q) \<le> 100"
  by (simp add: rank_def points_def Let_def)

lemma rank_score_service:
  "0 < rm_score (rank m q) \<Longrightarrow> mem_service_key m = normalize_component (Some (fi_service q))"
  by (auto simp: rank_def split: if_splits)

lemma newest_list_mem: "r \<in> set (newest_list c P n rows) \<Longrightarrow> r \<in> set rows \<and> P r"
  unfolding newest_list_def by (auto dest: in_set_takeD)

lemma sorted_take_best:
  assumes "x \<in> set (take n (sort_key k xs))" and "y \<in> set (drop n (sort_key k xs))"
  shows "k x \<le> k y"
proof -
  have "sorted (map k (take n (sort_key k xs)) @ map k (drop n (sort_key k xs)))"
    by (metis append_take_drop_id map_append sorted_sort_key)
  then show ?thesis using assms by (simp add: sorted_append)
qed


definition example_query :: fingerprint_input where
  "example_query = \<lparr>fi_service = ''API'', fi_incident_type = ''reliability'',
     fi_alert_name = ''Pod Down'', fi_namespace = None, fi_root_cause_category = None,
     fi_labels = []\<rparr>"

definition example_write :: memory_write where
  "example_write =
     \<lparr>mw_incident_id = 3, mw_service = ''API'', mw_environment = ''staging'',
      mw_incident_type = ''reliability'', mw_alert_name = ''Pod Down'', mw_namespace = None,
      mw_root_cause_category = None, mw_labels = [], mw_runbook_id = None, mw_action = None,
      mw_result = ''RESOLVED'', mw_verification_success = Some True, mw_duration_seconds = Some 60,
      mw_model = None, mw_confidence = None, mw_resolved_at = 0, mw_evidence_summary = [],
      mw_operator_summary = None\<rparr>"

definition example_memory :: incident_memory where
  "example_memory = memory_row 7 0 example_query example_write"

lemma example_score: "40 \<le> rm_score (rank example_memory example_query)"
proof -
  have "mem_service_key example_memory = normalize_component (Some (fi_service example_query))"
    and "mem_incident_type example_memory = normalize_component (Some (fi_incident_type example_query))"
    by (simp_all add: example_memory_def memory_row_def)
  then show ?thesis by (simp add: rank_def points_def)
qed

lemma example_similar:
  "select_similar example_query None 5 [example_memory] = [rank example_memory example_query]"
  by (simp add: select_similar_def newest_list_def example_score)


subsection \<open>One memory per incident\<close>

lemma keeps_remember [frame]:
  "keeps sy_trace (remember E w c)" "keeps sy_committed (remember E w c)"
  "keeps sy_active (remember E w c)"
  unfolding remember_def by (intro frame)+

lemma keeps_capture [frame]:
  "keeps sy_trace (capture_terminal_incident E i)"
  "keeps sy_committed (capture_terminal_incident E i)"
  "keeps sy_active (capture_terminal_incident E i)"
  unfolding capture_terminal_incident_def by (intro frame)+

lemma keeps_db_remember [frame]:
  assumes "\<And>g d. f (db_audit_events_update g d) = f d" "\<And>g d. f (db_memories_update g d) = f d"
  shows "keeps (\<lambda>s. f (sy_db s)) (remember E w c)"
  unfolding remember_def by (intro frame keeps_db_updM keeps_db_insert_row) (simp_all add: assms)

lemma keeps_db_capture [frame]:
  assumes "\<And>g d. f (db_audit_events_update g d) = f d" "\<And>g d. f (db_memories_update g d) = f d"
  shows "keeps (\<lambda>s. f (sy_db s)) (capture_terminal_incident E i)"
  unfolding capture_terminal_incident_def by (intro frame) (simp_all add: assms)

text \<open>The memory table: at most one row per incident, keys below the key supply.\<close>

definition memory_inv :: "'w sys \<Rightarrow> bool" where
  "memory_inv s \<longleftrightarrow> distinct (map mem_incident_id (db_memories (sy_db s))) \<and>
     distinct (map mem_id (db_memories (sy_db s))) \<and>
     (\<forall>m \<in> set (db_memories (sy_db s)). mem_id m < sy_next s)"

lemma memory_row_simps [simp]:
  "mem_id (memory_row i t f w) = i" "mem_created_at (memory_row i t f w) = t"
  "mem_incident_id (memory_row i t f w) = mw_incident_id w"
  "mem_result (memory_row i t f w) = mw_result w"
  "mem_successful (memory_row i t f w) = memory_successful w"
  "mem_fingerprint (memory_row i t f w) = incident_fingerprint f"
  by (simp_all add: memory_row_def)

lemma memory_row_ok:
  assumes "memory_write_valid w" and "find (\<lambda>m. mem_incident_id m = mw_incident_id w) (db_memories d) = None"
  shows "incident_memory_ok (memory_row i t f w) d"
  using assms
  by (auto simp: incident_memory_ok_def memory_write_valid_def memory_row_def find_None_iff
      split: option.splits)

lemma upd_row_incident_keys:
  assumes "distinct (map mem_id rows)" and "m \<in> set rows" and "mem_incident_id m = mw_incident_id w"
  shows "map mem_incident_id (upd_row mem_id (mem_id m) (\<lambda>r. memory_row (mem_id m) t f w) rows) =
      map mem_incident_id rows"
    and "map mem_id (upd_row mem_id (mem_id m) (\<lambda>r. memory_row (mem_id m) t f w) rows) = map mem_id rows"
proof -
  have "r = m" if "r \<in> set rows" "mem_id r = mem_id m" for r
    using assms(1,2) that by (simp add: distinct_map inj_on_def)
  then show "map mem_incident_id (upd_row mem_id (mem_id m) (\<lambda>r. memory_row (mem_id m) t f w) rows) =
      map mem_incident_id rows"
    and "map mem_id (upd_row mem_id (mem_id m) (\<lambda>r. memory_row (mem_id m) t f w) rows) = map mem_id rows"
    using assms(3) by (fastforce simp: upd_row_def)+
qed

lemma find_distinct:
  "distinct (map k xs) \<Longrightarrow> x \<in> set xs \<Longrightarrow> find (\<lambda>y. k y = k x) xs = Some x"
  by (induction xs) auto

lemma find_append_new: "find P xs = None \<Longrightarrow> P x \<Longrightarrow> find P (xs @ [x]) = Some x"
  by (induction xs) auto

lemma find_SomeD: "find P xs = Some x \<Longrightarrow> P x \<and> x \<in> set xs"
  by (auto simp: find_Some_iff)

text \<open>Memory is an upsert by incident: from a table with at most one row per incident, writing a
  valid memory for an incident whose fingerprint input is valid always succeeds, leaves at most one
  row per incident, and the row of that incident now carries the written result; it is marked
  successful exactly when verification succeeded and the result is a resolution.\<close>

theorem remember_upserts:
  assumes inv: "memory_inv s" and w: "memory_write_valid w" and
    f: "fingerprint_input_valid \<lparr>fi_service = mw_service w, fi_incident_type = mw_incident_type w,
      fi_alert_name = mw_alert_name w, fi_namespace = mw_namespace w,
      fi_root_cause_category = mw_root_cause_category w, fi_labels = mw_labels w\<rparr>"
  shows "wp (remember E w c)
    (\<lambda>_ t. memory_inv t \<and>
      (\<exists>m. find (\<lambda>m. mem_incident_id m = mw_incident_id w) (db_memories (sy_db t)) = Some m \<and>
         mem_result m = mw_result w \<and> (mem_successful m \<longleftrightarrow> memory_successful w)))
    (\<lambda>_ _. False) s"
proof (cases "find (\<lambda>m. mem_incident_id m = mw_incident_id w) (db_memories (sy_db s))")
  case None
  then have new: "mw_incident_id w \<notin> mem_incident_id ` set (db_memories (sy_db s))"
    by (auto simp: find_None_iff)
  from inv have "sy_next s \<notin> mem_id ` set (db_memories (sy_db s))"
    by (auto simp: memory_inv_def)
  with new inv have "distinct (map mem_incident_id (db_memories (sy_db s) @ [memory_row (sy_next s) t f w]))"
    "distinct (map mem_id (db_memories (sy_db s) @ [memory_row (sy_next s) t f w]))" for t f
    by (simp_all add: memory_inv_def)
  then show ?thesis using None inv f memory_row_ok [OF w None] find_append_new [OF None]
    by (simp add: remember_def mk_fingerprint_input_def wp_simps Let_def memory_inv_def
        case_prod_unfold less_Suc_eq)
next
  case (Some m)
  note m = find_SomeD [OF this]
  let ?row = "\<lambda>f. memory_row (mem_id m) (mem_created_at m) f w"
  let ?rows = "\<lambda>f. upd_row mem_id (mem_id m) (\<lambda>r. ?row f) (db_memories (sy_db s))"
  have "?row f \<in> set (?rows f)" for f
    using m by (auto simp: upd_row_def image_iff)
  moreover have "distinct (map mem_incident_id (?rows f))" for f
    using inv m by (simp add: memory_inv_def upd_row_incident_keys)
  ultimately have "find (\<lambda>x. mem_incident_id x = mw_incident_id w) (?rows f) = Some (?row f)" for f
    using find_distinct [of mem_incident_id "?rows f" "?row f"] by simp
  moreover have "x \<in> set (?rows f) \<Longrightarrow> mem_id x < sy_next s" for x f
    using inv m by (auto simp: memory_inv_def upd_row_def split: if_splits)
  moreover have "map mem_incident_id (?rows f) = map mem_incident_id (db_memories (sy_db s))"
    "map mem_id (?rows f) = map mem_id (db_memories (sy_db s))" for f
    using inv m by (simp_all add: memory_inv_def upd_row_incident_keys)
  ultimately show ?thesis using Some inv f
    by (simp add: remember_def mk_fingerprint_input_def wp_simps Let_def memory_inv_def
        case_prod_unfold less_Suc_eq)
qed

theorem remember_upserts_witness:
  "wp (remember demo_env example_write ''c'')
    (\<lambda>_ t. memory_inv t \<and>
      (\<exists>m. find (\<lambda>m. mem_incident_id m = mw_incident_id example_write) (db_memories (sy_db t)) = Some m \<and>
         mem_result m = mw_result example_write \<and>
         (mem_successful m \<longleftrightarrow> memory_successful example_write)))
    (\<lambda>_ _. False) demo_sys"
  by (rule remember_upserts)
    (simp_all add: memory_inv_def demo_sys_def empty_database_def memory_write_valid_def
      example_write_def str_bounds_def opt_max_def fingerprint_input_valid_def)

end
