(* ===== verification/CW_Notify.thy ===== *)
theory CW_Notify
  imports CW_Audit CW_Memory
begin

text \<open>
  The notification outbox (\<open>notifications/service.py\<close>, the message model of
  \<open>notifications/notifiers.py\<close>): building and validating a message about an incident, and queueing
  it once per channel with a durable record before the broker is asked to deliver it. Delivery
  through the channel adapters is not modelled.
\<close>

section \<open>Messages\<close>

record notification_message =
  nm_event_type :: string
  nm_title :: string
  nm_incident_id :: "uuid option"
  nm_correlation_id :: string
  nm_severity :: string
  nm_service :: string
  nm_environment :: string
  nm_cause :: string
  nm_risk_score :: "int option"
  nm_policy :: string
  nm_current_state :: string
  nm_dashboard_url :: "string option"
  nm_details :: json

definition notification_message_valid :: "notification_message \<Rightarrow> bool" where
  "notification_message_valid m \<longleftrightarrow>
     str_bounds 1 128 (nm_event_type m) \<and> str_bounds 1 200 (nm_title m) \<and>
     str_bounds 1 128 (nm_correlation_id m) \<and> length (nm_severity m) \<le> 16 \<and>
     length (nm_service m) \<le> 255 \<and> length (nm_environment m) \<le> 32 \<and>
     length (nm_cause m) \<le> 1000 \<and>
     (case nm_risk_score m of None \<Rightarrow> True | Some r \<Rightarrow> 0 \<le> r \<and> r \<le> 100) \<and>
     length (nm_policy m) \<le> 1000 \<and> length (nm_current_state m) \<le> 64 \<and>
     opt_max 2048 (nm_dashboard_url m)"

definition mk_notification_message :: "notification_message \<Rightarrow> exn + notification_message" where
  "mk_notification_message m =
     (if notification_message_valid m then Inr m else Inl validation_error)"

definition notification_message_json :: "notification_message \<Rightarrow> json" where
  "notification_message_json m = JObj
     [(''event_type'', JStr (nm_event_type m)), (''title'', JStr (nm_title m)),
      (''incident_id'', jopt (\<lambda>u. JStr (uuid_str u)) (nm_incident_id m)),
      (''correlation_id'', JStr (nm_correlation_id m)), (''severity'', JStr (nm_severity m)),
      (''service'', JStr (nm_service m)), (''environment'', JStr (nm_environment m)),
      (''cause'', JStr (nm_cause m)), (''risk_score'', jopt JInt (nm_risk_score m)),
      (''policy'', JStr (nm_policy m)), (''current_state'', JStr (nm_current_state m)),
      (''dashboard_url'', jstr_opt (nm_dashboard_url m)), (''details'', nm_details m)]"

section \<open>Queueing\<close>

definition NOTIFICATION_TASK :: string where
  "NOTIFICATION_TASK = ''cloudward.tasks.notifications.deliver''"

definition destination_reference :: "string \<Rightarrow> settings \<Rightarrow> string" where
  "destination_reference channel st =
     (case set_teams_workflow_webhook_url st of
        Some url \<Rightarrow>
          (if channel = ''teams'' then ''configured:'' @ take 12 (sha256_hex url)
           else if channel = ''github_issue'' then ''configured'' else ''authenticated-sse'')
      | None \<Rightarrow> (if channel = ''github_issue'' then ''configured'' else ''authenticated-sse''))"

definition dedupe_key :: "string \<Rightarrow> notification_message \<Rightarrow> string \<Rightarrow> string" where
  "dedupe_key event_type m channel = sha256_hex (event_type @ '':'' @
     (case nm_incident_id m of None \<Rightarrow> ''None'' | Some u \<Rightarrow> uuid_str u) @ '':'' @
     nm_current_state m @ '':'' @ channel)"

definition queue_channel :: "'w env \<Rightarrow> string \<Rightarrow> notification_message \<Rightarrow> bool \<Rightarrow> string \<Rightarrow>
    ('w, uuid) H" where
  "queue_channel E event_type m publisher channel =
     bindM (dbM (\<lambda>d. find (\<lambda>n. ntf_channel n = channel \<and> ntf_dedupe_key n = dedupe_key event_type m channel)
       (db_notifications d))) (\<lambda>existing.
     case existing of
       Some n \<Rightarrow> returnM (ntf_id n)
     | None \<Rightarrow>
         bindM (insert_row E db_notifications_update notification_ok
           (\<lambda>i t. \<lparr>ntf_id = i, ntf_created_at = t, ntf_incident_id = nm_incident_id m,
              ntf_channel = channel, ntf_status = RS_PENDING,
              ntf_destination_reference = Some (destination_reference channel (e_settings E)),
              ntf_event_type = event_type, ntf_dedupe_key = dedupe_key event_type m channel,
              ntf_attempts = 0, ntf_max_attempts = set_notification_max_attempts (e_settings E),
              ntf_last_error = None, ntf_delivered_at = None, ntf_next_attempt_at = None,
              ntf_payload = redact (notification_message_json m)\<rparr>)) (\<lambda>i.
         thenM (record_audit E ((audit_args ''NOTIFICATION_QUEUED'' (nm_correlation_id m) ''PENDING'')
           \<lparr>aa_incident_id := nm_incident_id m, aa_action := Some channel,
            aa_metadata := [(''notification_id'', JStr (uuid_str i)),
              (''notification_event'', JStr event_type),
              (''dedupe_key'', JStr (dedupe_key event_type m channel))]\<rparr>))
         (thenM (whenM publisher
           (bindM (worldM (e_send_task E NOTIFICATION_TASK (uuid_str i))) (\<lambda>sent.
            if sent then logM (EvTask NOTIFICATION_TASK (uuid_str i))
            else thenM (record_audit E
              ((audit_args ''NOTIFICATION_DISPATCH_DEFERRED'' (nm_correlation_id m) ''FAILED'')
                \<lparr>aa_incident_id := nm_incident_id m, aa_action := Some channel,
                 aa_metadata := [(''notification_id'', JStr (uuid_str i))]\<rparr>)) (returnM ()))))
         (returnM i))))"

definition queue_notification :: "'w env \<Rightarrow> string \<Rightarrow> notification_message \<Rightarrow> string list \<Rightarrow> bool \<Rightarrow>
    ('w, uuid list) H" where
  "queue_notification E event_type m channels publisher =
     mapM (queue_channel E event_type m publisher) channels"

definition incident_message :: "settings \<Rightarrow> string \<Rightarrow> incident \<Rightarrow> jdict \<Rightarrow> notification_message" where
  "incident_message st event_type inc detail =
     \<lparr>nm_event_type = event_type, nm_title = inc_title inc, nm_incident_id = Some (inc_id inc),
      nm_correlation_id = inc_correlation_id inc, nm_severity = inc_severity inc,
      nm_service = py_str (py_or (jget detail ''service'') (JStr (inc_title inc))),
      nm_environment = environment_value (inc_environment inc),
      nm_cause = py_str (py_or (jget detail ''cause'')
         (py_or (jstr_opt (inc_summary inc)) (JStr ''Not yet established''))),
      nm_risk_score = inc_risk_score inc,
      nm_policy = py_str (py_or (jget detail ''policy_reason'')
         (py_or (jget detail ''reason'') (JStr ''See policy audit''))),
      nm_current_state = incident_state_value (inc_state inc),
      nm_dashboard_url = map_option (\<lambda>url. rev (dropWhile (\<lambda>c. c = CHR 0x2F) (rev url)) @
         ''/incidents/'' @ uuid_str (inc_id inc)) (set_teams_dashboard_url st),
      nm_details = redact (JObj detail)\<rparr>"

definition incident_channels :: "settings \<Rightarrow> string \<Rightarrow> string list" where
  "incident_channels st event_type =
     [''dashboard''] @ (if set_teams_workflow_webhook_url st \<noteq> None then [''teams''] else []) @
     (if event_type \<in> {''incident_escalated'', ''remediation_failed''} \<and>
         set_github_app_issue_repositories st \<noteq> [] then [''github_issue''] else [])"

definition queue_incident_notification :: "'w env \<Rightarrow> string \<Rightarrow> incident \<Rightarrow> jdict \<Rightarrow> bool \<Rightarrow>
    ('w, uuid list) H" where
  "queue_incident_notification E event_type inc detail publisher =
     (if event_type \<notin> enabled_notification_events (e_settings E) then returnM []
      else bindM (liftR (mk_notification_message
             (incident_message (e_settings E) event_type inc detail))) (\<lambda>m.
           queue_notification E event_type m (incident_channels (e_settings E) event_type) publisher))"

section \<open>Frames\<close>

lemma keeps_queue_channel [frame]:
  "keeps sy_committed (queue_channel E ty m pub ch)" "keeps sy_active (queue_channel E ty m pub ch)"
  unfolding queue_channel_def by (intro frame)+

lemma keeps_queue_incident_notification [frame]:
  "keeps sy_committed (queue_incident_notification E ty inc d pub)"
  "keeps sy_active (queue_incident_notification E ty inc d pub)"
  unfolding queue_incident_notification_def queue_notification_def by (intro frame)+

lemma keeps_db_queue_channel [frame]:
  assumes "\<And>g d. f (db_audit_events_update g d) = f d" "\<And>g d. f (db_notifications_update g d) = f d"
  shows "keeps (\<lambda>s. f (sy_db s)) (queue_channel E ty m pub ch)"
  unfolding queue_channel_def by (intro frame keeps_db_insert_row) (simp_all add: assms)

lemma keeps_db_queue_incident_notification [frame]:
  assumes "\<And>g d. f (db_audit_events_update g d) = f d" "\<And>g d. f (db_notifications_update g d) = f d"
  shows "keeps (\<lambda>s. f (sy_db s)) (queue_incident_notification E ty inc d pub)"
  unfolding queue_incident_notification_def queue_notification_def
  by (intro frame) (simp_all add: assms)

text \<open>The requests sent to the cluster and to the policy engine, in order: what is left of the log of
  external effects when the broker's tasks are taken out.\<close>

definition is_task :: "ext_event \<Rightarrow> bool" where
  "is_task e = (case e of EvTask _ _ \<Rightarrow> True | _ \<Rightarrow> False)"

definition effects :: "'w sys \<Rightarrow> ext_event list" where
  "effects s = filter (\<lambda>e. \<not> is_task e) (sy_trace s)"

lemma keeps_effects: "keeps sy_trace m \<Longrightarrow> keeps effects m"
  by (simp add: keeps_def effects_def)

lemma keeps_effects_task [frame]: "keeps effects (logM (EvTask a b))"
  by (simp add: logM_def keeps_modifyM effects_def is_task_def)

lemma keeps_effects_prims [frame]:
  "keeps effects (worldM g)" "keeps effects (updM h)" "keeps effects fresh_id"
  "keeps effects commit" "keeps effects rollback" "keeps effects (utc_now E)"
  "keeps effects (insert_row E set_rows ok mk)" "keeps effects (record_audit E a)"
  "keeps effects (append_stream_event E ty i p)" "keeps effects (capture_terminal_incident E inc)"
  by (rule keeps_effects, intro frame)+

lemma keeps_effects_queue [frame]:
  "keeps effects (queue_channel E ty m pub ch)"
  "keeps effects (queue_incident_notification E ty inc d pub)"
proof -
  show q: "keeps effects (queue_channel E ty m pub ch)" for m ch
    unfolding queue_channel_def by (intro frame)
  show "keeps effects (queue_incident_notification E ty inc d pub)"
    unfolding queue_incident_notification_def queue_notification_def by (intro frame q)
qed

end
