(* ===== verification/CW_Incidents.thy ===== *)
theory CW_Incidents
  imports CW_Notify
begin

text \<open>
  The incident service (\<open>incidents/service.py\<close>) with the part of the approval workflow it calls
  (\<open>ensure_runtime_approval\<close> and its helpers in \<open>approvals/service.py\<close>): creating an incident,
  changing its state with every side effect of a change, resolving, updating, and adding evidence.

  An incident object of the ORM is its row, named by its key: reading an attribute reads the row,
  assigning one updates it. The counters of \<open>metrics.py\<close> other than the gauge of active incidents
  are write-only and left out.
\<close>

section \<open>Rows as objects\<close>

definition load_row :: "(database \<Rightarrow> 'r list) \<Rightarrow> ('r \<Rightarrow> uuid) \<Rightarrow> uuid \<Rightarrow> ('w, 'r) H" where
  "load_row rows key i = bindM (dbM (\<lambda>d. find_row key i (rows d))) (\<lambda>r.
     case r of None \<Rightarrow> raiseM (PyError ''ObjectDeletedError'') | Some x \<Rightarrow> returnM x)"

abbreviation load_incident :: "uuid \<Rightarrow> ('w, incident) H" where
  "load_incident \<equiv> load_row db_incidents inc_id"

definition set_incident :: "uuid \<Rightarrow> (incident \<Rightarrow> incident) \<Rightarrow> ('w, unit) H" where
  "set_incident i f = updM (db_incidents_update (upd_row inc_id i f))"

text \<open>\<^verbatim>\<open>ACTIVE_INCIDENTS.labels(environment).inc()\<close> and \<open>dec()\<close>.\<close>

definition add_active :: "environment \<Rightarrow> int \<Rightarrow> ('w, unit) H" where
  "add_active v n = modifyM (\<lambda>s. s\<lparr>sy_active := (sy_active s)(v := sy_active s v + n)\<rparr>)"

definition add_incident_event :: "'w env \<Rightarrow> uuid \<Rightarrow> string \<Rightarrow> string \<Rightarrow> incident_state option \<Rightarrow>
    incident_state option \<Rightarrow> string \<Rightarrow> actor_type \<Rightarrow> jdict \<Rightarrow> ('w, unit) H" where
  "add_incident_event E i correlation_id event_type from_state to_state actor actor_type details =
     voidM (insert_row E db_incident_events_update no_constraint
       (\<lambda>k t. \<lparr>iev_id = k, iev_incident_id = i, iev_created_at = t,
          iev_correlation_id = correlation_id, iev_event_type = event_type,
          iev_from_state = from_state, iev_to_state = to_state, iev_actor = actor,
          iev_actor_type = actor_type, iev_details = details\<rparr>))"

section \<open>Requesting an approval\<close>

definition approval_context :: "incident \<Rightarrow> action_proposal \<Rightarrow> int \<Rightarrow> jdict" where
  "approval_context inc p version =
     [(''incident_id'', JStr (uuid_str (inc_id inc))),
      (''incident_state'', JStr (incident_state_value AWAITING_APPROVAL)),
      (''proposal_id'', JStr (uuid_str (prp_id p))), (''proposal_version'', JInt version),
      (''action'', JStr (action_value (prp_action_type p))),
      (''risk_score'', JInt (prp_risk_score p)), (''parameters'', JObj (prp_parameters p))]"

definition approval_digest :: "jdict \<Rightarrow> string" where
  "approval_digest d = sha256_hex (json_dumps (JObj d))"

definition target_reference :: "jdict \<Rightarrow> string" where
  "target_reference ps =
     (case dict_get ps ''namespace'' of None \<Rightarrow> ''unknown'' | Some v \<Rightarrow> py_str v) @ ''/'' @
     py_str (py_or (jget ps ''deployment'')
       (py_or (jget ps ''pod_name'') (py_or (jget ps ''pod'') (JStr ''unknown''))))"

definition stream_approval :: "'w env \<Rightarrow> approval \<Rightarrow> ('w, unit) H" where
  "stream_approval E a = voidM (append_stream_event E ''approval.changed'' (Some (apr_incident_id a))
     [(''approval_id'', JStr (uuid_str (apr_id a))),
      (''proposal_id'', JStr (uuid_str (apr_proposal_id a))),
      (''decision'', JStr (approval_decision_value (apr_decision a))),
      (''action'', JStr (apr_action a)),
      (''environment'', JStr (environment_value (apr_environment a))),
      (''risk_score'', JInt (apr_risk_score a)),
      (''expires_at'', JStr (isoformat (apr_expires_at a))),
      (''decided_by'', jstr_opt (apr_decided_by a)),
      (''invalidated_reason'', jstr_opt (apr_invalidated_reason a))])"

definition new_approval :: "incident \<Rightarrow> action_proposal \<Rightarrow> int \<Rightarrow> string \<Rightarrow> string option \<Rightarrow> time \<Rightarrow>
    uuid \<Rightarrow> time \<Rightarrow> approval" where
  "new_approval inc p blast requested_by reason expires i t =
     \<lparr>apr_id = i, apr_created_at = t, apr_incident_id = inc_id inc, apr_proposal_id = prp_id p,
      apr_actor_id = None, apr_decision = AD_PENDING, apr_reason = reason,
      apr_action = action_value (prp_action_type p), apr_environment = inc_environment inc,
      apr_risk_score = prp_risk_score p, apr_blast_radius = blast,
      apr_reversible = am_reversible (get_action_metadata (prp_action_type p)),
      apr_requested_by = requested_by, apr_runbook = inc_runbook_id inc, apr_proposal_version = 1,
      apr_target_reference = target_reference (prp_parameters p),
      apr_expected_state = approval_context inc p 1,
      apr_context_digest = approval_digest (approval_context inc p 1), apr_expires_at = expires,
      apr_decided_at = None, apr_decided_by = None, apr_decision_comment = None,
      apr_invalidated_reason = None, apr_execution_claimed_at = None,
      apr_execution_reference = None\<rparr>"

definition ensure_runtime_approval :: "'w env \<Rightarrow> incident \<Rightarrow> action_proposal \<Rightarrow> string \<Rightarrow>
    string option \<Rightarrow> ('w, uuid) H" where
  "ensure_runtime_approval E inc p requested_by reason =
     bindM (dbM (\<lambda>d. find (\<lambda>a. apr_proposal_id a = prp_id p \<and> apr_proposal_version a = 1)
       (db_approvals d))) (\<lambda>existing.
     case existing of
       Some a \<Rightarrow> returnM (apr_id a)
     | None \<Rightarrow>
         bindM (liftR (case dict_get (prp_parameters p) ''target_count'' of
                  None \<Rightarrow> Inr 1 | Some v \<Rightarrow> py_int v)) (\<lambda>count.
         bindM (utc_now E) (\<lambda>now.
         bindM (insert_row E db_approvals_update approval_ok
           (new_approval inc p (max 1 count) requested_by reason
              (now + set_approval_ttl_seconds (e_settings E) * 1000000))) (\<lambda>i.
         bindM (load_row db_approvals apr_id i) (\<lambda>a.
         thenM (seqM
           [voidM (record_audit E
              ((audit_args ''APPROVAL_REQUESTED'' (inc_correlation_id inc) ''PENDING'')
                \<lparr>aa_incident_id := Some (inc_id inc), aa_actor := requested_by,
                 aa_action := Some (action_value (prp_action_type p)),
                 aa_risk_score := Some (prp_risk_score p),
                 aa_policy_decision := Some ''APPROVAL_REQUIRED'',
                 aa_metadata := [(''approval_id'', JStr (uuid_str i)),
                   (''proposal_id'', JStr (uuid_str (prp_id p))),
                   (''proposal_version'', JInt (apr_proposal_version a)),
                   (''target_reference'', JStr (apr_target_reference a)),
                   (''expires_at'', JStr (isoformat (apr_expires_at a))),
                   (''reason'', jstr_opt reason)]\<rparr>)),
            stream_approval E a]) (returnM i))))))"

section \<open>Creating an incident\<close>

definition create_incident :: "'w env \<Rightarrow> string \<Rightarrow> string \<Rightarrow> string \<Rightarrow> environment \<Rightarrow> string option \<Rightarrow>
    uuid option \<Rightarrow> uuid option \<Rightarrow> string \<Rightarrow> actor_type \<Rightarrow> ('w, uuid) H" where
  "create_incident E correlation_id incident_type title v summary service_id cluster_id actor
       actor_type =
     thenM (add_active v 1)
     (bindM (insert_row E db_incidents_update incident_ok
       (\<lambda>i t. \<lparr>inc_id = i, inc_created_at = t, inc_correlation_id = correlation_id,
          inc_cluster_id = cluster_id, inc_service_id = service_id,
          inc_incident_type = incident_type, inc_title = title, inc_summary = summary,
          inc_environment = v, inc_state = DETECTED, inc_severity = ''warning'',
          inc_risk_score = None, inc_retry_count = 0, inc_runbook_id = None,
          inc_runbook_version = None, inc_resolved_at = None, inc_resolution_source = None\<rparr>))
     (\<lambda>i. thenM (seqM
       [add_incident_event E i correlation_id ''INCIDENT_CREATED'' None (Some DETECTED) actor
          actor_type [(''incident_type'', JStr incident_type)],
        voidM (append_stream_event E ''incident.created'' (Some i)
          [(''state'', JStr (incident_state_value DETECTED)),
           (''incident_type'', JStr incident_type)]),
        voidM (record_audit E ((audit_args ''INCIDENT_CREATED'' correlation_id ''SUCCEEDED'')
          \<lparr>aa_incident_id := Some i, aa_actor := actor, aa_actor_type := actor_type,
           aa_metadata := [(''incident_type'', JStr incident_type),
             (''state'', JStr (incident_state_value DETECTED))]\<rparr>))])
       (returnM i)))"

section \<open>Changing the state\<close>

text \<open>The approval request made on the way into \<open>AWAITING_APPROVAL\<close>: for the newest proposal, when
  there is one.\<close>

definition json_text_opt :: "json \<Rightarrow> string option" where
  "json_text_opt v = (case v of JStr s \<Rightarrow> Some s | _ \<Rightarrow> None)"

definition request_approval :: "'w env \<Rightarrow> uuid \<Rightarrow> string \<Rightarrow> jdict \<Rightarrow> ('w, unit) H" where
  "request_approval E i actor details =
     bindM (load_incident i) (\<lambda>inc.
     bindM (dbM (\<lambda>d. newest prp_created_at (\<lambda>p. prp_incident_id p = i) (db_action_proposals d)))
       (\<lambda>proposal.
     case proposal of
       None \<Rightarrow> returnM ()
     | Some p \<Rightarrow> voidM (ensure_runtime_approval E inc p actor
         (json_text_opt (py_or (jget details ''policy_reason'') (jget details ''reason''))))))"

definition notification_event :: "incident_state \<Rightarrow> jdict \<Rightarrow> string option" where
  "notification_event target details =
     (case target of
        AWAITING_APPROVAL \<Rightarrow> Some ''approval_required''
      | RESOLVED \<Rightarrow> Some ''incident_resolved''
      | ESCALATED \<Rightarrow> Some (if py_truth (jget details ''error_code'') then ''remediation_failed''
          else ''incident_escalated'')
      | _ \<Rightarrow> None)"

text \<open>Every exception of the notification is logged and dropped.\<close>

definition notify_change :: "'w env \<Rightarrow> uuid \<Rightarrow> incident_state \<Rightarrow> jdict \<Rightarrow> ('w, unit) H" where
  "notify_change E i target details =
     (case notification_event target details of
        None \<Rightarrow> returnM ()
      | Some event_type \<Rightarrow>
          whenM (set_app_env (e_settings E) \<noteq> ''test'')
            (bindM (load_incident i) (\<lambda>inc.
             tryM (voidM (queue_incident_notification E event_type inc details True))
               (\<lambda>_. returnM ()))))"

text \<open>The change itself with its event, and everything that is told about it afterwards.\<close>

definition record_change :: "'w env \<Rightarrow> incident \<Rightarrow> incident_state \<Rightarrow> string \<Rightarrow> actor_type \<Rightarrow> jdict \<Rightarrow>
    ('w, unit) H" where
  "record_change E inc target actor actor_type details = seqM
     [set_incident (inc_id inc) (inc_state_update (\<lambda>_. target)),
      whenM (target = RESOLVED)
        (bindM (utc_now E) (\<lambda>t. set_incident (inc_id inc) (inc_resolved_at_update (\<lambda>_. Some t)))),
      whenM (terminal_state target) (add_active (inc_environment inc) (- 1)),
      add_incident_event E (inc_id inc) (inc_correlation_id inc) ''STATE_CHANGED''
        (Some (inc_state inc)) (Some target) actor actor_type details]"

definition announce_change :: "'w env \<Rightarrow> incident \<Rightarrow> incident_state \<Rightarrow> string \<Rightarrow> actor_type \<Rightarrow>
    jdict \<Rightarrow> ('w, unit) H" where
  "announce_change E inc target actor actor_type details = seqM
     [voidM (append_stream_event E ''incident.state_changed'' (Some (inc_id inc))
        (dict_merge [(''from_state'', JStr (incident_state_value (inc_state inc))),
           (''to_state'', JStr (incident_state_value target)),
           (''state'', JStr (incident_state_value target))] details)),
      voidM (record_audit E
        ((audit_args ''INCIDENT_STATE_CHANGED'' (inc_correlation_id inc) ''SUCCEEDED'')
          \<lparr>aa_incident_id := Some (inc_id inc), aa_actor := actor, aa_actor_type := actor_type,
           aa_metadata := dict_merge
             [(''from_state'', JStr (incident_state_value (inc_state inc))),
              (''to_state'', JStr (incident_state_value target))] details\<rparr>)),
      whenM (target = AWAITING_APPROVAL) (request_approval E (inc_id inc) actor details),
      notify_change E (inc_id inc) target details,
      whenM (terminal_state target)
        (bindM (load_incident (inc_id inc)) (capture_terminal_incident E))]"

definition change_incident_state :: "'w env \<Rightarrow> uuid \<Rightarrow> incident_state \<Rightarrow> string \<Rightarrow> actor_type \<Rightarrow>
    jdict \<Rightarrow> bool \<Rightarrow> ('w, unit) H" where
  "change_incident_state E i target actor actor_type details force =
     bindM (load_incident i) (\<lambda>inc.
     if inc_state inc = target then returnM ()
     else seqM
       [whenM (\<not> force) (voidM (liftR (transition_incident (inc_state inc) target))),
        record_change E inc target actor actor_type details,
        announce_change E inc target actor actor_type details])"

section \<open>Reading, resolving, updating, evidence\<close>

definition get_incident :: "uuid \<Rightarrow> ('w, incident) H" where
  "get_incident i = bindM (dbM (\<lambda>d. find_row inc_id i (db_incidents d))) (\<lambda>r.
     case r of None \<Rightarrow> raiseM (cw_error ''INCIDENT_NOT_FOUND'' ''Incident was not found'' 404)
     | Some inc \<Rightarrow> returnM inc)"

definition resolve_incident :: "'w env \<Rightarrow> uuid \<Rightarrow> string \<Rightarrow> actor_type \<Rightarrow> string \<Rightarrow>
    resolution_source \<Rightarrow> ('w, unit) H" where
  "resolve_incident E i actor actor_type reason source =
     bindM (load_incident i) (\<lambda>inc.
     if inc_state inc = RESOLVED then returnM ()
     else seqM
       [set_incident i (inc_resolution_source_update (\<lambda>_. Some source)),
        bindM (utc_now E) (\<lambda>t. set_incident i (inc_resolved_at_update (\<lambda>_. Some t))),
        change_incident_state E i RESOLVED actor actor_type
          [(''reason'', JStr reason),
           (''resolution_source'', JStr (resolution_source_value source))] True])"

definition field_change :: "string \<Rightarrow> json \<Rightarrow> json \<Rightarrow> jdict" where
  "field_change name old new = [(name, JObj [(''from'', old), (''to'', new)])]"

definition update_changes :: "incident \<Rightarrow> string option \<Rightarrow> string option \<Rightarrow> string option \<Rightarrow> jdict" where
  "update_changes inc title summary severity =
     (case title of Some t \<Rightarrow> if t \<noteq> inc_title inc
        then field_change ''title'' (JStr (inc_title inc)) (JStr t) else [] | None \<Rightarrow> []) @
     (case summary of Some t \<Rightarrow> if Some t \<noteq> inc_summary inc
        then field_change ''summary'' (jstr_opt (inc_summary inc)) (JStr t) else [] | None \<Rightarrow> []) @
     (case severity of Some t \<Rightarrow> if t \<noteq> inc_severity inc
        then field_change ''severity'' (JStr (inc_severity inc)) (JStr t) else [] | None \<Rightarrow> [])"

definition apply_update :: "string option \<Rightarrow> string option \<Rightarrow> string option \<Rightarrow> incident \<Rightarrow> incident" where
  "apply_update title summary severity inc =
     inc\<lparr>inc_title := (case title of Some t \<Rightarrow> t | None \<Rightarrow> inc_title inc),
         inc_summary := first_some summary (inc_summary inc),
         inc_severity := (case severity of Some t \<Rightarrow> t | None \<Rightarrow> inc_severity inc)\<rparr>"

definition update_incident :: "'w env \<Rightarrow> uuid \<Rightarrow> string option \<Rightarrow> string option \<Rightarrow> string option \<Rightarrow>
    incident_state option \<Rightarrow> string \<Rightarrow> actor_type \<Rightarrow> ('w, unit) H" where
  "update_incident E i title summary severity target_state actor actor_type =
     bindM (load_incident i) (\<lambda>inc.
     let changes = update_changes inc title summary severity in
     seqM
       [set_incident i (apply_update title summary severity),
        (case target_state of
           Some target \<Rightarrow> change_incident_state E i target actor actor_type
             [(''reason'', JStr ''Updated via incident update'')] True
         | None \<Rightarrow> returnM ()),
        whenM (changes \<noteq> [])
          (bindM (load_incident i) (\<lambda>inc'.
           seqM
             [add_incident_event E i (inc_correlation_id inc') ''INCIDENT_UPDATED''
                (Some (inc_state inc')) (Some (inc_state inc')) actor actor_type
                [(''changes'', JObj changes)],
              voidM (record_audit E
                ((audit_args ''INCIDENT_UPDATED'' (inc_correlation_id inc') ''SUCCEEDED'')
                  \<lparr>aa_incident_id := Some i, aa_actor := actor, aa_actor_type := actor_type,
                   aa_metadata := [(''changes'', JObj changes)]\<rparr>))]))])"

definition add_incident_evidence :: "'w env \<Rightarrow> uuid \<Rightarrow> evidence_type \<Rightarrow> string \<Rightarrow> jdict \<Rightarrow> string \<Rightarrow>
    evidence_phase \<Rightarrow> string option \<Rightarrow> string option \<Rightarrow> string \<Rightarrow> ('w, uuid) H" where
  "add_incident_evidence E i ety summary payload source phase reference query collected_by =
     bindM (load_incident i) (\<lambda>inc.
     bindM (insert_row E db_evidence_snapshots_update no_constraint
       (\<lambda>k t. \<lparr>evs_id = k, evs_incident_id = i, evs_created_at = t,
          evs_correlation_id = inc_correlation_id inc, evs_evidence_type = ety,
          evs_summary = summary, evs_reference = reference, evs_query = query,
          evs_window_start = None, evs_window_end = None, evs_phase = phase,
          evs_payload = payload, evs_collected_by = collected_by\<rparr>)) (\<lambda>k.
     thenM (seqM
       [voidM (append_stream_event E ''incident.evidence_added'' (Some i)
          [(''evidence_id'', JStr (uuid_str k)),
           (''evidence_type'', JStr (evidence_type_value ety))]),
        voidM (record_audit E
          ((audit_args ''EVIDENCE_COLLECTED'' (inc_correlation_id inc) ''SUCCEEDED'')
            \<lparr>aa_incident_id := Some i, aa_actor := collected_by, aa_actor_type := ACTOR_USER,
             aa_metadata := [(''evidence_id'', JStr (uuid_str k)),
               (''evidence_type'', JStr (evidence_type_value ety)),
               (''source'', JStr source)]\<rparr>))])
     (returnM k)))"

section \<open>Frames\<close>

lemma keeps_load_row [frame]: "keeps f (load_row rows key i)"
  unfolding load_row_def by (intro frame)

lemma keeps_incident_prims [frame]:
  "keeps effects (set_incident i f)" "keeps sy_committed (set_incident i f)"
  "keeps sy_active (set_incident i f)" "keeps effects (add_active v n)"
  "keeps sy_committed (add_active v n)" "keeps (\<lambda>s. g (sy_db s)) (add_active v n)"
  "keeps effects (add_incident_event E i c ty fr tt a aty ds)"
  "keeps sy_committed (add_incident_event E i c ty fr tt a aty ds)"
  "keeps sy_active (add_incident_event E i c ty fr tt a aty ds)"
  unfolding set_incident_def add_incident_event_def add_active_def
  by ((intro frame keeps_modifyM; simp add: effects_def)+)

lemma keeps_db_set_incident [frame]:
  "(\<And>g d. f (db_incidents_update g d) = f d) \<Longrightarrow> keeps (\<lambda>s. f (sy_db s)) (set_incident i h)"
  unfolding set_incident_def by (rule keeps_db_updM)

lemma keeps_db_add_incident_event [frame]:
  "(\<And>g d. f (db_incident_events_update g d) = f d) \<Longrightarrow>
     keeps (\<lambda>s. f (sy_db s)) (add_incident_event E i c ty fr tt a aty ds)"
  unfolding add_incident_event_def by (intro frame keeps_db_insert_row)

lemma keeps_stream_approval [frame]:
  "keeps effects (stream_approval E a)" "keeps sy_committed (stream_approval E a)"
  "keeps sy_active (stream_approval E a)"
  unfolding stream_approval_def by (intro frame)+

lemma keeps_db_stream_approval [frame]:
  "(\<And>g d. f (db_stream_events_update g d) = f d) \<Longrightarrow>
     keeps (\<lambda>s. f (sy_db s)) (stream_approval E a)"
  unfolding stream_approval_def by (intro frame)

lemma keeps_request_approval [frame]:
  "keeps effects (request_approval E i a ds)" "keeps sy_committed (request_approval E i a ds)"
  "keeps sy_active (request_approval E i a ds)"
  unfolding request_approval_def ensure_runtime_approval_def by (intro frame)+

lemma keeps_db_request_approval [frame]:
  assumes "\<And>g d. f (db_stream_events_update g d) = f d" "\<And>g d. f (db_audit_events_update g d) = f d"
    "\<And>g d. f (db_approvals_update g d) = f d"
  shows "keeps (\<lambda>s. f (sy_db s)) (request_approval E i a ds)"
  unfolding request_approval_def ensure_runtime_approval_def
  by (intro frame keeps_db_insert_row) (simp_all add: assms)

lemma keeps_notify_change [frame]:
  "keeps effects (notify_change E i tgt ds)" "keeps sy_committed (notify_change E i tgt ds)"
  "keeps sy_active (notify_change E i tgt ds)"
  unfolding notify_change_def by (intro frame)+

lemma keeps_db_notify_change [frame]:
  assumes "\<And>g d. f (db_audit_events_update g d) = f d" "\<And>g d. f (db_notifications_update g d) = f d"
  shows "keeps (\<lambda>s. f (sy_db s)) (notify_change E i tgt ds)"
  unfolding notify_change_def by (intro frame) (simp_all add: assms)

lemma keeps_change_incident_state [frame]:
  "keeps effects (change_incident_state E i tgt a aty ds fc)"
  "keeps sy_committed (change_incident_state E i tgt a aty ds fc)"
  unfolding change_incident_state_def record_change_def announce_change_def by (intro frame)+

text \<open>The tables a state change writes to.\<close>

lemma keeps_db_change_incident_state [frame]:
  assumes "\<And>g d. f (db_incidents_update g d) = f d" "\<And>g d. f (db_incident_events_update g d) = f d"
    "\<And>g d. f (db_stream_events_update g d) = f d" "\<And>g d. f (db_audit_events_update g d) = f d"
    "\<And>g d. f (db_approvals_update g d) = f d" "\<And>g d. f (db_notifications_update g d) = f d"
    "\<And>g d. f (db_memories_update g d) = f d"
  shows "keeps (\<lambda>s. f (sy_db s)) (change_incident_state E i tgt a aty ds fc)"
  unfolding change_incident_state_def record_change_def announce_change_def by (intro frame) (simp_all add: assms)

text \<open>Only the way into \<open>AWAITING_APPROVAL\<close> writes an approval.\<close>

lemma keeps_approvals_change:
  "tgt \<noteq> AWAITING_APPROVAL \<Longrightarrow>
     keeps (\<lambda>s. db_approvals (sy_db s)) (change_incident_state E i tgt a aty ds fc)"
  unfolding change_incident_state_def record_change_def announce_change_def
  by (intro frame) simp_all

lemma keeps_create_incident [frame]:
  "keeps effects (create_incident E c ty ti v su sid cid a aty)"
  "keeps sy_committed (create_incident E c ty ti v su sid cid a aty)"
  unfolding create_incident_def by (intro frame)+

section \<open>The event log replays to the state\<close>

text \<open>Replaying the events of an incident: each event must start in the state the previous one
  reached.\<close>

fun replay :: "incident_state option \<Rightarrow> incident_event list \<Rightarrow> incident_state option option" where
  "replay st [] = Some st"
| "replay st (e # es) = (if iev_from_state e = st then replay (iev_to_state e) es else None)"

definition events_of :: "uuid \<Rightarrow> database \<Rightarrow> incident_event list" where
  "events_of i d = filter (\<lambda>e. iev_incident_id e = i) (db_incident_events d)"

definition log_consistent :: "database \<Rightarrow> bool" where
  "log_consistent d \<longleftrightarrow> distinct (map inc_id (db_incidents d)) \<and>
     (\<forall>inc \<in> set (db_incidents d). replay None (events_of (inc_id inc) d) = Some (Some (inc_state inc)))"

text \<open>The invariant of a request: the session's view and the committed database are both consistent,
  every event belongs to an incident whose key has been handed out, and so does every incident.\<close>

definition keys_bounded :: "uuid \<Rightarrow> database \<Rightarrow> bool" where
  "keys_bounded n d \<longleftrightarrow> (\<forall>inc \<in> set (db_incidents d). inc_id inc < n) \<and>
     (\<forall>e \<in> set (db_incident_events d). iev_incident_id e < n)"

definition log_inv :: "'w sys \<Rightarrow> bool" where
  "log_inv s \<longleftrightarrow> log_consistent (sy_db s) \<and> log_consistent (sy_committed s) \<and>
     keys_bounded (sy_next s) (sy_db s) \<and> keys_bounded (sy_next s) (sy_committed s)"

lemma replay_append: "replay st (es @ [e]) =
    (case replay st es of None \<Rightarrow> None
     | Some x \<Rightarrow> if iev_from_state e = x then Some (iev_to_state e) else None)"
  by (induction st es rule: replay.induct) auto

subsection \<open>The primitives\<close>

lemma keys_bounded_mono: "keys_bounded n d \<Longrightarrow> n \<le> m \<Longrightarrow> keys_bounded m d"
  by (auto simp: keys_bounded_def)

lemma log_inv_prims [inv_rules]:
  "preserves log_inv (worldM g)" "preserves log_inv (utc_now E)" "preserves log_inv fresh_id"
  "preserves log_inv (logM e)" "preserves log_inv commit" "preserves log_inv rollback"
  "preserves log_inv (dbM h)" "preserves log_inv (add_active v n)"
  by (auto simp: preserves_wp wp_simps log_inv_def add_active_def intro: keys_bounded_mono)

lemma log_inv_updM:
  assumes "\<And>d. db_incidents (g d) = db_incidents d"
    and "\<And>d. db_incident_events (g d) = db_incident_events d"
  shows "preserves log_inv (updM g)"
  using assms
  by (auto simp: preserves_wp wp_simps log_inv_def log_consistent_def keys_bounded_def events_of_def)

lemma log_inv_insert_row:
  assumes "\<And>h d. db_incidents (set_rows h d) = db_incidents d"
    and "\<And>h d. db_incident_events (set_rows h d) = db_incident_events d"
  shows "preserves log_inv (insert_row E set_rows ok mk)"
  unfolding insert_row_def by (intro inv_rules log_inv_updM) (simp_all add: assms)

lemma log_inv_set_incident:
  assumes "\<And>r. inc_id (f r) = inc_id r" and "\<And>r. inc_state (f r) = inc_state r"
  shows "preserves log_inv (set_incident i f)"
proof -
  have "map inc_id (upd_row inc_id i f rs) = map inc_id rs" for rs
    by (simp add: upd_row_def assms)
  moreover have "\<forall>r \<in> set (upd_row inc_id i f rs). \<exists>q \<in> set rs. inc_id r = inc_id q \<and> inc_state r = inc_state q"
    for rs by (auto simp: upd_row_def assms)
  ultimately show ?thesis
    by (fastforce simp: preserves_wp wp_simps set_incident_def log_inv_def log_consistent_def
        keys_bounded_def events_of_def)
qed

lemma log_inv_load_row [inv_rules]: "preserves log_inv (load_row rows key i)"
  unfolding load_row_def by (intro inv_rules)

lemma log_inv_record_audit [inv_rules]: "preserves log_inv (record_audit E a)"
  unfolding record_audit_def by (intro log_inv_insert_row) simp_all

lemma log_inv_append_stream_event [inv_rules]: "preserves log_inv (append_stream_event E ty i p)"
  unfolding append_stream_event_def by (intro log_inv_insert_row) simp_all

lemma log_inv_capture [inv_rules]: "preserves log_inv (capture_terminal_incident E inc)"
  unfolding capture_terminal_incident_def remember_def
  by (intro inv_rules log_inv_updM log_inv_insert_row) simp_all

lemma log_inv_queue [inv_rules]: "preserves log_inv (queue_incident_notification E ty inc d pub)"
  unfolding queue_incident_notification_def queue_notification_def queue_channel_def
  by (intro inv_rules log_inv_insert_row) simp_all

lemma log_inv_request_approval [inv_rules]: "preserves log_inv (request_approval E i a ds)"
  unfolding request_approval_def ensure_runtime_approval_def stream_approval_def
  by (intro inv_rules log_inv_insert_row) simp_all

lemma log_inv_announce_change [inv_rules]: "preserves log_inv (announce_change E inc tgt a aty ds)"
  unfolding announce_change_def notify_change_def by (intro inv_rules)

subsection \<open>The operations\<close>

lemma log_consistent_change:
  assumes d: "log_consistent d" and inc: "find_row inc_id (inc_id inc) (db_incidents d) = Some inc"
    and F: "\<And>r. inc_id (F r) = inc_id r" "\<And>r. inc_state (F r) = target"
    and d': "db_incidents d' = upd_row inc_id (inc_id inc) F (db_incidents d)"
      "db_incident_events d' = db_incident_events d @ [e]"
    and e: "iev_incident_id e = inc_id inc" "iev_from_state e = Some (inc_state inc)"
      "iev_to_state e = Some target"
  shows "log_consistent d'"
proof -
  have "map inc_id (db_incidents d') = map inc_id (db_incidents d)"
    by (simp add: d' upd_row_def F)
  moreover have "replay None (events_of (inc_id r) d') = Some (Some (inc_state r))"
    if r: "r \<in> set (db_incidents d')" for r
  proof -
    obtain q where q: "q \<in> set (db_incidents d)" "r = (if inc_id q = inc_id inc then F q else q)"
      using r by (auto simp: d' dest: upd_row_mem)
    show ?thesis
    proof (cases "inc_id q = inc_id inc")
      case True
      have "find_row inc_id (inc_id q) (db_incidents d) = Some q"
        using d q(1) by (intro find_row_distinct) (simp_all add: log_consistent_def)
      with True inc have "q = inc" by simp
      moreover have "replay None (events_of (inc_id inc) d) = Some (Some (inc_state inc))"
        using d q(1) \<open>q = inc\<close> by (simp add: log_consistent_def)
      ultimately show ?thesis
        by (simp add: q(2) F d'(2) e events_of_def replay_append)
    next
      case False
      with q d show ?thesis by (simp add: d'(2) e events_of_def log_consistent_def)
    qed
  qed
  ultimately show ?thesis using d by (simp add: log_consistent_def)
qed

lemma keys_bounded_change:
  assumes "keys_bounded n d" and "\<And>r. inc_id (F r) = inc_id r"
    and "db_incidents d' = upd_row inc_id i F (db_incidents d)"
      "db_incident_events d' = db_incident_events d @ [e]" "iev_incident_id e < n" "n \<le> m"
  shows "keys_bounded m d'"
  using assms by (fastforce simp: keys_bounded_def upd_row_def)

lemma log_inv_moved:
  assumes inv: "log_inv s" and inc: "find_row inc_id (inc_id inc) (db_incidents (sy_db s)) = Some inc"
    and F: "\<And>r. inc_id (F r) = inc_id r" "\<And>r. inc_state (F r) = target"
    and e: "iev_incident_id e = inc_id inc" "iev_from_state e = Some (inc_state inc)"
      "iev_to_state e = Some target"
    and t: "sy_db t = db_incident_events_update (\<lambda>rs. rs @ [e])
        (db_incidents_update (upd_row inc_id (inc_id inc) F) (sy_db s))"
      "sy_committed t = sy_committed s" "sy_next t = Suc (sy_next s)"
  shows "log_inv t"
proof -
  have k: "inc_id inc < sy_next s"
    using inv find_row_key [OF inc] by (auto simp: log_inv_def keys_bounded_def)
  have c: "log_consistent (sy_db s)" and b: "keys_bounded (sy_next s) (sy_db s)"
    using inv by (simp_all add: log_inv_def)
  have "log_consistent (sy_db t)"
    by (rule log_consistent_change [OF c inc F _ _ e]) (simp_all add: t(1))
  moreover have "keys_bounded (sy_next t) (sy_db t)"
    by (rule keys_bounded_change [OF b F(1), where e = e and i = "inc_id inc"])
      (simp_all add: t e k)
  ultimately show ?thesis using inv by (auto simp: log_inv_def t intro: keys_bounded_mono)
qed

lemma log_inv_record_change:
  assumes inv: "log_inv s" and inc: "find_row inc_id (inc_id inc) (db_incidents (sy_db s)) = Some inc"
  shows "wp (record_change E inc target a aty ds) (\<lambda>_. log_inv) (\<lambda>_ _. False) s"
  by (simp add: record_change_def set_incident_def add_incident_event_def add_active_def wp_simps
      Let_def no_constraint_def case_prod_unfold upd_row_comp)
    (intro conjI impI; rule log_inv_moved [OF inv inc, where target = target]; simp)

lemma wp_load_row [wp_simps]: "wp (load_row rows key i) Q X s =
    (case find_row key i (rows (sy_db s)) of None \<Rightarrow> X (PyError ''ObjectDeletedError'') s
     | Some r \<Rightarrow> Q r s)"
  by (simp add: load_row_def wp_simps split: option.splits)

lemma log_inv_change_incident_state [inv_rules]:
  "preserves log_inv (change_incident_state E i tgt a aty ds fc)"
  unfolding preserves_wp
proof (intro allI impI)
  fix s :: "'a sys"
  assume inv: "log_inv s"
  show "wp (change_incident_state E i tgt a aty ds fc) (\<lambda>_. log_inv) (\<lambda>_. log_inv) s"
  proof (cases "find_row inc_id i (db_incidents (sy_db s))")
    case None
    with inv show ?thesis by (simp add: change_incident_state_def wp_bindM wp_load_row)
  next
    case (Some inc)
    with find_row_key [OF Some] have f: "find_row inc_id (inc_id inc) (db_incidents (sy_db s)) = Some inc"
      by simp
    have "wp (seqM [record_change E inc tgt a aty ds, announce_change E inc tgt a aty ds])
        (\<lambda>_. log_inv) (\<lambda>_. log_inv) s"
      unfolding wp_seqM_Cons wp_seqM_Nil
      by (rule wp_mono [OF log_inv_record_change [OF inv f]])
        (simp_all add: preservesD [OF log_inv_announce_change])
    with Some inv show ?thesis
      unfolding change_incident_state_def wp_bindM wp_load_row
      by (auto simp: wp_whenM wp_voidM wp_liftR wp_seqM_Cons split: sum.splits)
  qed
qed

lemma log_inv_noted:
  assumes inv: "log_inv s" and inc: "find_row inc_id (inc_id inc) (db_incidents (sy_db s)) = Some inc"
    and e: "iev_incident_id e = inc_id inc" "iev_from_state e = Some (inc_state inc)"
      "iev_to_state e = Some (inc_state inc)"
    and t: "sy_db t = db_incident_events_update (\<lambda>rs. rs @ [e]) (sy_db s)"
      "sy_committed t = sy_committed s" "sy_next t = Suc (sy_next s)"
  shows "log_inv t"
proof -
  have c: "log_consistent (sy_db s)" and k: "inc_id inc < sy_next s"
    using inv find_row_key [OF inc] by (auto simp: log_inv_def keys_bounded_def)
  have "replay None (events_of (inc_id r) (sy_db t)) = Some (Some (inc_state r))"
    if r: "r \<in> set (db_incidents (sy_db s))" for r
  proof (cases "inc_id r = inc_id inc")
    case True
    have "find_row inc_id (inc_id r) (db_incidents (sy_db s)) = Some r"
      using c r by (intro find_row_distinct) (simp_all add: log_consistent_def)
    with True inc have "r = inc" by simp
    moreover have "replay None (events_of (inc_id inc) (sy_db s)) = Some (Some (inc_state inc))"
      using c r \<open>r = inc\<close> by (simp add: log_consistent_def)
    ultimately show ?thesis by (simp add: t(1) e events_of_def replay_append)
  next
    case False
    with c r show ?thesis by (simp add: t(1) e events_of_def log_consistent_def)
  qed
  then have "log_consistent (sy_db t)" using c by (simp add: log_consistent_def t(1))
  then show ?thesis using inv k
    by (auto simp: log_inv_def t e keys_bounded_def intro: keys_bounded_mono less_SucI)
qed

lemma log_inv_created:
  assumes inv: "log_inv s" and i: "inc_id r = sy_next s" "inc_state r = DETECTED"
    and e: "iev_incident_id e = sy_next s" "iev_from_state e = None" "iev_to_state e = Some DETECTED"
    and t: "sy_db t = db_incident_events_update (\<lambda>rs. rs @ [e])
        (db_incidents_update (\<lambda>rs. rs @ [r]) (sy_db s))"
      "sy_committed t = sy_committed s" "sy_next t = Suc (Suc (sy_next s))"
  shows "log_inv t"
proof -
  have new: "\<forall>q \<in> set (db_incidents (sy_db s)). inc_id q \<noteq> sy_next s"
    "events_of (sy_next s) (sy_db s) = []"
    using inv by (auto simp: log_inv_def keys_bounded_def events_of_def filter_empty_conv)
  then have "log_consistent (sy_db t)"
    using inv by (auto simp: log_inv_def log_consistent_def t(1) i e events_of_def)
  moreover have "keys_bounded (sy_next t) (sy_db t)"
    using inv by (auto simp: log_inv_def keys_bounded_def t i e less_Suc_eq)
  ultimately show ?thesis using inv by (auto simp: log_inv_def t intro: keys_bounded_mono)
qed

lemma log_inv_create_incident [inv_rules]:
  "preserves log_inv (create_incident E c ty ti v su sid cid a aty)"
  unfolding preserves_wp
proof (intro allI impI)
  fix s :: "'a sys"
  assume inv: "log_inv s"
  have rest: "wp (append_stream_event E x1 x2 x3)
      (\<lambda>_. wp (record_audit E x4) (\<lambda>_. log_inv) (\<lambda>_. log_inv)) (\<lambda>_. log_inv) u"
    if "log_inv u" for x1 x2 x3 x4 and u :: "'a sys"
    by (rule wp_mono [OF preservesD [OF log_inv_append_stream_event that]])
      (simp_all add: preservesD [OF log_inv_record_audit])
  show "wp (create_incident E c ty ti v su sid cid a aty) (\<lambda>_. log_inv) (\<lambda>_. log_inv) s"
    unfolding create_incident_def wp_thenM wp_bindM wp_seqM_Cons
    by (simp add: add_active_def wp_insert_row Let_def case_prod_unfold incident_ok_def
        add_incident_event_def wp_voidM no_constraint_def)
      (rule rest, rule log_inv_created [OF inv], simp_all)
qed

lemma log_inv_resolve_incident [inv_rules]: "preserves log_inv (resolve_incident E i a aty re so)"
  unfolding resolve_incident_def by (intro inv_rules log_inv_set_incident) simp_all

lemma log_inv_add_incident_evidence [inv_rules]:
  "preserves log_inv (add_incident_evidence E i ety su pl so ph re q by')"
  unfolding add_incident_evidence_def by (intro inv_rules log_inv_insert_row) simp_all

text \<open>An event that notes something without changing the state.\<close>

lemma log_inv_note_event:
  "preserves log_inv (bindM (load_incident i) (\<lambda>inc. seqM
     [add_incident_event E i (cid inc) ty (Some (inc_state inc)) (Some (inc_state inc)) a aty ds,
      voidM (record_audit E (au inc))]))"
  unfolding preserves_wp
proof (intro allI impI)
  fix s :: "'a sys"
  assume inv: "log_inv s"
  have rest: "wp (record_audit E x) (\<lambda>_. log_inv) (\<lambda>_. log_inv) u" if "log_inv u"
    for x and u :: "'a sys"
    by (rule preservesD [OF log_inv_record_audit that])
  show "wp (bindM (load_incident i) (\<lambda>inc. seqM
    [add_incident_event E i (cid inc) ty (Some (inc_state inc)) (Some (inc_state inc)) a aty ds,
     voidM (record_audit E (au inc))])) (\<lambda>_. log_inv) (\<lambda>_. log_inv) s"
  proof (cases "find_row inc_id i (db_incidents (sy_db s))")
    case None
    with inv show ?thesis by (simp add: wp_bindM wp_load_row)
  next
    case (Some inc)
    with find_row_key [OF Some] have k: "inc_id inc = i"
      and f: "find_row inc_id (inc_id inc) (db_incidents (sy_db s)) = Some inc" by auto
    show ?thesis
      unfolding wp_bindM wp_load_row Some option.case wp_seqM_Cons wp_seqM_Nil wp_voidM
        add_incident_event_def wp_insert_row no_constraint_def Let_def case_prod_unfold if_True
      by (rule rest, rule log_inv_noted [OF inv f]) (simp_all add: k)
  qed
qed

lemma log_inv_update_incident [inv_rules]:
  "preserves log_inv (update_incident E i ti su se tgt a aty)"
  unfolding update_incident_def
  by (intro inv_rules log_inv_set_incident log_inv_note_event) (simp_all add: apply_update_def)


section \<open>What a state change does\<close>

definition state_of :: "uuid \<Rightarrow> 'w sys \<Rightarrow> incident_state option" where
  "state_of i s = map_option inc_state (find_row inc_id i (db_incidents (sy_db s)))"

lemma keeps_incidents_announce [frame]:
  "keeps (\<lambda>s. db_incidents (sy_db s)) (announce_change E inc tgt a aty ds)"
  "keeps sy_active (announce_change E inc tgt a aty ds)"
  unfolding announce_change_def by ((intro frame; simp)+)

text \<open>The incidents and the gauge after \<open>record_change\<close>.\<close>

lemma record_change_post:
  "wp (record_change E inc target a aty ds)
     (\<lambda>_ t. (\<exists>F. (\<forall>r. inc_id (F r) = inc_id r \<and> inc_state (F r) = target \<and>
                    inc_environment (F r) = inc_environment r) \<and>
               db_incidents (sy_db t) = upd_row inc_id (inc_id inc) F (db_incidents (sy_db s))) \<and>
        sy_active t = (if terminal_state target
          then (sy_active s)(inc_environment inc := sy_active s (inc_environment inc) - 1)
          else sy_active s))
     (\<lambda>_ _. False) s"
proof (cases "target = RESOLVED")
  case True
  then show ?thesis
    by (simp add: record_change_def set_incident_def add_incident_event_def add_active_def wp_simps
        Let_def no_constraint_def case_prod_unfold upd_row_upd_row terminal_state_def)
      (rule exI [of _ "\<lambda>r. r\<lparr>inc_state := RESOLVED,
          inc_resolved_at := Some (fst (e_utc_now E (sy_world s)))\<rparr>"], simp)
next
  case False
  then show ?thesis
    by (simp add: record_change_def set_incident_def add_incident_event_def add_active_def wp_simps
        Let_def no_constraint_def case_prod_unfold)
      (auto intro!: exI [of _ "inc_state_update (\<lambda>_. target)"])
qed

text \<open>The change of a state that is not already the target, once the guard has let it through, is
  \<open>record_change\<close>; what follows it leaves the incidents and the gauge alone.\<close>

lemma change_incident_state_wp:
  assumes "find_row inc_id i (db_incidents (sy_db s)) = Some inc" and "inc_state inc \<noteq> target"
    and "force \<or> target \<in> allowed_transitions (inc_state inc)"
    and "wp (record_change E inc target a aty ds) (\<lambda>_ t. P (db_incidents (sy_db t)) (sy_active t))
      (\<lambda>_ _. False) s"
  shows "wp (change_incident_state E i target a aty ds force)
    (\<lambda>_ t. P (db_incidents (sy_db t)) (sy_active t))
    (\<lambda>_ t. P (db_incidents (sy_db t)) (sy_active t)) s"
proof -
  let ?P = "\<lambda>_ t. P (db_incidents (sy_db t)) (sy_active t)"
  have "wp (announce_change E inc target a aty ds) ?P ?P u" if "?P () u" for u
    by (rule wp_mono [OF wp_conj [OF keeps_wp [OF keeps_incidents_announce(1)]
        keeps_wp [OF keeps_incidents_announce(2)]]]) (use that in simp_all)
  then have "wp (seqM [record_change E inc target a aty ds, announce_change E inc target a aty ds])
      ?P ?P s"
    unfolding wp_seqM_Cons wp_seqM_Nil using assms(4) by (auto elim: wp_mono)
  then show ?thesis
    unfolding change_incident_state_def wp_bindM wp_load_row using assms(1-3)
    by (auto simp: wp_whenM wp_voidM wp_liftR wp_seqM_Cons transition_incident_def)
qed

lemma change_incident_state_reaches:
  assumes "find_row inc_id i (db_incidents (sy_db s)) = Some inc" and "inc_state inc \<noteq> target"
    and "force \<or> target \<in> allowed_transitions (inc_state inc)"
  shows "wp (change_incident_state E i target a aty ds force) (\<lambda>_ t. state_of i t = Some target)
    (\<lambda>_ t. state_of i t = Some target) s"
proof -
  have "inc_id inc = i" using find_row_key [OF assms(1)] by simp
  then have "wp (record_change E inc target a aty ds)
      (\<lambda>_ t. map_option inc_state (find_row inc_id i (db_incidents (sy_db t))) = Some target)
      (\<lambda>_ _. False) s"
    using assms(1) by (auto intro!: wp_mono [OF record_change_post] simp: find_upd_row)
  from change_incident_state_wp [OF assms this] show ?thesis by (simp add: state_of_def)
qed

text \<open>Whatever the state was, a change that returns has reached the target, and one that raises has
  reached it or left the state alone.\<close>

lemma change_incident_state_sets:
  assumes "state_of i s \<noteq> None"
  shows "wp (change_incident_state E i target a aty ds force) (\<lambda>_ t. state_of i t = Some target)
    (\<lambda>_ t. state_of i t = state_of i s \<or> state_of i t = Some target) s"
proof -
  obtain inc where inc: "find_row inc_id i (db_incidents (sy_db s)) = Some inc"
    using assms by (auto simp: state_of_def)
  show ?thesis
  proof (cases "inc_state inc \<noteq> target \<and> (force \<or> target \<in> allowed_transitions (inc_state inc))")
    case True
    then show ?thesis by (auto intro: wp_mono [OF change_incident_state_reaches [OF inc]])
  next
    case False
    then show ?thesis using inc
      by (auto simp: change_incident_state_def wp_bindM wp_load_row wp_seqM_Cons wp_whenM wp_voidM
          wp_liftR transition_incident_def state_of_def)
  qed
qed

text \<open>C8. A state change either happens or leaves no trace. A requested transition that the table does
  not allow raises \<open>INVALID_INCIDENT_TRANSITION\<close> and changes nothing at all; an allowed or forced
  one leaves the incident in the target state on every way out, also when a later side effect of
  the change (approval request, notification, memory) raises.\<close>

theorem change_incident_state_guarded:
  assumes "find_row inc_id i (db_incidents (sy_db s)) = Some inc" and "inc_state inc \<noteq> target"
  shows "(target \<notin> allowed_transitions (inc_state inc) \<longrightarrow>
      (\<exists>msg details. change_incident_state E i target a aty ds False s =
         (Inl (CloudWardError ''INVALID_INCIDENT_TRANSITION'' msg 409 details), s))) \<and>
    (force \<or> target \<in> allowed_transitions (inc_state inc) \<longrightarrow>
      wp (change_incident_state E i target a aty ds force) (\<lambda>_ t. state_of i t = Some target)
        (\<lambda>_ t. state_of i t = Some target) s)"
proof (intro conjI impI)
  assume "target \<notin> allowed_transitions (inc_state inc)"
  then show "\<exists>msg details. change_incident_state E i target a aty ds False s =
      (Inl (CloudWardError ''INVALID_INCIDENT_TRANSITION'' msg 409 details), s)"
    using assms by (simp add: change_incident_state_def load_row_def bindM_def dbM_def readM_def
        returnM_def thenM_def whenM_def voidM_def liftR_def transition_incident_def seqM.simps)
qed (use change_incident_state_reaches [OF assms] in blast)

definition demo_incident :: "incident_state \<Rightarrow> incident" where
  "demo_incident st =
     \<lparr>inc_id = 1, inc_created_at = 0, inc_correlation_id = ''c'', inc_cluster_id = None,
      inc_service_id = None, inc_incident_type = ''reliability'', inc_title = ''Pod down'',
      inc_summary = None, inc_environment = ENV_STAGING, inc_state = st, inc_severity = ''warning'',
      inc_risk_score = None, inc_retry_count = 0, inc_runbook_id = None, inc_runbook_version = None,
      inc_resolved_at = None, inc_resolution_source = None\<rparr>"

definition demo_with_incident :: "incident_state \<Rightarrow> demo_world sys" where
  "demo_with_incident st = demo_sys\<lparr>sy_db := empty_database\<lparr>db_incidents := [demo_incident st]\<rparr>,
     sy_next := 2\<rparr>"

lemma demo_find: "find_row inc_id 1 (db_incidents (sy_db (demo_with_incident st))) = Some (demo_incident st)"
  by (simp add: demo_with_incident_def find_row_def demo_incident_def)

theorem change_incident_state_guarded_witness:
  "(\<exists>msg details. change_incident_state demo_env 1 RESOLVED ''op'' ACTOR_USER [] False
      (demo_with_incident DETECTED) =
      (Inl (CloudWardError ''INVALID_INCIDENT_TRANSITION'' msg 409 details), demo_with_incident DETECTED)) \<and>
   wp (change_incident_state demo_env 1 BLOCKED ''op'' ACTOR_USER [] False)
     (\<lambda>_ t. state_of 1 t = Some BLOCKED) (\<lambda>_ t. state_of 1 t = Some BLOCKED)
     (demo_with_incident DETECTED)"
proof
  have st: "inc_state (demo_incident DETECTED) = DETECTED" by (simp add: demo_incident_def)
  show "\<exists>msg details. change_incident_state demo_env 1 RESOLVED ''op'' ACTOR_USER [] False
      (demo_with_incident DETECTED) =
      (Inl (CloudWardError ''INVALID_INCIDENT_TRANSITION'' msg 409 details), demo_with_incident DETECTED)"
    using change_incident_state_guarded [OF demo_find, of DETECTED RESOLVED] by (simp add: st)
  show "wp (change_incident_state demo_env 1 BLOCKED ''op'' ACTOR_USER [] False)
     (\<lambda>_ t. state_of 1 t = Some BLOCKED) (\<lambda>_ t. state_of 1 t = Some BLOCKED)
     (demo_with_incident DETECTED)"
    using change_incident_state_guarded [OF demo_find, of DETECTED BLOCKED] by (simp add: st)
qed

section \<open>The gauge of active incidents\<close>

definition active_in :: "environment \<Rightarrow> incident \<Rightarrow> bool" where
  "active_in v r \<longleftrightarrow> inc_environment r = v \<and> \<not> terminal_state (inc_state r)"

definition gauge_exact :: "'w sys \<Rightarrow> bool" where
  "gauge_exact s \<longleftrightarrow>
     (\<forall>v. sy_active s v = int (length (filter (active_in v) (db_incidents (sy_db s)))))"

lemma upd_row_new: "i \<notin> key ` set rows \<Longrightarrow> upd_row key i f rows = rows"
  by (auto simp: upd_row_def intro!: map_idI)

lemma count_upd_row:
  assumes "distinct (map key rows)" and "find_row key i rows = Some r"
  shows "int (length (filter P (upd_row key i f rows))) =
    int (length (filter P rows)) - (if P r then 1 else 0) + (if P (f r) then 1 else 0)"
  using assms
proof (induction rows)
  case (Cons x rows)
  show ?case
  proof (cases "key x = i")
    case True
    with Cons.prems have "upd_row key i f rows = rows" and "x = r"
      by (auto intro!: upd_row_new simp: find_row_def)
    with True show ?thesis by (simp add: upd_row_def)
  next
    case False
    with Cons have "int (length (filter P (upd_row key i f rows))) =
        int (length (filter P rows)) - (if P r then 1 else 0) + (if P (f r) then 1 else 0)"
      by (simp add: find_row_def)
    moreover have "upd_row key i f (x # rows) = x # upd_row key i f rows"
      using False by (simp add: upd_row_def)
    ultimately show ?thesis by (cases "P r"; cases "P (f r)") simp_all
  qed
qed (simp add: find_row_def)

lemma gauge_change:
  assumes inv: "log_inv s" "gauge_exact s"
    and inc: "find_row inc_id i (db_incidents (sy_db s)) = Some inc"
    and live: "\<not> terminal_state (inc_state inc)"
    and F: "\<forall>r. inc_id (F r) = inc_id r \<and> inc_state (F r) = target \<and> inc_environment (F r) = inc_environment r"
    and rows: "rows = upd_row inc_id i F (db_incidents (sy_db s))"
    and act: "act = (if terminal_state target
      then (sy_active s)(inc_environment inc := sy_active s (inc_environment inc) - 1) else sy_active s)"
  shows "act v = int (length (filter (active_in v) rows))"
proof -
  have "distinct (map inc_id (db_incidents (sy_db s)))"
    using inv(1) by (simp add: log_inv_def log_consistent_def)
  note count = count_upd_row [OF this inc, of "active_in v" F]
  show ?thesis unfolding rows count using inv(2) live F
    by (auto simp: act gauge_exact_def active_in_def)
qed

text \<open>C38. The gauge of active incidents is exact: when it counts, per environment, the incidents that
  are not in a terminal state, it still does after an incident is created and after every state
  change that goes through the transition table, on every way out.\<close>

theorem gauge_tracks_active_incidents:
  assumes "log_inv s" and "gauge_exact s"
  shows "wp (create_incident E c ty ti v su sid cid a aty) (\<lambda>_. gauge_exact) (\<lambda>_. gauge_exact) s \<and>
    wp (change_incident_state E i target a aty ds False) (\<lambda>_. gauge_exact) (\<lambda>_. gauge_exact) s"
proof
  have app: "keeps (\<lambda>s. db_incidents (sy_db s)) (append_stream_event E x1 x2 x3)"
    "keeps (\<lambda>s. db_incidents (sy_db s)) (record_audit E x4)" for x1 x2 x3 x4
    by (intro frame; simp)+
  have rest: "wp (append_stream_event E x1 x2 x3)
      (\<lambda>_. wp (record_audit E x4) (\<lambda>_. gauge_exact) (\<lambda>_. gauge_exact)) (\<lambda>_. gauge_exact) u"
    if "gauge_exact u" for x1 x2 x3 x4 and u :: "'a sys"
  proof -
    have "preserves gauge_exact m" if "keeps (\<lambda>s. db_incidents (sy_db s)) m" "keeps sy_active m"
      for m :: "('a, uuid) H" using that by (simp add: preserves_def keeps_def gauge_exact_def)
    then have p: "preserves gauge_exact (append_stream_event E x1 x2 x3)"
      "preserves gauge_exact (record_audit E x4)" by (simp_all add: app frame)
    show ?thesis by (rule wp_mono [OF preservesD [OF p(1) that]]) (simp_all add: preservesD [OF p(2)])
  qed
  show "wp (create_incident E c ty ti v su sid cid a aty) (\<lambda>_. gauge_exact) (\<lambda>_. gauge_exact) s"
    unfolding create_incident_def wp_thenM wp_bindM wp_seqM_Cons
    by (simp add: add_active_def wp_insert_row Let_def case_prod_unfold incident_ok_def
        add_incident_event_def wp_voidM no_constraint_def)
      (rule rest, use assms(2) in \<open>simp add: gauge_exact_def active_in_def terminal_state_def\<close>)
  show "wp (change_incident_state E i target a aty ds False) (\<lambda>_. gauge_exact) (\<lambda>_. gauge_exact) s"
  proof (cases "find_row inc_id i (db_incidents (sy_db s))")
    case None
    with assms(2) show ?thesis by (simp add: change_incident_state_def wp_bindM wp_load_row)
  next
    case (Some inc)
    show ?thesis
    proof (cases "inc_state inc \<noteq> target \<and> target \<in> allowed_transitions (inc_state inc)")
      case False
      with Some assms(2) show ?thesis
        by (auto simp: change_incident_state_def wp_bindM wp_load_row wp_seqM_Cons wp_whenM wp_voidM
            wp_liftR transition_incident_def)
    next
      case True
      then have live: "\<not> terminal_state (inc_state inc)" by (auto simp: terminal_no_transition)
      have key: "inc_id inc = i" using find_row_key [OF Some] by simp
      have exact: "wp (record_change E inc target a aty ds)
          (\<lambda>_ t. \<forall>v. sy_active t v = int (length (filter (active_in v) (db_incidents (sy_db t)))))
          (\<lambda>_ _. False) s"
      proof (rule wp_mono [OF record_change_post], goal_cases)
        case (1 x t)
        then obtain F where "\<forall>r. inc_id (F r) = inc_id r \<and> inc_state (F r) = target \<and>
            inc_environment (F r) = inc_environment r"
          "db_incidents (sy_db t) = upd_row inc_id i F (db_incidents (sy_db s))"
          unfolding key by blast
        from gauge_change [OF assms Some live this] 1 show ?case by blast
      qed simp
      show ?thesis
        by (rule wp_mono [OF change_incident_state_wp [OF Some _ _ exact]])
          (use True in \<open>auto simp: gauge_exact_def\<close>)
    qed
  qed
qed

theorem gauge_tracks_active_incidents_witness:
  "wp (create_incident demo_env ''c'' ''reliability'' ''t'' ENV_STAGING None None None ''a'' ACTOR_SYSTEM)
     (\<lambda>_. gauge_exact) (\<lambda>_. gauge_exact) demo_sys \<and>
   wp (change_incident_state demo_env 1 BLOCKED ''a'' ACTOR_SYSTEM [] False)
     (\<lambda>_. gauge_exact) (\<lambda>_. gauge_exact) demo_sys"
  by (rule gauge_tracks_active_incidents)
    (simp_all add: log_inv_def log_consistent_def keys_bounded_def gauge_exact_def demo_sys_def
      empty_database_def)

text \<open>A forced change is not covered: resolving an incident that is already blocked decrements
  the gauge a second time, so the gauge of an environment can go below the number of its active
  incidents (here below zero).\<close>

theorem forced_resolution_decrements_again:
  "gauge_exact (demo_with_incident BLOCKED) \<and>
   wp (resolve_incident demo_env 1 ''op'' ACTOR_USER ''done'' HUMAN_ACTION)
     (\<lambda>_ t. sy_active t ENV_STAGING = - 1) (\<lambda>_ t. sy_active t ENV_STAGING = - 1)
     (demo_with_incident BLOCKED)"
proof
  show "gauge_exact (demo_with_incident BLOCKED)"
    by (simp add: gauge_exact_def demo_with_incident_def demo_sys_def demo_incident_def active_in_def
        terminal_state_def)
  let ?s = "demo_with_incident BLOCKED"
  define u where "u = ?s\<lparr>sy_world := snd (e_utc_now demo_env (sy_world ?s)),
    sy_db := db_incidents_update (upd_row inc_id 1 (inc_resolved_at_update
        (\<lambda>_. Some (fst (e_utc_now demo_env (sy_world ?s))))))
      (db_incidents_update (upd_row inc_id 1 (inc_resolution_source_update (\<lambda>_. Some HUMAN_ACTION)))
        (sy_db ?s))\<rparr>"
  obtain inc where inc: "find_row inc_id 1 (db_incidents (sy_db u)) = Some inc"
    and facts: "inc_state inc = BLOCKED" "inc_environment inc = ENV_STAGING" "sy_active u ENV_STAGING = 0"
    using demo_find [of BLOCKED] by (simp add: u_def find_upd_row demo_incident_def)
      (simp add: demo_with_incident_def demo_sys_def)
  have "wp (record_change demo_env inc RESOLVED a aty ds)
      (\<lambda>_ t. sy_active t ENV_STAGING = - 1) (\<lambda>_ _. False) u" for a aty ds
    by (rule wp_mono [OF record_change_post]) (use facts in \<open>auto simp: terminal_state_def\<close>)
  then have "wp (change_incident_state demo_env 1 RESOLVED a aty ds True)
      (\<lambda>_ t. sy_active t ENV_STAGING = - 1) (\<lambda>_ t. sy_active t ENV_STAGING = - 1) u" for a aty ds
    using change_incident_state_wp [OF inc, of RESOLVED True demo_env a aty ds
        "\<lambda>_ act. act ENV_STAGING = - 1"] facts(1) by simp
  then show "wp (resolve_incident demo_env 1 ''op'' ACTOR_USER ''done'' HUMAN_ACTION)
     (\<lambda>_ t. sy_active t ENV_STAGING = - 1) (\<lambda>_ t. sy_active t ENV_STAGING = - 1) ?s"
    unfolding resolve_incident_def wp_bindM wp_load_row demo_find option.case
    by (simp add: demo_incident_def wp_seqM_Cons wp_bindM set_incident_def wp_updM wp_utc_now u_def)
qed

end
