(* ===== verification/CW_Kube.thy ===== *)
theory CW_Kube
  imports CW_Notify CW_Demo
begin

text \<open>
  The typed Kubernetes executor (\<open>kubernetes/executor.py\<close>): the reads every workflow uses and the
  mutations, each behind its name, namespace, label, ownership, readiness and bound checks. The API
  server is the environment's; a mutating request is logged at the moment it is sent. The security
  probe, the scenario triggers, the event listing and the Argo CD read are in \<open>CW_Probe\<close>.
\<close>

section \<open>State records\<close>

record deployment_state =
  ds_namespace :: string
  ds_name :: string
  ds_desired_replicas :: int
  ds_ready_replicas :: int
  ds_available_replicas :: int
  ds_observed_generation :: "int option"
  ds_container_images :: "string list"

record pod_state =
  ps_namespace :: string
  ps_name :: string
  ps_phase :: string
  ps_ready :: bool
  ps_labels :: "(string \<times> string) list"
  ps_controller_managed :: bool
  ps_controller_kind :: "string option"
  ps_restart_count :: int
  ps_termination_reasons :: "string list"
  ps_exit_codes :: "int list"

record pod_deletion_result =
  pd_namespace :: string
  pd_pod_name :: string
  pd_accepted :: bool
  pd_controller_reconciles_replacement :: bool

record deployment_scale_result =
  sr_namespace :: string
  sr_deployment :: string
  sr_previous_replicas :: int
  sr_requested_replicas :: int
  sr_accepted :: bool

record service_health =
  sh_namespace :: string
  sh_service_name :: string
  sh_path :: string
  sh_healthy :: bool
  sh_payload :: json

record quarantine_policy_result =
  qr_namespace :: string
  qr_pod_name :: string
  qr_policy_name :: string
  qr_quarantine_id :: string
  qr_applied :: bool

record quarantine_policy_state =
  qs_namespace :: string
  qs_pod_name :: string
  qs_policy_name :: string
  qs_policy_exists :: bool
  qs_target_label_matches :: bool
  qs_deny_all_egress :: bool

definition qs_enforced :: "quarantine_policy_state \<Rightarrow> bool" where
  "qs_enforced q \<longleftrightarrow> qs_policy_exists q \<and> qs_target_label_matches q \<and> qs_deny_all_egress q"

text \<open>The dictionaries \<open>to_dict\<close> gives.\<close>

definition deployment_state_json :: "deployment_state \<Rightarrow> jdict" where
  "deployment_state_json d =
     [(''namespace'', JStr (ds_namespace d)), (''name'', JStr (ds_name d)),
      (''desired_replicas'', JInt (ds_desired_replicas d)),
      (''ready_replicas'', JInt (ds_ready_replicas d)),
      (''available_replicas'', JInt (ds_available_replicas d)),
      (''observed_generation'', jopt JInt (ds_observed_generation d)),
      (''container_images'', JList (map JStr (ds_container_images d)))]"

definition pod_state_json :: "pod_state \<Rightarrow> jdict" where
  "pod_state_json p =
     [(''namespace'', JStr (ps_namespace p)), (''name'', JStr (ps_name p)),
      (''phase'', JStr (ps_phase p)), (''ready'', JBool (ps_ready p)),
      (''labels'', labels_json (ps_labels p)),
      (''controller_managed'', JBool (ps_controller_managed p)),
      (''controller_kind'', jstr_opt (ps_controller_kind p)),
      (''restart_count'', JInt (ps_restart_count p)),
      (''termination_reasons'', JList (map JStr (ps_termination_reasons p))),
      (''exit_codes'', JList (map JInt (ps_exit_codes p)))]"

definition pod_deletion_json :: "pod_deletion_result \<Rightarrow> jdict" where
  "pod_deletion_json r =
     [(''namespace'', JStr (pd_namespace r)), (''pod_name'', JStr (pd_pod_name r)),
      (''accepted'', JBool (pd_accepted r)),
      (''controller_reconciles_replacement'', JBool (pd_controller_reconciles_replacement r))]"

definition scale_result_json :: "deployment_scale_result \<Rightarrow> jdict" where
  "scale_result_json r =
     [(''namespace'', JStr (sr_namespace r)), (''deployment'', JStr (sr_deployment r)),
      (''previous_replicas'', JInt (sr_previous_replicas r)),
      (''requested_replicas'', JInt (sr_requested_replicas r)),
      (''accepted'', JBool (sr_accepted r))]"

definition service_health_json :: "service_health \<Rightarrow> jdict" where
  "service_health_json h =
     [(''namespace'', JStr (sh_namespace h)), (''service_name'', JStr (sh_service_name h)),
      (''path'', JStr (sh_path h)), (''healthy'', JBool (sh_healthy h)),
      (''payload'', sh_payload h)]"

section \<open>Validation\<close>

text \<open>\<^verbatim>\<open>^[a-z0-9](?:[-a-z0-9.]*[a-z0-9])?$\<close>, at most 253 characters.\<close>

definition dns_edge :: "char \<Rightarrow> bool" where
  "dns_edge c \<longleftrightarrow> is_lower_char c \<or> is_digit_char c"

definition dns_label :: "string \<Rightarrow> bool" where
  "dns_label s \<longleftrightarrow> s \<noteq> [] \<and> dns_edge (hd s) \<and> dns_edge (last s) \<and>
     (\<forall>c \<in> set s. dns_edge c \<or> c = CHR ''-'' \<or> c = CHR ''.'')"

definition valid_name :: "string \<Rightarrow> bool" where
  "valid_name s \<longleftrightarrow> length s \<le> 253 \<and> dns_label s"

definition validate_name :: "string \<Rightarrow> string \<Rightarrow> ('s, unit) M" where
  "validate_name s label = raise_if (\<not> valid_name s)
     (cw_error ''INVALID_KUBERNETES_TARGET'' (''Invalid '' @ label) 422)"

text \<open>\<^verbatim>\<open>^[A-Za-z0-9./_=,!() -]{1,512}$\<close>.\<close>

definition safe_selector :: "string \<Rightarrow> bool" where
  "safe_selector s \<longleftrightarrow> 1 \<le> length s \<and> length s \<le> 512 \<and>
     (\<forall>c \<in> set s. is_alnum_char c \<or> c \<in> set ''./_=,!() -'')"

definition safe_path :: "string \<Rightarrow> bool" where
  "safe_path s \<longleftrightarrow> 1 \<le> length s \<and> length s \<le> 256 \<and>
     (\<forall>c \<in> set s. is_alnum_char c \<or> c \<in> set ''._~/-'')"

definition DEMO_TARGET_LABEL :: string where
  "DEMO_TARGET_LABEL = ''cloudward.io/demo-target''"

definition QUARANTINE_LABEL :: string where
  "QUARANTINE_LABEL = ''cloudward.io/quarantine-id''"

definition require_namespace :: "'w env \<Rightarrow> string \<Rightarrow> ('w, unit) H" where
  "require_namespace E ns = thenM (validate_name ns ''namespace'')
     (raise_if (ns \<notin> allowed_namespaces (e_settings E))
       (cw_error ''KUBERNETES_NAMESPACE_DENIED''
         (''Automated actions are not allowed in namespace '' @ ns) 403))"

text \<open>An API call with its \<^verbatim>\<open>except ApiException\<close> handler; other exceptions pass.\<close>

definition apiM :: "('w \<Rightarrow> (api_failure + 'a) \<times> 'w) \<Rightarrow> (int option \<Rightarrow> ('w, 'a) H) \<Rightarrow> ('w, 'a) H" where
  "apiM call handler = bindM (worldM call) (\<lambda>r.
     case r of
       Inr x \<Rightarrow> returnM x
     | Inl f \<Rightarrow> (case f of ApiException st \<Rightarrow> handler st | ApiOther c \<Rightarrow> raiseM (PyError c)))"

definition api_error :: "string \<Rightarrow> string \<Rightarrow> int option \<Rightarrow> exn" where
  "api_error code msg st =
     CloudWardError code msg 502 (Some (JObj [(''status'', jopt JInt st)]))"

section \<open>Reads\<close>

definition or_zero :: "int option \<Rightarrow> int" where
  "or_zero v = (case v of None \<Rightarrow> 0 | Some i \<Rightarrow> i)"

definition or_empty :: "'a list option \<Rightarrow> 'a list" where
  "or_empty v = (case v of None \<Rightarrow> [] | Some xs \<Rightarrow> xs)"

definition pod_state_of :: "k8s_pod \<Rightarrow> pod_state" where
  "pod_state_of p =
     (let controller = find (\<lambda>o'. ko_controller o' = Some True) (or_empty (kp_owner_references p));
          statuses = or_empty (kp_container_statuses p);
          terminated = List.map_filter kc_terminated statuses
      in \<lparr>ps_namespace = kp_namespace p, ps_name = kp_name p,
          ps_phase = (case kp_phase p of None \<Rightarrow> ''Unknown'' | Some [] \<Rightarrow> ''Unknown'' | Some x \<Rightarrow> x),
          ps_ready = (\<exists>(ty, st) \<in> set (or_empty (kp_conditions p)).
             ty = ''Ready'' \<and> py_lower st = ''true''),
          ps_labels = or_empty (kp_labels p), ps_controller_managed = (controller \<noteq> None),
          ps_controller_kind = map_option ko_kind controller,
          ps_restart_count = sum_list (map (\<lambda>st. or_zero (kc_restart_count st)) statuses),
          ps_termination_reasons = map (\<lambda>(reason, _). case reason of
             None \<Rightarrow> ''Unknown'' | Some [] \<Rightarrow> ''Unknown'' | Some r \<Rightarrow> r) terminated,
          ps_exit_codes = map snd terminated\<rparr>)"

definition read_deployment :: "'w env \<Rightarrow> string \<Rightarrow> string \<Rightarrow> ('w, k8s_deployment) H" where
  "read_deployment E ns name = apiM (e_read_deployment E name ns)
     (\<lambda>st. raiseM (api_error ''KUBERNETES_API_ERROR'' ''Unable to read Kubernetes deployment'' st))"

definition get_deployment :: "'w env \<Rightarrow> string \<Rightarrow> string \<Rightarrow> ('w, deployment_state) H" where
  "get_deployment E ns name =
     thenM (validate_name ns ''namespace'') (thenM (validate_name name ''deployment name'')
     (bindM (read_deployment E ns name) (\<lambda>d.
     returnM \<lparr>ds_namespace = ns, ds_name = name, ds_desired_replicas = or_zero (kd_spec_replicas d),
       ds_ready_replicas = or_zero (kd_ready_replicas d),
       ds_available_replicas = or_zero (kd_available_replicas d),
       ds_observed_generation = kd_observed_generation d,
       ds_container_images = or_empty (kd_images d)\<rparr>)))"

definition get_pods :: "'w env \<Rightarrow> string \<Rightarrow> string \<Rightarrow> ('w, pod_state list) H" where
  "get_pods E ns sel =
     thenM (validate_name ns ''namespace'')
     (thenM (raise_if (\<not> safe_selector sel)
        (cw_error ''INVALID_KUBERNETES_SELECTOR'' ''Invalid label selector'' 400))
     (bindM (apiM (e_list_pods E ns sel)
        (\<lambda>st. raiseM (api_error ''KUBERNETES_API_ERROR'' ''Unable to list Kubernetes pods'' st)))
     (\<lambda>ps. returnM (map pod_state_of ps))))"

definition get_pod_health :: "'w env \<Rightarrow> string \<Rightarrow> string \<Rightarrow> ('w, pod_state) H" where
  "get_pod_health E ns name =
     thenM (validate_name ns ''namespace'') (thenM (validate_name name ''pod name'')
     (bindM (apiM (e_read_pod E name ns)
        (\<lambda>st. raiseM (api_error ''KUBERNETES_API_ERROR'' ''Unable to read Kubernetes pod'' st)))
     (\<lambda>p. returnM (pod_state_of p))))"

definition health_ok :: "json \<Rightarrow> bool" where
  "health_ok payload =
     (case payload of
        JObj d \<Rightarrow>
          py_lower (py_str (case dict_get d ''status'' of Some v \<Rightarrow> v
            | None \<Rightarrow> (case dict_get d ''state'' of Some v \<Rightarrow> v | None \<Rightarrow> JStr ''ok'')))
          \<in> {''ok'', ''healthy'', ''ready'', ''up'', ''true''}
      | _ \<Rightarrow> True)"

definition get_service_health :: "'w env \<Rightarrow> string \<Rightarrow> string \<Rightarrow> string \<Rightarrow> ('w, service_health) H" where
  "get_service_health E ns service path =
     thenM (validate_name ns ''namespace'') (thenM (validate_name service ''service name'')
     (let normalized = py_strip (\<lambda>c. c = CHR 0x2F) path in
      thenM (raise_if (normalized = [] \<or> \<not> safe_path normalized)
        (cw_error ''INVALID_HEALTH_PATH'' ''Invalid service health path'' 400))
      (bindM (worldM (e_service_proxy E service ns normalized)) (\<lambda>r.
       case r of
         Inr payload \<Rightarrow> returnM \<lparr>sh_namespace = ns, sh_service_name = service, sh_path = normalized,
           sh_healthy = health_ok payload, sh_payload = payload\<rparr>
       | Inl f \<Rightarrow> (case f of
           ApiException st \<Rightarrow> returnM \<lparr>sh_namespace = ns, sh_service_name = service,
             sh_path = normalized, sh_healthy = False,
             sh_payload = JObj [(''status'', jopt JInt st)]\<rparr>
         | ApiOther c \<Rightarrow> raiseM (PyError c))))))"

section \<open>Mutations\<close>

definition delete_pod :: "'w env \<Rightarrow> string \<Rightarrow> string \<Rightarrow> ('w, pod_deletion_result) H" where
  "delete_pod E ns name =
     thenM (require_namespace E ns)
     (bindM (get_pod_health E ns name) (\<lambda>pod.
      thenM (raise_if (dict_get (ps_labels pod) DEMO_TARGET_LABEL \<noteq> Some ''true'')
        (cw_error ''KUBERNETES_TARGET_DENIED'' ''Pod is not labeled as a CloudWard demo target'' 403))
      (thenM (raise_if (\<not> ps_controller_managed pod \<or> ps_controller_kind pod \<noteq> Some ''ReplicaSet'')
        (cw_error ''KUBERNETES_TARGET_DENIED'' ''Pod is not managed by a ReplicaSet controller'' 403))
      (thenM (raise_if (ps_ready pod)
        (cw_error ''KUBERNETES_TARGET_HEALTHY'' ''Refusing to delete a ready pod'' 409))
      (thenM (logM (EvDeletePod ns name))
      (thenM (apiM (e_delete_pod E name ns)
        (\<lambda>st. raiseM (api_error ''KUBERNETES_ACTION_FAILED''
           ''Kubernetes rejected the typed pod deletion'' st)))
      (returnM \<lparr>pd_namespace = ns, pd_pod_name = name, pd_accepted = True,
         pd_controller_reconciles_replacement = True\<rparr>)))))))"

definition scale_staging_deployment :: "'w env \<Rightarrow> string \<Rightarrow> string \<Rightarrow> int \<Rightarrow> int \<Rightarrow> int option \<Rightarrow>
    ('w, deployment_scale_result) H" where
  "scale_staging_deployment E ns name replicas maximum expected =
     thenM (require_namespace E ns)
     (thenM (validate_name name ''deployment name'')
     (thenM (raise_if (ns \<noteq> ''cloudward-staging'')
        (cw_error ''KUBERNETES_TARGET_DENIED'' ''Automatic scale is staging-only'' 403))
     (thenM (raise_if (replicas < 1 \<or> maximum < 1 \<or> replicas > maximum)
        (cw_error ''SCALE_BOUND_EXCEEDED''
           ''Requested replica count exceeds the configured automatic scale bound'' 422))
     (bindM (read_deployment E ns name) (\<lambda>d.
      thenM (raise_if (dict_get (or_empty (kd_template_labels d)) DEMO_TARGET_LABEL \<noteq> Some ''true'')
        (cw_error ''KUBERNETES_TARGET_DENIED''
           ''Deployment is not labeled as a CloudWard demo target'' 403))
      (let current = or_zero (kd_spec_replicas d) in
       thenM (raise_if (expected \<noteq> None \<and> expected \<noteq> Some current)
         (CloudWardError ''STALE_ACTION_TARGET''
            ''Deployment replicas changed after the action was proposed'' 409
            (Some (JObj [(''expected'', jopt JInt expected), (''actual'', JInt current)]))))
       (thenM (logM (EvScale ns name replicas))
       (thenM (apiM (e_patch_scale E name ns replicas)
         (\<lambda>st. raiseM (api_error ''KUBERNETES_ACTION_FAILED''
            ''Kubernetes rejected the bounded scale action'' st)))
       (returnM \<lparr>sr_namespace = ns, sr_deployment = name, sr_previous_replicas = current,
          sr_requested_replicas = replicas, sr_accepted = True\<rparr>)))))))))"

subsection \<open>Quarantine\<close>

definition require_custom_api :: "'w env \<Rightarrow> string \<Rightarrow> ('w, unit) H" where
  "require_custom_api E msg = raise_if (\<not> e_custom_api E)
     (cw_error ''KUBERNETES_ACTION_UNAVAILABLE'' msg 503)"

text \<open>\<open>d.get(key, {})\<close> of a value that must be a dictionary, and list membership.\<close>

definition attr_dict :: "json \<Rightarrow> exn + jdict" where
  "attr_dict v = (case v of JObj d \<Rightarrow> Inr d | _ \<Rightarrow> Inl (PyError ''AttributeError''))"

definition get_or_empty :: "jdict \<Rightarrow> string \<Rightarrow> json" where
  "get_or_empty d k = (case dict_get d k of None \<Rightarrow> JObj [] | Some v \<Rightarrow> v)"

definition list_member :: "json \<Rightarrow> json \<Rightarrow> exn + bool" where
  "list_member x v = (case v of JList xs \<Rightarrow> Inr (x \<in> set xs) | _ \<Rightarrow> Inl (PyError ''TypeError''))"

definition deny_all_rule :: json where
  "deny_all_rule = JObj [(''toEntities'', JList [JStr ''all''])]"

definition selector_json :: "string \<Rightarrow> json" where
  "selector_json qid = JObj [(QUARANTINE_LABEL, JStr qid)]"

definition policy_plural :: string where
  "policy_plural = ''ciliumnetworkpolicies''"

definition get_quarantine_policy_state :: "'w env \<Rightarrow> string \<Rightarrow> string \<Rightarrow> string \<Rightarrow> string \<Rightarrow>
    ('w, quarantine_policy_state) H" where
  "get_quarantine_policy_state E ns pod_name policy_name qid =
     thenM (require_namespace E ns)
     (thenM (validate_name pod_name ''pod name'')
     (thenM (validate_name policy_name ''policy name'')
     (thenM (validate_name qid ''quarantine id'')
     (thenM (require_custom_api E ''Cilium quarantine client is unavailable'')
     (bindM (apiM (\<lambda>w. map_prod (map_sum id Some) id (e_get_custom E ns policy_plural policy_name w))
        (\<lambda>st. if st \<noteq> Some 404
           then raiseM (api_error ''KUBERNETES_API_ERROR''
             ''Unable to read the Cilium quarantine policy'' st)
           else returnM None)) (\<lambda>policy.
     bindM (get_pod_health E ns pod_name) (\<lambda>pod.
     bindM (liftR (case policy of
         Some (JObj d) \<Rightarrow> attr_dict (get_or_empty d ''spec'') | _ \<Rightarrow> Inr [])) (\<lambda>spec.
     bindM (liftR (attr_dict (get_or_empty spec ''endpointSelector''))) (\<lambda>endpoint.
     bindM (liftR (list_member deny_all_rule
         (case dict_get spec ''egressDeny'' of None \<Rightarrow> JList [] | Some v \<Rightarrow> v))) (\<lambda>deny_all.
     returnM \<lparr>qs_namespace = ns, qs_pod_name = pod_name, qs_policy_name = policy_name,
       qs_policy_exists =
         (policy \<noteq> None \<and> dict_get endpoint ''matchLabels'' = Some (selector_json qid)),
       qs_target_label_matches = (dict_get (ps_labels pod) QUARANTINE_LABEL = Some qid),
       qs_deny_all_egress = deny_all\<rparr>))))))))))"

definition quarantine_body :: "string \<Rightarrow> string \<Rightarrow> string \<Rightarrow> string \<Rightarrow> string \<Rightarrow> json" where
  "quarantine_body ns pod_name policy_name qid incident_id = JObj
     [(''apiVersion'', JStr ''cilium.io/v2''), (''kind'', JStr ''CiliumNetworkPolicy''),
      (''metadata'', JObj
        [(''name'', JStr policy_name), (''namespace'', JStr ns),
         (''labels'', JObj [(''app.kubernetes.io/managed-by'', JStr ''cloudward'')]),
         (''annotations'', JObj [(''cloudward.io/incident-id'', JStr incident_id),
            (''cloudward.io/target-pod'', JStr pod_name)])]),
      (''spec'', JObj [(''endpointSelector'', JObj [(''matchLabels'', selector_json qid)]),
         (''egressDeny'', JList [deny_all_rule])])]"

text \<open>The label patch has no handler: an \<open>ApiException\<close> passes to the caller.\<close>

definition patch_pod_label :: "'w env \<Rightarrow> string \<Rightarrow> string \<Rightarrow> string option \<Rightarrow> ('w, unit) H" where
  "patch_pod_label E ns pod_name v =
     thenM (logM (EvLabelPod ns pod_name QUARANTINE_LABEL v))
     (apiM (e_patch_pod_label E pod_name ns QUARANTINE_LABEL v)
       (\<lambda>_. raiseM (PyError ''ApiException'')))"

definition apply_quarantine_policy :: "'w env \<Rightarrow> string \<Rightarrow> string \<Rightarrow> string \<Rightarrow> string \<Rightarrow>
    ('w, quarantine_policy_result) H" where
  "apply_quarantine_policy E ns pod_name qid incident_id =
     thenM (require_namespace E ns)
     (thenM (raise_if (ns \<noteq> ''cloudward-staging'')
        (cw_error ''QUARANTINE_NAMESPACE_DENIED''
           ''Part 2 quarantine is restricted to cloudward-staging'' 403))
     (thenM (validate_name pod_name ''pod name'')
     (thenM (validate_name qid ''quarantine id'')
     (bindM (get_pod_health E ns pod_name) (\<lambda>pod.
      thenM (raise_if (dict_get (ps_labels pod) DEMO_TARGET_LABEL \<noteq> Some ''true'')
        (cw_error ''KUBERNETES_TARGET_DENIED'' ''Pod is not labeled as a CloudWard demo target'' 403))
      (thenM (raise_if (\<not> ps_controller_managed pod)
        (cw_error ''KUBERNETES_TARGET_DENIED''
           ''Quarantine target must be a controller-managed demo pod'' 403))
      (thenM (require_custom_api E ''Cilium quarantine client is unavailable'')
      (let policy_name = ''cloudward-quarantine-'' @ qid in
       thenM (validate_name policy_name ''policy name'')
       (thenM (patch_pod_label E ns pod_name (Some qid))
       (thenM (logM (EvCreateCustom ns policy_plural
           (quarantine_body ns pod_name policy_name qid incident_id)))
       (thenM (voidM (apiM (e_create_custom E ns policy_plural
             (quarantine_body ns pod_name policy_name qid incident_id))
           (\<lambda>st. if st \<noteq> Some 409
              then thenM (patch_pod_label E ns pod_name None)
                (raiseM (api_error ''KUBERNETES_ACTION_FAILED''
                   ''Kubernetes rejected the typed Cilium quarantine'' st))
              else bindM (get_quarantine_policy_state E ns pod_name policy_name qid) (\<lambda>state.
                thenM (raise_if (\<not> qs_enforced state)
                  (cw_error ''QUARANTINE_CONFLICT''
                     ''An incompatible quarantine policy already exists'' 409))
                (returnM JNull)))))
       (returnM \<lparr>qr_namespace = ns, qr_pod_name = pod_name, qr_policy_name = policy_name,
          qr_quarantine_id = qid, qr_applied = True\<rparr>))))))))))))"

definition remove_quarantine_policy :: "'w env \<Rightarrow> string \<Rightarrow> string \<Rightarrow> string \<Rightarrow> string \<Rightarrow>
    ('w, quarantine_policy_state) H" where
  "remove_quarantine_policy E ns pod_name policy_name qid =
     thenM (require_namespace E ns)
     (thenM (validate_name pod_name ''pod name'')
     (thenM (validate_name policy_name ''policy name'')
     (thenM (validate_name qid ''quarantine id'')
     (thenM (require_custom_api E ''Cilium quarantine client is unavailable'')
     (bindM (get_quarantine_policy_state E ns pod_name policy_name qid) (\<lambda>state.
     thenM (whenM (qs_policy_exists state)
       (thenM (logM (EvDeleteCustom ns policy_plural policy_name))
        (apiM (e_delete_custom E ns policy_plural policy_name)
          (\<lambda>st. if st \<noteq> Some 404
             then raiseM (api_error ''KUBERNETES_ACTION_FAILED''
               ''Kubernetes rejected removal of the recorded quarantine'' st)
             else returnM ()))))
     (thenM (patch_pod_label E ns pod_name None)
     (get_quarantine_policy_state E ns pod_name policy_name qid))))))))"

definition create_typed_custom_object :: "'w env \<Rightarrow> string \<Rightarrow> string \<Rightarrow> json \<Rightarrow> ('w, jdict) H" where
  "create_typed_custom_object E ns plural body =
     thenM (require_namespace E ns)
     (thenM (require_custom_api E ''Custom Objects client is unavailable'')
     (thenM (logM (EvCreateCustom ns plural body))
     (bindM (apiM (e_create_custom E ns plural body)
       (\<lambda>st. raiseM (CloudWardError ''KUBERNETES_ACTION_FAILED''
          ''Kubernetes rejected the typed custom resource'' 502
          (Some (JObj [(''status'', jopt JInt st), (''resource'', JStr plural)]))))) (\<lambda>r.
     returnM (case r of JObj d \<Rightarrow> d | _ \<Rightarrow> [])))))"

definition delete_typed_custom_object :: "'w env \<Rightarrow> string \<Rightarrow> string \<Rightarrow> string \<Rightarrow> ('w, unit) H" where
  "delete_typed_custom_object E ns name plural =
     thenM (require_namespace E ns)
     (thenM (validate_name name ''custom resource name'')
     (thenM (require_custom_api E ''Custom Objects client is unavailable'')
     (thenM (logM (EvDeleteCustom ns plural name))
     (apiM (e_delete_custom E ns plural name)
       (\<lambda>st. if st \<noteq> Some 404
          then raiseM (CloudWardError ''KUBERNETES_ACTION_FAILED''
            ''Kubernetes rejected custom resource cleanup'' 502
            (Some (JObj [(''status'', jopt JInt st), (''resource'', JStr plural)])))
          else returnM ())))))"

section \<open>Frames\<close>

lemma keeps_validate [frame]: "keeps f (validate_name s l)" "keeps f (require_namespace E ns)"
  "keeps f (require_custom_api E m)"
  unfolding validate_name_def require_namespace_def require_custom_api_def by (intro frame)+

lemma keeps_api_failure [frame]:
  "(\<And>st. keeps f (g st)) \<Longrightarrow> (\<And>c. keeps f (h c)) \<Longrightarrow>
     keeps f (case v of ApiException st \<Rightarrow> g st | ApiOther c \<Rightarrow> h c)"
  by (cases v) auto

lemma keeps_apiM [frame]:
  "keeps f (worldM call) \<Longrightarrow> (\<And>st. keeps f (h st)) \<Longrightarrow> keeps f (apiM call h)"
  unfolding apiM_def by (intro frame)

lemmas kube_read_defs = get_deployment_def get_pods_def get_pod_health_def get_service_health_def
  read_deployment_def get_quarantine_policy_state_def

text \<open>A read changes nothing but the outside world's own state.\<close>

lemma keeps_kube_reads:
  assumes "\<And>s w. f (s\<lparr>sy_world := w\<rparr>) = f s"
  shows "keeps f (get_deployment E ns n)" "keeps f (get_pods E ns sel)"
    "keeps f (get_pod_health E ns n)" "keeps f (get_service_health E ns n p)"
    "keeps f (read_deployment E ns n)" "keeps f (get_quarantine_policy_state E ns n p q)"
  unfolding kube_read_defs by (intro frame keeps_worldM assms)+

lemma keeps_kube_reads_parts [frame]:
  "keeps effects (get_deployment E ns n)" "keeps effects (get_pods E ns sel)"
  "keeps effects (get_pod_health E ns n)" "keeps effects (get_service_health E ns n p)"
  "keeps sy_committed (get_deployment E ns n)" "keeps sy_committed (get_pods E ns sel)"
  "keeps sy_committed (get_pod_health E ns n)" "keeps sy_committed (get_service_health E ns n p)"
  "keeps sy_trace (get_deployment E ns n)" "keeps sy_trace (get_pods E ns sel)"
  "keeps sy_trace (get_pod_health E ns n)" "keeps sy_trace (get_service_health E ns n p)"
  "keeps (\<lambda>s. g (sy_db s)) (get_deployment E ns n)" "keeps (\<lambda>s. g (sy_db s)) (get_pods E ns sel)"
  "keeps (\<lambda>s. g (sy_db s)) (get_pod_health E ns n)"
  "keeps (\<lambda>s. g (sy_db s)) (get_service_health E ns n p)"
  by (rule keeps_kube_reads, simp add: effects_def)+

lemma keeps_kube_mutations [frame]:
  "keeps (\<lambda>s. g (sy_db s)) (delete_pod E ns n)" "keeps sy_committed (delete_pod E ns n)"
  "keeps sy_active (delete_pod E ns n)"
  "keeps (\<lambda>s. g (sy_db s)) (scale_staging_deployment E ns n r m x)"
  "keeps sy_committed (scale_staging_deployment E ns n r m x)"
  unfolding delete_pod_def scale_staging_deployment_def kube_read_defs by (intro frame)+

section \<open>Properties\<close>

lemma raises_api_failure:
  "(\<And>st. raises P (g st)) \<Longrightarrow> (\<And>c. raises P (h c)) \<Longrightarrow>
     raises P (case v of ApiException st \<Rightarrow> g st | ApiOther c \<Rightarrow> h c)"
  by (cases v) auto

lemma wp_validate_name [wp_simps]: "wp (validate_name v l) Q X s =
    (if valid_name v then Q () s
     else X (cw_error ''INVALID_KUBERNETES_TARGET'' (''Invalid '' @ l) 422) s)"
  by (simp add: validate_name_def wp_raise_if)

lemma wp_require_namespace [wp_simps]: "wp (require_namespace E ns) Q X s =
    (if \<not> valid_name ns then X (cw_error ''INVALID_KUBERNETES_TARGET'' (''Invalid '' @ ''namespace'') 422) s
     else if ns \<notin> allowed_namespaces (e_settings E) then X (cw_error ''KUBERNETES_NAMESPACE_DENIED''
         (''Automated actions are not allowed in namespace '' @ ns) 403) s
     else Q () s)"
  by (simp add: require_namespace_def wp_simps)

lemma wp_apiM [wp_simps]: "wp (apiM call h) Q X s =
    (let (r, w) = call (sy_world s) in
     case r of Inr x \<Rightarrow> Q x (s\<lparr>sy_world := w\<rparr>)
     | Inl (ApiException st) \<Rightarrow> wp (h st) Q X (s\<lparr>sy_world := w\<rparr>)
     | Inl (ApiOther c) \<Rightarrow> X (PyError c) (s\<lparr>sy_world := w\<rparr>))"
  by (simp add: apiM_def wp_simps Let_def split: prod.splits sum.splits api_failure.splits)

text \<open>What the cluster answered about the pod just before the deletion.\<close>

definition deletable_pod :: "'w env \<Rightarrow> string \<Rightarrow> string \<Rightarrow> 'w \<Rightarrow> bool" where
  "deletable_pod E ns name w \<longleftrightarrow>
     (\<exists>p. fst (e_read_pod E name ns w) = Inr p \<and> \<not> ps_ready (pod_state_of p) \<and>
        dict_get (ps_labels (pod_state_of p)) DEMO_TARGET_LABEL = Some ''true'' \<and>
        ps_controller_managed (pod_state_of p) \<and>
        ps_controller_kind (pod_state_of p) = Some ''ReplicaSet'')"

definition scalable_deployment :: "'w env \<Rightarrow> string \<Rightarrow> string \<Rightarrow> int option \<Rightarrow> 'w \<Rightarrow> bool" where
  "scalable_deployment E ns name expected w \<longleftrightarrow>
     (\<exists>d. fst (e_read_deployment E name ns w) = Inr d \<and>
        dict_get (or_empty (kd_template_labels d)) DEMO_TARGET_LABEL = Some ''true'' \<and>
        (expected = None \<or> expected = Some (or_zero (kd_spec_replicas d))))"

lemma delete_pod_wp:
  "wp (delete_pod E ns name)
     (\<lambda>_ t. sy_trace t = sy_trace s @ [EvDeletePod ns name] \<and> deletable_pod E ns name (sy_world s) \<and>
        ns \<in> allowed_namespaces (e_settings E) \<and> valid_name ns \<and> valid_name name)
     (\<lambda>e t. sy_trace t = sy_trace s \<or>
        sy_trace t = sy_trace s @ [EvDeletePod ns name] \<and> deletable_pod E ns name (sy_world s) \<and>
        ns \<in> allowed_namespaces (e_settings E) \<and> valid_name ns \<and> valid_name name) s"
  by (simp add: delete_pod_def get_pod_health_def wp_simps Let_def deletable_pod_def
      split: prod.splits sum.splits api_failure.splits)

text \<open>C6. The pod deletion is confined: at most one request reaches the cluster, it names exactly the
  requested pod, and it is sent only when the namespace is valid and on the allowlist, the pod name
  is valid, and the cluster has just reported the pod as unready, labelled as a demo target and
  owned by a ReplicaSet. A successful return means the request was sent; when a check refuses, no
  request is sent.\<close>

theorem delete_pod_confined:
  "wp (delete_pod E ns name)
     (\<lambda>_ t. sy_trace t = sy_trace s @ [EvDeletePod ns name] \<and> deletable_pod E ns name (sy_world s) \<and>
        ns \<in> allowed_namespaces (e_settings E) \<and> valid_name ns \<and> valid_name name)
     (\<lambda>e t. sy_trace t = sy_trace s \<or>
        sy_trace t = sy_trace s @ [EvDeletePod ns name] \<and> deletable_pod E ns name (sy_world s) \<and>
        ns \<in> allowed_namespaces (e_settings E) \<and> valid_name ns \<and> valid_name name) s"
  by (rule delete_pod_wp)

lemma scale_staging_deployment_wp:
  "wp (scale_staging_deployment E ns name replicas maximum expected)
     (\<lambda>r t. sy_trace t = sy_trace s @ [EvScale ns name replicas] \<and> ns = ''cloudward-staging'' \<and>
        1 \<le> replicas \<and> replicas \<le> maximum \<and> scalable_deployment E ns name expected (sy_world s) \<and>
        sr_requested_replicas r = replicas \<and>
        (expected = None \<or> expected = Some (sr_previous_replicas r)))
     (\<lambda>e t. sy_trace t = sy_trace s \<or>
        sy_trace t = sy_trace s @ [EvScale ns name replicas] \<and> ns = ''cloudward-staging'' \<and>
        1 \<le> replicas \<and> replicas \<le> maximum \<and> scalable_deployment E ns name expected (sy_world s)) s"
  by (auto simp: scale_staging_deployment_def read_deployment_def wp_simps Let_def
      scalable_deployment_def split: prod.splits sum.splits api_failure.splits)

text \<open>The scale action is confined: it is sent only to the staging namespace, with between one
  and the maximum number of replicas, for a deployment the cluster has just reported as a demo
  target with the expected replica count; at most one request is sent.\<close>

theorem scale_staging_deployment_confined:
  "wp (scale_staging_deployment E ns name replicas maximum expected)
     (\<lambda>r t. sy_trace t = sy_trace s @ [EvScale ns name replicas] \<and> ns = ''cloudward-staging'' \<and>
        1 \<le> replicas \<and> replicas \<le> maximum \<and> scalable_deployment E ns name expected (sy_world s) \<and>
        sr_requested_replicas r = replicas \<and>
        (expected = None \<or> expected = Some (sr_previous_replicas r)))
     (\<lambda>e t. sy_trace t = sy_trace s \<or>
        sy_trace t = sy_trace s @ [EvScale ns name replicas] \<and> ns = ''cloudward-staging'' \<and>
        1 \<le> replicas \<and> replicas \<le> maximum \<and> scalable_deployment E ns name expected (sy_world s)) s"
  by (rule scale_staging_deployment_wp)

text \<open>Quarantine is confined and compensated: it labels exactly one pod and creates exactly one
  deny-all-egress policy selecting that label, only in the staging namespace and only for a pod that
  is a controller-managed demo target; when the API server rejects the policy (other than with a
  conflict) the label is taken off again before the error is raised, and no other sequence of
  requests can be sent.\<close>

theorem apply_quarantine_compensates:
  fixes E :: "'w env" and qid ns pod_name incident_id :: string and s :: "'w sys"
  defines "policy \<equiv> ''cloudward-quarantine-'' @ qid"
  defines "label \<equiv> EvLabelPod ns pod_name QUARANTINE_LABEL (Some qid)"
    and "create \<equiv> EvCreateCustom ns policy_plural (quarantine_body ns pod_name policy qid incident_id)"
    and "unlabel \<equiv> EvLabelPod ns pod_name QUARANTINE_LABEL None"
  shows "wp (apply_quarantine_policy E ns pod_name qid incident_id)
     (\<lambda>r t. sy_trace t = sy_trace s @ [label, create] \<and> ns = ''cloudward-staging'' \<and>
        ns \<in> allowed_namespaces (e_settings E) \<and> qr_policy_name r = policy)
     (\<lambda>e t. sy_trace t = sy_trace s \<or> sy_trace t = sy_trace s @ [label] \<or>
        sy_trace t = sy_trace s @ [label, create] \<and> cw_code e \<noteq> Some ''KUBERNETES_ACTION_FAILED'' \<or>
        sy_trace t = sy_trace s @ [label, create, unlabel]) s"
proof -
  let ?ok = "\<lambda>e. cw_code e \<noteq> Some ''KUBERNETES_ACTION_FAILED''"
  have "raises ?ok (get_quarantine_policy_state E n pod_name policy qid)" for n
    unfolding get_quarantine_policy_state_def get_pod_health_def require_custom_api_def
      require_namespace_def validate_name_def apiM_def
    by (intro raise_rules raises_api_failure) (auto simp: api_error_def attr_dict_def list_member_def
        split: json.splits option.splits)
  then have state: "wp (get_quarantine_policy_state E n pod_name policy qid)
      (\<lambda>_ t. sy_trace t = sy_trace u) (\<lambda>e t. sy_trace t = sy_trace u \<and> ?ok e) u"
    for n and u :: "'w sys"
    by (rule wp_mono [OF wp_conj [OF raisesD keeps_wp [OF keeps_kube_reads(6)]]]) auto
  show ?thesis
    unfolding apply_quarantine_policy_def get_pod_health_def patch_pod_label_def require_custom_api_def
      wp_simps Let_def policy_def [symmetric] label_def [symmetric] create_def [symmetric]
      unlabel_def [symmetric]
    by (auto simp: wp_simps Let_def api_error_def label_def create_def unlabel_def
        split: prod.splits sum.splits api_failure.splits) (rule wp_mono [OF state]; auto)+
qed

end
