(* ===== verification/CW_Execution.thy ===== *)
theory CW_Execution
  imports CW_Incidents CW_Kube
begin

text \<open>
  Typed action execution (\<open>remediation/execution.py\<close>): the idempotency key of an action, claiming an
  execution against the approval of its proposal, finishing it, and the rollback decision and
  rollback of a scale action. The Prometheus counters are left out.
\<close>

section \<open>Claiming\<close>

definition action_idempotency_key :: "uuid \<Rightarrow> string \<Rightarrow> action_type \<Rightarrow> jdict \<Rightarrow> int \<Rightarrow> string" where
  "action_idempotency_key incident_id runbook_id action target attempt =
     sha256_hex (uuid_str incident_id @ '':'' @ runbook_id @ '':'' @ action_value action @ '':'' @
       str_of_int attempt @ '':'' @ json_dumps (JObj target))"

definition set_execution :: "uuid \<Rightarrow> (action_execution \<Rightarrow> action_execution) \<Rightarrow> ('w, unit) H" where
  "set_execution i f = updM (db_action_executions_update (upd_row exe_id i f))"

definition set_approval :: "uuid \<Rightarrow> (approval \<Rightarrow> approval) \<Rightarrow> ('w, unit) H" where
  "set_approval i f = updM (db_approvals_update (upd_row apr_id i f))"

definition set_proposal :: "uuid \<Rightarrow> (action_proposal \<Rightarrow> action_proposal) \<Rightarrow> ('w, unit) H" where
  "set_proposal i f = updM (db_action_proposals_update (upd_row prp_id i f))"

definition new_execution :: "uuid \<Rightarrow> uuid \<Rightarrow> string \<Rightarrow> action_type \<Rightarrow> int \<Rightarrow> string option \<Rightarrow>
    uuid option \<Rightarrow> uuid \<Rightarrow> time \<Rightarrow> action_execution" where
  "new_execution incident_id proposal_id correlation_id action attempt key rollback_of i t =
     \<lparr>exe_id = i, exe_created_at = t, exe_incident_id = incident_id, exe_proposal_id = proposal_id,
      exe_correlation_id = correlation_id, exe_action_type = action, exe_attempt = attempt,
      exe_status = RS_RUNNING, exe_result = [], exe_error_code = None, exe_started_at = t,
      exe_completed_at = None, exe_idempotency_key = key, exe_rollback_of_execution_id = rollback_of,
      exe_rolled_back_at = None\<rparr>"

definition latest_approval :: "uuid \<Rightarrow> database \<Rightarrow> approval option" where
  "latest_approval proposal_id d =
     newest apr_proposal_version (\<lambda>a. apr_proposal_id a = proposal_id) (db_approvals d)"

text \<open>The refusals in front of a new execution, for the latest approval of the proposal.\<close>

definition approval_gate :: "approval option \<Rightarrow> ('w, unit) H" where
  "approval_gate approval =
     (case approval of
        None \<Rightarrow> returnM ()
      | Some a \<Rightarrow>
          thenM (raise_if (apr_decision a \<noteq> AD_APPROVED)
            (cw_error ''ACTION_APPROVAL_REQUIRED''
               ''The proposal does not have a current approved decision'' 409))
          (raise_if (apr_execution_claimed_at a \<noteq> None)
            (cw_error ''APPROVED_ACTION_ALREADY_CLAIMED''
               ''The approved proposal was already claimed for execution'' 409)))"

definition claim_action_execution :: "'w env \<Rightarrow> uuid \<Rightarrow> uuid \<Rightarrow> string \<Rightarrow> jdict \<Rightarrow> int \<Rightarrow>
    ('w, uuid \<times> bool) H" where
  "claim_action_execution E incident_id proposal_id runbook_id target attempt =
     thenM (raise_if (attempt < 1 \<or> attempt > 3)
       (cw_error ''REMEDIATION_ATTEMPT_LIMIT''
          ''Automatic remediation is limited to three attempts per incident'' 409))
     (bindM (load_incident incident_id) (\<lambda>inc.
      bindM (load_row db_action_proposals prp_id proposal_id) (\<lambda>p.
      let key = action_idempotency_key incident_id runbook_id (prp_action_type p) target attempt in
      bindM (dbM (\<lambda>d. find (\<lambda>x. exe_idempotency_key x = Some key) (db_action_executions d)))
        (\<lambda>existing.
      case existing of
        Some x \<Rightarrow> returnM (exe_id x, False)
      | None \<Rightarrow>
          bindM (dbM (latest_approval proposal_id)) (\<lambda>approval.
          thenM (approval_gate approval)
          (bindM (insert_row E db_action_executions_update action_execution_ok
             (new_execution incident_id proposal_id (inc_correlation_id inc) (prp_action_type p)
                attempt (Some key) None)) (\<lambda>i.
           thenM (seqM
             [set_incident incident_id (inc_retry_count_update (\<lambda>_. attempt)),
              (case approval of
                 None \<Rightarrow> returnM ()
               | Some a \<Rightarrow> bindM (utc_now E) (\<lambda>now. set_approval (apr_id a)
                   (\<lambda>r. r\<lparr>apr_execution_claimed_at := Some now,
                      apr_execution_reference := Some (uuid_str i)\<rparr>))),
              voidM (record_audit E
                ((audit_args ''ACTION_EXECUTION_CLAIMED'' (inc_correlation_id inc) ''SUCCEEDED'')
                  \<lparr>aa_incident_id := Some incident_id,
                   aa_action := Some (action_value (prp_action_type p)),
                   aa_risk_score := Some (prp_risk_score p),
                   aa_metadata := [(''execution_id'', JStr (uuid_str i)), (''attempt'', JInt attempt),
                     (''idempotency_key'', JStr key)]\<rparr>)),
              voidM (append_stream_event E ''remediation.progress'' (Some incident_id)
                [(''execution_id'', JStr (uuid_str i)),
                 (''action'', JStr (action_value (prp_action_type p))), (''attempt'', JInt attempt),
                 (''status'', JStr (record_status_value RS_RUNNING))])])
           (returnM (i, True)))))))))"

section \<open>Finishing\<close>

definition finish_action_execution :: "'w env \<Rightarrow> uuid \<Rightarrow> uuid \<Rightarrow> bool \<Rightarrow> jdict \<Rightarrow> string option \<Rightarrow>
    ('w, unit) H" where
  "finish_action_execution E incident_id execution_id succeeded result error_code =
     bindM (load_incident incident_id) (\<lambda>inc.
     bindM (load_row db_action_executions exe_id execution_id) (\<lambda>x.
     bindM (utc_now E) (\<lambda>now.
     let status = (if succeeded then RS_SUCCEEDED else RS_FAILED) in
     seqM
       [set_execution execution_id (\<lambda>r. r\<lparr>exe_status := status, exe_result := result,
          exe_error_code := error_code, exe_completed_at := Some now\<rparr>),
        voidM (record_audit E
          ((audit_args ''ACTION_EXECUTED'' (inc_correlation_id inc) (record_status_value status))
            \<lparr>aa_incident_id := Some incident_id, aa_action := Some (action_value (exe_action_type x)),
             aa_metadata := [(''execution_id'', JStr (uuid_str execution_id)),
               (''attempt'', JInt (exe_attempt x)), (''error_code'', jstr_opt error_code),
               (''result'', JObj result)]\<rparr>)),
        voidM (append_stream_event E ''remediation.progress'' (Some incident_id)
          [(''execution_id'', JStr (uuid_str execution_id)),
           (''action'', JStr (action_value (exe_action_type x))),
           (''attempt'', JInt (exe_attempt x)), (''status'', JStr (record_status_value status)),
           (''error_code'', jstr_opt error_code)])])))"

section \<open>Rollback\<close>

datatype rollback_disposition = RB_AUTOMATIC | RB_AWAITING_APPROVAL | RB_ESCALATE | RB_NOT_AVAILABLE

definition rollback_decide :: "int \<Rightarrow> action_type \<Rightarrow> int \<Rightarrow> bool \<Rightarrow> bool \<Rightarrow> rollback_disposition" where
  "rollback_decide automatic_max_risk action risk_score rollback_enabled policy_allows =
     (let metadata = get_action_metadata action in
      if \<not> rollback_enabled \<or> \<not> am_reversible metadata \<or> \<not> am_rollback_capable metadata
      then RB_NOT_AVAILABLE
      else if \<not> policy_allows then RB_ESCALATE
      else if am_persistent metadata
      then (if risk_score < 70 then RB_AWAITING_APPROVAL else RB_ESCALATE)
      else if risk_score \<le> automatic_max_risk then RB_AUTOMATIC
      else if risk_score < 70 then RB_AWAITING_APPROVAL
      else RB_ESCALATE)"

definition dict_int :: "jdict \<Rightarrow> string \<Rightarrow> int \<Rightarrow> exn + int" where
  "dict_int d k fallback = (case dict_get d k of None \<Rightarrow> Inr fallback | Some v \<Rightarrow> py_int v)"

definition dict_str :: "jdict \<Rightarrow> string \<Rightarrow> string" where
  "dict_str d k = (case dict_get d k of None \<Rightarrow> [] | Some v \<Rightarrow> py_str v)"

definition rollback_scale :: "'w env \<Rightarrow> uuid \<Rightarrow> uuid \<Rightarrow> int \<Rightarrow> ('w, uuid) H" where
  "rollback_scale E incident_id failed_id maximum_replicas =
     bindM (load_incident incident_id) (\<lambda>inc.
     bindM (load_row db_action_executions exe_id failed_id) (\<lambda>failed.
     thenM (voidM (liftR (require_executable_action SCALE_STAGING_DEPLOYMENT
        (environment_value (inc_environment inc)))))
     (bindM (liftR (dict_int (exe_result failed) ''previous_replicas'' 0)) (\<lambda>previous.
      bindM (liftR (dict_int (exe_result failed) ''requested_replicas'' 0)) (\<lambda>requested.
      thenM (raise_if (previous < 1 \<or> requested < 1)
        (cw_error ''ROLLBACK_STATE_UNAVAILABLE''
           ''Recorded scale execution is missing a valid previous state'' 409))
      (bindM (dbM (\<lambda>d. find_row prp_id (exe_proposal_id failed) (db_action_proposals d))) (\<lambda>proposal.
       case proposal of
         None \<Rightarrow> raiseM (cw_error ''ACTION_PROPOSAL_NOT_FOUND'' ''Rollback proposal was not found'' 404)
       | Some p \<Rightarrow>
           thenM (raise_if (exe_attempt failed \<ge> 3)
             (cw_error ''REMEDIATION_ATTEMPT_LIMIT''
                ''No rollback attempt remains after the third automatic action'' 409))
           (bindM (insert_row E db_action_executions_update action_execution_ok
              (new_execution incident_id (prp_id p) (inc_correlation_id inc) SCALE_STAGING_DEPLOYMENT
                 (exe_attempt failed + 1)
                 (Some (sha256_hex (''rollback:'' @ uuid_str failed_id @ '':'' @ str_of_int previous)))
                 (Some failed_id))) (\<lambda>i.
            bindM (scale_staging_deployment E (dict_str (exe_result failed) ''namespace'')
              (dict_str (exe_result failed) ''deployment'') previous maximum_replicas
              (Some requested)) (\<lambda>scaled.
            bindM (utc_now E) (\<lambda>now.
            bindM (utc_now E) (\<lambda>now'.
            thenM (seqM
              [set_execution i (\<lambda>r. r\<lparr>exe_status := RS_SUCCEEDED,
                 exe_result := scale_result_json scaled, exe_completed_at := Some now\<rparr>),
               set_execution failed_id (exe_rolled_back_at_update (\<lambda>_. Some now')),
               voidM (record_audit E
                 ((audit_args ''ACTION_ROLLED_BACK'' (inc_correlation_id inc) ''SUCCEEDED'')
                   \<lparr>aa_incident_id := Some incident_id, aa_actor := ''cloudward-rollback'',
                    aa_action := Some (action_value SCALE_STAGING_DEPLOYMENT),
                    aa_metadata := [(''execution_id'', JStr (uuid_str i)),
                      (''rollback_of'', JStr (uuid_str failed_id)),
                      (''restored_replicas'', JInt previous)]\<rparr>)),
               voidM (append_stream_event E ''remediation.progress'' (Some incident_id)
                 [(''execution_id'', JStr (uuid_str i)),
                  (''rollback_of'', JStr (uuid_str failed_id)),
                  (''action'', JStr (action_value SCALE_STAGING_DEPLOYMENT)),
                  (''status'', JStr (record_status_value RS_SUCCEEDED))])])
            (returnM i)))))))))))))"

section \<open>Frames\<close>

lemma keeps_execution_prims [frame]:
  "keeps effects (set_execution i f)" "keeps effects (set_approval i g)" "keeps effects (set_proposal i h)"
  "keeps sy_committed (set_execution i f)" "keeps sy_committed (set_approval i g)"
  "keeps sy_committed (set_proposal i h)" "keeps effects (approval_gate a)"
  unfolding set_execution_def set_approval_def set_proposal_def approval_gate_def by (intro frame)+

lemma keeps_claim [frame]: "keeps effects (claim_action_execution E i p r tg n)"
  unfolding claim_action_execution_def by (intro frame)

section \<open>Properties\<close>

lemma newest_from_map:
  assumes "\<And>r. c (f r) = c r"
  shows "newest_from c (map_option f b) (map f rs) = map_option f (newest_from c b rs)"
  using assms
proof (induction c b rs rule: newest_from.induct)
  case (3 c b r rs)
  then show ?case by (cases "c b \<le> c r") simp_all
qed simp_all

lemma newest_upd_row:
  assumes "\<And>r. c (f r) = c r" and "\<And>r. P (f r) = P r"
  shows "newest c P (upd_row key i f rows) =
    map_option (\<lambda>r. if key r = i then f r else r) (newest c P rows)"
proof -
  let ?g = "\<lambda>r. if key r = i then f r else r"
  have "filter P (upd_row key i f rows) = map ?g (filter P rows)"
    using assms(2) by (induction rows) (auto simp: upd_row_def)
  then show ?thesis
    using newest_from_map [of c ?g None] assms(1) by (simp add: newest_def)
qed

text \<open>The approval of a proposal that has been claimed stops every further claim.\<close>

lemma claim_stopped:
  assumes "latest_approval pid (sy_db u) = Some a" and "apr_execution_claimed_at a \<noteq> None"
  shows "wp (claim_action_execution E iid pid rb tg att) (\<lambda>x _. \<not> snd x) (\<lambda>_ _. True) u"
  using assms
  by (auto simp: claim_action_execution_def approval_gate_def wp_simps Let_def split: option.splits)

lemma claim_marks_approval:
  assumes "latest_approval pid (sy_db s) = Some a"
  shows "wp (claim_action_execution E iid pid rb tg att)
    (\<lambda>x t. snd x \<longrightarrow> apr_decision a = AD_APPROVED \<and> apr_execution_claimed_at a = None \<and>
       (\<exists>a'. latest_approval pid (sy_db t) = Some a' \<and> apr_execution_claimed_at a' \<noteq> None))
    (\<lambda>_ _. True) s"
  using assms
  by (auto simp: claim_action_execution_def approval_gate_def wp_simps Let_def case_prod_unfold
      set_incident_def set_approval_def append_stream_event_def no_constraint_def latest_approval_def
      newest_upd_row split: option.splits)

text \<open>C4. An approved proposal is claimed for execution at most once: a new claim on a proposal that
  has an approval succeeds only when the latest approval is \<open>APPROVED\<close> and unclaimed, it marks that
  approval as claimed, and from then on no claim on the proposal, with whatever runbook, target or
  attempt number, creates another execution.\<close>

theorem approved_action_claimed_once:
  assumes "latest_approval pid (sy_db s) = Some a"
  shows "wp (claim_action_execution E iid pid rb tg att)
    (\<lambda>x t. snd x \<longrightarrow> apr_decision a = AD_APPROVED \<and> apr_execution_claimed_at a = None \<and>
       (\<forall>E' iid' rb' tg' att'. wp (claim_action_execution E' iid' pid rb' tg' att')
          (\<lambda>y _. \<not> snd y) (\<lambda>_ _. True) t))
    (\<lambda>_ _. True) s"
  by (rule wp_mono [OF claim_marks_approval [OF assms]]) (auto intro: claim_stopped)

text \<open>Claiming is idempotent: after a claim has returned an execution, repeating it with the same
  arguments returns the same execution as already claimed and changes nothing.\<close>

theorem claim_is_idempotent:
  "wp (claim_action_execution E iid pid rb tg att)
     (\<lambda>x t. claim_action_execution E iid pid rb tg att t = (Inr (fst x, False), t))
     (\<lambda>_ _. True) s"
proof -
  have again: "claim_action_execution E iid pid rb tg att u = (Inr (exe_id x, False), u)"
    if "1 \<le> att" "att \<le> 3" "find_row inc_id iid (db_incidents (sy_db u)) = Some inc"
      "find_row prp_id pid (db_action_proposals (sy_db u)) = Some p"
      "find (\<lambda>x. exe_idempotency_key x =
         Some (action_idempotency_key iid rb (prp_action_type p) tg att))
         (db_action_executions (sy_db u)) = Some x" for u inc p x
    using that by (simp add: claim_action_execution_def load_row_def thenM_def bindM_def raise_if_def
        returnM_def dbM_def readM_def Let_def)
  have "wp (claim_action_execution E iid pid rb tg att)
     (\<lambda>x t. 1 \<le> att \<and> att \<le> 3 \<and> (\<exists>inc p y. find_row inc_id iid (db_incidents (sy_db t)) = Some inc \<and>
        find_row prp_id pid (db_action_proposals (sy_db t)) = Some p \<and>
        find (\<lambda>x. exe_idempotency_key x =
          Some (action_idempotency_key iid rb (prp_action_type p) tg att))
          (db_action_executions (sy_db t)) = Some y \<and> fst x = exe_id y)) (\<lambda>_ _. True) s"
    by (auto simp: claim_action_execution_def approval_gate_def wp_simps Let_def
        case_prod_unfold set_incident_def set_approval_def append_stream_event_def no_constraint_def
        new_execution_def find_upd_row find_append_new split: option.splits)
  then show ?thesis by (rule wp_mono) (auto simp: again)
qed

definition demo_proposal :: action_proposal where
  "demo_proposal = \<lparr>prp_id = 2, prp_created_at = 0, prp_incident_id = 1, prp_correlation_id = ''c'',
     prp_action_type = SCALE_STAGING_DEPLOYMENT, prp_parameters = [], prp_status = RS_PENDING,
     prp_risk_score = 20, prp_risk_calculation = [], prp_proposed_by = ''cloudward''\<rparr>"

definition demo_approval :: approval where
  "demo_approval = (new_approval (demo_incident AWAITING_APPROVAL) demo_proposal 1 ''op'' None 1000 3 0)
     \<lparr>apr_decision := AD_APPROVED\<rparr>"

definition demo_approved :: "demo_world sys" where
  "demo_approved = demo_sys\<lparr>sy_db := empty_database
     \<lparr>db_incidents := [demo_incident AWAITING_APPROVAL], db_action_proposals := [demo_proposal],
      db_approvals := [demo_approval]\<rparr>, sy_next := 4\<rparr>"

theorem approved_action_claimed_once_witness:
  "latest_approval 2 (sy_db demo_approved) = Some demo_approval \<and>
   wp (claim_action_execution demo_env 1 2 ''rb'' [] 1)
    (\<lambda>x t. snd x \<longrightarrow> apr_decision demo_approval = AD_APPROVED \<and>
       apr_execution_claimed_at demo_approval = None \<and>
       (\<forall>(E' :: demo_world env) iid' rb' tg' att'. wp (claim_action_execution E' iid' 2 rb' tg' att')
          (\<lambda>y _. \<not> snd y) (\<lambda>_ _. True) t))
    (\<lambda>_ _. True) demo_approved"
proof -
  have "latest_approval 2 (sy_db demo_approved) = Some demo_approval"
    by (simp add: latest_approval_def newest_def demo_approved_def demo_approval_def new_approval_def
        demo_proposal_def)
  then show ?thesis using approved_action_claimed_once by blast
qed

text \<open>Rollback is automatic exactly for an enabled, policy-allowed rollback of one of the five
  actions that are reversible, not persistent and can be rolled back, within the automatic risk
  bound; with that bound at most 69, a score of 70 or more never leads to a rollback or an approval
  request.\<close>

theorem rollback_decide_exact:
  "(rollback_decide max_risk action risk enabled policy = RB_AUTOMATIC \<longleftrightarrow>
      enabled \<and> policy \<and> risk \<le> max_risk \<and>
      action \<in> {SCALE_STAGING_DEPLOYMENT, SCALE_WORKLOAD, APPLY_QUARANTINE, QUARANTINE_WORKLOAD,
        REMOVE_QUARANTINE}) \<and>
   (rollback_decide (min max_risk 69) action risk enabled policy \<in> {RB_AUTOMATIC, RB_AWAITING_APPROVAL} \<longleftrightarrow>
      enabled \<and> policy \<and> risk < 70 \<and>
      action \<notin> {DELETE_UNHEALTHY_POD, RESTART_POD, REQUEST_APPROVAL, NO_ACTION})"
  by (cases action) (auto simp: rollback_decide_def get_action_metadata_def Let_def)

text \<open>C37. Rolling back a scale action is bounded: from a failed execution it sends at most one request,
  which restores the recorded previous replica count of the recorded deployment, in the staging
  namespace and within the maximum, and only while the failed attempt is below three; an incident in
  production is refused before anything is sent.\<close>

theorem rollback_scale_bounded:
  assumes inc: "find_row inc_id i (db_incidents (sy_db s)) = Some inc"
    and failed: "find_row exe_id x (db_action_executions (sy_db s)) = Some failed"
  shows "sy_trace (snd (rollback_scale E i x maximum s)) = sy_trace s \<or>
    (\<exists>n. sy_trace (snd (rollback_scale E i x maximum s)) = sy_trace s @
          [EvScale (dict_str (exe_result failed) ''namespace'')
            (dict_str (exe_result failed) ''deployment'') n] \<and>
        dict_int (exe_result failed) ''previous_replicas'' 0 = Inr n \<and> 1 \<le> n \<and> n \<le> maximum \<and>
        dict_str (exe_result failed) ''namespace'' = ''cloudward-staging'' \<and>
        exe_attempt failed < 3 \<and> inc_environment inc \<noteq> ENV_PRODUCTION)"
    (is "?P (snd (rollback_scale E i x maximum s))")
proof -
  define ns where "ns = dict_str (exe_result failed) ''namespace''"
  define dep where "dep = dict_str (exe_result failed) ''deployment''"
  have scale: "wp (scale_staging_deployment E ns dep n maximum m) Q X u"
    if "\<And>r t. sy_trace t = sy_trace u @ [EvScale ns dep n] \<Longrightarrow> ns = ''cloudward-staging'' \<Longrightarrow> 1 \<le> n \<Longrightarrow>
          n \<le> maximum \<Longrightarrow> Q r t"
      "\<And>e t. sy_trace t = sy_trace u \<or> sy_trace t = sy_trace u @ [EvScale ns dep n] \<and>
          ns = ''cloudward-staging'' \<and> 1 \<le> n \<and> n \<le> maximum \<Longrightarrow> X e t" for n m Q X u
    by (rule wp_mono [OF scale_staging_deployment_wp]) (use that in blast)+
  have env: "require_executable_action SCALE_STAGING_DEPLOYMENT (environment_value ENV_PRODUCTION) \<noteq> Inr m"
    for m by (simp add: require_executable_action_def get_action_metadata_def Let_def)
  have "wp (rollback_scale E i x maximum) (\<lambda>_. ?P) (\<lambda>_. ?P) s"
    unfolding rollback_scale_def wp_bindM wp_load_row inc failed option.case ns_def [symmetric]
      dep_def [symmetric]
    using env
    by (auto simp: wp_simps set_execution_def append_stream_event_def no_constraint_def Let_def
        case_prod_unfold split: sum.splits option.splits intro!: scale)
  then show ?thesis by (simp add: wp_total)
qed

definition demo_failed :: action_execution where
  "demo_failed = (new_execution 1 2 ''c'' SCALE_STAGING_DEPLOYMENT 1 None None 5 0)
     \<lparr>exe_status := RS_FAILED, exe_result :=
        [(''namespace'', JStr ''cloudward-staging''), (''deployment'', JStr ''demo''),
         (''previous_replicas'', JInt 2), (''requested_replicas'', JInt 3)]\<rparr>"

theorem rollback_scale_bounded_witness:
  "let s = demo_approved\<lparr>sy_db := (sy_db demo_approved)\<lparr>db_action_executions := [demo_failed]\<rparr>\<rparr>;
       t = snd (rollback_scale demo_env 1 5 4 s)
   in sy_trace t = sy_trace s \<or>
      (\<exists>n. sy_trace t = sy_trace s @ [EvScale ''cloudward-staging'' ''demo'' n] \<and> 1 \<le> n \<and> n \<le> 4)"
proof -
  let ?s = "demo_approved\<lparr>sy_db := (sy_db demo_approved)\<lparr>db_action_executions := [demo_failed]\<rparr>\<rparr>"
  have "find_row inc_id 1 (db_incidents (sy_db ?s)) = Some (demo_incident AWAITING_APPROVAL)"
    "find_row exe_id 5 (db_action_executions (sy_db ?s)) = Some demo_failed"
    by (simp_all add: find_row_def demo_approved_def demo_incident_def demo_failed_def new_execution_def)
  from rollback_scale_bounded [OF this, of demo_env 4] show ?thesis
    by (auto simp: Let_def demo_failed_def dict_str_def dict_get_def)
qed

end
