(* ===== verification/CW_Approvals.thy ===== *)
theory CW_Approvals
  imports CW_Execution
begin

text \<open>
  The approval decision (\<open>ApprovalService\<close> in \<open>approvals/service.py\<close>): one decision per approval,
  bound to the proposal, the incident state, the live target and a fresh policy evaluation. The
  request side of the workflow is in \<open>CW_Incidents\<close>. The row locks taken by \<open>with_for_update\<close> make
  a decision atomic; here it runs alone.
\<close>

record principal =
  pn_user_id :: uuid
  pn_login :: string
  pn_role :: role
  pn_persisted :: bool

section \<open>Reading the stored risk factors\<close>

definition risk_factor_fields :: "string list" where
  "risk_factor_fields = [''environment'', ''blast_radius'', ''destructiveness'', ''reversibility'',
     ''uncertainty'', ''sensitivity'']"

definition risk_factors_validate :: "json \<Rightarrow> risk_factors option" where
  "risk_factors_validate v =
     (case v of
        JObj d \<Rightarrow>
          (let field = (\<lambda>k. Option.bind (dict_get d k) parse_int) in
           if set (map fst d) \<subseteq> set risk_factor_fields then
             (case (field ''environment'', field ''blast_radius'', field ''destructiveness'',
                    field ''reversibility'', field ''uncertainty'', field ''sensitivity'') of
                (Some a, Some b, Some c, Some r, Some u, Some w) \<Rightarrow>
                  (let f = \<lparr>rf_environment = a, rf_blast_radius = b, rf_destructiveness = c,
                      rf_reversibility = r, rf_uncertainty = u, rf_sensitivity = w\<rparr>
                   in if risk_factors_valid f then Some f else None)
              | _ \<Rightarrow> None)
           else None)
      | _ \<Rightarrow> None)"

text \<open>\<open>float(v)\<close> of a stored confidence; a string is read as a decimal number.\<close>

definition float_of_string :: "string \<Rightarrow> rat option" where
  "float_of_string s =
     (let body = py_strip is_space_char s;
          whole = takeWhile (\<lambda>c. c \<noteq> CHR ''.'') body;
          frac = drop (Suc (length whole)) body
      in case int_of_string whole of
           None \<Rightarrow> None
         | Some i \<Rightarrow>
             if frac = [] then Some (of_int i)
             else map_option (\<lambda>f. of_int i +
               (if i < 0 \<or> take 1 body = ''-'' then - 1 else 1) * of_int f / 10 ^ length frac)
               (digits_val 0 False frac))"

fun py_float :: "json \<Rightarrow> exn + rat" where
  "py_float (JFloat x) = Inr x"
| "py_float (JInt i) = Inr (of_int i)"
| "py_float (JBool b) = Inr (if b then 1 else 0)"
| "py_float (JStr s) =
     (case float_of_string s of None \<Rightarrow> Inl (PyError ''ValueError'') | Some x \<Rightarrow> Inr x)"
| "py_float v = Inl (PyError ''TypeError'')"

section \<open>The live target\<close>

record target_view =
  lt_namespace :: string
  lt_name :: string
  lt_labels :: "(string \<times> string) list"
  lt_controller_managed :: bool
  lt_stale_reason :: "string option"

definition stale_target :: "string \<Rightarrow> string \<Rightarrow> bool \<Rightarrow> string \<Rightarrow> target_view" where
  "stale_target ns name managed reason = \<lparr>lt_namespace = ns, lt_name = name, lt_labels = [],
     lt_controller_managed = managed, lt_stale_reason = Some reason\<rparr>"

definition pod_target :: "string \<Rightarrow> pod_state \<Rightarrow> target_view" where
  "pod_target ns pod = \<lparr>lt_namespace = ns, lt_name = ps_name pod, lt_labels = ps_labels pod,
     lt_controller_managed = ps_controller_managed pod, lt_stale_reason = None\<rparr>"

definition replicas_differ :: "json \<Rightarrow> int \<Rightarrow> bool" where
  "replicas_differ expected desired =
     (case expected of JInt i \<Rightarrow> desired \<noteq> i | JBool b \<Rightarrow> desired \<noteq> (if b then 1 else 0) | _ \<Rightarrow> False)"

definition tag_differs :: "json \<Rightarrow> string list \<Rightarrow> bool" where
  "tag_differs expected images =
     (case expected of JStr tag \<Rightarrow> \<not> (\<exists>im \<in> set images. py_endswith im ('':'' @ tag)) | _ \<Rightarrow> False)"

definition live_target :: "'w env \<Rightarrow> action_proposal \<Rightarrow> ('w, target_view) H" where
  "live_target E p =
     (let ps = prp_parameters p in
      case jget ps ''namespace'' of
        JStr ns \<Rightarrow>
          (case jget ps ''deployment'' of
             JStr dep \<Rightarrow>
               bindM (get_deployment E ns dep) (\<lambda>d.
               if replicas_differ (jget ps ''observed_replicas'') (ds_desired_replicas d)
               then returnM (stale_target ns dep True
                 ''Deployment replica state changed after proposal'')
               else if tag_differs (jget ps ''expected_current_tag'') (ds_container_images d)
               then returnM (stale_target ns dep True
                 ''Deployment image revision changed after proposal'')
               else bindM (get_pods E ns ''cloudward.io/demo-target=true'') (\<lambda>pods.
                 case pods of
                   [] \<Rightarrow> returnM (stale_target ns dep True ''Deployment has no live demo target pods'')
                 | pod # _ \<Rightarrow> returnM (pod_target ns pod)))
           | _ \<Rightarrow>
               (case py_or (jget ps ''pod_name'') (jget ps ''pod'') of
                  JStr name \<Rightarrow> bindM (get_pod_health E ns name) (\<lambda>pod. returnM (pod_target ns pod))
                | _ \<Rightarrow> returnM (stale_target ns ''unknown'' False
                    ''Proposal target is not bound to a typed workload'')))
      | _ \<Rightarrow> returnM (stale_target ''unknown'' ''unknown'' False ''Proposal has no bound namespace''))"

section \<open>Staleness\<close>

definition approval_policy_input :: "approval \<Rightarrow> incident \<Rightarrow> action_proposal \<Rightarrow> principal \<Rightarrow>
    target_view \<Rightarrow> risk_factors \<Rightarrow> rat \<Rightarrow> policy_input" where
  "approval_policy_input a inc p pn target factors confidence =
     \<lparr>pi_environment = environment_value (inc_environment inc), pi_action = prp_action_type p,
      pi_risk_score = prp_risk_score p, pi_risk_factors = factors, pi_confidence = confidence,
      pi_blast_radius = max 1 (apr_blast_radius a), pi_reversible = apr_reversible a,
      pi_service_criticality = ''low'',
      pi_target = \<lparr>ti_namespace = lt_namespace target, ti_pod_name = lt_name target,
        ti_labels = lt_labels target, ti_controller_managed = lt_controller_managed target,
        ti_target_pods = max 1 (apr_blast_radius a)\<rparr>,
      pi_approval = \<lparr>ai_approved = True, ai_approval_id = Some (uuid_str (apr_id a)),
        ai_approved_by = Some (pn_login pn)\<rparr>\<rparr>"

text \<open>The fresh policy evaluation at the end of the staleness check.\<close>

definition policy_stale :: "'w env \<Rightarrow> approval \<Rightarrow> incident \<Rightarrow> action_proposal \<Rightarrow> principal \<Rightarrow>
    target_view \<Rightarrow> ('w, string option) H" where
  "policy_stale E a inc p pn target =
     bindM (dbM (\<lambda>d. newest pol_created_at (\<lambda>x. pol_proposal_id x = prp_id p) (db_policy_decisions d)))
       (\<lambda>latest.
     if (case latest of None \<Rightarrow> True | Some x \<Rightarrow> \<not> pol_requires_approval x)
     then returnM (Some ''Policy context no longer requires this approval'')
     else
       (case Option.bind (dict_get (prp_risk_calculation p) ''factors'') risk_factors_validate of
          None \<Rightarrow> returnM (Some ''Stored risk factors are invalid'')
        | Some factors \<Rightarrow>
            bindM (liftR (case dict_get (prp_risk_calculation p) ''confidence'' of
                None \<Rightarrow> Inr 1 | Some v \<Rightarrow> py_float v)) (\<lambda>confidence.
            bindM (liftR (mk_policy_input
                (approval_policy_input a inc p pn target factors confidence))) (\<lambda>pin.
            bindM (opa_evaluate E pin) (\<lambda>policy.
            returnM (if pr_allowed policy then None
              else Some (''Policy no longer allows execution: '' @ pr_reason policy)))))))"

definition stale_reason :: "'w env \<Rightarrow> approval \<Rightarrow> incident \<Rightarrow> action_proposal \<Rightarrow> principal \<Rightarrow>
    ('w, string option) H" where
  "stale_reason E a inc p pn =
     bindM (utc_now E) (\<lambda>now.
     if apr_expires_at a \<le> now then returnM (Some ''Approval expired before decision'')
     else if inc_state inc \<noteq> AWAITING_APPROVAL
     then returnM (Some (''Incident state changed to '' @ incident_state_value (inc_state inc)))
     else if prp_status p \<noteq> RS_PENDING
     then returnM (Some (''Proposal status changed to '' @ record_status_value (prp_status p)))
     else
       bindM (dbM (\<lambda>d. find (\<lambda>x. exe_proposal_id x = prp_id p) (db_action_executions d)))
         (\<lambda>execution.
       if execution \<noteq> None then returnM (Some ''Proposal already has an action execution'')
       else if approval_digest (approval_context inc p (apr_proposal_version a)) \<noteq> apr_context_digest a
       then returnM (Some ''Proposal version, target, expected state, or risk context changed'')
       else
         bindM (live_target E p) (\<lambda>target.
         case lt_stale_reason target of
           Some r \<Rightarrow> returnM (Some r)
         | None \<Rightarrow> policy_stale E a inc p pn target)))"

section \<open>Deciding\<close>

definition invalidate :: "'w env \<Rightarrow> approval \<Rightarrow> string \<Rightarrow> ('w, unit) H" where
  "invalidate E a reason =
     bindM (utc_now E) (\<lambda>t. bindM (utc_now E) (\<lambda>t'.
     set_approval (apr_id a) (\<lambda>r. r\<lparr>
       apr_decision := (if apr_expires_at a \<le> t then AD_EXPIRED else AD_INVALIDATED),
       apr_decided_at := Some t', apr_decided_by := Some ''cloudward-approval-guard'',
       apr_invalidated_reason := Some reason\<rparr>)))"

definition move_incident :: "'w env \<Rightarrow> uuid \<Rightarrow> incident_state \<Rightarrow> string \<Rightarrow> uuid \<Rightarrow> ('w, unit) H" where
  "move_incident E i target actor approval_id =
     bindM (load_row db_approvals apr_id approval_id) (\<lambda>a.
     change_incident_state E i target actor ACTOR_USER
       [(''approval_id'', JStr (uuid_str (apr_id a))),
        (''decision'', JStr (approval_decision_value (apr_decision a))),
        (''proposal_version'', JInt (apr_proposal_version a))] False)"

definition audit_decision :: "'w env \<Rightarrow> uuid \<Rightarrow> incident \<Rightarrow> principal \<Rightarrow> string \<Rightarrow> ('w, unit) H" where
  "audit_decision E approval_id inc pn result =
     bindM (load_row db_approvals apr_id approval_id) (\<lambda>a.
     voidM (record_audit E
       ((audit_args (''APPROVAL_'' @ result) (inc_correlation_id inc) result)
         \<lparr>aa_incident_id := Some (inc_id inc), aa_actor := pn_login pn, aa_actor_type := ACTOR_USER,
          aa_actor_id := (if pn_persisted pn then Some (pn_user_id pn) else None),
          aa_action := Some (apr_action a), aa_risk_score := Some (apr_risk_score a),
          aa_metadata := [(''approval_id'', JStr (uuid_str (apr_id a))),
            (''proposal_id'', JStr (uuid_str (apr_proposal_id a))),
            (''proposal_version'', JInt (apr_proposal_version a)),
            (''comment'', jstr_opt (apr_decision_comment a)),
            (''invalidated_reason'', jstr_opt (apr_invalidated_reason a))]\<rparr>)))"

definition stream_current :: "'w env \<Rightarrow> uuid \<Rightarrow> ('w, unit) H" where
  "stream_current E approval_id =
     bindM (load_row db_approvals apr_id approval_id) (stream_approval E)"

definition record_decision :: "'w env \<Rightarrow> uuid \<Rightarrow> approval_decision \<Rightarrow> principal \<Rightarrow> string option \<Rightarrow>
    ('w, unit) H" where
  "record_decision E approval_id decision pn comment =
     bindM (utc_now E) (\<lambda>t. set_approval approval_id (\<lambda>r. r\<lparr>apr_decision := decision,
       apr_actor_id := (if pn_persisted pn then Some (pn_user_id pn) else None),
       apr_decided_by := Some (pn_login pn), apr_decided_at := Some t,
       apr_decision_comment := comment\<rparr>))"

definition reject_approval :: "'w env \<Rightarrow> approval \<Rightarrow> incident \<Rightarrow> action_proposal \<Rightarrow> principal \<Rightarrow>
    string option \<Rightarrow> ('w, unit) H" where
  "reject_approval E a inc p pn comment = seqM
     [set_proposal (prp_id p) (prp_status_update (\<lambda>_. RS_REJECTED)),
      record_decision E (apr_id a) AD_REJECTED pn comment,
      move_incident E (inc_id inc) BLOCKED (pn_login pn) (apr_id a),
      audit_decision E (apr_id a) inc pn ''REJECTED'',
      stream_current E (apr_id a)]"

definition retire_approval :: "'w env \<Rightarrow> approval \<Rightarrow> incident \<Rightarrow> action_proposal \<Rightarrow> principal \<Rightarrow>
    string \<Rightarrow> ('w, unit) H" where
  "retire_approval E a inc p pn reason = seqM
     [set_proposal (prp_id p) (prp_status_update (\<lambda>_. RS_REJECTED)),
      invalidate E a reason,
      whenM (inc_state inc = AWAITING_APPROVAL)
        (move_incident E (inc_id inc) BLOCKED ''cloudward-approval-guard'' (apr_id a)),
      audit_decision E (apr_id a) inc pn ''INVALIDATED'',
      stream_current E (apr_id a)]"

definition accept_approval :: "'w env \<Rightarrow> approval \<Rightarrow> incident \<Rightarrow> action_proposal \<Rightarrow> principal \<Rightarrow>
    string option \<Rightarrow> ('w, unit) H" where
  "accept_approval E a inc p pn comment = seqM
     [record_decision E (apr_id a) AD_APPROVED pn comment,
      set_proposal (prp_id p) (prp_status_update (\<lambda>_. RS_PENDING)),
      move_incident E (inc_id inc) POLICY_EVALUATION (pn_login pn) (apr_id a),
      audit_decision E (apr_id a) inc pn ''APPROVED'',
      stream_current E (apr_id a)]"

definition decide :: "'w env \<Rightarrow> uuid \<Rightarrow> approval_decision \<Rightarrow> principal \<Rightarrow> string option \<Rightarrow>
    ('w, unit) H" where
  "decide E approval_id decision pn comment =
     thenM (raise_if (decision \<notin> {AD_APPROVED, AD_REJECTED})
       (cw_error ''INVALID_APPROVAL_DECISION'' ''Decision must approve or reject'' 400))
     (bindM (dbM (\<lambda>d. find_row apr_id approval_id (db_approvals d))) (\<lambda>approval.
      case approval of
        None \<Rightarrow> raiseM (cw_error ''APPROVAL_NOT_FOUND'' ''Approval was not found'' 404)
      | Some a \<Rightarrow>
          thenM (raise_if (apr_decision a \<noteq> AD_PENDING)
            (cw_error ''APPROVAL_ALREADY_DECIDED''
               ''Approval has already been decided and cannot execute twice'' 409))
          (bindM (dbM (\<lambda>d. find_row inc_id (apr_incident_id a) (db_incidents d))) (\<lambda>incident.
           bindM (dbM (\<lambda>d. find_row prp_id (apr_proposal_id a) (db_action_proposals d))) (\<lambda>proposal.
           case (incident, proposal) of
             (Some inc, Some p) \<Rightarrow>
               if decision = AD_REJECTED then reject_approval E a inc p pn comment
               else
                 thenM (raise_if (\<not> has_permission (pn_role pn)
                     (am_required_permission (get_action_metadata (prp_action_type p))))
                   (cw_error ''APPROVAL_ROLE_INSUFFICIENT''
                      ''This action requires an administrator-level approval'' 403))
                 (thenM (raise_if (prp_risk_score p \<ge> 70)
                   (cw_error ''HIGH_RISK_ACTION_BLOCKED''
                      ''Actions scoring 70 or higher cannot be approved'' 403))
                 (bindM (stale_reason E a inc p pn) (\<lambda>stale.
                  case stale of
                    Some reason \<Rightarrow>
                      (if reason \<noteq> [] then retire_approval E a inc p pn reason
                       else accept_approval E a inc p pn comment)
                  | None \<Rightarrow> accept_approval E a inc p pn comment)))
           | _ \<Rightarrow>
               thenM (invalidate E a ''Bound incident or proposal no longer exists'')
               (raiseM (cw_error ''APPROVAL_CONTEXT_MISSING''
                  ''Approval context no longer exists'' 409)))))))"

section \<open>Properties\<close>

subsection \<open>What the parts leave alone\<close>

lemma keeps_json [frame]:
  "keeps f a \<Longrightarrow> (\<And>x. keeps f (b x)) \<Longrightarrow> (\<And>x. keeps f (c x)) \<Longrightarrow> (\<And>x. keeps f (d x)) \<Longrightarrow>
   (\<And>x. keeps f (e x)) \<Longrightarrow> (\<And>x. keeps f (g x)) \<Longrightarrow> (\<And>x. keeps f (h x)) \<Longrightarrow>
   keeps f (case_json a b c d e g h v)"
  by (cases v) auto

lemma results_json [result_rules]:
  "results f a \<Longrightarrow> (\<And>x. results f (b x)) \<Longrightarrow> (\<And>x. results f (c x)) \<Longrightarrow> (\<And>x. results f (d x)) \<Longrightarrow>
   (\<And>x. results f (e x)) \<Longrightarrow> (\<And>x. results f (g x)) \<Longrightarrow> (\<And>x. results f (h x)) \<Longrightarrow>
   results f (case_json a b c d e g h v)"
  by (cases v) auto

lemma keeps_live_target [frame]:
  "keeps effects (live_target E p)" "keeps (\<lambda>s. g (sy_db s)) (live_target E p)"
  unfolding live_target_def by (intro frame)+

lemma live_target_reason: "results (\<lambda>x. lt_stale_reason x \<noteq> Some []) (live_target E p)"
  unfolding live_target_def by (intro result_rules) (simp_all add: stale_target_def pod_target_def)

lemma keeps_decision_tail [frame]:
  "keeps (\<lambda>s. db_approvals (sy_db s)) (audit_decision E i inc pn r)"
  "keeps (\<lambda>s. db_approvals (sy_db s)) (stream_current E i)"
  "keeps (\<lambda>s. db_approvals (sy_db s)) (set_proposal j f)"
  "keeps effects (audit_decision E i inc pn r)" "keeps effects (stream_current E i)"
  "keeps effects (move_incident E k tgt actor i)" "keeps effects (record_decision E i d pn c)"
  "keeps effects (invalidate E a re)"
  unfolding audit_decision_def stream_current_def set_proposal_def move_incident_def
    record_decision_def invalidate_def
  by (intro frame keeps_db_updM; simp)+

lemma keeps_approvals_move:
  "tgt \<noteq> AWAITING_APPROVAL \<Longrightarrow> keeps (\<lambda>s. db_approvals (sy_db s)) (move_incident E k tgt actor i)"
  unfolding move_incident_def by (intro frame keeps_approvals_change)

lemma keeps_db_stale_reason: "keeps (\<lambda>s. g (sy_db s)) (stale_reason E a inc p pn)"
  unfolding stale_reason_def policy_stale_def by (intro frame)

subsection \<open>A current approval\<close>

text \<open>What must hold when an approval is granted: the deadline has not passed, the incident still waits
  for it, the proposal is pending and not executed, the bound context is unchanged, and policy still
  asks for approval.\<close>

definition approval_current :: "'w env \<Rightarrow> approval \<Rightarrow> incident \<Rightarrow> action_proposal \<Rightarrow> 'w sys \<Rightarrow> bool" where
  "approval_current E a inc p s \<longleftrightarrow>
     fst (e_utc_now E (sy_world s)) < apr_expires_at a \<and> inc_state inc = AWAITING_APPROVAL \<and>
     prp_status p = RS_PENDING \<and>
     (\<forall>x \<in> set (db_action_executions (sy_db s)). exe_proposal_id x \<noteq> prp_id p) \<and>
     approval_digest (approval_context inc p (apr_proposal_version a)) = apr_context_digest a \<and>
     (\<exists>x \<in> set (db_policy_decisions (sy_db s)). pol_proposal_id x = prp_id p \<and> pol_requires_approval x)"

text \<open>The policy engine has just allowed this proposal with this approval.\<close>

definition freshly_allowed :: "approval \<Rightarrow> action_proposal \<Rightarrow> principal \<Rightarrow> policy_input \<Rightarrow>
    policy_result \<Rightarrow> bool" where
  "freshly_allowed a p pn pin res \<longleftrightarrow> pr_allowed res \<and> pi_action pin = prp_action_type p \<and>
     pi_risk_score pin = prp_risk_score p \<and> ai_approved (pi_approval pin) \<and>
     ai_approval_id (pi_approval pin) = Some (uuid_str (apr_id a)) \<and>
     ai_approved_by (pi_approval pin) = Some (pn_login pn)"

lemma effects_EvOpa: "effects (s\<lparr>sy_trace := sy_trace s @ [EvOpa p r]\<rparr>) = effects s @ [EvOpa p r]"
  by (simp add: effects_def is_task_def)

lemma policy_stale_wp:
  "wp (policy_stale E a inc p pn target)
     (\<lambda>r t. r \<noteq> Some [] \<and> (r = None \<longrightarrow>
        (\<exists>x \<in> set (db_policy_decisions (sy_db s)). pol_proposal_id x = prp_id p \<and> pol_requires_approval x) \<and>
        (\<exists>pin res. effects t = effects s @ [EvOpa pin res] \<and> freshly_allowed a p pn pin res)))
     (\<lambda>_ _. True) s"
  by (auto simp: policy_stale_def opa_evaluate_def wp_simps mk_policy_input_def approval_policy_input_def
      freshly_allowed_def effects_def is_task_def dest!: newest_mem
      split: option.splits sum.splits if_splits)

lemma stale_reason_wp:
  "wp (stale_reason E a inc p pn)
     (\<lambda>r t. r \<noteq> Some [] \<and> (r = None \<longrightarrow> approval_current E a inc p s \<and>
        (\<exists>pin res. effects t = effects s @ [EvOpa pin res] \<and> freshly_allowed a p pn pin res)))
     (\<lambda>_ _. True) s"
proof -
  define s' where "s' = s\<lparr>sy_world := snd (e_utc_now E (sy_world s))\<rparr>"
  have same: "sy_db s' = sy_db s" "effects s' = effects s" by (simp_all add: s'_def effects_def)
  have lt: "wp (live_target E p) (\<lambda>x t. lt_stale_reason x \<noteq> Some [] \<and> sy_db t = sy_db s \<and>
      effects t = effects s) (\<lambda>_ _. True) s'"
    by (rule wp_mono [OF wp_conj [OF resultsD [OF live_target_reason]
        wp_conj [OF keeps_wp [OF keeps_live_target(1)] keeps_wp [OF keeps_live_target(2) [where g = id]]]]])
      (simp_all add: same)
  have "wp (case lt_stale_reason x of Some r \<Rightarrow> returnM (Some r) | None \<Rightarrow> policy_stale E a inc p pn x)
     (\<lambda>r t. r \<noteq> Some [] \<and> (r = None \<longrightarrow>
        (\<exists>x \<in> set (db_policy_decisions (sy_db s)). pol_proposal_id x = prp_id p \<and> pol_requires_approval x) \<and>
        (\<exists>pin res. effects t = effects s @ [EvOpa pin res] \<and> freshly_allowed a p pn pin res)))
     (\<lambda>_ _. True) u"
    if "lt_stale_reason x \<noteq> Some []" "sy_db u = sy_db s" "effects u = effects s" for x u
    using that policy_stale_wp [of E a inc p pn x u] by (cases "lt_stale_reason x") auto
  with lt have tail: "wp (bindM (live_target E p) (\<lambda>x. case lt_stale_reason x of
        Some r \<Rightarrow> returnM (Some r) | None \<Rightarrow> policy_stale E a inc p pn x))
     (\<lambda>r t. r \<noteq> Some [] \<and> (r = None \<longrightarrow>
        (\<exists>x \<in> set (db_policy_decisions (sy_db s)). pol_proposal_id x = prp_id p \<and> pol_requires_approval x) \<and>
        (\<exists>pin res. effects t = effects s @ [EvOpa pin res] \<and> freshly_allowed a p pn pin res)))
     (\<lambda>_ _. True) s'"
    unfolding wp_bindM by (rule wp_mono) auto
  show ?thesis
    unfolding stale_reason_def wp_bindM wp_utc_now s'_def [symmetric] wp_if wp_dbM same
    using wp_mono [OF tail [unfolded wp_bindM]]
    by (auto simp: approval_current_def find_None_iff same elim!: wp_mono)
qed

subsection \<open>The decision\<close>

definition decision_of :: "uuid \<Rightarrow> 'w sys \<Rightarrow> approval_decision option" where
  "decision_of i s = map_option apr_decision (find_row apr_id i (db_approvals (sy_db s)))"

definition final_decision :: "approval_decision option \<Rightarrow> bool" where
  "final_decision d \<longleftrightarrow> d \<notin> {None, Some AD_PENDING}"

definition retired :: "approval_decision option \<Rightarrow> bool" where
  "retired d \<longleftrightarrow> d \<in> {Some AD_EXPIRED, Some AD_INVALIDATED}"

text \<open>A step list whose head settles the decision and whose tail leaves the approvals alone.\<close>

lemma decision_settled:
  assumes "\<And>s. decision_of i s \<noteq> None \<Longrightarrow> wp m (\<lambda>_ t. D (decision_of i t)) (\<lambda>_ _. True) s"
    and "keeps (\<lambda>s. db_approvals (sy_db s)) n" and "decision_of i s \<noteq> None"
  shows "wp (thenM m n) (\<lambda>_ t. D (decision_of i t)) (\<lambda>_ _. True) s"
proof -
  have "wp n (\<lambda>_ t. D (decision_of i t)) (\<lambda>_ _. True) u" if "D (decision_of i u)" for u
    by (rule wp_mono [OF keeps_wp [OF assms(2)]]) (use that in \<open>auto simp: decision_of_def\<close>)
  then show ?thesis unfolding wp_thenM by (auto intro: wp_mono [OF assms(1) [OF assms(3)]])
qed

lemma record_decision_settles:
  "decision_of i s \<noteq> None \<Longrightarrow>
     wp (record_decision E i d pn c) (\<lambda>_ t. decision_of i t = Some d) (\<lambda>_ _. True) s"
  by (auto simp: record_decision_def set_approval_def wp_simps decision_of_def find_upd_row)

lemma invalidate_settles:
  "decision_of (apr_id a) s \<noteq> None \<Longrightarrow>
     wp (invalidate E a re) (\<lambda>_ t. retired (decision_of (apr_id a) t))
       (\<lambda>_ _. True) s"
  by (auto simp: invalidate_def set_approval_def wp_simps decision_of_def find_upd_row retired_def)

lemma decision_set_proposal [simp]:
  "decision_of i (s\<lparr>sy_db := db_action_proposals_update f (sy_db s)\<rparr>) = decision_of i s"
  by (simp add: decision_of_def)

lemma decision_after_proposal:
  "(\<And>u. decision_of i u \<noteq> None \<Longrightarrow> wp n (\<lambda>_ t. D (decision_of i t)) (\<lambda>_ _. True) u) \<Longrightarrow>
     decision_of i s \<noteq> None \<Longrightarrow>
     wp (thenM (set_proposal j f) n) (\<lambda>_ t. D (decision_of i t)) (\<lambda>_ _. True) s"
  by (simp add: wp_thenM set_proposal_def wp_updM)

lemma accept_settles:
  "decision_of (apr_id a) s \<noteq> None \<Longrightarrow>
     wp (accept_approval E a inc p pn c) (\<lambda>_ t. decision_of (apr_id a) t = Some AD_APPROVED)
       (\<lambda>_ _. True) s"
  unfolding accept_approval_def seqM.simps
  by (rule decision_settled) (auto intro!: frame keeps_approvals_move record_decision_settles)

lemma reject_settles:
  "decision_of (apr_id a) s \<noteq> None \<Longrightarrow>
     wp (reject_approval E a inc p pn c) (\<lambda>_ t. decision_of (apr_id a) t = Some AD_REJECTED)
       (\<lambda>_ _. True) s"
  unfolding reject_approval_def seqM.simps
  by (rule decision_after_proposal, rule decision_settled)
    (auto intro!: frame keeps_approvals_move record_decision_settles)

lemma retire_settles:
  "decision_of (apr_id a) s \<noteq> None \<Longrightarrow>
     wp (retire_approval E a inc p pn re)
       (\<lambda>_ t. retired (decision_of (apr_id a) t)) (\<lambda>_ _. True) s"
  unfolding retire_approval_def seqM.simps
  by (rule decision_after_proposal, rule decision_settled)
    (auto intro!: frame keeps_approvals_move invalidate_settles)

lemma keeps_effects_accept: "keeps effects (accept_approval E a inc p pn c)"
  unfolding accept_approval_def by (intro frame)

text \<open>C9. An approval is decided once: deciding an approval that is no longer pending raises
  \<open>APPROVAL_ALREADY_DECIDED\<close> and changes nothing, and a decision that returns leaves the approval
  in a final decision.\<close>

theorem approval_decided_once:
  assumes "find_row apr_id i (db_approvals (sy_db s)) = Some a" and "d \<in> {AD_APPROVED, AD_REJECTED}"
  shows "(apr_decision a \<noteq> AD_PENDING \<longrightarrow> (\<exists>msg. decide E i d pn c s =
      (Inl (cw_error ''APPROVAL_ALREADY_DECIDED'' msg 409), s))) \<and>
    wp (decide E i d pn c) (\<lambda>_ t. final_decision (decision_of i t)) (\<lambda>_ _. True) s"
proof
  have "decide E i d pn c s = (Inl (cw_error ''APPROVAL_ALREADY_DECIDED''
      ''Approval has already been decided and cannot execute twice'' 409), s)"
    if "apr_decision a \<noteq> AD_PENDING"
    using assms that by (auto simp: decide_def thenM_def bindM_def raise_if_def returnM_def dbM_def
        readM_def raiseM_def)
  then show "apr_decision a \<noteq> AD_PENDING \<longrightarrow> (\<exists>msg. decide E i d pn c s =
      (Inl (cw_error ''APPROVAL_ALREADY_DECIDED'' msg 409), s))" by blast
  have key: "apr_id a = i" using find_row_key [OF assms(1)] by simp
  let ?Q = "\<lambda>_ t. final_decision (decision_of i t)" and ?X = "\<lambda>_ _. True"
  have final: "wp (accept_approval E a inc p pn c) ?Q ?X u" "wp (reject_approval E a inc p pn c) ?Q ?X u"
    "wp (retire_approval E a inc p pn re) ?Q ?X u" if "decision_of i u \<noteq> None" for inc p re u
  proof -
    have d: "decision_of (apr_id a) u \<noteq> None" using that key by simp
    note settles = accept_settles [OF d] reject_settles [OF d] retire_settles [OF d]
    show "wp (accept_approval E a inc p pn c) ?Q ?X u"
      by (rule wp_mono [OF settles(1)]) (simp_all add: key final_decision_def)
    show "wp (reject_approval E a inc p pn c) ?Q ?X u"
      by (rule wp_mono [OF settles(2)]) (simp_all add: key final_decision_def)
    show "wp (retire_approval E a inc p pn re) ?Q ?X u"
      by (rule wp_mono [OF settles(3)]) (auto simp: key final_decision_def retired_def)
  qed
  have has_decision: "decision_of i t \<noteq> None" if "db_approvals (sy_db t) = db_approvals (sy_db s)" for t
    using that assms(1) by (simp add: decision_of_def)
  have stale: "wp (stale_reason E a inc p pn)
      (\<lambda>stale. wp (case stale of None \<Rightarrow> accept_approval E a inc p pn c
         | Some reason \<Rightarrow> if reason \<noteq> [] then retire_approval E a inc p pn reason
             else accept_approval E a inc p pn c) ?Q ?X) ?X s" for inc p
  proof -
    have "wp (stale_reason E a inc p pn) (\<lambda>_ t. db_approvals (sy_db t) = db_approvals (sy_db s))
        (\<lambda>_ _. True) s"
      by (rule wp_mono [OF keeps_wp [OF keeps_db_stale_reason]]) simp_all
    then show ?thesis
      by (rule wp_mono)
        (use final(1) [OF has_decision] final(3) [OF has_decision] in \<open>simp_all split: option.split\<close>)
  qed
  show "wp (decide E i d pn c) ?Q ?X s"
    using assms stale final [OF has_decision [of s]]
    by (auto simp: decide_def wp_thenM wp_bindM wp_raise_if wp_dbM split: option.splits)
qed

definition demo_pending :: "demo_world sys" where
  "demo_pending = demo_approved\<lparr>sy_db := (sy_db demo_approved)
     \<lparr>db_approvals := [demo_approval\<lparr>apr_decision := AD_PENDING\<rparr>]\<rparr>\<rparr>"

definition demo_principal :: principal where
  "demo_principal = \<lparr>pn_user_id = 9, pn_login = ''op'', pn_role = Admin, pn_persisted = True\<rparr>"

lemma demo_pending_rows:
  "find_row apr_id 3 (db_approvals (sy_db demo_approved)) = Some demo_approval"
  "find_row apr_id 3 (db_approvals (sy_db demo_pending)) = Some (demo_approval\<lparr>apr_decision := AD_PENDING\<rparr>)"
  "find_row inc_id 1 (db_incidents (sy_db demo_pending)) = Some (demo_incident AWAITING_APPROVAL)"
  "find_row prp_id 2 (db_action_proposals (sy_db demo_pending)) = Some demo_proposal"
  by (simp_all add: find_row_def demo_pending_def demo_approved_def demo_approval_def new_approval_def
      demo_proposal_def demo_incident_def)

theorem approval_decided_once_witness:
  "(\<exists>msg. decide demo_env 3 AD_APPROVED demo_principal None demo_approved =
      (Inl (cw_error ''APPROVAL_ALREADY_DECIDED'' msg 409), demo_approved)) \<and>
   wp (decide demo_env 3 AD_REJECTED demo_principal None)
     (\<lambda>_ t. final_decision (decision_of 3 t)) (\<lambda>_ _. True) demo_pending"
  using approval_decided_once [OF demo_pending_rows(1), of AD_APPROVED demo_env demo_principal None]
    approval_decided_once [OF demo_pending_rows(2), of AD_REJECTED demo_env demo_principal None]
  by (simp add: demo_approval_def)



end
