(* ===== verification/CW_Verification.thy ===== *)
theory CW_Verification
  imports CW_Kube
begin

text \<open>
  The verification engine (\<open>verification/engine.py\<close>) and the evidence collector
  (\<open>evidence/collector.py\<close>). Both talk to the cluster through a client protocol of three reads, which
  is a record of operations here; the executor of \<open>CW_Kube\<close> is the client the program passes in.

  The polling loop has no bound of its own in the code. It is modelled with fuel, enough for every
  run on a clock that does not go backwards and a sleep that does not return early; running out of
  fuel is the outcome \<open>diverged\<close>, which no handler of the program raises.
\<close>

record 'w kube_client =
  k_get_deployment :: "string \<Rightarrow> string \<Rightarrow> ('w, deployment_state) H"
  k_get_pods :: "string \<Rightarrow> string \<Rightarrow> ('w, pod_state list) H"
  k_get_service_health :: "string \<Rightarrow> string \<Rightarrow> string \<Rightarrow> ('w, service_health) H"

definition executor_client :: "'w env \<Rightarrow> 'w kube_client" where
  "executor_client E = \<lparr>k_get_deployment = get_deployment E, k_get_pods = get_pods E,
     k_get_service_health = get_service_health E\<rparr>"

section \<open>Evidence\<close>

record kubernetes_evidence =
  ke_deployment :: deployment_state
  ke_pods :: "pod_state list"

definition unhealthy_pods :: "kubernetes_evidence \<Rightarrow> pod_state list" where
  "unhealthy_pods e = filter (\<lambda>p. \<not> ps_ready p) (ke_pods e)"

definition evidence_payload :: "kubernetes_evidence \<Rightarrow> jdict" where
  "evidence_payload e =
     [(''deployment'', JObj (deployment_state_json (ke_deployment e))),
      (''pods'', JList (map (\<lambda>p. JObj (pod_state_json p)) (ke_pods e))),
      (''unhealthy_pod_count'', JInt (int (length (unhealthy_pods e))))]"

definition collect_kubernetes_state :: "'w kube_client \<Rightarrow> string \<Rightarrow> string \<Rightarrow> string \<Rightarrow>
    ('w, kubernetes_evidence) H" where
  "collect_kubernetes_state K ns deployment sel =
     bindM (k_get_deployment K ns deployment) (\<lambda>d.
     bindM (k_get_pods K ns sel) (\<lambda>ps. returnM \<lparr>ke_deployment = d, ke_pods = ps\<rparr>))"

section \<open>Checks\<close>

record verification_check =
  vc_type :: string
  vc_expected :: json
  vc_actual :: json
  vc_passed :: bool
  vc_detail :: "string option"

record verification_result =
  vr_success :: bool
  vr_checks :: "verification_check list"
  vr_attempts :: nat

record verification_target =
  vt_namespace :: string
  vt_deployment :: string
  vt_label_selector :: string
  vt_expected_replicas :: int
  vt_service_name :: string
  vt_health_path :: string

definition verification_check_json :: "verification_check \<Rightarrow> json" where
  "verification_check_json c = JObj
     [(''type'', JStr (vc_type c)), (''expected'', vc_expected c), (''actual'', vc_actual c),
      (''passed'', JBool (vc_passed c)), (''detail'', jstr_opt (vc_detail c))]"

definition verification_result_json :: "verification_result \<Rightarrow> jdict" where
  "verification_result_json r =
     [(''success'', JBool (vr_success r)),
      (''checks'', JList (map verification_check_json (vr_checks r))),
      (''attempts'', JInt (int (vr_attempts r)))]"

text \<open>\<^verbatim>\<open>type(exc).__name__\<close>.\<close>

fun exn_class :: "exn \<Rightarrow> string" where
  "exn_class (CloudWardError c m st d) = ''CloudWardError''"
| "exn_class (IntegrityError c) = ''IntegrityError''"
| "exn_class (PyError c) = c"

definition count_check :: "string \<Rightarrow> int \<Rightarrow> int \<Rightarrow> verification_check" where
  "count_check ty expected actual =
     \<lparr>vc_type = ty, vc_expected = JInt expected, vc_actual = JInt actual,
      vc_passed = (actual = expected), vc_detail = None\<rparr>"

definition health_check :: "bool \<Rightarrow> verification_check" where
  "health_check healthy =
     \<lparr>vc_type = ''health_endpoint'', vc_expected = JStr ''healthy'',
      vc_actual = JStr (if healthy then ''healthy'' else ''unhealthy''), vc_passed = healthy,
      vc_detail = None\<rparr>"

definition failed_check :: "string \<Rightarrow> json \<Rightarrow> exn \<Rightarrow> verification_check" where
  "failed_check ty expected e =
     \<lparr>vc_type = ty, vc_expected = expected, vc_actual = JNull, vc_passed = False,
      vc_detail = Some (exn_class e)\<rparr>"

definition failed_reads :: "int \<Rightarrow> exn \<Rightarrow> verification_check list" where
  "failed_reads expected e =
     [failed_check ''ready_replicas'' (JInt expected) e,
      failed_check ''pod_readiness'' (JInt expected) e]"

definition ready_count :: "pod_state list \<Rightarrow> int" where
  "ready_count ps = int (length (filter ps_ready ps))"

definition check_once :: "'w kube_client \<Rightarrow> verification_target \<Rightarrow> ('w, verification_result) H" where
  "check_once K v =
     bindM (tryM
       (bindM (k_get_deployment K (vt_namespace v) (vt_deployment v)) (\<lambda>d.
        let replicas = count_check ''ready_replicas'' (vt_expected_replicas v) (ds_ready_replicas d) in
        tryM
          (bindM (k_get_pods K (vt_namespace v) (vt_label_selector v)) (\<lambda>ps.
           returnM [replicas,
             count_check ''pod_readiness'' (vt_expected_replicas v) (ready_count ps)]))
          (\<lambda>e. returnM (replicas # failed_reads (vt_expected_replicas v) e))))
       (\<lambda>e. returnM (failed_reads (vt_expected_replicas v) e))) (\<lambda>reads.
     bindM (tryM
       (bindM (k_get_service_health K (vt_namespace v) (vt_service_name v) (vt_health_path v))
         (\<lambda>h. returnM (health_check (sh_healthy h))))
       (\<lambda>e. returnM (failed_check ''health_endpoint'' (JStr ''healthy'') e))) (\<lambda>health.
     let checks = reads @ [health] in
     returnM \<lparr>vr_success = list_all vc_passed checks, vr_checks = checks, vr_attempts = 1\<rparr>))"

section \<open>Polling\<close>

definition diverged :: exn where
  "diverged = PyError ''(no return)''"

definition monotonic :: "'w env \<Rightarrow> ('w, rat) H" where
  "monotonic E = worldM (e_monotonic E)"

definition sleepM :: "'w env \<Rightarrow> rat \<Rightarrow> ('w, unit) H" where
  "sleepM E d = worldM (e_sleep E d)"

fun verify_loop :: "nat \<Rightarrow> 'w env \<Rightarrow> 'w kube_client \<Rightarrow> verification_target \<Rightarrow> rat \<Rightarrow> rat \<Rightarrow> nat \<Rightarrow>
    ('w, verification_result) H" where
  "verify_loop 0 E K v deadline poll attempts = raiseM diverged"
| "verify_loop (Suc n) E K v deadline poll attempts =
     bindM (check_once K v) (\<lambda>last.
     if vr_success last then returnM (last\<lparr>vr_attempts := Suc attempts\<rparr>)
     else bindM (monotonic E) (\<lambda>t.
       if t \<ge> deadline then returnM (last\<lparr>vr_attempts := Suc attempts\<rparr>)
       else bindM (monotonic E) (\<lambda>t'.
         thenM (sleepM E (min poll (max 0 (deadline - t'))))
           (verify_loop n E K v deadline poll (Suc attempts)))))"

definition verify_fuel :: "rat \<Rightarrow> rat \<Rightarrow> nat" where
  "verify_fuel timeout poll = Suc (nat \<lceil>timeout / poll\<rceil>)"

definition verify_until :: "'w env \<Rightarrow> 'w kube_client \<Rightarrow> verification_target \<Rightarrow> rat \<Rightarrow> rat \<Rightarrow>
    ('w, verification_result) H" where
  "verify_until E K v timeout poll =
     bindM (monotonic E) (\<lambda>start.
     verify_loop (verify_fuel timeout poll) E K v (start + timeout) poll 0)"

section \<open>The client protocol\<close>

text \<open>
  What the engine and the collector rely on: a client only observes. Whatever part of the state the
  three reads leave alone, collecting evidence, checking and polling leave alone too.
\<close>

locale observing_client =
  fixes K :: "'w kube_client" and f :: "'w sys \<Rightarrow> 'o"
  assumes deployment: "keeps f (k_get_deployment K ns n)"
    and pods: "keeps f (k_get_pods K ns sel)"
    and health: "keeps f (k_get_service_health K ns n p)"
    and world: "f (s\<lparr>sy_world := w\<rparr>) = f s"
begin

lemma keeps_collect: "keeps f (collect_kubernetes_state K ns d sel)"
  unfolding collect_kubernetes_state_def by (intro frame deployment pods)

lemma keeps_check_once: "keeps f (check_once K v)"
  unfolding check_once_def by (intro frame deployment pods health)

lemma keeps_clock: "keeps f (monotonic E)" "keeps f (sleepM E d)"
  unfolding monotonic_def sleepM_def by (rule keeps_worldM, rule world)+

lemma keeps_verify_loop: "keeps f (verify_loop n E K v deadline poll k)"
  by (induction n arbitrary: k) (auto intro!: frame keeps_check_once keeps_clock)

lemma keeps_verify_until: "keeps f (verify_until E K v timeout poll)"
  unfolding verify_until_def by (intro frame keeps_verify_loop keeps_clock)

end

interpretation executor_effects: observing_client "executor_client E" effects for E
  by unfold_locales (simp_all add: executor_client_def effects_def frame)

interpretation executor_db: observing_client "executor_client E" "\<lambda>s. g (sy_db s)" for E g
  by unfold_locales (simp_all add: executor_client_def frame)

interpretation executor_committed: observing_client "executor_client E" sy_committed for E
  by unfold_locales (simp_all add: executor_client_def frame)

section \<open>Properties\<close>

subsection \<open>One round of checks\<close>

text \<open>What a successful round has seen: exactly these three checks.\<close>

definition all_healthy :: "verification_target \<Rightarrow> verification_check list" where
  "all_healthy v =
     [count_check ''ready_replicas'' (vt_expected_replicas v) (vt_expected_replicas v),
      count_check ''pod_readiness'' (vt_expected_replicas v) (vt_expected_replicas v),
      health_check True]"

definition sound_result :: "verification_target \<Rightarrow> verification_result \<Rightarrow> bool" where
  "sound_result v r \<longleftrightarrow> vr_success r = (vr_checks r = all_healthy v)"

lemma sound_result_attempts [simp]: "sound_result v (r\<lparr>vr_attempts := k\<rparr>) = sound_result v r"
  by (simp add: sound_result_def)

lemma check_once_wp: "wp (check_once K v) (\<lambda>r _. sound_result v r) (\<lambda>_ _. False) s"
  unfolding check_once_def wp_bindM wp_tryM wp_Let Let_def
  by (auto intro!: wp_always simp: sound_result_def all_healthy_def failed_reads_def failed_check_def
      count_check_def health_check_def)

lemma verify_until_sound: "results (sound_result v) (verify_until E K v timeout poll)"
proof -
  have check: "results (sound_result v) (check_once K v)"
    unfolding results_def by (auto intro: wp_mono [OF check_once_wp])
  have "results (sound_result v) (verify_loop n E K v deadline poll k)" for n deadline k
  proof (induction n arbitrary: k)
    case (Suc n)
    show ?case unfolding verify_loop.simps
      by (rule results_bindM_of [OF check]) (auto intro!: result_rules Suc.IH)
  qed (simp add: result_rules)
  then show ?thesis unfolding verify_until_def by (intro result_rules)
qed

subsection \<open>The polling loop\<close>

text \<open>A clock that does not go backwards while the cluster is read, and a sleep that lasts at least as
  long as it was asked to; \<open>now\<close> is the time of a state of the world.\<close>

definition steady_clock :: "'w env \<Rightarrow> ('w \<Rightarrow> rat) \<Rightarrow> bool" where
  "steady_clock E now \<longleftrightarrow>
     (\<forall>w. fst (e_monotonic E w) = now w \<and> now w \<le> now (snd (e_monotonic E w))) \<and>
     (\<forall>d w. 0 \<le> d \<longrightarrow> now w + d \<le> now (snd (e_sleep E d w))) \<and>
     (\<forall>a b w. now w \<le> now (snd (e_read_deployment E a b w))) \<and>
     (\<forall>a b w. now w \<le> now (snd (e_list_pods E a b w))) \<and>
     (\<forall>a b p w. now w \<le> now (snd (e_service_proxy E a b p w)))"

lemma preserves_worldM:
  "(\<And>w. I' w \<Longrightarrow> I' (snd (g w))) \<Longrightarrow> preserves (\<lambda>s. I' (sy_world s)) (worldM g)"
  by (simp add: preserves_wp wp_worldM)

lemma preserves_api_failure [inv_rules]:
  "(\<And>st. preserves I (g st)) \<Longrightarrow> (\<And>c. preserves I (h c)) \<Longrightarrow>
     preserves I (case v of ApiException st \<Rightarrow> g st | ApiOther c \<Rightarrow> h c)"
  by (cases v) auto

lemma check_once_time:
  assumes "steady_clock E now"
  shows "preserves (\<lambda>s. c \<le> now (sy_world s)) (check_once (executor_client E) v)"
proof -
  have "preserves (\<lambda>s. c \<le> now (sy_world s)) (worldM (e_read_deployment E a b))"
    "preserves (\<lambda>s. c \<le> now (sy_world s)) (worldM (e_list_pods E a b))"
    "preserves (\<lambda>s. c \<le> now (sy_world s)) (worldM (e_service_proxy E a b p))" for a b p
    by (rule preserves_worldM, use assms in \<open>auto simp: steady_clock_def intro: order_trans\<close>)+
  then show ?thesis
    unfolding check_once_def executor_client_def kube_client.simps kube_read_defs apiM_def
      validate_name_def
    by (intro inv_rules)
qed

lemma steady_tick:
  assumes "steady_clock E now"
  shows "fst (e_monotonic E w) = now w" "now w \<le> now (snd (e_monotonic E w))"
    "0 \<le> d \<Longrightarrow> now w + d \<le> now (snd (e_sleep E d w))"
  using assms by (auto simp: steady_clock_def)

lemma check_once_steady:
  assumes "steady_clock E now"
  shows "wp (check_once (executor_client E) v)
    (\<lambda>r t. sound_result v r \<and> now (sy_world s) \<le> now (sy_world t)) (\<lambda>_ _. False) s"
  by (rule wp_mono [OF wp_conj [OF check_once_wp preservesD [OF check_once_time [OF assms]]]]) auto

text \<open>One round of waiting brings the deadline nearer by one poll interval, or reaches it.\<close>

lemma wait_progress:
  assumes steady: "steady_clock E now" and poll: "0 < poll"
    and fuel: "deadline \<le> now w + of_nat (Suc m) * poll" and read: "now w \<le> now x"
  defines "y \<equiv> snd (e_monotonic E (snd (e_monotonic E x)))"
  shows "deadline \<le> now (snd (e_sleep E
    (min poll (max 0 (deadline - now (snd (e_monotonic E x))))) y)) + of_nat m * poll"
proof -
  let ?x' = "snd (e_monotonic E x)"
  let ?d = "min poll (max 0 (deadline - now ?x'))"
  have "now w \<le> now ?x'" "now ?x' \<le> now y"
    using read steady_tick(2) [OF steady] unfolding y_def by (blast intro: order_trans)+
  moreover have "now y + ?d \<le> now (snd (e_sleep E ?d y))"
    using poll by (intro steady_tick(3) [OF steady]) simp
  moreover have "0 \<le> of_nat m * poll" and "of_nat (Suc m) * poll = of_nat m * poll + poll"
    using poll by (simp_all add: algebra_simps)
  moreover have "?d = poll \<or> deadline - now ?x' \<le> ?d" by (simp add: min_def)
  ultimately show ?thesis using fuel poll by linarith
qed

lemma verify_loop_returns:
  assumes steady: "steady_clock E now" and poll: "0 < poll"
    and fuel: "deadline \<le> now (sy_world s) + of_nat m * poll"
  shows "wp (verify_loop (Suc m) E (executor_client E) v deadline poll k)
    (\<lambda>r t. sound_result v r \<and> (vr_success r \<or> deadline \<le> now (sy_world t)) \<and> k < vr_attempts r \<and>
       vr_attempts r \<le> k + Suc m) (\<lambda>_ _. False) s"
  using fuel
proof (induction m arbitrary: s k)
  case 0
  then have "deadline \<le> now (sy_world t) \<and> deadline \<le> now (snd (e_monotonic E (sy_world t)))"
    if "now (sy_world s) \<le> now (sy_world t)" for t :: "'a sys"
    using that steady_tick(2) [OF steady, of "sy_world t"] by auto
  then show ?case
    by (auto simp: wp_simps monotonic_def steady_tick(1) [OF steady]
        intro!: wp_mono [OF check_once_steady [OF steady]])
next
  case (Suc m)
  let ?K = "executor_client E"
  let ?Q = "\<lambda>k m r t. sound_result v r \<and> (vr_success r \<or> deadline \<le> now (sy_world t)) \<and>
    k < vr_attempts r \<and> vr_attempts r \<le> k + Suc m"
  have "wp (verify_loop (Suc m) E ?K v deadline poll (Suc k)) (?Q k (Suc m)) (\<lambda>_ _. False) u"
    if "deadline \<le> now (sy_world u) + of_nat m * poll" for u
    by (rule wp_mono [OF Suc.IH [OF that]]) auto
  moreover have "deadline \<le> now (snd (e_monotonic E (sy_world t)))"
    if "deadline \<le> now (sy_world t)" for t :: "'a sys"
    using that steady_tick(2) [OF steady, of "sy_world t"] by linarith
  ultimately show ?case
    using wait_progress [OF steady poll Suc.prems]
    unfolding verify_loop.simps(2) [of "Suc m"]
    by (auto simp: wp_bindM wp_if wp_thenM wp_worldM monotonic_def sleepM_def
        steady_tick(1) [OF steady] intro!: wp_mono [OF check_once_steady [OF steady]]
        simp del: verify_loop.simps)
qed

text \<open>C32. Verification always comes to an end and tells the truth. On a steady clock with a positive
  poll interval it never raises, whatever the cluster answers; it reports success exactly when its
  last round saw the expected number of ready replicas, the expected number of ready pods and a
  healthy service; it gives up only after the timeout has passed; and it makes at least one and at
  most one more round than poll intervals fit into the timeout.\<close>

theorem verify_until_terminates:
  assumes "steady_clock E now" and "0 < poll"
  shows "wp (verify_until E (executor_client E) v timeout poll)
    (\<lambda>r t. vr_success r = (vr_checks r = all_healthy v) \<and>
       (vr_success r \<or> now (sy_world s) + timeout \<le> now (sy_world t)) \<and>
       1 \<le> vr_attempts r \<and> vr_attempts r \<le> Suc (nat \<lceil>timeout / poll\<rceil>)) (\<lambda>_ _. False) s"
proof -
  let ?w = "snd (e_monotonic E (sy_world s))" and ?m = "nat \<lceil>timeout / poll\<rceil>"
  have "timeout / poll \<le> of_nat ?m" using of_nat_ceiling by blast
  then have "timeout \<le> of_nat ?m * poll" using assms(2) by (simp add: field_simps)
  then have "now (sy_world s) + timeout \<le> now (sy_world (s\<lparr>sy_world := ?w\<rparr>)) + of_nat ?m * poll"
    using steady_tick(2) [OF assms(1), of "sy_world s"] by simp
  from verify_loop_returns [OF assms this, of v 0] show ?thesis
    unfolding verify_until_def wp_bindM monotonic_def wp_worldM verify_fuel_def
      steady_tick(1) [OF assms(1)]
    by (rule wp_mono) (auto simp: sound_result_def)
qed

definition demo_target :: verification_target where
  "demo_target = \<lparr>vt_namespace = ''cloudward-staging'', vt_deployment = ''demo'',
     vt_label_selector = ''app=demo'', vt_expected_replicas = 2, vt_service_name = ''demo'',
     vt_health_path = ''health/ready''\<rparr>"

theorem verify_until_terminates_witness:
  "wp (verify_until demo_env (executor_client demo_env) demo_target 10 1)
    (\<lambda>r t. vr_success r = (vr_checks r = all_healthy demo_target) \<and>
       (vr_success r \<or> 10 \<le> of_int (dw_clock (sy_world t)) / (1000000 :: rat)) \<and>
       1 \<le> vr_attempts r \<and> vr_attempts r \<le> 11) (\<lambda>_ _. False) demo_sys"
proof -
  have "of_int (dw_clock w) / 1000000 + d \<le> (of_int (dw_clock w) + of_int \<lceil>d * 1000000\<rceil>) / (1000000 :: rat)"
    for d and w :: demo_world using le_of_int_ceiling [of "d * 1000000"] by (simp add: field_simps)
  then have "steady_clock demo_env (\<lambda>w. of_int (dw_clock w) / 1000000)"
    by (simp add: steady_clock_def demo_env_def)
  from verify_until_terminates [OF this, of 1 demo_target 10 demo_sys]
  show ?thesis by (auto simp: demo_sys_def elim!: wp_mono)
qed

end
