(* ===== verification/CW_Runbooks.thy ===== *)
theory CW_Runbooks
  imports CW_Policy "HOL-Library.Product_Lexorder"
begin

text \<open>
  Runbooks: the document schema (\<open>runbooks/schema.py\<close>) and the loader (\<open>runbooks/loader.py\<close>). The
  YAML parser is a library: it is the argument \<open>yaml\<close> of the loader, from the text of a file to an
  error or the tree of nodes, in which a mapping may still hold a key twice. The text a validation
  error adds to a message is left out of the message.
\<close>

section \<open>Schema\<close>

datatype runbook_environment = RE_LOCAL | RE_STAGING | RE_PRODUCTION

fun runbook_environment_value :: "runbook_environment \<Rightarrow> string" where
  "runbook_environment_value RE_LOCAL = ''local''"
| "runbook_environment_value RE_STAGING = ''staging''"
| "runbook_environment_value RE_PRODUCTION = ''production''"

text \<open>The members of \<open>RequiredEvidence\<close>, by value.\<close>

definition RequiredEvidence :: "string list" where
  "RequiredEvidence = [''kubernetes_state'', ''kubernetes_event'', ''readiness'', ''health_check'',
     ''error_rate'', ''latency'', ''cpu_saturation'', ''memory_working_set'',
     ''container_termination'', ''restart_count'', ''resource_configuration'', ''logs'', ''traces'',
     ''deployment_state'', ''previous_revision'', ''runtime_security_event'',
     ''cilium_policy_state'', ''controlled_egress_probe'']"

record match_schema =
  ms_incident_type :: string
  ms_conditions :: "string list"

record preconditions_schema =
  ps_max_target_pods :: int
  ps_require_controller :: bool

record verification_schema =
  vs_timeout :: string
  vs_conditions :: "string list"

record runbook_document =
  rb_id :: string
  rb_version :: int
  rb_environments :: "runbook_environment list"
  rb_match :: match_schema
  rb_required_evidence :: "string list"
  rb_preconditions :: preconditions_schema
  rb_action :: action_type
  rb_verify :: verification_schema
  rb_rollback_enabled :: bool

subsection \<open>Reading the fields\<close>

text \<open>A model with \<open>extra="forbid"\<close>: an object with no other keys than its fields.\<close>

definition closed_object :: "string list \<Rightarrow> json \<Rightarrow> jdict option" where
  "closed_object names v =
     (case v of JObj d \<Rightarrow> if set (map fst d) \<subseteq> set names then Some d else None | _ \<Rightarrow> None)"

definition field :: "(json \<Rightarrow> 'a option) \<Rightarrow> jdict \<Rightarrow> string \<Rightarrow> 'a option" where
  "field parse d k = Option.bind (dict_get d k) parse"

definition parse_str :: "json \<Rightarrow> string option" where
  "parse_str v = (case v of JStr s \<Rightarrow> Some s | _ \<Rightarrow> None)"

definition parse_list :: "nat \<Rightarrow> nat \<Rightarrow> (json \<Rightarrow> 'a option) \<Rightarrow> json \<Rightarrow> 'a list option" where
  "parse_list lo hi parse v =
     (case v of JList xs \<Rightarrow> if lo \<le> length xs \<and> length xs \<le> hi then those (map parse xs) else None
      | _ \<Rightarrow> None)"

definition parse_checked :: "(json \<Rightarrow> 'a option) \<Rightarrow> ('a \<Rightarrow> bool) \<Rightarrow> json \<Rightarrow> 'a option" where
  "parse_checked parse ok v =
     Option.bind (parse v) (\<lambda>x. if ok x then Some x else None)"

definition parse_enum :: "('a \<Rightarrow> string) \<Rightarrow> 'a list \<Rightarrow> json \<Rightarrow> 'a option" where
  "parse_enum val members v = Option.bind (parse_str v) (\<lambda>s. find (\<lambda>m. val m = s) members)"

text \<open>\<^verbatim>\<open>^[a-z0-9_.-]+$\<close>, 1 to 64 characters; \<^verbatim>\<open>^[a-z0-9]+(?:[.-][a-z0-9]+)*$\<close>, 3 to 255: words of
  lower-case letters and digits, joined by single dots and dashes.\<close>

definition incident_type_ok :: "string \<Rightarrow> bool" where
  "incident_type_ok s \<longleftrightarrow> 1 \<le> length s \<and> length s \<le> 64 \<and>
     (\<forall>c \<in> set s. is_lower_char c \<or> is_digit_char c \<or> c \<in> set ''_.-'')"

fun dotted_words :: "bool \<Rightarrow> string \<Rightarrow> bool" where
  "dotted_words after_word [] = after_word"
| "dotted_words after_word (c # cs) =
     (if is_lower_char c \<or> is_digit_char c then dotted_words True cs
      else c \<in> set ''.-'' \<and> after_word \<and> dotted_words False cs)"

definition runbook_id_ok :: "string \<Rightarrow> bool" where
  "runbook_id_ok s \<longleftrightarrow> 3 \<le> length s \<and> length s \<le> 255 \<and> dotted_words False s"

definition timeout_seconds :: "string \<Rightarrow> int" where
  "timeout_seconds s = (case digits_val 0 False (butlast s) of None \<Rightarrow> 0 | Some n \<Rightarrow> n) *
     (if py_endswith s ''m'' then 60 else 1)"

definition validate_duration :: "string \<Rightarrow> bool" where
  "validate_duration s \<longleftrightarrow> 2 \<le> length s \<and> last s \<in> set ''sm'' \<and> list_all is_digit_char (butlast s) \<and>
     hd s \<noteq> CHR ''0'' \<and> timeout_seconds s \<le> 600"

definition match_schema_validate :: "json \<Rightarrow> match_schema option" where
  "match_schema_validate v =
     Option.bind (closed_object [''incident_type'', ''conditions''] v) (\<lambda>d.
     Option.bind (field (parse_checked parse_str incident_type_ok) d ''incident_type'') (\<lambda>ty.
     Option.bind (field (parse_list 1 20 parse_str) d ''conditions'') (\<lambda>cs.
     Some \<lparr>ms_incident_type = ty, ms_conditions = cs\<rparr>)))"

definition evidence_schema_validate :: "json \<Rightarrow> string list option" where
  "evidence_schema_validate v =
     Option.bind (closed_object [''required''] v) (\<lambda>d.
     field (parse_list 1 20 (parse_enum id RequiredEvidence)) d ''required'')"

definition preconditions_schema_validate :: "json \<Rightarrow> preconditions_schema option" where
  "preconditions_schema_validate v =
     Option.bind (closed_object [''max_target_pods'', ''controller_managed''] v) (\<lambda>d.
     Option.bind (field (parse_checked parse_int (\<lambda>n. 1 \<le> n \<and> n \<le> 10)) d ''max_target_pods'') (\<lambda>n.
     Option.bind (field parse_bool d ''controller_managed'') (\<lambda>b.
     Some \<lparr>ps_max_target_pods = n, ps_require_controller = b\<rparr>)))"

definition action_schema_validate :: "json \<Rightarrow> action_type option" where
  "action_schema_validate v =
     Option.bind (closed_object [''type''] v) (\<lambda>d. field (parse_enum action_value all_actions) d ''type'')"

definition verification_schema_validate :: "json \<Rightarrow> verification_schema option" where
  "verification_schema_validate v =
     Option.bind (closed_object [''timeout'', ''conditions''] v) (\<lambda>d.
     Option.bind (field (parse_checked parse_str validate_duration) d ''timeout'') (\<lambda>t.
     Option.bind (field (parse_list 1 20 parse_str) d ''conditions'') (\<lambda>cs.
     Some \<lparr>vs_timeout = t, vs_conditions = cs\<rparr>)))"

definition rollback_schema_validate :: "json \<Rightarrow> bool option" where
  "rollback_schema_validate v =
     Option.bind (closed_object [''enabled''] v) (\<lambda>d. field parse_bool d ''enabled'')"

text \<open>\<open>validate_action_contract\<close>: the action supports every environment of the runbook, and a
  rollback is enabled only for an action that has one.\<close>

definition validate_action_contract :: "runbook_document \<Rightarrow> bool" where
  "validate_action_contract rb \<longleftrightarrow>
     (let metadata = get_action_metadata (rb_action rb) in
      runbook_environment_value ` set (rb_environments rb) \<subseteq> set (am_allowed_environments metadata) \<and>
      (rb_rollback_enabled rb \<longrightarrow> am_rollback_capable metadata))"

definition runbook_fields :: "string list" where
  "runbook_fields = [''id'', ''version'', ''environments'', ''match'', ''evidence'',
     ''preconditions'', ''action'', ''verify'', ''rollback'']"

definition environments_validate :: "json \<Rightarrow> runbook_environment list option" where
  "environments_validate v =
     (case v of JList xs \<Rightarrow> if xs = [] then None
        else those (map (parse_enum runbook_environment_value [RE_LOCAL, RE_STAGING, RE_PRODUCTION]) xs)
      | _ \<Rightarrow> None)"

definition runbook_validate :: "json \<Rightarrow> runbook_document option" where
  "runbook_validate v =
     Option.bind (closed_object runbook_fields v) (\<lambda>d.
     Option.bind (field (parse_checked parse_str runbook_id_ok) d ''id'') (\<lambda>i.
     Option.bind (field (parse_checked parse_int (\<lambda>n. 1 \<le> n)) d ''version'') (\<lambda>n.
     Option.bind (field environments_validate d ''environments'') (\<lambda>envs.
     Option.bind (field match_schema_validate d ''match'') (\<lambda>m.
     Option.bind (field evidence_schema_validate d ''evidence'') (\<lambda>ev.
     Option.bind (field preconditions_schema_validate d ''preconditions'') (\<lambda>pre.
     Option.bind (field action_schema_validate d ''action'') (\<lambda>a.
     Option.bind (field verification_schema_validate d ''verify'') (\<lambda>w.
     Option.bind (field rollback_schema_validate d ''rollback'') (\<lambda>r.
     let rb = \<lparr>rb_id = i, rb_version = n, rb_environments = envs, rb_match = m,
       rb_required_evidence = ev, rb_preconditions = pre, rb_action = a, rb_verify = w,
       rb_rollback_enabled = r\<rparr>
     in if validate_action_contract rb then Some rb else None))))))))))"

section \<open>Loading\<close>

definition MAX_RUNBOOK_BYTES :: nat where
  "MAX_RUNBOOK_BYTES = 256 * 1024"

definition FORBIDDEN_KEYS :: "string set" where
  "FORBIDDEN_KEYS = {''shell'', ''command'', ''commands'', ''exec'', ''script'', ''kubectl''}"

text \<open>\<open>_construct_mapping\<close>: no mapping of the document has a key twice.\<close>

fun unique_keys :: "json \<Rightarrow> bool" where
  "unique_keys (JObj kvs) = (distinct (map fst kvs) \<and> list_all (\<lambda>(k, v). unique_keys v) kvs)"
| "unique_keys (JList xs) = list_all unique_keys xs"
| "unique_keys v = True"

definition forbidden_key :: "string \<Rightarrow> bool" where
  "forbidden_key k \<longleftrightarrow> map (\<lambda>c. if c = CHR ''-'' then CHR ''_'' else c) (py_lower k) \<in> FORBIDDEN_KEYS"

fun reject_executable_content :: "string \<Rightarrow> json \<Rightarrow> exn option"
  and reject_items :: "string \<Rightarrow> (string \<times> json) list \<Rightarrow> exn option"
  and reject_elements :: "string \<Rightarrow> nat \<Rightarrow> json list \<Rightarrow> exn option" where
  "reject_executable_content path (JObj kvs) = reject_items path kvs"
| "reject_executable_content path (JList xs) = reject_elements path 0 xs"
| "reject_executable_content path v = None"
| "reject_items path [] = None"
| "reject_items path ((k, v) # kvs) =
     (if forbidden_key k then Some (cw_error ''INVALID_RUNBOOK''
        (''Executable field '' @ path @ ''.'' @ k @ '' is forbidden in declarative runbooks'') 422)
      else case reject_executable_content (path @ ''.'' @ k) v of
        Some e \<Rightarrow> Some e | None \<Rightarrow> reject_items path kvs)"
| "reject_elements path n [] = None"
| "reject_elements path n (v # vs) =
     (case reject_executable_content (path @ ''['' @ str_of_nat n @ '']'') v of
        Some e \<Rightarrow> Some e | None \<Rightarrow> reject_elements path (Suc n) vs)"

record runbook_file =
  fi_name :: string
  fi_size :: nat
  fi_text :: string

definition runbook_key :: "runbook_document \<Rightarrow> string \<times> int" where
  "runbook_key rb = (rb_id rb, rb_version rb)"

definition invalid_runbook :: "runbook_file \<Rightarrow> exn" where
  "invalid_runbook f = cw_error ''INVALID_RUNBOOK'' (''Invalid runbook '' @ fi_name f @ '': '') 422"

definition read_runbook :: "(string \<Rightarrow> json option) \<Rightarrow> runbook_file \<Rightarrow> exn + runbook_document" where
  "read_runbook yaml f =
     (if fi_size f > MAX_RUNBOOK_BYTES
      then Inl (cw_error ''INVALID_RUNBOOK'' (''Runbook too large: '' @ fi_name f) 400)
      else case yaml (fi_text f) of
        None \<Rightarrow> Inl (invalid_runbook f)
      | Some raw \<Rightarrow>
          if \<not> unique_keys raw then Inl (invalid_runbook f)
          else case raw of
            JObj d \<Rightarrow>
              (case reject_executable_content ''root'' raw of
                 Some e \<Rightarrow> Inl e
               | None \<Rightarrow> (case runbook_validate raw of
                   None \<Rightarrow> Inl (invalid_runbook f) | Some rb \<Rightarrow> Inr rb))
          | _ \<Rightarrow> Inl (invalid_runbook f))"

fun load_files :: "(string \<Rightarrow> json option) \<Rightarrow> runbook_document list \<Rightarrow> runbook_file list \<Rightarrow>
    exn + runbook_document list" where
  "load_files yaml loaded [] = Inr loaded"
| "load_files yaml loaded (f # fs) =
     (case read_runbook yaml f of
        Inl e \<Rightarrow> Inl e
      | Inr rb \<Rightarrow>
          if runbook_key rb \<in> runbook_key ` set loaded
          then Inl (cw_error ''DUPLICATE_RUNBOOK''
            (''Duplicate runbook '' @ rb_id rb @ '' v'' @ str_of_int (rb_version rb)) 400)
          else load_files yaml (loaded @ [rb]) fs)"

definition runbook_files :: "runbook_file list \<Rightarrow> runbook_file list" where
  "runbook_files fs = sort_key fi_name
     (filter (\<lambda>f. py_endswith (fi_name f) ''.yaml'') fs @ filter (\<lambda>f. py_endswith (fi_name f) ''.yml'') fs)"

text \<open>The loader's state is its dictionary of runbooks, in insertion order; \<open>dir\<close> is the listing of
  the directory, or \<open>None\<close> when the path is not a directory.\<close>

definition loaded_runbooks :: "runbook_document list \<Rightarrow> runbook_document list" where
  "loaded_runbooks store = sort_key runbook_key store"

definition load_runbooks :: "(string \<Rightarrow> json option) \<Rightarrow> string \<Rightarrow> runbook_file list option \<Rightarrow>
    (runbook_document list, runbook_document list) M" where
  "load_runbooks yaml path dir =
     (case dir of
        None \<Rightarrow> raiseM (cw_error ''RUNBOOK_PATH_UNAVAILABLE''
          (''Runbook directory does not exist: '' @ path) 503)
      | Some fs \<Rightarrow>
          bindM (liftR (load_files yaml [] (runbook_files fs))) (\<lambda>loaded.
          thenM (modifyM (\<lambda>_. loaded)) (readM loaded_runbooks)))"

section \<open>Matching\<close>

definition runbook_matches :: "string \<Rightarrow> string set \<Rightarrow> string \<Rightarrow> runbook_document \<Rightarrow> bool" where
  "runbook_matches incident_type conditions environment rb \<longleftrightarrow>
     ms_incident_type (rb_match rb) = incident_type \<and>
     set (ms_conditions (rb_match rb)) \<subseteq> conditions \<and>
     environment \<in> runbook_environment_value ` set (rb_environments rb)"

definition match_key :: "runbook_document \<Rightarrow> int \<times> string" where
  "match_key rb = (rb_version rb, rb_id rb)"

text \<open>\<^verbatim>\<open>sort(key=..., reverse=True)\<close> is stable: equal keys keep their order.\<close>

definition match_runbook :: "runbook_document list \<Rightarrow> string \<Rightarrow> string set \<Rightarrow> string \<Rightarrow>
    exn + runbook_document" where
  "match_runbook store incident_type conditions environment =
     (let candidates = filter (runbook_matches incident_type conditions environment) store in
      if candidates = [] then Inl (cw_error ''RUNBOOK_NOT_FOUND''
        ''No deterministic runbook matches the incident evidence'' 422)
      else Inr (hd (rev (sort_key match_key (rev candidates)))))"

section \<open>Properties\<close>

subsection \<open>No executable content\<close>

text \<open>All keys of a document, at every depth.\<close>

fun json_keys :: "json \<Rightarrow> string list" where
  "json_keys (JObj kvs) = concat (map (\<lambda>(k, v). k # json_keys v) kvs)"
| "json_keys (JList xs) = concat (map json_keys xs)"
| "json_keys v = []"

lemma reject_exact:
  "reject_executable_content path v = None \<longleftrightarrow> (\<forall>k \<in> set (json_keys v). \<not> forbidden_key k)"
  "reject_items path kvs = None \<longleftrightarrow>
     (\<forall>(k, v) \<in> set kvs. \<not> forbidden_key k \<and> (\<forall>k' \<in> set (json_keys v). \<not> forbidden_key k'))"
  "reject_elements path n vs = None \<longleftrightarrow> (\<forall>v \<in> set vs. \<forall>k \<in> set (json_keys v). \<not> forbidden_key k)"
  by (induction path v and path kvs and path n vs
      rule: reject_executable_content_reject_items_reject_elements.induct)
    (auto split: option.splits)

lemma reject_code:
  "reject_executable_content path v = Some e \<Longrightarrow> \<exists>msg. e = cw_error ''INVALID_RUNBOOK'' msg 422"
  "reject_items path kvs = Some e \<Longrightarrow> \<exists>msg. e = cw_error ''INVALID_RUNBOOK'' msg 422"
  "reject_elements path n vs = Some e \<Longrightarrow> \<exists>msg. e = cw_error ''INVALID_RUNBOOK'' msg 422"
  by (induction path v and path kvs and path n vs
      rule: reject_executable_content_reject_items_reject_elements.induct)
    (auto split: option.splits if_splits)

text \<open>C35. The scan for executable content is exact: it accepts a document precisely when none of its
  keys, at any depth and under any mixture of mappings and lists, is one of the six forbidden names
  (compared in lower case with dashes read as underscores), and otherwise raises \<open>INVALID_RUNBOOK\<close>.\<close>

theorem executable_content_rejected:
  "(case reject_executable_content path v of
      None \<Rightarrow> set (map forbidden_key (json_keys v)) \<subseteq> {False}
    | Some e \<Rightarrow> True \<in> set (map forbidden_key (json_keys v)) \<and>
        (\<exists>msg. e = cw_error ''INVALID_RUNBOOK'' msg 422))"
  using reject_exact(1) [of path v] reject_code(1) [of path v]
  by (auto split: option.splits)

subsection \<open>What a successful load has stored\<close>

definition runbook_ok :: "runbook_document \<Rightarrow> bool" where
  "runbook_ok rb \<longleftrightarrow> validate_action_contract rb \<and> rb_environments rb \<noteq> [] \<and> 1 \<le> rb_version rb \<and>
     1 \<le> timeout_seconds (vs_timeout (rb_verify rb)) \<and> timeout_seconds (vs_timeout (rb_verify rb)) \<le> 600 \<and>
     1 \<le> ps_max_target_pods (rb_preconditions rb) \<and> ps_max_target_pods (rb_preconditions rb) \<le> 10"

lemma digit_value:
  assumes "is_digit_char c"
  shows "0 \<le> (of_char c - 48 :: int)" "c \<noteq> CHR ''0'' \<Longrightarrow> 1 \<le> (of_char c - 48 :: int)"
proof -
  have i: "(of_char c :: int) = int (of_char c)" by (simp only: of_nat_of_char)
  show "0 \<le> (of_char c - 48 :: int)" unfolding i using assms by (simp add: is_digit_char_def)
  assume "c \<noteq> CHR ''0''"
  then have "of_char c \<noteq> (48 :: nat)" 
    using of_char_eq_iff [of c "CHR ''0''", where 'a = nat] by (simp add: of_char_def)
  then show "1 \<le> (of_char c - 48 :: int)" unfolding i using assms by (simp add: is_digit_char_def)
qed

lemma digits_val_acc:
  "list_all is_digit_char s \<Longrightarrow> 1 \<le> acc \<Longrightarrow> \<exists>n. digits_val acc True s = Some n \<and> 1 \<le> n"
proof (induction s arbitrary: acc)
  case (Cons c s)
  have "0 \<le> (of_char c - 48 :: int)" using Cons.prems(1) digit_value(1) [of c] by simp
  with Cons.prems(2) have "1 \<le> acc * 10 + (of_char c - 48 :: int)" by linarith
  with Cons show ?case by simp
qed simp

lemma validate_duration_bounds:
  assumes "validate_duration s"
  shows "1 \<le> timeout_seconds s \<and> timeout_seconds s \<le> 600"
proof -
  obtain c cs where s: "butlast s = c # cs" and hd: "hd s = c"
    using assms by (cases s; cases "tl s") (auto simp: validate_duration_def)
  have c: "is_digit_char c" "list_all is_digit_char cs" "c \<noteq> CHR ''0''"
    using assms s hd by (auto simp: validate_duration_def)
  then have "1 \<le> (of_char c - 48 :: int)" by (simp add: digit_value(2))
  with digits_val_acc [OF c(2), of "of_char c - 48"] c(1)
  have "\<exists>n. digits_val 0 False (butlast s) = Some n \<and> 1 \<le> n" by (simp add: s)
  then show ?thesis using assms by (auto simp: timeout_seconds_def validate_duration_def)
qed

lemma field_SomeD: "field p d k = Some x \<Longrightarrow> \<exists>v. dict_get d k = Some v \<and> p v = Some x"
  by (auto simp: field_def bind_eq_Some_conv)

lemma parse_checked_SomeD: "parse_checked p ok v = Some x \<Longrightarrow> ok x"
  by (auto simp: parse_checked_def bind_eq_Some_conv split: if_splits)

lemma those_Nil: "those xs = Some [] \<Longrightarrow> xs = []"
  by (cases xs) (auto split: option.splits)

lemma environments_validate_nonempty: "environments_validate v = Some es \<Longrightarrow> es \<noteq> []"
  by (auto simp: environments_validate_def dest: those_Nil split: json.splits if_splits)

lemma runbook_validate_ok: "runbook_validate v = Some rb \<Longrightarrow> runbook_ok rb"
  unfolding runbook_validate_def runbook_ok_def Let_def
  by (auto simp: bind_eq_Some_conv preconditions_schema_validate_def verification_schema_validate_def
      dest!: field_SomeD parse_checked_SomeD validate_duration_bounds environments_validate_nonempty
      split: if_splits)

lemma read_runbook_ok:
  "read_runbook yaml f = Inr rb \<Longrightarrow> runbook_ok rb \<and>
     (\<exists>raw. yaml (fi_text f) = Some raw \<and> (\<forall>k \<in> set (json_keys raw). \<not> forbidden_key k))"
  using reject_exact(1) [of "''root''"]
  by (auto simp: read_runbook_def runbook_validate_ok split: if_splits option.splits json.splits)

lemma load_files_ok:
  "load_files yaml loaded fs = Inr rbs \<Longrightarrow> distinct (map runbook_key loaded) \<Longrightarrow>
     list_all runbook_ok loaded \<Longrightarrow> distinct (map runbook_key rbs) \<and> list_all runbook_ok rbs"
proof (induction yaml loaded fs rule: load_files.induct)
  case (2 yaml loaded f fs)
  then show ?case by (auto split: sum.splits if_splits dest: read_runbook_ok)
qed simp

text \<open>C34. A load is all or nothing, and a successful one stores only sound runbooks: the loader's store
  then has one runbook per id and version, and in each of them the action supports every environment
  listed, a rollback is enabled only where the action has one, the verification timeout is between
  one second and ten minutes and the target bound between one and ten pods. A load that raises
  leaves the store as it was.\<close>

theorem load_runbooks_sound:
  "wp (load_runbooks yaml path dir)
     (\<lambda>rbs store. distinct (map runbook_key store) \<and> list_all runbook_ok store \<and> set rbs = set store)
     (\<lambda>_ store. store = old) old"
  using load_files_ok [of yaml "[]"]
  by (auto simp: load_runbooks_def wp_simps loaded_runbooks_def split: option.splits sum.splits)

subsection \<open>Matching\<close>

lemma hd_rev_sort_max:
  assumes "xs \<noteq> []"
  shows "hd (rev (sort_key k (rev xs))) \<in> set xs \<and> (\<forall>x \<in> set xs. k x \<le> k (hd (rev (sort_key k (rev xs)))))"
proof -
  let ?s = "sort_key k (rev xs)"
  have ne: "?s \<noteq> []" using assms by (metis length_0_conv length_rev length_sort)
  have "sorted (map k (butlast ?s @ [last ?s]))" using ne by (simp add: sorted_sort_key)
  then have "\<forall>x \<in> set (butlast ?s). k x \<le> k (last ?s)" by (simp add: sorted_append)
  moreover have "set ?s = insert (last ?s) (set (butlast ?s))"
    using ne by (metis append_butlast_last_id list.set(1,2) set_append sup_commute insert_is_Un)
  moreover have "set ?s = set xs" by simp
  ultimately show ?thesis using ne by (auto simp: hd_rev)
qed

text \<open>C36. Matching is deterministic: \<open>match\<close> fails, with \<open>RUNBOOK_NOT_FOUND\<close>, exactly when no stored
  runbook applies; otherwise it returns an applicable runbook with the greatest version (and the
  greatest id among those), and the answer depends only on which runbooks are stored, not on the
  order in which their files were read.\<close>

theorem match_runbook_deterministic:
  assumes "distinct (map runbook_key store)" and "set store' = set store"
  shows "(case match_runbook store ty cs env of
      Inl e \<Rightarrow> (\<forall>rb \<in> set store. \<not> runbook_matches ty cs env rb) \<and> exn_code e = ''RUNBOOK_NOT_FOUND''
    | Inr rb \<Rightarrow> rb \<in> set store \<and> runbook_matches ty cs env rb \<and>
        (\<forall>rb' \<in> set store. runbook_matches ty cs env rb' \<longrightarrow> match_key rb' \<le> match_key rb)) \<and>
    match_runbook store' ty cs env = match_runbook store ty cs env"
proof -
  let ?c = "filter (runbook_matches ty cs env)"
  let ?best = "\<lambda>xs. hd (rev (sort_key match_key (rev (?c xs))))"
  have best: "?best xs \<in> set (?c xs) \<and> (\<forall>rb \<in> set (?c xs). match_key rb \<le> match_key (?best xs))"
    if "?c xs \<noteq> []" for xs by (rule hd_rev_sort_max [OF that])
  have empty: "(?c store' = []) = (?c store = [])"
    using assms(2) by (auto simp: filter_empty_conv)
  have "?best store' = ?best store" if ne: "?c store \<noteq> []"
  proof -
    have same: "set (?c store') = set (?c store)" using assms(2) by simp
    have "match_key (?best store') = match_key (?best store)"
      using best [OF ne] best [of store'] ne empty unfolding same by (meson order_antisym)
    then have "runbook_key (?best store') = runbook_key (?best store)"
      by (simp add: match_key_def runbook_key_def)
    moreover have "?best store' \<in> set store" "?best store \<in> set store"
      using best [OF ne] best [of store'] ne empty same by auto
    ultimately show ?thesis using assms(1) by (auto simp: distinct_map dest: inj_onD)
  qed
  with empty best show ?thesis
    by (auto simp: match_runbook_def Let_def filter_empty_conv)
qed

definition demo_runbook :: "string \<Rightarrow> int \<Rightarrow> runbook_document" where
  "demo_runbook i n = \<lparr>rb_id = i, rb_version = n, rb_environments = [RE_STAGING],
     rb_match = \<lparr>ms_incident_type = ''reliability'', ms_conditions = [''pod_unhealthy'']\<rparr>,
     rb_required_evidence = [''kubernetes_state''],
     rb_preconditions = \<lparr>ps_max_target_pods = 1, ps_require_controller = True\<rparr>,
     rb_action = DELETE_UNHEALTHY_POD,
     rb_verify = \<lparr>vs_timeout = ''120s'', vs_conditions = [''ready'']\<rparr>, rb_rollback_enabled = False\<rparr>"

theorem match_runbook_deterministic_witness:
  "match_runbook [demo_runbook ''pod'' 1, demo_runbook ''pod'' 2] ''reliability'' {''pod_unhealthy''} ''staging'' =
     Inr (demo_runbook ''pod'' 2) \<and>
   match_runbook [demo_runbook ''pod'' 2, demo_runbook ''pod'' 1] ''reliability'' {''pod_unhealthy''} ''staging'' =
     match_runbook [demo_runbook ''pod'' 1, demo_runbook ''pod'' 2] ''reliability'' {''pod_unhealthy''} ''staging''"
proof
  show "match_runbook [demo_runbook ''pod'' 1, demo_runbook ''pod'' 2] ''reliability'' {''pod_unhealthy''} ''staging'' =
      Inr (demo_runbook ''pod'' 2)"
    by (simp add: match_runbook_def Let_def runbook_matches_def demo_runbook_def match_key_def less_eq_prod_simp)
  show "match_runbook [demo_runbook ''pod'' 2, demo_runbook ''pod'' 1] ''reliability'' {''pod_unhealthy''} ''staging'' =
      match_runbook [demo_runbook ''pod'' 1, demo_runbook ''pod'' 2] ''reliability'' {''pod_unhealthy''} ''staging''"
    by (rule match_runbook_deterministic [THEN conjunct2])
      (auto simp: demo_runbook_def runbook_key_def)
qed

end
