(* ===== verification/CW_Pipeline.thy ===== *)
theory CW_Pipeline
  imports CW_Verification CW_Runbooks CW_Approvals
begin

text \<open>
  The unhealthy-pod workflow (\<open>remediation/pipeline.py\<close>): evidence, runbook, risk, policy, bounded
  deletion, verification, and the escalation of every failure. \<open>_process\<close> is one long method; its
  stages are definitions of their own here, composed in the same order, with the commits and the
  state changes where the code has them. The proposal and the runbook execution are named by their
  keys.
\<close>

record unhealthy_pod_target =
  ut_namespace :: string
  ut_deployment :: string
  ut_service_name :: string
  ut_label_selector :: string
  ut_pod_name :: "string option"
  ut_expected_replicas :: int
  ut_environment :: environment
  ut_health_path :: string

definition unhealthy_pod_target_valid :: "unhealthy_pod_target \<Rightarrow> bool" where
  "unhealthy_pod_target_valid g \<longleftrightarrow>
     str_bounds 1 253 (ut_namespace g) \<and> str_bounds 1 253 (ut_deployment g) \<and>
     str_bounds 1 253 (ut_service_name g) \<and> str_bounds 1 512 (ut_label_selector g) \<and>
     (case ut_pod_name g of None \<Rightarrow> True | Some p \<Rightarrow> str_bounds 1 253 p) \<and>
     1 \<le> ut_expected_replicas g \<and> ut_expected_replicas g \<le> 20 \<and> str_bounds 1 256 (ut_health_path g)"

record pipeline_outcome =
  po_incident_id :: uuid
  po_state :: incident_state
  po_risk_score :: "int option"
  po_policy :: "policy_result option"
  po_verification :: "verification_result option"
  po_attempts :: int

text \<open>What stays fixed during a run: the incident, its correlation id, the target and the actor.\<close>

record pipeline_run =
  px_incident :: uuid
  px_correlation_id :: string
  px_target :: unhealthy_pod_target
  px_actor :: string
  px_actor_type :: actor_type

section \<open>Helpers\<close>

definition select_unhealthy_pod :: "kubernetes_evidence \<Rightarrow> string option \<Rightarrow> exn + pod_state" where
  "select_unhealthy_pod ev requested =
     (let candidates = (case requested of None \<Rightarrow> unhealthy_pods ev
            | Some name \<Rightarrow> filter (\<lambda>p. ps_name p = name) (unhealthy_pods ev))
      in case candidates of
           [pod] \<Rightarrow> Inr pod
         | _ \<Rightarrow> Inl (cw_error ''UNSAFE_TARGET_COUNT''
             (''Expected exactly one unhealthy target pod, found '' @
                str_of_nat (length candidates)) 409))"

definition validate_preconditions :: "runbook_document \<Rightarrow> kubernetes_evidence \<Rightarrow> pod_state \<Rightarrow>
    exn + unit" where
  "validate_preconditions rb ev pod =
     (if int (length (unhealthy_pods ev)) > ps_max_target_pods (rb_preconditions rb)
      then Inl (cw_error ''RUNBOOK_PRECONDITION_FAILED'' ''Too many target pods'' 400)
      else if ps_require_controller (rb_preconditions rb) \<and> \<not> ps_controller_managed pod
      then Inl (cw_error ''RUNBOOK_PRECONDITION_FAILED'' ''Target is not controller managed'' 400)
      else Inr ())"

definition proposal_parameters :: "unhealthy_pod_target \<Rightarrow> pod_state \<Rightarrow> jdict" where
  "proposal_parameters g pod =
     [(''namespace'', JStr (ut_namespace g)), (''deployment'', JStr (ut_deployment g)),
      (''service_name'', JStr (ut_service_name g)),
      (''label_selector'', JStr (ut_label_selector g)), (''pod_name'', JStr (ps_name pod)),
      (''expected_replicas'', JInt (ut_expected_replicas g)),
      (''labels'', labels_json (ps_labels pod)),
      (''controller_managed'', JBool (ps_controller_managed pod))]"

definition pipeline_policy_input :: "unhealthy_pod_target \<Rightarrow> pod_state \<Rightarrow> action_type \<Rightarrow>
    risk_result \<Rightarrow> policy_input" where
  "pipeline_policy_input g pod action risk =
     \<lparr>pi_environment = environment_value (ut_environment g), pi_action = action,
      pi_risk_score = rr_score risk, pi_risk_factors = rr_factors risk, pi_confidence = 98 / 100,
      pi_blast_radius = 1, pi_reversible = True, pi_service_criticality = ''low'',
      pi_target = \<lparr>ti_namespace = ut_namespace g, ti_pod_name = ps_name pod,
        ti_labels = ps_labels pod, ti_controller_managed = ps_controller_managed pod,
        ti_target_pods = 1\<rparr>,
      pi_approval = no_approval\<rparr>"

definition verification_target_of :: "unhealthy_pod_target \<Rightarrow> verification_target" where
  "verification_target_of g = \<lparr>vt_namespace = ut_namespace g, vt_deployment = ut_deployment g,
     vt_label_selector = ut_label_selector g, vt_expected_replicas = ut_expected_replicas g,
     vt_service_name = ut_service_name g, vt_health_path = ut_health_path g\<rparr>"

definition px_change :: "'w env \<Rightarrow> pipeline_run \<Rightarrow> incident_state \<Rightarrow> jdict \<Rightarrow> ('w, unit) H" where
  "px_change E x target details =
     change_incident_state E (px_incident x) target (px_actor x) (px_actor_type x) details False"

definition px_audit :: "'w env \<Rightarrow> pipeline_run \<Rightarrow> string \<Rightarrow> string \<Rightarrow> (audit_call \<Rightarrow> audit_call) \<Rightarrow>
    ('w, unit) H" where
  "px_audit E x event result f = voidM (record_audit E
     (f ((audit_args event (px_correlation_id x) result)\<lparr>aa_incident_id := Some (px_incident x),
        aa_actor := px_actor x, aa_actor_type := px_actor_type x\<rparr>)))"

definition px_snapshot :: "'w env \<Rightarrow> pipeline_run \<Rightarrow> evidence_type \<Rightarrow> string \<Rightarrow> jdict \<Rightarrow> ('w, unit) H" where
  "px_snapshot E x ty summary payload = voidM (insert_row E db_evidence_snapshots_update no_constraint
     (\<lambda>i t. \<lparr>evs_id = i, evs_incident_id = px_incident x, evs_created_at = t,
        evs_correlation_id = px_correlation_id x, evs_evidence_type = ty, evs_summary = summary,
        evs_reference = None, evs_query = None, evs_window_start = None, evs_window_end = None,
        evs_phase = PHASE_INCIDENT, evs_payload = payload, evs_collected_by = ''cloudward''\<rparr>))"

definition set_runbook_execution :: "uuid \<Rightarrow> record_status \<Rightarrow> ('w, unit) H" where
  "set_runbook_execution i st =
     updM (db_runbook_executions_update (upd_row rbx_id i (rbx_status_update (\<lambda>_. st))))"

definition px_policy_decision :: "'w env \<Rightarrow> pipeline_run \<Rightarrow> uuid \<Rightarrow> policy_input \<Rightarrow> policy_result \<Rightarrow>
    ('w, unit) H" where
  "px_policy_decision E x proposal pin policy =
     voidM (insert_row E db_policy_decisions_update no_constraint
       (\<lambda>i t. \<lparr>pol_id = i, pol_incident_id = px_incident x, pol_proposal_id = proposal,
          pol_created_at = t, pol_correlation_id = px_correlation_id x,
          pol_policy_path = set_opa_decision_path (e_settings E), pol_allowed = pr_allowed policy,
          pol_requires_approval = pr_requires_approval policy, pol_reason = pr_reason policy,
          pol_input_digest = policy_digest pin, pol_result = policy_result_json policy\<rparr>))"

section \<open>Stages\<close>

definition collect_target :: "'w env \<Rightarrow> pipeline_run \<Rightarrow> ('w, kubernetes_evidence) H" where
  "collect_target E x = collect_kubernetes_state (executor_client E) (ut_namespace (px_target x))
     (ut_deployment (px_target x)) (ut_label_selector (px_target x))"

definition evidence_stage :: "'w env \<Rightarrow> pipeline_run \<Rightarrow> ('w, kubernetes_evidence) H" where
  "evidence_stage E x =
     thenM (px_change E x COLLECTING_EVIDENCE [])
     (bindM (collect_target E x) (\<lambda>ev.
      thenM (px_snapshot E x ET_KUBERNETES_STATE ''Deployment and pod readiness snapshot''
        (evidence_payload ev))
      (bindM (get_service_health E (ut_namespace (px_target x)) (ut_service_name (px_target x))
         (ut_health_path (px_target x))) (\<lambda>health.
       thenM (seqM
         [px_snapshot E x ET_HEALTH_CHECK ''Application health through Kubernetes service proxy''
            (service_health_json health),
          px_audit E x ''EVIDENCE_COLLECTED'' ''SUCCEEDED'' (aa_metadata_update (\<lambda>_.
            [(''evidence_types'', JList [JStr (evidence_type_value ET_KUBERNETES_STATE),
                JStr (evidence_type_value ET_HEALTH_CHECK)]),
             (''unhealthy_pod_count'', JInt (int (length (unhealthy_pods ev))))])),
          commit])
       (returnM ev)))))"

definition runbook_stage :: "'w env \<Rightarrow> runbook_document list \<Rightarrow> pipeline_run \<Rightarrow> kubernetes_evidence \<Rightarrow>
    ('w, pod_state \<times> runbook_document \<times> uuid) H" where
  "runbook_stage E store x ev =
     bindM (liftR (select_unhealthy_pod ev (ut_pod_name (px_target x)))) (\<lambda>pod.
     thenM (px_change E x CLASSIFYING [(''classification'', JStr ''pod_unhealthy'')])
     (bindM (liftR (match_runbook store ''reliability'' {''pod_unhealthy''}
        (environment_value (ut_environment (px_target x))))) (\<lambda>rb.
      thenM (liftR (validate_preconditions rb ev pod))
      (thenM (set_incident (px_incident x) (\<lambda>r. r\<lparr>inc_runbook_id := Some (rb_id rb),
         inc_runbook_version := Some (rb_version rb)\<rparr>))
      (bindM (insert_row E db_runbook_executions_update no_constraint
        (\<lambda>i t. \<lparr>rbx_id = i, rbx_created_at = t, rbx_incident_id = px_incident x,
           rbx_runbook_id = rb_id rb, rbx_runbook_version = rb_version rb, rbx_status = RS_RUNNING,
           rbx_context = [(''conditions'', JList [JStr ''pod_unhealthy''])]\<rparr>)) (\<lambda>rx.
       thenM (seqM
         [px_audit E x ''RUNBOOK_SELECTED'' ''SUCCEEDED'' (\<lambda>a. a
            \<lparr>aa_action := Some (action_value (rb_action rb)),
             aa_metadata := [(''runbook_id'', JStr (rb_id rb)),
               (''runbook_version'', JInt (rb_version rb))]\<rparr>),
          px_change E x ACTION_PROPOSED [(''runbook_id'', JStr (rb_id rb)),
            (''runbook_version'', JInt (rb_version rb))]])
       (returnM (pod, rb, rx))))))))"

definition proposal_stage :: "'w env \<Rightarrow> pipeline_run \<Rightarrow> pod_state \<Rightarrow> action_type \<Rightarrow>
    ('w, risk_result \<times> uuid) H" where
  "proposal_stage E x pod action =
     bindM (liftR (require_executable_action action (environment_value (ut_environment (px_target x)))))
       (\<lambda>metadata.
     bindM (liftR (mk_risk_context \<lparr>rc_environment = environment_value (ut_environment (px_target x)),
        rc_action = action, rc_target_count = 1, rc_reversible = Some (am_reversible metadata),
        rc_confidence = 98 / 100, rc_sensitivity = SENS_NONE, rc_destructive_override = False\<rparr>))
       (\<lambda>ctx.
     bindM (liftR (risk_calculate ctx)) (\<lambda>risk.
     thenM (set_incident (px_incident x) (inc_risk_score_update (\<lambda>_. Some (rr_score risk))))
     (bindM (insert_row E db_action_proposals_update action_proposal_ok
       (\<lambda>i t. \<lparr>prp_id = i, prp_created_at = t, prp_incident_id = px_incident x,
          prp_correlation_id = px_correlation_id x, prp_action_type = action,
          prp_parameters = proposal_parameters (px_target x) pod, prp_status = RS_PENDING,
          prp_risk_score = rr_score risk, prp_risk_calculation = risk_result_json risk,
          prp_proposed_by = ''cloudward''\<rparr>)) (\<lambda>proposal.
      thenM (seqM
        [px_audit E x ''ACTION_PROPOSED'' ''SUCCEEDED'' (\<lambda>a. a
           \<lparr>aa_action := Some (action_value action), aa_risk_score := Some (rr_score risk),
            aa_metadata := [(''proposal_id'', JStr (uuid_str proposal))]\<rparr>),
         px_audit E x ''RISK_CALCULATED'' ''SUCCEEDED'' (\<lambda>a. a
           \<lparr>aa_action := Some (action_value action), aa_risk_score := Some (rr_score risk),
            aa_metadata := risk_result_json risk\<rparr>),
         px_change E x POLICY_EVALUATION []])
      (returnM (risk, proposal)))))))"

definition policy_stage :: "'w env \<Rightarrow> pipeline_run \<Rightarrow> pod_state \<Rightarrow> action_type \<Rightarrow> risk_result \<Rightarrow> uuid \<Rightarrow>
    ('w, policy_result) H" where
  "policy_stage E x pod action risk proposal =
     bindM (liftR (mk_policy_input (pipeline_policy_input (px_target x) pod action risk))) (\<lambda>pin.
     bindM (opa_evaluate E pin) (\<lambda>policy.
     thenM (seqM
       [px_policy_decision E x proposal pin policy,
        px_audit E x ''OPA_EVALUATED'' ''SUCCEEDED'' (\<lambda>a. a
          \<lparr>aa_action := Some (action_value action), aa_risk_score := Some (rr_score risk),
           aa_policy_decision := Some (if pr_allowed policy then ''ALLOW'' else ''DENY''),
           aa_metadata := [(''requires_approval'', JBool (pr_requires_approval policy)),
             (''reason'', JStr (pr_reason policy)), (''input_digest'', JStr (policy_digest pin))]\<rparr>)])
     (returnM policy)))"

definition decline_stage :: "'w env \<Rightarrow> pipeline_run \<Rightarrow> action_type \<Rightarrow> risk_result \<Rightarrow> uuid \<Rightarrow> uuid \<Rightarrow>
    policy_result \<Rightarrow> ('w, pipeline_outcome) H" where
  "decline_stage E x action risk proposal rx policy =
     (let target_state = (if pr_requires_approval policy then AWAITING_APPROVAL else BLOCKED);
          status = (if pr_requires_approval policy then RS_PENDING else RS_REJECTED)
      in thenM (seqM
        [px_change E x target_state [(''policy_reason'', JStr (pr_reason policy))],
         set_proposal proposal (prp_status_update (\<lambda>_. status)),
         set_runbook_execution rx status,
         whenM (pr_requires_approval policy) (px_audit E x ''APPROVAL_REQUESTED'' ''PENDING'' (\<lambda>a. a
           \<lparr>aa_action := Some (action_value action), aa_risk_score := Some (rr_score risk),
            aa_policy_decision := Some ''APPROVAL_REQUIRED'',
            aa_metadata := [(''proposal_id'', JStr (uuid_str proposal)),
              (''reason'', JStr (pr_reason policy))]\<rparr>)),
         commit])
      (returnM \<lparr>po_incident_id = px_incident x, po_state = target_state,
         po_risk_score = Some (rr_score risk), po_policy = Some policy, po_verification = None,
         po_attempts = 0\<rparr>))"

text \<open>One attempt: the deletion when there is a target, the move to \<open>VERIFYING\<close>, and the
  verification.\<close>

definition delete_target :: "'w env \<Rightarrow> pipeline_run \<Rightarrow> action_type \<Rightarrow> risk_result \<Rightarrow> uuid \<Rightarrow> int \<Rightarrow>
    pod_state option \<Rightarrow> ('w, unit) H" where
  "delete_target E x action risk execution attempt current =
     (case current of
        Some pod \<Rightarrow>
          bindM (delete_pod E (ut_namespace (px_target x)) (ps_name pod)) (\<lambda>deletion.
          bindM (utc_now E) (\<lambda>t.
          seqM
            [set_execution execution (\<lambda>r. r\<lparr>exe_status := RS_SUCCEEDED,
               exe_result := pod_deletion_json deletion, exe_completed_at := Some t\<rparr>),
             px_audit E x ''ACTION_EXECUTED'' ''SUCCEEDED'' (\<lambda>a. a
               \<lparr>aa_action := Some (action_value action), aa_risk_score := Some (rr_score risk),
                aa_policy_decision := Some ''ALLOW'',
                aa_metadata := dict_merge [(''attempt'', JInt attempt)] (pod_deletion_json deletion)\<rparr>)]))
      | None \<Rightarrow>
          bindM (utc_now E) (\<lambda>t.
          set_execution execution (\<lambda>r. r\<lparr>exe_status := RS_FAILED,
            exe_error_code := Some ''NO_UNHEALTHY_TARGET'',
            exe_result := [(''detail'', JStr ''No unhealthy pod remained for action retry'')],
            exe_completed_at := Some t\<rparr>)))"

definition verify_timeout :: "'w env \<Rightarrow> runbook_document \<Rightarrow> rat" where
  "verify_timeout E rb = min (of_int (timeout_seconds (vs_timeout (rb_verify rb))))
     (set_verification_timeout_seconds (e_settings E))"

definition attempt_stage :: "'w env \<Rightarrow> pipeline_run \<Rightarrow> runbook_document \<Rightarrow> action_type \<Rightarrow> risk_result \<Rightarrow>
    uuid \<Rightarrow> int \<Rightarrow> pod_state option \<Rightarrow> ('w, verification_result) H" where
  "attempt_stage E x rb action risk proposal attempt current =
     thenM (set_incident (px_incident x) (inc_retry_count_update (\<lambda>_. attempt)))
     (bindM (insert_row E db_action_executions_update action_execution_ok
       (new_execution (px_incident x) proposal (px_correlation_id x) DELETE_UNHEALTHY_POD attempt
          None None)) (\<lambda>execution.
      thenM (seqM
        [delete_target E x action risk execution attempt current,
         px_change E x VERIFYING [(''attempt'', JInt attempt)],
         commit])
      (bindM (verify_until E (executor_client E) (verification_target_of (px_target x))
         (verify_timeout E rb) (set_verification_poll_seconds (e_settings E))) (\<lambda>verification.
       thenM (seqM
         [px_snapshot E x ET_HEALTH_CHECK
            (''Post-remediation verification attempt '' @ str_of_int attempt)
            (verification_result_json verification),
          px_audit E x ''VERIFICATION_COMPLETED''
            (if vr_success verification then ''SUCCEEDED'' else ''FAILED'') (\<lambda>a. a
            \<lparr>aa_action := Some (action_value action), aa_risk_score := Some (rr_score risk),
             aa_metadata := dict_merge [(''attempt'', JInt attempt)]
               (verification_result_json verification)\<rparr>)])
       (returnM verification)))))"

definition resolve_stage :: "'w env \<Rightarrow> pipeline_run \<Rightarrow> risk_result \<Rightarrow> uuid \<Rightarrow> uuid \<Rightarrow> policy_result \<Rightarrow>
    int \<Rightarrow> verification_result \<Rightarrow> ('w, pipeline_outcome) H" where
  "resolve_stage E x risk proposal rx policy attempt verification =
     thenM (seqM
       [set_proposal proposal (prp_status_update (\<lambda>_. RS_SUCCEEDED)),
        set_runbook_execution rx RS_SUCCEEDED,
        px_change E x RESOLVED [(''verification_attempt'', JInt attempt)],
        px_audit E x ''INCIDENT_RESOLVED'' ''SUCCEEDED'' (\<lambda>a. a),
        commit])
     (returnM \<lparr>po_incident_id = px_incident x, po_state = RESOLVED,
        po_risk_score = Some (rr_score risk), po_policy = Some policy,
        po_verification = Some verification, po_attempts = attempt\<rparr>)"

text \<open>Between two attempts: back to \<open>EXECUTING\<close>, fresh evidence, and a new policy decision for the one
  unhealthy pod there is now; with none or several, the next attempt has no target.\<close>

definition retry_stage :: "'w env \<Rightarrow> pipeline_run \<Rightarrow> action_type \<Rightarrow> risk_result \<Rightarrow> uuid \<Rightarrow> int \<Rightarrow>
    ('w, pod_state option) H" where
  "retry_stage E x action risk proposal attempt =
     thenM (px_change E x EXECUTING [(''retry'', JInt (attempt + 1))])
     (bindM (collect_target E x) (\<lambda>ev.
      let current = (case unhealthy_pods ev of [pod] \<Rightarrow> Some pod | _ \<Rightarrow> None) in
      thenM (case current of
          None \<Rightarrow> returnM ()
        | Some pod \<Rightarrow>
            bindM (liftR (mk_policy_input (pipeline_policy_input (px_target x) pod action risk))) (\<lambda>pin.
            bindM (opa_evaluate E pin) (\<lambda>policy.
            thenM (px_policy_decision E x proposal pin policy)
              (raise_if (\<not> pr_allowed policy) (cw_error ''RETRY_POLICY_DENIED''
                 ''Policy denied the newly discovered retry target'' 403)))))
      (thenM commit (returnM current))))"

definition exhausted_stage :: "'w env \<Rightarrow> pipeline_run \<Rightarrow> risk_result \<Rightarrow> uuid \<Rightarrow> uuid \<Rightarrow> policy_result \<Rightarrow>
    verification_result option \<Rightarrow> ('w, pipeline_outcome) H" where
  "exhausted_stage E x risk proposal rx policy verification =
     thenM (seqM
       [set_proposal proposal (prp_status_update (\<lambda>_. RS_FAILED)),
        set_runbook_execution rx RS_FAILED,
        px_change E x ESCALATED [(''reason'', JStr ''maximum remediation attempts reached'')],
        px_audit E x ''INCIDENT_ESCALATED'' ''FAILED'' (aa_metadata_update (\<lambda>_.
          [(''attempts'', JInt (int (set_max_remediation_attempts (e_settings E))))])),
        commit])
     (returnM \<lparr>po_incident_id = px_incident x, po_state = ESCALATED,
        po_risk_score = Some (rr_score risk), po_policy = Some policy,
        po_verification = verification,
        po_attempts = int (set_max_remediation_attempts (e_settings E))\<rparr>)"

text \<open>\<^verbatim>\<open>for attempt in range(1, max + 1)\<close>: \<open>n\<close> attempts are left, the next one is \<open>attempt\<close>.\<close>

fun attempt_loop :: "nat \<Rightarrow> 'w env \<Rightarrow> pipeline_run \<Rightarrow> runbook_document \<Rightarrow> action_type \<Rightarrow> risk_result \<Rightarrow>
    uuid \<Rightarrow> uuid \<Rightarrow> policy_result \<Rightarrow> int \<Rightarrow> pod_state option \<Rightarrow> verification_result option \<Rightarrow>
    ('w, pipeline_outcome) H" where
  "attempt_loop 0 E x rb action risk proposal rx policy attempt current verification =
     exhausted_stage E x risk proposal rx policy verification"
| "attempt_loop (Suc n) E x rb action risk proposal rx policy attempt current verification =
     bindM (attempt_stage E x rb action risk proposal attempt current) (\<lambda>v.
     if vr_success v then resolve_stage E x risk proposal rx policy attempt v
     else bindM
       (if attempt < int (set_max_remediation_attempts (e_settings E))
        then retry_stage E x action risk proposal attempt else returnM current) (\<lambda>current'.
       attempt_loop n E x rb action risk proposal rx policy (attempt + 1) current' (Some v)))"

definition process :: "'w env \<Rightarrow> runbook_document list \<Rightarrow> pipeline_run \<Rightarrow> ('w, pipeline_outcome) H" where
  "process E store x =
     bindM (evidence_stage E x) (\<lambda>ev.
     bindM (runbook_stage E store x ev) (\<lambda>(pod, rb, rx).
     bindM (proposal_stage E x pod (rb_action rb)) (\<lambda>(risk, proposal).
     bindM (policy_stage E x pod (rb_action rb) risk proposal) (\<lambda>policy.
     if \<not> pr_allowed policy then decline_stage E x (rb_action rb) risk proposal rx policy
     else thenM (seqM
         [set_proposal proposal (prp_status_update (\<lambda>_. RS_RUNNING)), px_change E x EXECUTING [], commit])
       (attempt_loop (set_max_remediation_attempts (e_settings E)) E x rb (rb_action rb) risk proposal rx
          policy 1 (Some pod) None)))))"

definition escalate_failure :: "'w env \<Rightarrow> pipeline_run \<Rightarrow> exn \<Rightarrow> ('w, unit) H" where
  "escalate_failure E x e =
     bindM (load_incident (px_incident x)) (\<lambda>inc.
     whenM (\<not> terminal_state (inc_state inc)) (seqM
       [px_change E x ESCALATED [(''error_code'', JStr (exn_code e))],
        px_audit E x ''INCIDENT_ESCALATED'' ''FAILED'' (aa_metadata_update (\<lambda>_.
          [(''error_code'', JStr (exn_code e)), (''message'', JStr (exn_message e))])),
        commit]))"

definition run_pipeline :: "'w env \<Rightarrow> runbook_document list \<Rightarrow> unhealthy_pod_target \<Rightarrow> string \<Rightarrow>
    string \<Rightarrow> actor_type \<Rightarrow> ('w, pipeline_outcome) H" where
  "run_pipeline E store g correlation_id actor actor_type =
     bindM (create_incident E correlation_id ''reliability'' ''Unhealthy Demo Pod'' (ut_environment g)
        (Some ''A controlled CloudWard demo pod failed readiness'') None None actor actor_type) (\<lambda>i.
     let x = \<lparr>px_incident = i, px_correlation_id = correlation_id, px_target = g, px_actor = actor,
       px_actor_type = actor_type\<rparr> in
     thenM commit
     (catch_cloudward (process E store x) (\<lambda>e.
        thenM rollback
        (thenM (escalate_failure E x e)
        (bindM (load_incident i) (\<lambda>inc.
         returnM \<lparr>po_incident_id = i, po_state = inc_state inc, po_risk_score = inc_risk_score inc,
           po_policy = None, po_verification = None, po_attempts = inc_retry_count inc\<rparr>))))))"

section \<open>Frames\<close>

lemmas px_defs = px_change_def px_audit_def px_snapshot_def set_runbook_execution_def
  px_policy_decision_def set_proposal_def set_execution_def

lemma keeps_effects_px [frame]:
  "keeps effects (px_change E x tgt ds)" "keeps effects (px_audit E x ev r f)"
  "keeps effects (px_snapshot E x ty sm pl)" "keeps effects (set_runbook_execution i st)"
  "keeps effects (px_policy_decision E x p pin pol)" "keeps effects (set_proposal i h)"
  "keeps effects (set_execution i k)"
  unfolding px_defs by (intro frame)+

lemma keeps_committed_px [frame]:
  "keeps sy_committed (px_change E x tgt ds)" "keeps sy_committed (px_audit E x ev r f)"
  "keeps sy_committed (px_snapshot E x ty sm pl)" "keeps sy_committed (set_runbook_execution i st)"
  "keeps sy_committed (px_policy_decision E x p pin pol)" "keeps sy_committed (set_proposal i h)"
  "keeps sy_committed (set_execution i k)"
  unfolding px_defs by (intro frame)+

lemma keeps_collect_target [frame]:
  "keeps effects (collect_target E x)" "keeps sy_committed (collect_target E x)"
  "keeps (\<lambda>s. g (sy_db s)) (collect_target E x)"
  unfolding collect_target_def
  by (rule executor_effects.keeps_collect executor_committed.keeps_collect executor_db.keeps_collect)+

lemma keeps_polling [frame]:
  "keeps effects (verify_until E (executor_client E') v a b)"
  "keeps sy_committed (verify_until E (executor_client E') v a b)"
  "keeps (\<lambda>s. g (sy_db s)) (verify_until E (executor_client E') v a b)"
  by (rule executor_effects.keeps_verify_until executor_committed.keeps_verify_until
      executor_db.keeps_verify_until)+

lemma keeps_effects_stages [frame]:
  "keeps effects (evidence_stage E x)" "keeps effects (runbook_stage E store x ev)"
  "keeps effects (proposal_stage E x pod action)"
  "keeps effects (decline_stage E x action risk proposal rx policy)"
  "keeps effects (resolve_stage E x risk proposal rx policy k v)"
  "keeps effects (exhausted_stage E x risk proposal rx policy v')"
  "keeps effects (escalate_failure E x e)"
  unfolding evidence_stage_def runbook_stage_def proposal_stage_def decline_stage_def
    resolve_stage_def exhausted_stage_def escalate_failure_def
  by (intro frame)+

section \<open>Every deletion is authorised\<close>

text \<open>A run's external effects: every deletion comes directly after a policy decision that allowed it
  for exactly that pod, and there is nothing else but policy decisions.\<close>

fun authorised :: "ext_event list \<Rightarrow> bool" where
  "authorised [] = True"
| "authorised (EvOpa pin res # EvDeletePod ns pod # es) \<longleftrightarrow>
     pr_allowed res \<and> ti_namespace (pi_target pin) = ns \<and> ti_pod_name (pi_target pin) = pod \<and>
     authorised es"
| "authorised (EvOpa pin res # es) = authorised es"
| "authorised es = False"

definition deletions :: "ext_event list \<Rightarrow> nat" where
  "deletions es = length (filter (\<lambda>e. case e of EvDeletePod _ _ \<Rightarrow> True | _ \<Rightarrow> False) es)"

lemma authorised_evaluation: "authorised b \<Longrightarrow> authorised (EvOpa pin res # b)"
  by (cases b rule: authorised.cases) auto

lemma authorised_append: "authorised a \<Longrightarrow> authorised b \<Longrightarrow> authorised (a @ b)"
  by (induction a rule: authorised.induct) (auto simp: authorised_evaluation)

definition safe_from :: "ext_event list \<Rightarrow> nat \<Rightarrow> 'w sys \<Rightarrow> bool" where
  "safe_from base k t \<longleftrightarrow> (\<exists>es. effects t = base @ es \<and> authorised es \<and> deletions es \<le> k)"

text \<open>The state in which a pod may be deleted next.\<close>

definition cleared_for :: "ext_event list \<Rightarrow> nat \<Rightarrow> string \<Rightarrow> string \<Rightarrow> 'w sys \<Rightarrow> bool" where
  "cleared_for base k ns pod t \<longleftrightarrow> (\<exists>es pin res. effects t = base @ es @ [EvOpa pin res] \<and>
     authorised es \<and> deletions es \<le> k \<and> pr_allowed res \<and> ti_namespace (pi_target pin) = ns \<and>
     ti_pod_name (pi_target pin) = pod)"

lemma safe_from_keeps: "keeps effects m \<Longrightarrow> preserves (safe_from base k) m"
  by (simp add: preserves_def keeps_def safe_from_def)

lemma cleared_for_keeps: "keeps effects m \<Longrightarrow> preserves (cleared_for base k ns pod) m"
  by (simp add: preserves_def keeps_def cleared_for_def)

lemma safe_from_refl: "effects t = base \<Longrightarrow> safe_from base 0 t"
  by (simp add: safe_from_def deletions_def)

lemma safe_from_mono: "safe_from base k t \<Longrightarrow> k \<le> m \<Longrightarrow> safe_from base m t"
  by (auto simp: safe_from_def intro: order_trans)

lemma deletions_simps [simp]: "deletions (a @ b) = deletions a + deletions b"
  "deletions [EvOpa pin res] = 0" "deletions [EvOpa pin res, EvDeletePod ns pod] = 1"
  by (simp_all add: deletions_def)

lemma cleared_safe:
  assumes "cleared_for base k ns pod t"
  shows "safe_from base k t"
proof -
  obtain es pin res where "effects t = base @ (es @ [EvOpa pin res])" "authorised es" "deletions es \<le> k"
    using assms by (auto simp: cleared_for_def)
  then show ?thesis unfolding safe_from_def
    by (intro exI [of _ "es @ [EvOpa pin res]"]) (simp add: authorised_append)
qed

lemma cleared_delete:
  assumes "cleared_for base k ns pod s" and "effects t = effects s @ [EvDeletePod ns pod]"
  shows "safe_from base (Suc k) t"
proof -
  obtain es pin res where "effects s = base @ es @ [EvOpa pin res]" "authorised es" "deletions es \<le> k"
    "pr_allowed res" "ti_namespace (pi_target pin) = ns" "ti_pod_name (pi_target pin) = pod"
    using assms(1) by (auto simp: cleared_for_def)
  then show ?thesis unfolding safe_from_def assms(2)
    by (intro exI [of _ "es @ [EvOpa pin res, EvDeletePod ns pod]"])
      (simp add: authorised_append)
qed

lemma evaluated:
  assumes "safe_from base k s" and "effects t = effects s @ [EvOpa pin res]"
  shows "safe_from base k t"
    and "pr_allowed res \<Longrightarrow> cleared_for base k (ti_namespace (pi_target pin)) (ti_pod_name (pi_target pin)) t"
proof -
  obtain es where es: "effects s = base @ es" "authorised es" "deletions es \<le> k"
    using assms(1) by (auto simp: safe_from_def)
  then show "safe_from base k t" unfolding safe_from_def assms(2)
    by (intro exI [of _ "es @ [EvOpa pin res]"]) (simp add: authorised_append)
  show "cleared_for base k (ti_namespace (pi_target pin)) (ti_pod_name (pi_target pin)) t"
    if "pr_allowed res" using that es unfolding cleared_for_def assms(2) by auto
qed

subsection \<open>The stages\<close>

lemma opa_evaluate_effects:
  "wp (opa_evaluate E pin) (\<lambda>r t. effects t = effects s @ [EvOpa pin r]) (\<lambda>_ t. effects t = effects s) s"
  by (simp add: opa_evaluate_def wp_simps effects_def is_task_def split: sum.splits)

lemma delete_pod_effects:
  "wp (delete_pod E ns name) (\<lambda>_ t. effects t = effects s @ [EvDeletePod ns name])
     (\<lambda>_ t. effects t = effects s \<or> effects t = effects s @ [EvDeletePod ns name]) s"
  by (rule wp_mono [OF delete_pod_wp]) (auto simp: effects_def is_task_def)

text \<open>Evaluating the policy for a pod, and what a client may conclude from an allowing answer.\<close>

lemma evaluate_safe:
  assumes "safe_from base k s"
    and "\<And>r t. safe_from base k t \<Longrightarrow> (pr_allowed r \<Longrightarrow> cleared_for base k (ti_namespace (pi_target pin))
        (ti_pod_name (pi_target pin)) t) \<Longrightarrow> wp (m r) Q (\<lambda>_. safe_from base k) t"
  shows "wp (bindM (opa_evaluate E pin) m) Q (\<lambda>_. safe_from base k) s"
  unfolding wp_bindM
proof (rule wp_mono [OF opa_evaluate_effects])
  show "wp (m r) Q (\<lambda>_. safe_from base k) t" if "effects t = effects s @ [EvOpa pin r]" for r t
    using assms(2) evaluated [OF assms(1) that] by blast
  show "safe_from base k t" if "effects t = effects s" for t
    using assms(1) that by (simp add: safe_from_def)
qed

text \<open>The target of an attempt has been cleared, when there is one.\<close>

definition cleared_target :: "ext_event list \<Rightarrow> nat \<Rightarrow> unhealthy_pod_target \<Rightarrow> pod_state option \<Rightarrow>
    'w sys \<Rightarrow> bool" where
  "cleared_target base k g current t \<longleftrightarrow> safe_from base k t \<and>
     (\<forall>pod. current = Some pod \<longrightarrow> cleared_for base k (ut_namespace g) (ps_name pod) t)"

lemma policy_input_target [simp]:
  "ti_namespace (pi_target (pipeline_policy_input g pod action risk)) = ut_namespace g"
  "ti_pod_name (pi_target (pipeline_policy_input g pod action risk)) = ps_name pod"
  by (simp_all add: pipeline_policy_input_def)

lemma mk_policy_input_Inr: "mk_policy_input p = Inr q \<Longrightarrow> q = p"
  by (simp add: mk_policy_input_def split: if_splits)

lemma cleared_target_keeps: "keeps effects m \<Longrightarrow> preserves (cleared_target base k g c) m"
  by (simp add: preserves_def keeps_def cleared_target_def safe_from_def cleared_for_def)

lemma policy_stage_safe:
  assumes "safe_from base k s"
  shows "wp (policy_stage E x pod action risk proposal)
    (\<lambda>policy t. safe_from base k t \<and> (pr_allowed policy \<longrightarrow> cleared_target base k (px_target x) (Some pod) t))
    (\<lambda>_. safe_from base k) s"
proof -
  let ?pin = "pipeline_policy_input (px_target x) pod action risk"
  let ?C = "cleared_for base k (ut_namespace (px_target x)) (ps_name pod)"
  have rest: "wp (thenM (seqM [px_policy_decision E x proposal pin policy, px_audit E x ev r f])
      (returnM policy)) (\<lambda>policy t. safe_from base k t \<and> (pr_allowed policy \<longrightarrow> ?C t))
      (\<lambda>_. safe_from base k) t"
    if "safe_from base k t" "pr_allowed policy \<Longrightarrow> ?C t" for pin policy t ev r f
  proof -
    have "keeps effects (seqM [px_policy_decision E x proposal pin policy, px_audit E x ev r f])"
      by (intro frame)
    then have "preserves (\<lambda>t. safe_from base k t \<and> (pr_allowed policy \<longrightarrow> ?C t))
        (seqM [px_policy_decision E x proposal pin policy, px_audit E x ev r f])"
      by (simp add: preserves_def keeps_def safe_from_def cleared_for_def)
    then show ?thesis by (rule wp_then_inv) (use that in simp_all)
  qed
  have "wp (policy_stage E x pod action risk proposal)
      (\<lambda>policy t. safe_from base k t \<and> (pr_allowed policy \<longrightarrow> ?C t)) (\<lambda>_. safe_from base k) s"
    unfolding policy_stage_def wp_bindM wp_liftR
    by (auto split: sum.splits dest!: mk_policy_input_Inr simp: assms
        intro!: evaluate_safe [OF assms, unfolded wp_bindM] rest)
  then show ?thesis by (rule wp_mono) (auto simp: cleared_target_def)
qed

lemma delete_target_safe:
  assumes "cleared_target base k (px_target x) current s"
  shows "wp (delete_target E x action risk execution attempt current) (\<lambda>_. safe_from base (Suc k))
    (\<lambda>_. safe_from base (Suc k)) s"
proof (cases current)
  case None
  have "keeps effects (delete_target E x action risk execution attempt None)"
    unfolding delete_target_def by (simp) (intro frame)
  moreover have "safe_from base (Suc k) s"
    using assms by (auto simp: cleared_target_def intro: safe_from_mono)
  ultimately show ?thesis unfolding None by (rule preservesD [OF safe_from_keeps])
next
  case (Some pod)
  have c: "cleared_for base k (ut_namespace (px_target x)) (ps_name pod) s" and s: "safe_from base k s"
    using assms Some by (simp_all add: cleared_target_def)
  have tail: "wp (bindM (utc_now E) (\<lambda>t. seqM [set_execution execution (h t), px_audit E x ev r f]))
      (\<lambda>_. safe_from base (Suc k)) (\<lambda>_. safe_from base (Suc k)) t" if "safe_from base (Suc k) t"
    for t h ev r f
    by (rule preservesD [OF safe_from_keeps that]) (intro frame)
  show ?thesis unfolding delete_target_def Some option.case wp_bindM [where m = "delete_pod _ _ _"]
  proof (rule wp_mono [OF delete_pod_effects])
    fix e t
    assume "effects t = effects s \<or> effects t = effects s @ [EvDeletePod (ut_namespace (px_target x)) (ps_name pod)]"
    then show "safe_from base (Suc k) t"
      using cleared_delete [OF c] s by (auto simp: safe_from_def intro: le_SucI)
  qed (rule tail, rule cleared_delete [OF c])
qed

lemma attempt_stage_safe:
  assumes "cleared_target base k (px_target x) current s"
  shows "wp (attempt_stage E x rb action risk proposal attempt current) (\<lambda>_. safe_from base (Suc k))
    (\<lambda>_. safe_from base (Suc k)) s"
proof -
  let ?S = "safe_from base (Suc k)" and ?C = "cleared_target base k (px_target x) current"
  have weak: "?S t" if "?C t" for t :: "'a sys"
    using that by (auto simp: cleared_target_def intro: safe_from_mono)
  have rest: "preserves ?S (bindM (verify_until E (executor_client E) v a b) (\<lambda>v. thenM (seqM
      [px_snapshot E x ty (sm v) (pl v), px_audit E x ev (r v) (f v)]) (returnM v)))"
    for v a b ty sm pl ev r f by (rule safe_from_keeps) (intro frame)
  have del: "wp (seqM [delete_target E x action risk execution attempt current, px_change E x tgt ds,
      commit]) (\<lambda>_. ?S) (\<lambda>_. ?S) t" if "?C t" for t execution tgt ds
    by (rule wp_seq_post [OF delete_target_safe [OF that]], rule preservesD [OF safe_from_keeps])
      (intro frame)
  have ins: "wp (bindM (insert_row E db_action_executions_update action_execution_ok mk) m) (\<lambda>_. ?S)
      (\<lambda>_. ?S) t"
    if "?C t" "\<And>i u. ?C u \<Longrightarrow> wp (m i) (\<lambda>_. ?S) (\<lambda>_. ?S) u"
    for mk t and m :: "uuid \<Rightarrow> ('a, verification_result) H"
    by (rule wp_bind_inv [OF cleared_target_keeps that(1)]) (intro frame, use weak that(2) in auto)
  show ?thesis unfolding attempt_stage_def
    by (rule wp_then_inv [OF cleared_target_keeps assms], intro frame)
      (auto intro!: weak ins wp_then_post [OF del] preservesD [OF rest])
qed

lemma retry_stage_safe:
  assumes "safe_from base k s"
  shows "wp (retry_stage E x action risk proposal attempt)
    (\<lambda>current. cleared_target base k (px_target x) current) (\<lambda>_. safe_from base k) s"
proof -
  let ?S = "safe_from base k" and ?C = "cleared_target base k (px_target x)"
  let ?pin = "\<lambda>pod. pipeline_policy_input (px_target x) pod action risk"
  let ?ask = "\<lambda>current. case current of None \<Rightarrow> returnM () | Some pod \<Rightarrow>
      bindM (liftR (mk_policy_input (?pin pod))) (\<lambda>pin.
      bindM (opa_evaluate E pin) (\<lambda>policy.
      thenM (px_policy_decision E x proposal pin policy)
        (raise_if (\<not> pr_allowed policy) (cw_error ''RETRY_POLICY_DENIED''
           ''Policy denied the newly discovered retry target'' 403))))"
  have decide: "wp (thenM (px_policy_decision E x proposal pin policy) (raise_if (\<not> pr_allowed policy) e))
      (\<lambda>_. ?C (Some pod)) (\<lambda>_. ?S) t"
    if "?S t" "pr_allowed policy \<Longrightarrow> cleared_for base k (ut_namespace (px_target x)) (ps_name pod) t"
    for pin policy e pod t
  proof -
    have "preserves (\<lambda>t. ?S t \<and> (pr_allowed policy \<longrightarrow> ?C (Some pod) t)) (px_policy_decision E x proposal pin policy)"
      using keeps_effects_px(5) [of E x proposal pin policy]
      by (simp add: preserves_def keeps_def safe_from_def cleared_target_def cleared_for_def)
    then show ?thesis
      by (rule wp_then_inv) (use that in \<open>auto simp: wp_raise_if cleared_target_def\<close>)
  qed
  have ask: "wp (?ask current) (\<lambda>_. ?C current) (\<lambda>_. ?S) t" if "?S t" for t current
  proof (cases current)
    case None
    with that show ?thesis by (simp add: cleared_target_def)
  next
    case (Some pod)
    show ?thesis unfolding Some option.case wp_bindM [where m = "liftR _"] wp_liftR
      by (auto split: sum.splits dest!: mk_policy_input_Inr simp: that
          intro!: evaluate_safe [OF that] decide)
  qed
  have out: "wp (thenM commit (returnM current)) ?C (\<lambda>_. ?S) t" if "?C current t" for current t
    using that by (simp add: wp_thenM wp_commit cleared_target_def safe_from_def cleared_for_def effects_def)
  show ?thesis unfolding retry_stage_def
    by (rule wp_then_inv [OF safe_from_keeps assms], intro frame)
      (auto intro!: wp_bind_inv [OF safe_from_keeps] frame wp_then_post [OF ask] out simp: Let_def)
qed

lemma attempt_loop_safe:
  assumes "safe_from base k s" and "0 < n \<Longrightarrow> cleared_target base k (px_target x) current s"
    and "attempt + int n = int (set_max_remediation_attempts (e_settings E)) + 1"
  shows "wp (attempt_loop n E x rb action risk proposal rx policy attempt current verification)
    (\<lambda>_. safe_from base (k + n)) (\<lambda>_. safe_from base (k + n)) s"
  using assms
proof (induction n arbitrary: k s attempt current verification)
  case 0
  then show ?case by (simp add: preservesD [OF safe_from_keeps [OF keeps_effects_stages(6)]])
next
  case (Suc n)
  let ?S = "safe_from base (Suc k)" and ?S' = "safe_from base (Suc (k + n))"
  have weak: "?S' t" if "?S t" for t :: "'a sys" using that by (rule safe_from_mono) simp
  have again: "wp (attempt_loop n E x rb action risk proposal rx policy (attempt + 1) c (Some v))
      (\<lambda>_. ?S') (\<lambda>_. ?S') t"
    if "?S t" "0 < n \<Longrightarrow> cleared_target base (Suc k) (px_target x) c t" for c v t
    using Suc.IH [OF that, of "attempt + 1" "Some v"] Suc.prems(3) by simp
  have retry: "wp (retry_stage E x action risk proposal attempt)
      (\<lambda>c. cleared_target base (Suc k) (px_target x) c) (\<lambda>_. ?S') t" if "?S t" for t
    by (rule wp_mono [OF retry_stage_safe [OF that]]) (blast intro: weak)+
  have after: "wp (if vr_success v then resolve_stage E x risk proposal rx policy attempt v
      else bindM (if attempt < int (set_max_remediation_attempts (e_settings E))
        then retry_stage E x action risk proposal attempt else returnM current) (\<lambda>c.
        attempt_loop n E x rb action risk proposal rx policy (attempt + 1) c (Some v)))
      (\<lambda>_. ?S') (\<lambda>_. ?S') t" if "?S t" for v t
  proof (cases "vr_success v")
    case True
    then show ?thesis
      by (simp add: preservesD [OF safe_from_keeps [OF keeps_effects_stages(5)] weak [OF that]])
  next
    case False
    show ?thesis
    proof (cases "n = 0")
      case True
      then show ?thesis using False that Suc.prems(3) again by (simp add: wp_bindM)
    next
      case n: False
      then have "attempt < int (set_max_remediation_attempts (e_settings E))" using Suc.prems(3) by simp
      moreover have "wp (bindM (retry_stage E x action risk proposal attempt) (\<lambda>c.
          attempt_loop n E x rb action risk proposal rx policy (attempt + 1) c (Some v))) (\<lambda>_. ?S')
          (\<lambda>_. ?S') t"
        by (rule wp_bind_post [OF retry [OF that] again]) (simp_all add: cleared_target_def)
      ultimately show ?thesis using False by simp
    qed
  qed
  have start: "wp (attempt_stage E x rb action risk proposal attempt current) (\<lambda>_. ?S) (\<lambda>_. ?S') s"
    by (rule wp_mono [OF attempt_stage_safe [OF Suc.prems(2) [OF zero_less_Suc]]]) (blast intro: weak)+
  show ?case unfolding attempt_loop.simps add_Suc_right by (rule wp_bind_post [OF start after])
qed

lemma process_safe:
  "wp (process E store x)
     (\<lambda>_. safe_from (effects s) (set_max_remediation_attempts (e_settings E)))
     (\<lambda>_. safe_from (effects s) (set_max_remediation_attempts (e_settings E))) s"
proof -
  let ?n = "set_max_remediation_attempts (e_settings E)"
  let ?S = "safe_from (effects s) 0" and ?S' = "safe_from (effects s) ?n"
  have weak: "?S' t" if "?S t" for t :: "'a sys" using that by (rule safe_from_mono) simp
  have go: "wp (thenM (seqM [set_proposal proposal h, px_change E x EXECUTING [], commit])
      (attempt_loop ?n E x rb action risk proposal rx policy 1 (Some pod) None)) (\<lambda>_. ?S') (\<lambda>_. ?S') t"
    if "cleared_target (effects s) 0 (px_target x) (Some pod) t" for t proposal h rb action risk rx policy pod
  proof (rule wp_then_inv [OF cleared_target_keeps that])
    show "keeps effects (seqM [set_proposal proposal h, px_change E x EXECUTING [], commit])"
      by (intro frame)
    show "?S' u" if "cleared_target (effects s) 0 (px_target x) (Some pod) u" for u :: "'a sys"
      using that weak by (simp add: cleared_target_def)
    show "wp (attempt_loop ?n E x rb action risk proposal rx policy 1 (Some pod) None) (\<lambda>_. ?S') (\<lambda>_. ?S') u"
      if "cleared_target (effects s) 0 (px_target x) (Some pod) u" for u
      using attempt_loop_safe [of "effects s" 0 u ?n x "Some pod" 1 E] that
      by (simp add: cleared_target_def)
  qed
  have judged: "wp (if \<not> pr_allowed policy then decline_stage E x action risk proposal rx policy
      else thenM (seqM [set_proposal proposal h, px_change E x EXECUTING [], commit])
        (attempt_loop ?n E x rb action risk proposal rx policy 1 (Some pod) None)) (\<lambda>_. ?S') (\<lambda>_. ?S') t"
    if "?S t \<and> (pr_allowed policy \<longrightarrow> cleared_target (effects s) 0 (px_target x) (Some pod) t)"
    for policy t action risk proposal rx h rb pod
    using that go preservesD [OF safe_from_keeps [OF keeps_effects_stages(4)] weak] by simp
  have asked: "wp (bindM (policy_stage E x pod (rb_action rb) risk proposal) m) (\<lambda>_. ?S') (\<lambda>_. ?S') t"
    if "?S t" "\<And>policy u. ?S u \<and> (pr_allowed policy \<longrightarrow> cleared_target (effects s) 0 (px_target x) (Some pod) u)
        \<Longrightarrow> wp (m policy) (\<lambda>_. ?S') (\<lambda>_. ?S') u"
    for m pod rb risk proposal t and x :: pipeline_run
    by (rule wp_bind_post [OF wp_mono [OF policy_stage_safe [OF that(1)]]]) (use that weak in auto)
  show ?thesis unfolding process_def
    by (rule wp_bind_inv [OF safe_from_keeps [OF keeps_effects_stages(1)] safe_from_refl [OF refl]])
      (auto intro!: weak wp_bind_inv [OF safe_from_keeps] frame asked judged)
qed

text \<open>C1. No pod is deleted without a decision: in a run of the pipeline, whatever the cluster, the
  policy engine, the clocks and the stored data do, and however the run ends, every deletion request
  comes directly after a policy decision that allowed it for exactly that pod in that namespace, no
  other mutation reaches the cluster, and there are at most as many deletions as configured
  attempts.\<close>

theorem pipeline_deletions_authorised:
  "\<exists>es. effects (snd (run_pipeline E store g c a aty s)) = effects s @ es \<and> authorised es \<and>
     deletions es \<le> set_max_remediation_attempts (e_settings E)"
proof -
  let ?S = "safe_from (effects s) (set_max_remediation_attempts (e_settings E))"
  have handled: "preserves ?S (thenM rollback (thenM (escalate_failure E x e) (bindM (load_incident i) m)))"
    if "\<And>inc. keeps effects (m inc)" for x e i and m :: "incident \<Rightarrow> ('a, pipeline_outcome) H"
    by (rule safe_from_keeps) (intro frame that)
  have guarded: "wp (thenM commit (catch_cloudward (process E store x) (\<lambda>e. thenM rollback
      (thenM (escalate_failure E x e) (bindM (load_incident i) m))))) (\<lambda>_. ?S) (\<lambda>_. ?S) t"
    if "effects t = effects s" "\<And>inc. keeps effects (m inc)" for x i t
      and m :: "incident \<Rightarrow> ('a, pipeline_outcome) H"
  proof (rule wp_then_inv [where I = "\<lambda>u. effects u = effects s"])
    show "preserves (\<lambda>u. effects u = effects s) commit"
      by (simp add: preserves_def commit_def modifyM_def effects_def)
    show "wp (catch_cloudward (process E store x) (\<lambda>e. thenM rollback (thenM (escalate_failure E x e)
        (bindM (load_incident i) m)))) (\<lambda>_. ?S) (\<lambda>_. ?S) u" if "effects u = effects s" for u
      by (rule wp_catch_inv [where I = ?S])
        (use process_safe [of E store x u] that preservesD [OF handled [OF \<open>\<And>inc. keeps effects (m inc)\<close>]]
         in simp_all)
  qed (use that(1) in \<open>auto intro: safe_from_mono [OF safe_from_refl]\<close>)
  have "wp (run_pipeline E store g c a aty) (\<lambda>_. ?S) (\<lambda>_. ?S) s"
    unfolding run_pipeline_def wp_bindM Let_def
    by (rule wp_mono [OF keeps_wp [OF keeps_create_incident(1)]])
      (auto intro!: guarded frame intro: safe_from_mono [OF safe_from_refl])
  then show ?thesis by (simp add: wp_total safe_from_def)
qed

section \<open>What a run leaves behind\<close>

definition committed_state :: "uuid \<Rightarrow> 'w sys \<Rightarrow> incident_state option" where
  "committed_state i s = map_option inc_state (find_row inc_id i (db_incidents (sy_committed s)))"

definition live :: "incident_state option \<Rightarrow> bool" where
  "live st \<longleftrightarrow> (\<exists>x. st = Some x \<and> \<not> terminal_state x)"

text \<open>A run is underway as long as the incident is not terminal, neither for the session nor in what
  has been committed; a failed run has at least not committed a terminal state.\<close>

definition underway :: "uuid \<Rightarrow> 'w sys \<Rightarrow> bool" where
  "underway i s \<longleftrightarrow> live (state_of i s) \<and> live (committed_state i s)"

definition abandoned :: "uuid \<Rightarrow> 'w sys \<Rightarrow> bool" where
  "abandoned i s \<longleftrightarrow> live (committed_state i s)"

lemma underway_abandoned: "underway i s \<Longrightarrow> abandoned i s"
  by (simp add: underway_def abandoned_def)

lemma underway_keeps:
  assumes "keeps (\<lambda>s. db_incidents (sy_db s)) m" and "keeps sy_committed m"
  shows "preserves (underway i) m"
  using assms by (simp add: preserves_def keeps_def underway_def state_of_def committed_state_def)

lemma abandoned_keeps: "keeps sy_committed m \<Longrightarrow> preserves (abandoned i) m"
  by (simp add: preserves_def keeps_def abandoned_def committed_state_def)

lemma underway_commit [inv_rules]: "preserves (underway i) commit"
  by (simp add: preserves_wp wp_commit underway_def state_of_def committed_state_def)

lemma underway_prims [inv_rules]:
  "preserves (underway i) (px_audit E x ev r f)" "preserves (underway i) (px_snapshot E x ty sm pl)"
  "preserves (underway i) (px_policy_decision E x p pin pol)"
  "preserves (underway i) (set_runbook_execution j st)" "preserves (underway i) (set_proposal j h)"
  "preserves (underway i) (set_execution j k)"
  by (rule underway_keeps; unfold px_defs; intro frame keeps_db_insert_row keeps_db_updM; simp)+

lemma underway_calls [inv_rules]:
  "preserves (underway i) (collect_target E x)"
  "preserves (underway i) (verify_until E (executor_client E') v a' b)"
  "preserves (underway i) (get_service_health E ns svc path)"
  "preserves (underway i) (delete_pod E ns pod)" "preserves (underway i) (opa_evaluate E pin)"
  "preserves (underway i) (utc_now E)"
  by (rule underway_keeps; intro frame)+

lemma underway_insert_row:
  "(\<And>g d. db_incidents (set_rows g d) = db_incidents d) \<Longrightarrow>
     preserves (underway i) (insert_row E set_rows ok mk)"
  by (rule underway_keeps) (intro frame keeps_db_insert_row, simp_all add: frame)

lemma underway_set_incident:
  assumes "\<And>r. inc_id (f r) = inc_id r" and "\<And>r. inc_state (f r) = inc_state r"
  shows "preserves (underway i) (set_incident j f)"
  using assms by (auto simp: preserves_wp set_incident_def wp_updM underway_def state_of_def
      committed_state_def find_upd_row option.map_comp comp_def)

lemma px_change_sets:
  assumes "underway (px_incident x) s"
  shows "wp (px_change E x tgt ds) (\<lambda>_ t. state_of (px_incident x) t = Some tgt \<and> abandoned (px_incident x) t)
    (\<lambda>_ t. (live (state_of (px_incident x) t) \<or> state_of (px_incident x) t = Some tgt) \<and>
       abandoned (px_incident x) t) s"
proof -
  have "state_of (px_incident x) s \<noteq> None" using assms by (auto simp: underway_def live_def)
  from wp_conj [OF change_incident_state_sets [OF this]
      preservesD [OF abandoned_keeps [OF keeps_change_incident_state(2)] underway_abandoned [OF assms]]]
  show ?thesis unfolding px_change_def
    by (rule wp_mono) (use assms in \<open>auto simp: underway_def\<close>)
qed

lemma underway_px_change:
  "\<not> terminal_state tgt \<Longrightarrow> preserves (underway (px_incident x)) (px_change E x tgt ds)"
  unfolding preserves_wp
  by (auto intro!: wp_mono [OF px_change_sets] simp: underway_def abandoned_def live_def)

lemmas underway_rules = underway_insert_row underway_set_incident underway_px_change

lemma underway_stages:
  "preserves (underway (px_incident x)) (evidence_stage E x)"
  "preserves (underway (px_incident x)) (runbook_stage E store x ev)"
  "preserves (underway (px_incident x)) (proposal_stage E x pod action)"
  "preserves (underway (px_incident x)) (policy_stage E x pod action risk proposal)"
  "preserves (underway (px_incident x)) (attempt_stage E x rb action risk proposal k current)"
  "preserves (underway (px_incident x)) (retry_stage E x action risk proposal k)"
  unfolding evidence_stage_def runbook_stage_def proposal_stage_def policy_stage_def
    attempt_stage_def delete_target_def retry_stage_def
  by (intro inv_rules underway_rules; simp add: terminal_state_def)+

subsection \<open>How a run ends\<close>

definition settled :: "uuid \<Rightarrow> incident_state \<Rightarrow> 'w sys \<Rightarrow> bool" where
  "settled i st s \<longleftrightarrow> state_of i s = Some st \<and> abandoned i s"

lemma settled_keeps:
  assumes "keeps (\<lambda>s. db_incidents (sy_db s)) m" and "keeps sy_committed m"
  shows "preserves (settled i st) m"
  using assms
  by (simp add: preserves_def keeps_def settled_def abandoned_def state_of_def committed_state_def)

lemma settled_prims [inv_rules]:
  "preserves (settled i st) (px_audit E x ev r f)"
  "preserves (settled i st) (set_runbook_execution j rs)" "preserves (settled i st) (set_proposal j h)"
  by (rule settled_keeps; unfold px_defs; intro frame keeps_db_updM; simp)+

lemma px_change_settles:
  "underway (px_incident x) s \<Longrightarrow> wp (px_change E x tgt ds) (\<lambda>_. settled (px_incident x) tgt)
     (\<lambda>_. abandoned (px_incident x)) s"
  by (rule wp_mono [OF px_change_sets]) (auto simp: settled_def)

text \<open>Commit a state that has been reached.\<close>

lemma conclude:
  assumes "preserves (settled i st) m" and "settled i st s"
  shows "wp (thenM m (thenM commit (returnM ()))) (\<lambda>_ t. committed_state i t = Some st)
    (\<lambda>_. abandoned i) s"
  by (rule wp_then_inv [OF assms])
    (auto simp: wp_thenM wp_commit settled_def state_of_def committed_state_def)

definition concluded :: "pipeline_run \<Rightarrow> pipeline_outcome \<Rightarrow> 'w sys \<Rightarrow> bool" where
  "concluded x res t \<longleftrightarrow> po_incident_id res = px_incident x \<and>
     committed_state (px_incident x) t = Some (po_state res) \<and>
     po_state res \<in> {AWAITING_APPROVAL, BLOCKED, RESOLVED, ESCALATED} \<and>
     (po_state res = RESOLVED \<longrightarrow> (\<exists>v p. po_verification res = Some v \<and> po_policy res = Some p \<and>
        pr_allowed p \<and> vr_checks v = all_healthy (verification_target_of (px_target x))))"

lemma decline_stage_ends:
  assumes "underway (px_incident x) s"
  shows "wp (decline_stage E x action risk proposal rx policy) (concluded x) (\<lambda>_. abandoned (px_incident x)) s"
proof -
  let ?st = "if pr_requires_approval policy then AWAITING_APPROVAL else BLOCKED"
  have "wp (seqM [px_change E x ?st ds, set_proposal proposal h, set_runbook_execution rx rs,
      whenM b (px_audit E x ev r f), commit])
      (\<lambda>_ t. committed_state (px_incident x) t = Some ?st) (\<lambda>_. abandoned (px_incident x)) s"
    for ds h rs b ev r f
    by (rule wp_seq_post [OF px_change_settles [OF assms]],
        rule conclude [where m = "seqM [set_proposal proposal h, set_runbook_execution rx rs,
          whenM b (px_audit E x ev r f)]", unfolded seqM_snoc [symmetric] append.simps])
      (intro inv_rules)
  then show ?thesis unfolding decline_stage_def Let_def
    by (rule wp_then_post) (auto simp: concluded_def)
qed

lemma status_then_change:
  assumes "underway (px_incident x) s"
  shows "wp (seqM [set_proposal proposal h, set_runbook_execution rx rs, px_change E x st ds,
      px_audit E x ev r f, commit])
    (\<lambda>_ t. committed_state (px_incident x) t = Some st) (\<lambda>_. abandoned (px_incident x)) s"
proof -
  let ?i = "px_incident x"
  have pre: "wp (seqM [set_proposal proposal h, set_runbook_execution rx rs]) (\<lambda>_. underway ?i)
      (\<lambda>_. abandoned ?i) s"
    by (rule wp_mono [OF preservesD [where I = "underway ?i"]])
      (intro inv_rules, auto simp: underway_abandoned assms)
  have tail: "wp (seqM [px_change E x st ds, px_audit E x ev r f, commit])
      (\<lambda>_ t. committed_state ?i t = Some st) (\<lambda>_. abandoned ?i) u" if "underway ?i u" for u
    by (rule wp_seq_post [OF px_change_settles [OF that]],
        rule conclude [where m = "seqM [px_audit E x ev r f]", unfolded seqM_snoc [symmetric] append.simps])
      (intro inv_rules)
  have "wp (thenM (seqM [set_proposal proposal h, set_runbook_execution rx rs])
      (seqM [px_change E x st ds, px_audit E x ev r f, commit]))
    (\<lambda>_ t. committed_state ?i t = Some st) (\<lambda>_. abandoned ?i) s"
    by (rule wp_then_post [OF pre tail])
  then show ?thesis unfolding seqM_append [symmetric] append.simps .
qed

lemma resolve_stage_ends:
  assumes "underway (px_incident x) s" and "pr_allowed policy"
    and "vr_checks v = all_healthy (verification_target_of (px_target x))"
  shows "wp (resolve_stage E x risk proposal rx policy k v) (concluded x) (\<lambda>_. abandoned (px_incident x)) s"
  unfolding resolve_stage_def
  by (rule wp_then_post [OF status_then_change [OF assms(1)]]) (use assms in \<open>auto simp: concluded_def\<close>)

lemma exhausted_stage_ends:
  assumes "underway (px_incident x) s"
  shows "wp (exhausted_stage E x risk proposal rx policy v) (concluded x) (\<lambda>_. abandoned (px_incident x)) s"
  unfolding exhausted_stage_def
  by (rule wp_then_post [OF status_then_change [OF assms]]) (auto simp: concluded_def)

lemma attempt_stage_sound:
  "results (sound_result (verification_target_of (px_target x)))
     (attempt_stage E x rb action risk proposal k current)"
  unfolding attempt_stage_def
  by (intro results_thenM, rule results_bindM, intro results_thenM,
      rule results_bindM_of [OF verify_until_sound]) (intro result_rules)

lemma attempt_loop_ends:
  assumes "underway (px_incident x) s" and "pr_allowed policy"
  shows "wp (attempt_loop n E x rb action risk proposal rx policy k current v) (concluded x)
    (\<lambda>_. abandoned (px_incident x)) s"
  using assms(1)
proof (induction n arbitrary: s k current v)
  case 0
  then show ?case by (simp add: exhausted_stage_ends)
next
  case (Suc n)
  let ?i = "px_incident x"
  have attempt: "wp (attempt_stage E x rb action risk proposal k current)
      (\<lambda>v t. sound_result (verification_target_of (px_target x)) v \<and> underway ?i t) (\<lambda>_. abandoned ?i) s"
    by (rule wp_mono [OF wp_conj [OF resultsD [OF attempt_stage_sound] preservesD [OF underway_stages(5) Suc.prems]]])
      (auto simp: underway_abandoned)
  have retry: "wp (bindM (if b then retry_stage E x action risk proposal k else returnM current) (\<lambda>c.
      attempt_loop n E x rb action risk proposal rx policy (k + 1) c w)) (concluded x)
      (\<lambda>_. abandoned ?i) t" if "underway ?i t" for b w t
    by (rule wp_bind_inv [where I = "underway ?i"])
      (intro inv_rules underway_stages(6), auto simp: underway_abandoned Suc.IH that)
  show ?case unfolding attempt_loop.simps
  proof (rule wp_bind_post [OF attempt])
    fix w and t :: "'a sys"
    assume "sound_result (verification_target_of (px_target x)) w \<and> underway ?i t"
    then show "wp (if vr_success w then resolve_stage E x risk proposal rx policy k w
        else bindM (if k < int (set_max_remediation_attempts (e_settings E))
          then retry_stage E x action risk proposal k else returnM current)
          (\<lambda>c. attempt_loop n E x rb action risk proposal rx policy (k + 1) c (Some w)))
        (concluded x) (\<lambda>_. abandoned ?i) t"
      using resolve_stage_ends [OF _ assms(2)] retry by (auto simp: sound_result_def)
  qed
qed

lemma process_ends:
  assumes "underway (px_incident x) s"
  shows "wp (process E store x) (concluded x) (\<lambda>_. abandoned (px_incident x)) s"
proof -
  let ?i = "px_incident x"
  have go: "wp (thenM (seqM [set_proposal proposal h, px_change E x EXECUTING [], commit])
      (attempt_loop n E x rb action risk proposal rx policy 1 (Some pod) None)) (concluded x)
      (\<lambda>_. abandoned ?i) t"
    if "underway ?i t" "pr_allowed policy" for t proposal h rb action risk rx policy pod n
    by (rule wp_then_inv [where I = "underway ?i"])
      (intro inv_rules underway_px_change,
        auto simp: terminal_state_def underway_abandoned attempt_loop_ends that)
  show ?thesis unfolding process_def
    by (rule wp_bind_inv [OF underway_stages(1) assms])
      (auto intro!: underway_abandoned wp_bind_inv [OF underway_stages(2)] wp_bind_inv [OF underway_stages(3)]
        wp_bind_inv [OF underway_stages(4)] decline_stage_ends go)
qed

lemma create_incident_detected:
  assumes "log_inv s"
  shows "wp (create_incident E c ty ti v su sid cid a aty) (\<lambda>i t. state_of i t = Some DETECTED) (\<lambda>_ _. True) s"
proof -
  have new: "find_row inc_id (sy_next s) (db_incidents (sy_db s)) = None"
    using assms by (auto simp: log_inv_def keys_bounded_def find_row_def find_None_iff)
  then have "find_row inc_id (sy_next s) (db_incidents (sy_db s) @ [r]) = Some r"
    if "inc_id r = sy_next s" for r using that by (simp add: find_row_append)
  then show ?thesis
    by (simp add: create_incident_def add_active_def wp_simps Let_def case_prod_unfold incident_ok_def
        add_incident_event_def append_stream_event_def no_constraint_def state_of_def)
qed

lemma handle_failure_ends:
  assumes "abandoned (px_incident x) s"
  shows "wp (thenM rollback (thenM (escalate_failure E x e) (bindM (load_incident (px_incident x)) (\<lambda>inc.
      returnM \<lparr>po_incident_id = px_incident x, po_state = inc_state inc, po_risk_score = inc_risk_score inc,
        po_policy = None, po_verification = None, po_attempts = inc_retry_count inc\<rparr>))))
    (concluded x) (\<lambda>_ _. True) s"
proof -
  let ?i = "px_incident x"
  let ?s = "s\<lparr>sy_db := sy_committed s\<rparr>"
  let ?done = "\<lambda>t. committed_state ?i t = Some ESCALATED \<and> sy_committed t = sy_db t"
  have u: "underway ?i ?s"
    using assms by (simp add: abandoned_def underway_def state_of_def committed_state_def)
  then obtain inc where inc: "find_row inc_id ?i (db_incidents (sy_db ?s)) = Some inc"
    "\<not> terminal_state (inc_state inc)" by (auto simp: underway_def live_def state_of_def)
  have "wp (seqM [px_change E x ESCALATED ds, px_audit E x ev r f, commit]) (\<lambda>_. ?done) (\<lambda>_ _. True) ?s"
    for ds ev r f
  proof (rule wp_seq_post [where J = "settled ?i ESCALATED"])
    show "wp (seqM [px_audit E x ev r f, commit]) (\<lambda>_. ?done) (\<lambda>_ _. True) t" if "settled ?i ESCALATED t" for t
      unfolding wp_seqM_Cons wp_commit wp_seqM_Nil
      by (rule wp_mono [OF preservesD [OF settled_prims(1) that]])
        (auto simp: settled_def state_of_def committed_state_def)
  qed (rule wp_mono [OF px_change_settles [OF u]]; simp)
  then have esc: "wp (escalate_failure E x e) (\<lambda>_. ?done) (\<lambda>_ _. True) ?s"
    unfolding escalate_failure_def wp_bindM wp_load_row inc option.case wp_whenM using inc(2) by simp
  show ?thesis
    unfolding wp_thenM [where m = rollback] wp_rollback
    by (rule wp_then_post [OF esc])
      (auto simp: wp_bindM wp_load_row concluded_def committed_state_def split: option.splits)
qed

lemma run_ends:
  assumes "state_of (px_incident x) t = Some DETECTED"
  shows "wp (thenM commit (catch_cloudward (process E store x) (\<lambda>e. thenM rollback
      (thenM (escalate_failure E x e) (bindM (load_incident (px_incident x)) (\<lambda>inc.
        returnM \<lparr>po_incident_id = px_incident x, po_state = inc_state inc,
          po_risk_score = inc_risk_score inc, po_policy = None, po_verification = None,
          po_attempts = inc_retry_count inc\<rparr>)))))) (concluded x) (\<lambda>_ _. True) t"
proof -
  have "underway (px_incident x) (t\<lparr>sy_committed := sy_db t\<rparr>)"
    using assms by (auto simp: underway_def state_of_def committed_state_def live_def terminal_state_def)
  note process_ends [OF this, of E store]
  then show ?thesis unfolding wp_thenM [where m = commit] wp_commit
    by (rule wp_catch_inv [OF _ handle_failure_ends]) simp_all
qed

text \<open>C2. A run that returns has told the truth and left nothing open: the reported state is the one
  committed for the new incident; it is one of waiting for approval, blocked, resolved or escalated,
  so every failure ends in an escalation; and it is \<open>RESOLVED\<close> only when policy allowed the action
  and the last verification saw the expected ready replicas, the expected ready pods and a healthy
  service.\<close>

theorem pipeline_outcome_faithful:
  assumes "log_inv s"
  shows "wp (run_pipeline E store g c a aty)
    (\<lambda>res t. committed_state (po_incident_id res) t = Some (po_state res) \<and>
       po_state res \<in> {AWAITING_APPROVAL, BLOCKED, RESOLVED, ESCALATED} \<and>
       (po_state res = RESOLVED \<longrightarrow> (\<exists>v p. po_verification res = Some v \<and> po_policy res = Some p \<and>
          pr_allowed p \<and> vr_checks v = all_healthy (verification_target_of g))))
    (\<lambda>_ _. True) s"
  unfolding run_pipeline_def Let_def
proof (rule wp_bind_post [OF create_incident_detected [OF assms]], goal_cases)
  case (1 i t)
  let ?x = "\<lparr>px_incident = i, px_correlation_id = c, px_target = g, px_actor = a, px_actor_type = aty\<rparr>"
  have "state_of (px_incident ?x) t = Some DETECTED" using 1 by simp
  from run_ends [OF this, of E store, unfolded pipeline_run.select_convs(1)] show ?case
    by (rule wp_mono) (auto simp: concluded_def)
qed

definition demo_pod_target :: unhealthy_pod_target where
  "demo_pod_target = \<lparr>ut_namespace = ''cloudward-staging'', ut_deployment = ''demo'',
     ut_service_name = ''demo'', ut_label_selector = ''app=demo'', ut_pod_name = None,
     ut_expected_replicas = 2, ut_environment = ENV_STAGING, ut_health_path = ''health/ready''\<rparr>"

theorem pipeline_outcome_faithful_witness:
  "wp (run_pipeline demo_env [demo_runbook ''pod'' 1] demo_pod_target ''c'' ''op'' ACTOR_USER)
    (\<lambda>res t. committed_state (po_incident_id res) t = Some (po_state res) \<and>
       po_state res \<in> {AWAITING_APPROVAL, BLOCKED, RESOLVED, ESCALATED})
    (\<lambda>_ _. True) demo_sys"
proof -
  have "log_inv demo_sys"
    by (simp add: log_inv_def log_consistent_def keys_bounded_def demo_sys_def empty_database_def)
  from pipeline_outcome_faithful [OF this] show ?thesis by (rule wp_mono) auto
qed

section \<open>The event log of a run\<close>

definition stored :: "'w sys \<Rightarrow> database \<times> database \<times> uuid" where
  "stored s = (sy_db s, sy_committed s, sy_next s)"

interpretation executor_stored: observing_client "executor_client E" stored for E
  by unfold_locales (simp_all add: executor_client_def stored_def keeps_kube_reads)

lemma log_inv_stored: "keeps stored m \<Longrightarrow> preserves log_inv m"
  by (simp add: keeps_def preserves_def stored_def log_inv_def)

lemma log_inv_calls [inv_rules]:
  "preserves log_inv (collect_target E x)" "preserves log_inv (get_service_health E ns svc path)"
  "preserves log_inv (verify_until E' (executor_client E) v a' b)"
  unfolding collect_target_def
  by (rule log_inv_stored, rule executor_stored.keeps_collect executor_stored.keeps_verify_until
      executor_stored.health [unfolded executor_client_def kube_client.simps])+

lemma keeps_stored_prims: "keeps stored (worldM f)" "keeps stored (logM ev)"
  by (simp_all add: keeps_worldM logM_def keeps_modifyM stored_def)

lemma log_inv_requests [inv_rules]:
  "preserves log_inv (delete_pod E ns pod)" "preserves log_inv (opa_evaluate E pin)"
  by (rule log_inv_stored; unfold delete_pod_def get_pod_health_def opa_evaluate_def;
      intro frame keeps_stored_prims)+

lemma log_inv_px [inv_rules]:
  "preserves log_inv (px_change E x tgt ds)" "preserves log_inv (px_audit E x ev r f)"
  "preserves log_inv (px_snapshot E x ty sm pl)" "preserves log_inv (set_runbook_execution i st)"
  "preserves log_inv (px_policy_decision E x p pin pol)" "preserves log_inv (set_proposal i h)"
  "preserves log_inv (set_execution i k)"
  unfolding px_defs by (intro inv_rules log_inv_insert_row log_inv_updM; simp)+

lemmas pipeline_stage_defs = evidence_stage_def runbook_stage_def proposal_stage_def policy_stage_def
  decline_stage_def attempt_stage_def delete_target_def retry_stage_def resolve_stage_def
  exhausted_stage_def escalate_failure_def

lemma log_inv_stages [inv_rules]:
  "preserves log_inv (evidence_stage E x)" "preserves log_inv (runbook_stage E store x ev)"
  "preserves log_inv (proposal_stage E x pod action)"
  "preserves log_inv (policy_stage E x pod action risk proposal)"
  "preserves log_inv (decline_stage E x action risk proposal rx policy)"
  "preserves log_inv (attempt_stage E x rb action risk proposal k current)"
  "preserves log_inv (retry_stage E x action risk proposal k)"
  "preserves log_inv (resolve_stage E x risk proposal rx policy k v)"
  "preserves log_inv (exhausted_stage E x risk proposal rx policy v')"
  "preserves log_inv (escalate_failure E x e)"
  unfolding pipeline_stage_defs
  by (intro inv_rules log_inv_insert_row log_inv_set_incident; simp)+

lemma log_inv_attempt_loop [inv_rules]:
  "preserves log_inv (attempt_loop n E x rb action risk proposal rx policy k current v)"
  by (induction n arbitrary: k current v) (auto intro!: inv_rules)

text \<open>C33. A run of the pipeline keeps the event log a faithful account: from a state in which the events
  of every incident replay to its state, in the session and in what is committed, it ends in such a
  state, on every way out and through every rollback.\<close>

theorem pipeline_keeps_event_log: "preserves log_inv (run_pipeline E store g c a aty)"
  unfolding run_pipeline_def process_def by (intro inv_rules)

end
