(* ===== verification/CW_Intake.thy ===== *)
theory CW_Intake
  imports CW_Demo
begin

text \<open>
  The gate in front of the webhooks: \<open>security/webhook_auth.py\<close> (bounded bodies, HMAC
  authentication, replay protection and the event rate of the Tetragon webhook) and
  \<open>security/rate_limit.py\<close> (the fixed-window limiter of the other routes).

  The state is the three module-level dictionaries of the development fallback and the outside
  world; Redis is an optional parameter whose calls may fail in any way. Header values are Latin-1
  text, as the web framework decodes them, and are encoded as UTF-8 before signing; bodies are bytes.
\<close>

section \<open>Bytes and signatures\<close>

definition utf8_latin1 :: "string \<Rightarrow> string" where
  "utf8_latin1 s = concat (map (\<lambda>c. let n = (of_char c :: nat) in
     if n < 128 then [c] else [char_of (192 + n div 64), char_of (128 + n mod 64)]) s)"

definition is_ascii :: "string \<Rightarrow> bool" where
  "is_ascii s = list_all (\<lambda>c. (of_char c :: nat) < 128) s"

text \<open>\<open>str.isalnum\<close> on Latin-1 text: the ASCII letters and digits, the ordinal indicators, the micro
  sign, superscripts and fractions, and the accented letters.\<close>

definition latin1_alnum :: "char \<Rightarrow> bool" where
  "latin1_alnum c = (is_alnum_char c \<or>
     (let n = (of_char c :: nat) in
      n \<in> {170, 178, 179, 181, 185, 186, 188, 189, 190} \<or> (192 \<le> n \<and> n \<noteq> 215 \<and> n \<noteq> 247)))"

definition py_isalnum :: "string \<Rightarrow> bool" where
  "py_isalnum s = (s \<noteq> [] \<and> list_all latin1_alnum s)"

text \<open>\<open>int(text)\<close> of a header value: surrounding blanks, including the two Latin-1 ones, are
  stripped, and more than 4300 digits are refused.\<close>

definition latin1_space :: "char \<Rightarrow> bool" where
  "latin1_space c = (is_space_char c \<or> (of_char c :: nat) \<in> {133, 160})"

definition int_of_header :: "string \<Rightarrow> int option" where
  "int_of_header s =
     (let t = py_strip latin1_space s in
      if length (filter is_digit_char t) > 4300 then None else int_of_string t)"

definition sha256_digest :: "string \<Rightarrow> string" where
  "sha256_digest s =
     (let ws = sha_words (sha_pad s)
      in concat (map (\<lambda>w. map (\<lambda>i. char_of (unat (drop_bit (8 * i) w AND 255))) [3, 2, 1, 0])
           (sha_blocks (length ws div 16) ws sha_init)))"

definition xor_pad :: "nat \<Rightarrow> string \<Rightarrow> string" where
  "xor_pad n k = map (\<lambda>c. char_of ((of_char c :: nat) XOR n))
     (k @ replicate (64 - length k) (char_of (0 :: nat)))"

definition hmac_sha256_hex :: "string \<Rightarrow> string \<Rightarrow> string" where
  "hmac_sha256_hex key msg =
     (let k = (if length key > 64 then sha256_digest key else key)
      in sha256_hex (xor_pad 92 k @ sha256_digest (xor_pad 54 k @ msg)))"

lemma hex_digit_ascii: "d < 16 \<Longrightarrow> (of_char (hex_digit d) :: nat) < 128"
  by (auto simp: hex_digit_def)

lemma sha256_hex_ascii: "is_ascii (sha256_hex s)"
proof -
  have "unat (w AND 15) < 16" for w :: w32
    using word_and_le1 [of w 15] by (simp add: word_le_nat_alt)
  then have "is_ascii (hex_word w)" for w
    by (simp add: hex_word_def is_ascii_def hex_digit_ascii)
  then show ?thesis by (auto simp: sha256_hex_def is_ascii_def Let_def list_all_iff)
qed

lemma hmac_sha256_hex_shape [simp]:
  "length (hmac_sha256_hex k m) = 64" "is_ascii (hmac_sha256_hex k m)"
  by (simp_all add: hmac_sha256_hex_def Let_def sha256_hex_ascii)

section \<open>The state of the gate and its surroundings\<close>

record intake_settings = settings +
  set_tetragon_webhook_secret :: string
  set_tetragon_webhook_max_body_bytes :: nat
  set_tetragon_webhook_max_events_per_minute :: int
  set_tetragon_webhook_max_clock_skew_seconds :: int

definition intake_settings_valid :: "intake_settings \<Rightarrow> bool" where
  "intake_settings_valid st \<longleftrightarrow>
     1024 \<le> set_tetragon_webhook_max_body_bytes st \<and>
     set_tetragon_webhook_max_body_bytes st \<le> 1048576 \<and>
     1 \<le> set_tetragon_webhook_max_events_per_minute st \<and>
     set_tetragon_webhook_max_events_per_minute st \<le> 10000 \<and>
     30 \<le> set_tetragon_webhook_max_clock_skew_seconds st \<and>
     set_tetragon_webhook_max_clock_skew_seconds st \<le> 900"

datatype redis_failure = RedisError | AttributeError | RedisOther string

record 'w redis =
  rd_incr :: "string \<Rightarrow> 'w \<Rightarrow> (redis_failure + int) \<times> 'w"
  rd_expire :: "string \<Rightarrow> int \<Rightarrow> 'w \<Rightarrow> (redis_failure + unit) \<times> 'w"
  rd_set_nx :: "string \<Rightarrow> int \<Rightarrow> 'w \<Rightarrow> (redis_failure + bool) \<times> 'w"

record 'w intake_env =
  ie_settings :: intake_settings
  ie_redis :: "'w redis option"
  ie_time :: "'w \<Rightarrow> rat \<times> 'w"
  ie_monotonic :: "'w \<Rightarrow> rat \<times> 'w"

record http_request =
  rq_headers :: "(string \<times> string) list"
  rq_chunks :: "string list"
  rq_client :: "string option"

text \<open>\<open>in_counts\<close> holds the dictionary of each \<open>RateLimit\<close> object by its name.\<close>

record 'w intake =
  in_world :: 'w
  in_counts :: "string \<Rightarrow> (string \<times> int \<times> rat) list"
  in_nonces :: "(string \<times> rat) list"
  in_rates :: "(int \<times> int) list"

type_synonym ('w, 'a) I = "('w intake, 'a) M"

definition intakeM :: "('w \<Rightarrow> 'a \<times> 'w) \<Rightarrow> ('w, 'a) I" where
  "intakeM f = (\<lambda>s. let (x, w) = f (in_world s) in (Inr x, s\<lparr>in_world := w\<rparr>))"

lemma wp_intakeM [wp_simps]:
  "wp (intakeM f) Q X s =
     Q (fst (f (in_world s))) (s\<lparr>in_world := snd (f (in_world s))\<rparr>)"
  by (simp add: wp_def intakeM_def split: prod.splits)

text \<open>Header names are stored in lower case and looked up in any case.\<close>

definition header_get :: "http_request \<Rightarrow> string \<Rightarrow> string option" where
  "header_get req name = dict_get (rq_headers req) (py_lower name)"

definition header_text :: "http_request \<Rightarrow> string \<Rightarrow> string" where
  "header_text req name = (case header_get req name of None \<Rightarrow> [] | Some v \<Rightarrow> v)"

definition local_fallback :: "'w intake_env \<Rightarrow> bool" where
  "local_fallback E \<longleftrightarrow> set_app_env (ie_settings E) \<in> {''development'', ''test''}"

section \<open>Operations\<close>

subsection \<open>Bounded bodies\<close>

fun read_chunks :: "exn \<Rightarrow> nat \<Rightarrow> string \<Rightarrow> string list \<Rightarrow> exn + string" where
  "read_chunks e maximum body [] = Inr body"
| "read_chunks e maximum body (chunk # chunks) =
     (if length body + length chunk > maximum then Inl e
      else read_chunks e maximum (body @ chunk) chunks)"

definition read_bounded_body :: "http_request \<Rightarrow> nat \<Rightarrow> string \<Rightarrow> exn + string" where
  "read_bounded_body req maximum error_code =
     (let too_large = cw_error error_code ''Request exceeds the body limit'' 413;
          invalid = cw_error ''INVALID_CONTENT_LENGTH'' ''Invalid Content-Length header'' 400;
          read = read_chunks too_large maximum [] (rq_chunks req)
      in case header_get req ''content-length'' of
           None \<Rightarrow> read
         | Some text \<Rightarrow>
             (case int_of_header text of
                None \<Rightarrow> Inl invalid
              | Some n \<Rightarrow> if n < 0 then Inl invalid
                          else if n > int maximum then Inl too_large else read))"

subsection \<open>Counting in Redis\<close>

text \<open>The counter both limiters keep in Redis: \<open>True\<close> when the call is within the limit, an exception
  when it is not, and \<open>False\<close> when Redis failed and the caller goes on with its fallback.\<close>

definition redis_failed :: "redis_failure \<Rightarrow> ('w, bool) I" where
  "redis_failed f = (case f of
     RedisError \<Rightarrow> returnM False
   | AttributeError \<Rightarrow> raiseM (PyError ''AttributeError'')
   | RedisOther c \<Rightarrow> raiseM (PyError c))"

definition redis_count :: "'w redis \<Rightarrow> string \<Rightarrow> int \<Rightarrow> int \<Rightarrow> exn \<Rightarrow> ('w, bool) I" where
  "redis_count rd key ttl limit e =
     bindM (intakeM (rd_incr rd key)) (\<lambda>r. case r of
       Inl f \<Rightarrow> redis_failed f
     | Inr n \<Rightarrow>
         bindM (if n = 1 then intakeM (rd_expire rd key ttl) else returnM (Inr ())) (\<lambda>r. case r of
           Inl f \<Rightarrow> redis_failed f
         | Inr _ \<Rightarrow> thenM (raise_if (n > limit) e) (returnM True)))"

definition redis_gate :: "'w intake_env \<Rightarrow> ('w redis \<Rightarrow> ('w, bool) I) \<Rightarrow> ('w, bool) I" where
  "redis_gate E call = (case ie_redis E of None \<Rightarrow> returnM False | Some rd \<Rightarrow> call rd)"

subsection \<open>Authentication of the Tetragon webhook\<close>

definition auth_failed :: exn where
  "auth_failed = cw_error ''WEBHOOK_AUTHENTICATION_FAILED'' ''Invalid webhook authentication'' 401"

definition replay_detected :: exn where
  "replay_detected = cw_error ''WEBHOOK_REPLAY_DETECTED'' ''Webhook nonce was already used'' 409"

definition nonce_key :: "string \<Rightarrow> string" where
  "nonce_key nonce = ''cloudward:tetragon:nonce:'' @ sha256_hex (utf8_latin1 nonce)"

definition redis_claim :: "string \<Rightarrow> int \<Rightarrow> 'w redis \<Rightarrow> ('w, bool) I" where
  "redis_claim nonce ttl rd =
     bindM (intakeM (rd_set_nx rd (nonce_key nonce) ttl)) (\<lambda>r. case r of
       Inl AttributeError \<Rightarrow> returnM False
     | Inl f \<Rightarrow> redis_failed f
     | Inr claimed \<Rightarrow> thenM (raise_if (\<not> claimed) replay_detected) (returnM True))"

definition nonce_ttl :: "'w intake_env \<Rightarrow> int" where
  "nonce_ttl E = set_tetragon_webhook_max_clock_skew_seconds (ie_settings E) * 2"

definition live_nonces :: "rat \<Rightarrow> (string \<times> rat) list \<Rightarrow> (string \<times> rat) list" where
  "live_nonces now ns = filter (\<lambda>(_, expiry). \<not> expiry \<le> now) ns"

definition claim_nonce :: "'w intake_env \<Rightarrow> string \<Rightarrow> ('w, unit) I" where
  "claim_nonce E nonce =
     bindM (redis_gate E (redis_claim nonce (nonce_ttl E))) (\<lambda>claimed.
     if claimed then returnM ()
     else
       thenM (raise_if (\<not> local_fallback E) (cw_error ''WEBHOOK_REPLAY_PROTECTION_UNAVAILABLE''
         ''Webhook replay protection is unavailable'' 503))
       (bindM (intakeM (ie_monotonic E)) (\<lambda>now.
        thenM (modifyM (in_nonces_update (live_nonces now)))
        (bindM (readM in_nonces) (\<lambda>ns.
        thenM (raise_if (nonce \<in> fst ` set ns) replay_detected)
        (modifyM (in_nonces_update (AList.update nonce (now + of_int (nonce_ttl E))))))))))"

definition rate_exceeded :: exn where
  "rate_exceeded = cw_error ''SECURITY_EVENT_RATE_LIMITED'' ''Security event rate exceeded'' 429"

definition dict_count :: "(int \<times> int) list \<Rightarrow> int \<Rightarrow> int" where
  "dict_count d k = (case map_of d k of None \<Rightarrow> 0 | Some n \<Rightarrow> n)"

definition bump_bucket :: "int \<Rightarrow> (int \<times> int) list \<Rightarrow> (int \<times> int) list" where
  "bump_bucket minute rates =
     (let kept = filter (\<lambda>(bucket, _). \<not> bucket < minute - 1) rates
      in AList.update minute (dict_count kept minute + 1) kept)"

definition py_trunc :: "rat \<Rightarrow> int" where
  "py_trunc x = (if x < 0 then - \<lfloor>- x\<rfloor> else \<lfloor>x\<rfloor>)"

definition rate_key :: "int \<Rightarrow> string" where
  "rate_key minute = ''cloudward:tetragon:rate:'' @ str_of_int minute"

definition check_rate :: "'w intake_env \<Rightarrow> ('w, unit) I" where
  "check_rate E =
     bindM (intakeM (ie_time E)) (\<lambda>t.
     let minute = py_trunc t div 60;
         limit = set_tetragon_webhook_max_events_per_minute (ie_settings E) in
     bindM (redis_gate E (\<lambda>rd. redis_count rd (rate_key minute) 61 limit
        rate_exceeded)) (\<lambda>counted.
     if counted then returnM ()
     else
       thenM (raise_if (\<not> local_fallback E) (cw_error ''SECURITY_RATE_CONTROL_UNAVAILABLE''
         ''Security event rate control is unavailable'' 503))
       (thenM (modifyM (in_rates_update (bump_bucket minute)))
       (bindM (readM in_rates) (\<lambda>rates.
        raise_if (dict_count rates minute > limit) rate_exceeded)))))"

definition removeprefix :: "string \<Rightarrow> string \<Rightarrow> string" where
  "removeprefix s p = (if py_startswith s p then drop (length p) s else s)"

definition signed_message :: "http_request \<Rightarrow> string \<Rightarrow> string" where
  "signed_message req body =
     utf8_latin1 (header_text req ''X-CloudWard-Timestamp'') @ ''.'' @
     utf8_latin1 (header_text req ''X-CloudWard-Nonce'') @ ''.'' @ body"

text \<open>\<open>hmac.compare_digest\<close> on two strings raises a \<open>TypeError\<close> unless both are ASCII.\<close>

definition check_signature :: "'w intake_env \<Rightarrow> http_request \<Rightarrow> string \<Rightarrow> exn + unit" where
  "check_signature E req body =
     (let expected = hmac_sha256_hex (utf8_latin1 (set_tetragon_webhook_secret (ie_settings E)))
            (signed_message req body);
          supplied = removeprefix (header_text req ''X-CloudWard-Signature'') ''sha256=''
      in if length supplied \<noteq> 64 then Inl auth_failed
         else if \<not> is_ascii supplied then Inl (PyError ''TypeError'')
         else if expected \<noteq> supplied then Inl auth_failed else Inr ())"

definition nonce_ok :: "string \<Rightarrow> bool" where
  "nonce_ok nonce \<longleftrightarrow> 16 \<le> length nonce \<and> length nonce \<le> 128 \<and>
     py_isalnum (py_replace1 (CHR ''-'') [] nonce)"

definition authenticate_tetragon_request :: "'w intake_env \<Rightarrow> http_request \<Rightarrow> string \<Rightarrow> ('w, unit) I" where
  "authenticate_tetragon_request E req body =
     (let nonce = header_text req ''X-CloudWard-Nonce'' in
      case int_of_header (header_text req ''X-CloudWard-Timestamp'') of
        None \<Rightarrow> raiseM auth_failed
      | Some timestamp \<Rightarrow>
          bindM (intakeM (ie_time E)) (\<lambda>t.
          seqM
            [raise_if (\<bar>py_trunc t - timestamp\<bar> >
               set_tetragon_webhook_max_clock_skew_seconds (ie_settings E)) auth_failed,
             raise_if (\<not> nonce_ok nonce) auth_failed,
             liftR (check_signature E req body),
             claim_nonce E nonce,
             check_rate E]))"

subsection \<open>The fixed-window limiter\<close>

record rate_limit =
  rl_name :: string
  rl_limit :: int
  rl_window_seconds :: int

definition auth_rate_limit :: rate_limit where
  "auth_rate_limit = \<lparr>rl_name = ''auth'', rl_limit = 20, rl_window_seconds = 60\<rparr>"

definition demo_rate_limit :: rate_limit where
  "demo_rate_limit = \<lparr>rl_name = ''demo-trigger'', rl_limit = 5, rl_window_seconds = 60\<rparr>"

definition alertmanager_rate_limit :: rate_limit where
  "alertmanager_rate_limit = \<lparr>rl_name = ''alertmanager-webhook'', rl_limit = 120, rl_window_seconds = 60\<rparr>"

definition client_identity :: "http_request \<Rightarrow> string" where
  "client_identity req =
     take 24 (sha256_hex (case rq_client req of None \<Rightarrow> ''unknown'' | Some host \<Rightarrow> host))"

definition window_step :: "int \<Rightarrow> rat \<Rightarrow> (int \<times> rat) option \<Rightarrow> int \<times> rat" where
  "window_step window now entry =
     (let (n, expires) = (case entry of None \<Rightarrow> (0, 0) | Some e \<Rightarrow> e);
          (n, expires) = (if expires \<le> now then (0, now + of_int window) else (n, expires))
      in (n + 1, expires))"

definition rate_limit_call :: "'w intake_env \<Rightarrow> rate_limit \<Rightarrow> http_request \<Rightarrow> ('w, unit) I" where
  "rate_limit_call E rl req =
     (let identity = client_identity req;
          limited = cw_error ''RATE_LIMITED'' ''Too many requests'' 429 in
      bindM (intakeM (ie_time E)) (\<lambda>t.
      let window = py_trunc t div rl_window_seconds rl;
          key = ''cloudward:rate:'' @ rl_name rl @ '':'' @ identity @ '':'' @ str_of_int window in
      bindM (redis_gate E (\<lambda>rd. redis_count rd key (rl_window_seconds rl + 1) (rl_limit rl) limited))
        (\<lambda>counted.
      if counted then returnM ()
      else
        thenM (raise_if (\<not> local_fallback E) (cw_error ''RATE_LIMIT_UNAVAILABLE''
          ''Rate limit service unavailable'' 503))
        (bindM (readM (\<lambda>s. map_of (in_counts s (rl_name rl)) identity)) (\<lambda>entry.
         bindM (intakeM (ie_monotonic E)) (\<lambda>now.
         let e = window_step (rl_window_seconds rl) now entry in
         thenM (modifyM (\<lambda>s. s\<lparr>in_counts := (in_counts s)
             (rl_name rl := AList.update identity e (in_counts s (rl_name rl)))\<rparr>))
         (raise_if (fst e > rl_limit rl) limited)))))))"


section \<open>Bodies\<close>

lemma read_chunks_eq:
  "length body \<le> maximum \<Longrightarrow> read_chunks e maximum body chunks =
     (if length (body @ concat chunks) \<le> maximum then Inr (body @ concat chunks) else Inl e)"
  by (induction chunks arbitrary: body) auto

text \<open>A request body is read exactly when it fits: the reader returns the concatenated chunks if
  and only if they are within the limit and a Content-Length header, when there is one, is a number
  between zero and the limit; otherwise it raises 413 or 400, and nothing longer than the limit is
  ever held.\<close>

theorem read_bounded_body_exact:
  "read_bounded_body req maximum code =
     (let declared = map_option int_of_header (header_get req ''content-length'');
          body = concat (rq_chunks req)
      in if \<exists>d. declared = Some d \<and> (d = None \<or> the d < 0)
         then Inl (cw_error ''INVALID_CONTENT_LENGTH'' ''Invalid Content-Length header'' 400)
         else if (\<exists>n. declared = Some (Some n) \<and> int maximum < n) \<or> maximum < length body
         then Inl (cw_error code ''Request exceeds the body limit'' 413)
         else Inr body)"
  by (auto simp: read_bounded_body_def read_chunks_eq Let_def split: option.splits)

section \<open>The fixed window as a budget\<close>

text \<open>What the limiter promises: a client has a budget of \<open>limit\<close> requests, renewed by the first
  request after the window of the last renewal has ended; a refused request costs nothing. The code
  counts refused requests as well, so its counter is abstracted to the part within the limit.\<close>

definition admit :: "int \<Rightarrow> int \<Rightarrow> rat \<Rightarrow> int \<times> rat \<Rightarrow> bool \<times> int \<times> rat" where
  "admit limit window now b =
     (let (used, ends) = (if snd b \<le> now then (0, now + of_int window) else b)
      in if used < limit then (True, used + 1, ends) else (False, used, ends))"

definition budget_of :: "int \<Rightarrow> (int \<times> rat) option \<Rightarrow> int \<times> rat" where
  "budget_of limit entry = (case entry of None \<Rightarrow> (0, 0) | Some (n, ends) \<Rightarrow> (min n limit, ends))"

definition budgets :: "rate_limit \<Rightarrow> 'w intake \<Rightarrow> string \<Rightarrow> int \<times> rat" where
  "budgets rl s identity = budget_of (rl_limit rl) (map_of (in_counts s (rl_name rl)) identity)"

lemma window_step_refines:
  assumes "0 \<le> limit"
  shows "admit limit window now (budget_of limit entry) =
    (fst (window_step window now entry) \<le> limit, budget_of limit (Some (window_step window now entry)))"
  using assms by (auto simp: admit_def budget_of_def window_step_def Let_def min_def split: option.splits)


text \<open>The calls of one client in sequence: the times of the admitted ones.\<close>

fun limiter_run :: "int \<Rightarrow> int \<Rightarrow> (int \<times> rat) option \<Rightarrow> rat list \<Rightarrow> rat list" where
  "limiter_run limit window entry [] = []"
| "limiter_run limit window entry (t # ts) =
     (let e = window_step window t entry
      in (if fst e \<le> limit then [t] else []) @ limiter_run limit window (Some e) ts)"

definition admitted_before :: "rat \<Rightarrow> rat list \<Rightarrow> int" where
  "admitted_before b ts = int (length (filter (\<lambda>t. t < b) ts))"

lemma admitted_before_simps [simp]:
  "admitted_before b [] = 0"
  "admitted_before b (xs @ ys) = admitted_before b xs + admitted_before b ys"
  "admitted_before b [t] = (if t < b then 1 else 0)"
  by (simp_all add: admitted_before_def)

lemma limiter_run_times: "t \<in> set (limiter_run limit window entry ts) \<Longrightarrow> t \<in> set ts"
  by (induction ts arbitrary: entry) (auto simp: Let_def split: if_splits)

lemma admitted_before_none: "(\<And>t. t \<in> set ts \<Longrightarrow> b \<le> t) \<Longrightarrow> admitted_before b (limiter_run l w e ts) = 0"
  using limiter_run_times by (fastforce simp: admitted_before_def filter_empty_conv)

lemma limiter_window:
  assumes "sorted ts" and "b \<le> ends"
  shows "admitted_before b (limiter_run limit window (Some (n, ends)) ts) \<le> max 0 (limit - n)"
  using assms
proof (induction ts arbitrary: n)
  case (Cons t ts)
  show ?case
  proof (cases "t < b")
    case True
    then have "window_step window t (Some (n, ends)) = (n + 1, ends)"
      using Cons.prems by (auto simp: window_step_def)
    then show ?thesis using Cons.IH [of "n + 1"] Cons.prems by (auto simp: Let_def)
  next
    case False
    then have "admitted_before b (limiter_run limit window (Some (n, ends)) (t # ts)) = 0"
      using Cons.prems by (intro admitted_before_none) auto
    then show ?thesis by simp
  qed
qed simp

lemma limiter_two_windows:
  assumes "sorted ts" and "b \<le> ends + of_int window" and "0 \<le> limit" and "0 \<le> window"
  shows "admitted_before b (limiter_run limit window (Some (n, ends)) ts) \<le> max 0 (limit - n) + limit"
  using assms
proof (induction ts arbitrary: n)
  case (Cons t ts)
  show ?case
  proof (cases "ends \<le> t")
    case True
    then have "window_step window t (Some (n, ends)) = (1, t + of_int window)"
      by (simp add: window_step_def)
    moreover have "b \<le> t + of_int window" using True Cons.prems by simp
    ultimately show ?thesis
      using limiter_window [of ts b "t + of_int window" limit window 1] Cons.prems by (auto simp: Let_def)
  next
    case False
    then have "window_step window t (Some (n, ends)) = (n + 1, ends)" by (simp add: window_step_def)
    then show ?thesis using Cons.IH [of "n + 1"] Cons.prems by (auto simp: Let_def)
  qed
qed simp

lemma limiter_span:
  assumes "sorted ts" and "0 \<le> limit" and "0 \<le> window"
    and "case entry of None \<Rightarrow> True | Some (n, _) \<Rightarrow> 0 \<le> n"
  shows "int (length (filter (\<lambda>t. a \<le> t \<and> t < a + of_int window) (limiter_run limit window entry ts)))
    \<le> 2 * limit"
  using assms(1,4)
proof (induction ts arbitrary: entry)
  case (Cons t ts)
  let ?b = "a + of_int window" and ?e = "window_step window t entry"
  have rest: "sorted ts" using Cons.prems by simp
  have pos: "1 \<le> fst ?e" using Cons.prems(2)
    by (auto simp: window_step_def Let_def split: option.splits)
  show ?case
  proof (cases "a \<le> t")
    case False
    then show ?thesis using Cons.IH [of "Some ?e"] rest pos by (simp add: Let_def case_prod_unfold)
  next
    case True
    have "filter (\<lambda>t. a \<le> t \<and> t < ?b) (limiter_run limit window entry (t # ts)) =
        filter (\<lambda>t. t < ?b) (limiter_run limit window entry (t # ts))"
      using True Cons.prems by (intro filter_cong refl) (fastforce dest: limiter_run_times)
    moreover have "admitted_before ?b (limiter_run limit window entry (t # ts)) \<le> 2 * limit"
    proof (cases "snd ?e = t + of_int window \<and> fst ?e = 1")
      case fresh: True
      then have "?e = (1, t + of_int window)" by (metis prod.collapse)
      then show ?thesis
        using True assms limiter_window [OF rest, of ?b "t + of_int window" limit window 1]
        by (auto simp: Let_def)
    next
      case False
      then obtain n ends where e: "?e = (n, ends)" and "t < ends"
        by (auto simp: window_step_def Let_def split: option.splits if_splits)
      then have "?b \<le> ends + of_int window" using True by simp
      from limiter_two_windows [OF rest this assms(2,3), of n] show ?thesis
        using assms(2) pos by (auto simp: Let_def e max_def split: if_splits)
    qed
    ultimately show ?thesis by (simp only: admitted_before_def)
  qed
qed (use assms(2) in simp)

text \<open>A fixed window never lets through more than twice its limit: of the calls a client makes in
  sequence since the limiter started, at most \<open>2 * limit\<close> are admitted in any span of time no longer
  than the window.\<close>

theorem limiter_burst_bound:
  assumes "sorted ts" and "0 \<le> limit" and "0 \<le> window"
  shows "int (length (filter (\<lambda>t. a \<le> t \<and> t < a + of_int window) (limiter_run limit window None ts)))
    \<le> 2 * limit"
  by (rule limiter_span [OF assms]) simp

theorem limiter_burst_bound_witness:
  "int (length (filter (\<lambda>t. 59 \<le> t \<and> t < 59 + of_int (rl_window_seconds demo_rate_limit))
     (limiter_run (rl_limit demo_rate_limit) (rl_window_seconds demo_rate_limit) None
       ([0, 59, 59, 59, 59, 59] @ [60, 60, 60, 60, 60, 60])))) \<le> 2 * rl_limit demo_rate_limit"
  by (rule limiter_burst_bound) (simp_all add: demo_rate_limit_def)

section \<open>Authentication\<close>

text \<open>What a genuine request is: a fresh enough timestamp, a well-formed nonce and exactly the
  signature that the secret gives for timestamp, nonce and body.\<close>

definition genuine :: "'w intake_env \<Rightarrow> rat \<Rightarrow> http_request \<Rightarrow> string \<Rightarrow> bool" where
  "genuine E t req body \<longleftrightarrow>
     (case int_of_header (header_text req ''X-CloudWard-Timestamp'') of
        None \<Rightarrow> False
      | Some timestamp \<Rightarrow>
          \<bar>py_trunc t - timestamp\<bar> \<le> set_tetragon_webhook_max_clock_skew_seconds (ie_settings E)) \<and>
     nonce_ok (header_text req ''X-CloudWard-Nonce'') \<and>
     removeprefix (header_text req ''X-CloudWard-Signature'') ''sha256='' =
       hmac_sha256_hex (utf8_latin1 (set_tetragon_webhook_secret (ie_settings E)))
         (signed_message req body)"

definition intake_stores :: "'w intake \<Rightarrow>
    (string \<Rightarrow> (string \<times> int \<times> rat) list) \<times> (string \<times> rat) list \<times> (int \<times> int) list" where
  "intake_stores s = (in_counts s, in_nonces s, in_rates s)"

lemma check_signature_eq:
  "check_signature E req body = Inr () \<longleftrightarrow>
     removeprefix (header_text req ''X-CloudWard-Signature'') ''sha256='' =
       hmac_sha256_hex (utf8_latin1 (set_tetragon_webhook_secret (ie_settings E)))
         (signed_message req body)"
  by (auto simp: check_signature_def Let_def dest: sym)

lemma check_signature_raises: "check_signature E req body = Inl e \<Longrightarrow> e = auth_failed \<or> e = PyError ''TypeError''"
  by (auto simp: check_signature_def Let_def split: if_splits)

text \<open>C11. Nobody gets in without the secret, and a forged request leaves no trace: whatever Redis and
  the clocks do, authentication returns only for a request whose timestamp is within the permitted
  skew, whose nonce is well formed and whose signature is the HMAC-SHA-256 of timestamp, nonce and
  body under the shared secret. Any other request is refused with 401, or with the \<open>TypeError\<close> of
  the constant-time comparison for a signature that is not ASCII, before a nonce is claimed or an
  event is counted.\<close>

theorem forged_requests_refused:
  "wp (authenticate_tetragon_request E req body)
     (\<lambda>_ _. genuine E (fst (ie_time E (in_world s))) req body)
     (\<lambda>e s'. genuine E (fst (ie_time E (in_world s))) req body \<or>
        (e = auth_failed \<or> e = PyError ''TypeError'') \<and> intake_stores s' = intake_stores s) s"
  unfolding authenticate_tetragon_request_def genuine_def
  by (auto simp: wp_simps Let_def intake_stores_def check_signature_eq dest: check_signature_raises
      split: option.splits sum.splits intro!: wp_always)

lemma authenticate_returned:
  assumes "authenticate_tetragon_request E req body s = (Inr (), s')"
  defines "n \<equiv> header_text req ''X-CloudWard-Nonce''"
  obtains s1 where "genuine E (fst (ie_time E (in_world s))) req body"
    and "claim_nonce E n (s\<lparr>in_world := snd (ie_time E (in_world s))\<rparr>) = (Inr (), s1)"
    and "check_rate E s1 = (Inr (), s')"
proof -
  have "wp (authenticate_tetragon_request E req body)
    (\<lambda>_ s'. \<exists>s1. claim_nonce E n (s\<lparr>in_world := snd (ie_time E (in_world s))\<rparr>) = (Inr (), s1) \<and>
       check_rate E s1 = (Inr (), s')) (\<lambda>_ _. True) s"
    unfolding authenticate_tetragon_request_def n_def
    by (auto simp: wp_simps Let_def split: option.splits sum.splits)
      (auto simp: wp_def seqM.simps thenM_def bindM_def returnM_def split: prod.splits sum.splits)
  then show thesis
    using that assms(1) wp_returned [OF forged_requests_refused assms(1)]
    by (blast dest: wp_returned)
qed

lemma claim_nonce_production:
  assumes "\<not> local_fallback E"
  shows "wp (claim_nonce E n)
    (\<lambda>_ s'. intake_stores s' = intake_stores s \<and> (\<exists>rd w. ie_redis E = Some rd \<and>
       fst (rd_set_nx rd (nonce_key n) (nonce_ttl E) w) = Inr True))
    (\<lambda>_ s'. intake_stores s' = intake_stores s) s"
  using assms unfolding claim_nonce_def redis_gate_def redis_claim_def redis_failed_def intake_stores_def
  by (auto simp: wp_simps Let_def split: option.splits sum.splits redis_failure.splits)

lemma redis_count_wp:
  "wp (redis_count rd key ttl limit e)
    (\<lambda>r s'. intake_stores s' = intake_stores s \<and>
       (r \<longrightarrow> (\<exists>w n. fst (rd_incr rd key w) = Inr n \<and> n \<le> limit)))
    (\<lambda>_ s'. intake_stores s' = intake_stores s) s"
  unfolding redis_count_def redis_failed_def intake_stores_def
  by (auto simp: wp_simps Let_def not_less split: sum.splits redis_failure.splits)

lemma check_rate_production:
  assumes "\<not> local_fallback E"
  shows "wp (check_rate E)
    (\<lambda>_ s'. intake_stores s' = intake_stores s \<and> (\<exists>rd w n minute. ie_redis E = Some rd \<and>
       fst (rd_incr rd (rate_key minute) w) = Inr n \<and>
       n \<le> set_tetragon_webhook_max_events_per_minute (ie_settings E)))
    (\<lambda>_ s'. intake_stores s' = intake_stores s) s"
  using assms unfolding check_rate_def redis_gate_def
  by (auto simp: wp_simps Let_def intake_stores_def split: option.splits
      intro!: wp_mono [OF redis_count_wp]) blast

text \<open>C12. Outside development and test the gate fails closed: the local dictionaries are never used,
  and a request is let in only after Redis has newly claimed its nonce for twice the permitted skew
  and has counted it within the limit of the current minute. Without Redis every request is refused.\<close>

theorem production_intake_fails_closed:
  assumes "\<not> local_fallback E"
  shows "wp (authenticate_tetragon_request E req body)
    (\<lambda>_ s'. intake_stores s' = intake_stores s \<and> (\<exists>rd w n w' minute.
       ie_redis E = Some rd \<and>
       fst (rd_set_nx rd (nonce_key (header_text req ''X-CloudWard-Nonce'')) (nonce_ttl E) w) = Inr True \<and>
       fst (rd_incr rd (rate_key minute) w') = Inr n \<and>
       n \<le> set_tetragon_webhook_max_events_per_minute (ie_settings E)))
    (\<lambda>_ s'. intake_stores s' = intake_stores s) s"
  unfolding authenticate_tetragon_request_def
  by (auto simp: wp_simps Let_def intake_stores_def split: option.splits sum.splits
      intro!: wp_mono [OF claim_nonce_production [OF assms]] wp_mono [OF check_rate_production [OF assms]])
    (auto simp: intake_stores_def)

section \<open>Replay protection in development\<close>

definition steady_intake :: "'w intake_env \<Rightarrow> ('w \<Rightarrow> rat) \<Rightarrow> rat \<Rightarrow> bool" where
  "steady_intake E now offset \<longleftrightarrow>
     (\<forall>w. fst (ie_monotonic E w) = now w \<and> now w \<le> now (snd (ie_monotonic E w)) \<and>
        fst (ie_time E w) = now w + offset \<and> now w \<le> now (snd (ie_time E w)) \<and> 0 \<le> now w + offset)"

text \<open>What can happen to the gate: time passes, a webhook request is authenticated or refused, or a
  call of one of the limiters is made.\<close>

inductive serves :: "'w intake_env \<Rightarrow> ('w \<Rightarrow> rat) \<Rightarrow> 'w intake \<Rightarrow> 'w intake \<Rightarrow> bool" for E now where
  idle: "now (in_world s) \<le> now w \<Longrightarrow> serves E now s (s\<lparr>in_world := w\<rparr>)"
| webhook: "serves E now s (snd (authenticate_tetragon_request E req body s))"
| limited: "serves E now s (snd (rate_limit_call E rl req s))"

text \<open>A nonce is remembered until a point in time.\<close>

definition remembered :: "('w \<Rightarrow> rat) \<Rightarrow> string \<Rightarrow> rat \<Rightarrow> 'w intake \<Rightarrow> bool" where
  "remembered now n x s \<longleftrightarrow>
     x \<le> now (in_world s) \<or> (\<exists>e. map_of (in_nonces s) n = Some e \<and> x \<le> e)"

lemma steady_intakeD:
  assumes "steady_intake E now offset"
  shows "fst (ie_monotonic E w) = now w" "now w \<le> now (snd (ie_monotonic E w))"
    "fst (ie_time E w) = now w + offset" "now w \<le> now (snd (ie_time E w))" "0 \<le> now w + offset"
  using assms by (auto simp: steady_intake_def)

lemma wp_claim_nonce:
  assumes "local_fallback E" and "ie_redis E = None"
  shows "wp (claim_nonce E n) Q X s =
    (let t = fst (ie_monotonic E (in_world s)); ns = live_nonces t (in_nonces s);
         s' = s\<lparr>in_world := snd (ie_monotonic E (in_world s)), in_nonces := ns\<rparr>
     in if n \<in> fst ` set ns then X replay_detected s'
        else Q () (s'\<lparr>in_nonces := AList.update n (t + of_int (nonce_ttl E)) ns\<rparr>))"
  using assms by (cases s) (simp add: claim_nonce_def redis_gate_def wp_simps Let_def)

lemma live_nonces_lookup:
  "map_of ns n = Some e \<Longrightarrow> e \<le> now \<or> map_of (live_nonces now ns) n = Some e"
  by (induction ns) (auto simp: live_nonces_def split: if_splits)

lemma remembered_claim:
  assumes "steady_intake E now offset" and "local_fallback E" and "ie_redis E = None"
  shows "preserves (remembered now n x) (claim_nonce E m)"
proof -
  have "x \<le> now (in_world s) \<or> (\<exists>e. map_of (live_nonces (now (in_world s)) (in_nonces s)) n = Some e \<and> x \<le> e)"
    if "remembered now n x s" for s
    using that live_nonces_lookup [of "in_nonces s" n _ "now (in_world s)"]
    unfolding remembered_def by force
  moreover have "m \<noteq> n" if "m \<notin> fst ` set ns" and "map_of ns n = Some e" for e and ns :: "(string \<times> rat) list"
    using that map_of_SomeD by force
  ultimately show ?thesis
    unfolding preserves_wp wp_claim_nonce [OF assms(2,3)] steady_intakeD(1) [OF assms(1)]
    using steady_intakeD(2) [OF assms(1)]
    by (auto simp: remembered_def Let_def) (metis order_trans)+
qed

lemma preserves_intakeM:
  "(\<And>s. I s \<Longrightarrow> I (s\<lparr>in_world := snd (f (in_world s))\<rparr>)) \<Longrightarrow> preserves I (intakeM f)"
  by (simp add: preserves_wp wp_intakeM)

lemma remembered_tick:
  assumes "steady_intake E now offset"
  shows "preserves (remembered now n x) (intakeM (ie_time E))"
    "preserves (remembered now n x) (intakeM (ie_monotonic E))"
  by (rule preserves_intakeM,
      use steady_intakeD(2,4) [OF assms] in \<open>auto simp: remembered_def intro: order_trans\<close>)+

lemma remembered_check_rate:
  assumes "steady_intake E now offset" and "ie_redis E = None"
  shows "preserves (remembered now n x) (check_rate E)"
  unfolding check_rate_def redis_gate_def assms(2) option.case
  by (intro inv_rules remembered_tick [OF assms(1)] preserves_modifyM) (simp add: remembered_def)

lemma remembered_authenticate:
  assumes "steady_intake E now offset" and "local_fallback E" and "ie_redis E = None"
  shows "preserves (remembered now n x) (authenticate_tetragon_request E req body)"
  unfolding authenticate_tetragon_request_def
  by (intro inv_rules remembered_tick [OF assms(1)] remembered_claim [OF assms]
      remembered_check_rate [OF assms(1,3)])

lemma remembered_rate_limit:
  assumes "steady_intake E now offset" and "ie_redis E = None"
  shows "preserves (remembered now n x) (rate_limit_call E rl req)"
  unfolding rate_limit_call_def redis_gate_def assms(2) option.case
  by (intro inv_rules remembered_tick [OF assms(1)] preserves_modifyM) (simp add: remembered_def)

lemma remembered_serves:
  assumes "steady_intake E now offset" and "local_fallback E" and "ie_redis E = None"
    and "(serves E now)\<^sup>*\<^sup>* s t" and "remembered now n x s"
  shows "remembered now n x t"
  using assms(4,5)
proof (induction rule: rtranclp_induct)
  case (step t u)
  from step.hyps(2) step.IH [OF step.prems] show ?case
  proof cases
    case (idle w)
    with step.IH [OF step.prems] show ?thesis by (auto simp: remembered_def)
  next
    case (webhook req body)
    with step.IH [OF step.prems] show ?thesis
      using remembered_authenticate [OF assms(1-3)] by (auto simp: preserves_def)
  next
    case (limited rl req)
    with step.IH [OF step.prems] show ?thesis
      using remembered_rate_limit [OF assms(1,3)] by (auto simp: preserves_def)
  qed
qed

text \<open>The lifetime of a claim: a nonce that was just claimed is remembered for the time to live, and a
  nonce can be claimed again only when nothing of it is remembered.\<close>

lemma claim_remembers:
  assumes "steady_intake E now offset" and "local_fallback E" and "ie_redis E = None"
    and "claim_nonce E n s = (Inr (), s')"
  shows "remembered now n (now (in_world s) + of_int (nonce_ttl E)) s'"
proof -
  have "wp (claim_nonce E n) (\<lambda>_. remembered now n (now (in_world s) + of_int (nonce_ttl E))) (\<lambda>_ _. True) s"
    unfolding wp_claim_nonce [OF assms(2,3)] by (simp add: remembered_def Let_def steady_intakeD [OF assms(1)])
  from wp_returned [OF this assms(4)] show ?thesis .
qed

lemma claim_needs_forgotten:
  assumes "steady_intake E now offset" and "local_fallback E" and "ie_redis E = None"
    and "claim_nonce E n s = (Inr (), s')" and "remembered now n x s"
  shows "x \<le> now (in_world s)"
proof -
  have "wp (claim_nonce E n) (\<lambda>_ _. x \<le> now (in_world s)) (\<lambda>_ _. True) s"
    using assms(5) live_nonces_lookup [of "in_nonces s" n _ "now (in_world s)"]
    unfolding wp_claim_nonce [OF assms(2,3)] remembered_def
    by (auto simp: Let_def steady_intakeD [OF assms(1)]) (force dest: map_of_SomeD)
  from wp_returned [OF this assms(4)] show ?thesis .
qed


subsection \<open>A concrete gate\<close>

text \<open>A gate whose world is its clock in seconds, and a correctly signed request for time 300.\<close>

definition demo_intake_settings :: "string \<Rightarrow> intake_settings" where
  "demo_intake_settings app_env = settings.extend (demo_settings\<lparr>set_app_env := app_env\<rparr>)
     (intake_settings.fields ''secret'' 131072 120 300)"

definition demo_gate :: "string \<Rightarrow> nat redis option \<Rightarrow> nat intake_env" where
  "demo_gate app_env redis = \<lparr>ie_settings = demo_intake_settings app_env, ie_redis = redis,
     ie_time = (\<lambda>w. (of_nat w, w)), ie_monotonic = (\<lambda>w. (of_nat w, w))\<rparr>"

definition demo_unsigned :: http_request where
  "demo_unsigned = \<lparr>rq_headers = [(''x-cloudward-timestamp'', ''300''),
     (''x-cloudward-nonce'', ''0123456789abcdef'')], rq_chunks = [], rq_client = None\<rparr>"

definition demo_signed :: http_request where
  "demo_signed = demo_unsigned\<lparr>rq_headers := rq_headers demo_unsigned @
     [(''x-cloudward-signature'', ''sha256='' @ hmac_sha256_hex ''secret'' (signed_message demo_unsigned []))]\<rparr>"

definition demo_intake :: "nat \<Rightarrow> nat intake" where
  "demo_intake w = \<lparr>in_world = w, in_counts = (\<lambda>_. []), in_nonces = [], in_rates = []\<rparr>"

lemma header_names:
  "py_lower ''X-CloudWard-Timestamp'' = ''x-cloudward-timestamp''"
  "py_lower ''X-CloudWard-Nonce'' = ''x-cloudward-nonce''"
  "py_lower ''X-CloudWard-Signature'' = ''x-cloudward-signature''"
  by code_simp+

lemma demo_headers:
  "header_text demo_unsigned ''X-CloudWard-Timestamp'' = ''300''"
  "header_text demo_signed ''X-CloudWard-Timestamp'' = ''300''"
  "header_text demo_unsigned ''X-CloudWard-Nonce'' = ''0123456789abcdef''"
  "header_text demo_signed ''X-CloudWard-Nonce'' = ''0123456789abcdef''"
  "header_text demo_signed ''X-CloudWard-Signature'' =
     ''sha256='' @ hmac_sha256_hex ''secret'' (signed_message demo_unsigned [])"
  by (simp_all add: header_text_def header_get_def dict_get_def demo_signed_def demo_unsigned_def
      header_names)

lemma demo_gate_simps:
  "set_tetragon_webhook_secret (ie_settings (demo_gate a r)) = ''secret''"
  "set_tetragon_webhook_max_events_per_minute (ie_settings (demo_gate a r)) = 120"
  "set_tetragon_webhook_max_clock_skew_seconds (ie_settings (demo_gate a r)) = 300"
  "local_fallback (demo_gate ''test'' r)" "\<not> local_fallback (demo_gate ''production'' r)"
  "ie_redis (demo_gate a r) = r" "ie_time (demo_gate a r) = (\<lambda>w. (of_nat w, w))"
  "ie_monotonic (demo_gate a r) = (\<lambda>w. (of_nat w, w))"
  by (simp_all add: demo_gate_def demo_intake_settings_def settings.defs intake_settings.defs
      demo_settings_def local_fallback_def)

lemma demo_steady: "steady_intake (demo_gate a r) of_nat 0"
  by (simp add: steady_intake_def demo_gate_simps)

lemma demo_genuine: "w \<le> 600 \<Longrightarrow> genuine (demo_gate a r) (of_nat w) demo_signed []"
proof -
  assume "w \<le> 600"
  have "nonce_ok ''0123456789abcdef''" "int_of_header ''300'' = Some 300" "utf8_latin1 ''secret'' = ''secret''"
    by code_simp+
  with \<open>w \<le> 600\<close> show ?thesis
    by (auto simp: genuine_def demo_headers demo_gate_simps signed_message_def removeprefix_def py_trunc_def
        py_startswith_def)
qed

lemma wp_seqM_single: "wp (seqM [m]) Q X = wp m Q X"
  by (rule ext) (simp add: wp_seqM_Cons)

lemma wp_authenticate_genuine:
  assumes "genuine E (fst (ie_time E (in_world s))) req body"
  shows "wp (authenticate_tetragon_request E req body) Q X s =
    wp (claim_nonce E (header_text req ''X-CloudWard-Nonce'')) (\<lambda>_. wp (check_rate E) Q X) X
      (s\<lparr>in_world := snd (ie_time E (in_world s))\<rparr>)"
  using assms unfolding genuine_def check_signature_eq [symmetric]
  by (auto simp: authenticate_tetragon_request_def wp_simps wp_seqM_single Let_def split: option.splits)

lemma wp_check_rate:
  assumes "local_fallback E" and "ie_redis E = None"
  shows "wp (check_rate E) Q X s =
    (let minute = py_trunc (fst (ie_time E (in_world s))) div 60; rates = bump_bucket minute (in_rates s);
         s' = s\<lparr>in_world := snd (ie_time E (in_world s)), in_rates := rates\<rparr>
     in if set_tetragon_webhook_max_events_per_minute (ie_settings E) < dict_count rates minute
        then X rate_exceeded s' else Q () s')"
  using assms by (cases s) (simp add: check_rate_def redis_gate_def wp_simps Let_def)

lemma bump_bucket_count:
  "dict_count (bump_bucket m rates) m = dict_count rates m + 1"
proof -
  have "map_of (filter (\<lambda>(b, _). \<not> b < m - 1) rates) m = map_of rates m"
    by (induction rates) auto
  then show ?thesis by (simp add: bump_bucket_def dict_count_def Let_def)
qed

lemma demo_accepted:
  assumes "w \<le> 600" and "live_nonces (of_nat w) (in_nonces s) = []" and "dict_count (in_rates s) (int w div 60) < 120"
  shows "authenticate_tetragon_request (demo_gate ''test'' None) demo_signed [] (s\<lparr>in_world := w\<rparr>) =
    (Inr (), s\<lparr>in_world := w, in_nonces := [(''0123456789abcdef'', of_nat (w + 600))],
       in_rates := bump_bucket (int w div 60) (in_rates s)\<rparr>)"
proof -
  have "wp (authenticate_tetragon_request (demo_gate ''test'' None) demo_signed [])
     (\<lambda>_ s'. s' = s\<lparr>in_world := w, in_nonces := [(''0123456789abcdef'', of_nat (w + 600))],
       in_rates := bump_bucket (int w div 60) (in_rates s)\<rparr>) (\<lambda>_ _. False) (s\<lparr>in_world := w\<rparr>)"
    using assms
    by (subst wp_authenticate_genuine)
      (simp_all add: demo_gate_simps demo_genuine demo_headers wp_claim_nonce wp_check_rate nonce_ttl_def
        bump_bucket_count py_trunc_def Let_def)
  then show ?thesis by (auto simp: wp_def split: prod.splits sum.splits)
qed

text \<open>The edge is real: the same request is accepted at time 0 and again at time 600, exactly twice
  the permitted skew later, because the claim has just expired while the timestamp is still within
  the skew.\<close>

definition demo_first :: "nat intake" where
  "demo_first = snd (authenticate_tetragon_request (demo_gate ''test'' None) demo_signed [] (demo_intake 0))"

definition demo_second :: "nat intake" where
  "demo_second = snd (authenticate_tetragon_request (demo_gate ''test'' None) demo_signed []
     (demo_first\<lparr>in_world := 600\<rparr>))"

lemma demo_first_eq:
  "authenticate_tetragon_request (demo_gate ''test'' None) demo_signed [] (demo_intake 0) =
     (Inr (), (demo_intake 0)\<lparr>in_nonces := [(''0123456789abcdef'', 600)], in_rates := [(0, 1)]\<rparr>)"
  using demo_accepted [of 0 "demo_intake 0"]
  by (simp add: demo_intake_def live_nonces_def dict_count_def bump_bucket_def)

lemma demo_first_fields:
  "in_nonces demo_first = [(''0123456789abcdef'', 600)]" "in_rates demo_first = [(0, 1)]"
  "in_world demo_first = 0"
  unfolding demo_first_def demo_first_eq by (simp_all add: demo_intake_def)

lemma replay_accepted_at_edge:
  "authenticate_tetragon_request (demo_gate ''test'' None) demo_signed [] (demo_intake 0) =
     (Inr (), demo_first)"
  "authenticate_tetragon_request (demo_gate ''test'' None) demo_signed [] (demo_first\<lparr>in_world := 600\<rparr>) =
     (Inr (), demo_second)"
proof -
  show "authenticate_tetragon_request (demo_gate ''test'' None) demo_signed [] (demo_intake 0) =
      (Inr (), demo_first)"
    by (simp add: demo_first_def demo_first_eq)
  show "authenticate_tetragon_request (demo_gate ''test'' None) demo_signed []
      (demo_first\<lparr>in_world := 600\<rparr>) = (Inr (), demo_second)"
    using demo_accepted [of 600 demo_first]
    by (simp add: demo_second_def demo_first_fields live_nonces_def dict_count_def)
qed


definition demo_redis :: "nat redis" where
  "demo_redis = \<lparr>rd_incr = (\<lambda>k w. (Inr 1, w)), rd_expire = (\<lambda>k n w. (Inr (), w)),
     rd_set_nx = (\<lambda>k n w. (Inr True, w))\<rparr>"

lemma demo_redis_simps:
  "rd_incr demo_redis k w = (Inr 1, w)" "rd_expire demo_redis k n w = (Inr (), w)"
  "rd_set_nx demo_redis k n w = (Inr True, w)"
  by (simp_all add: demo_redis_def)

theorem production_intake_fails_closed_witness:
  "wp (authenticate_tetragon_request (demo_gate ''production'' (Some demo_redis)) demo_signed [])
    (\<lambda>_ s'. intake_stores s' = intake_stores (demo_intake 300)) (\<lambda>_ _. False) (demo_intake 300)"
proof -
  have "wp (authenticate_tetragon_request (demo_gate ''production'' (Some demo_redis)) demo_signed [])
    (\<lambda>_ _. True) (\<lambda>_ _. False) (demo_intake 300)"
    using demo_genuine [of 300 "''production''" "Some demo_redis"]
    by (subst wp_authenticate_genuine)
      (simp_all add: demo_gate_simps demo_intake_def claim_nonce_def check_rate_def redis_gate_def
        redis_claim_def redis_count_def demo_redis_simps wp_simps Let_def)
  from wp_conj [OF this production_intake_fails_closed [OF demo_gate_simps(5), of _ demo_signed "[]"]]
  show ?thesis by (auto elim!: wp_mono)
qed


end
