(* ===== verification/CW_Alerts.thy ===== *)
theory CW_Alerts
  imports CW_Incidents
begin

text \<open>
  Alert ingestion (\<open>alerts/schemas.py\<close>, \<open>alerts/service.py\<close>): the bounds of an Alertmanager payload,
  its normalisation into an alert with a stable fingerprint and a digest of its content, the
  deduplication of repeated deliveries, and the correlation of a firing alert with an incident.

  The wire types are given as their typed values; the JSON decoding and the parsing of dates before
  that are the web framework's. Dates are UTC.
\<close>

section \<open>The wire schema\<close>

definition MAX_LABELS :: nat where "MAX_LABELS = 64"

definition MAX_ANNOTATIONS :: nat where "MAX_ANNOTATIONS = 32"

definition MAX_VALUE_LENGTH :: nat where "MAX_VALUE_LENGTH = 2048"

type_synonym labels = "(string \<times> string) list"

record alertmanager_alert =
  am_status :: alert_status
  am_labels :: labels
  am_annotations :: labels
  am_startsAt :: time
  am_endsAt :: "time option"
  am_generatorURL :: string
  am_fingerprint :: "string option"

definition bounded_items :: "labels \<Rightarrow> bool" where
  "bounded_items d = list_all (\<lambda>(k, v). length k \<le> 128 \<and> length v \<le> MAX_VALUE_LENGTH) d"

definition bounded_labels :: "labels \<Rightarrow> bool" where
  "bounded_labels d \<longleftrightarrow> d \<noteq> [] \<and> length d \<le> MAX_LABELS \<and> bounded_items d"

definition bounded_annotations :: "labels \<Rightarrow> bool" where
  "bounded_annotations d \<longleftrightarrow> length d \<le> MAX_ANNOTATIONS \<and> bounded_items d"

definition alertmanager_alert_valid :: "alertmanager_alert \<Rightarrow> bool" where
  "alertmanager_alert_valid a \<longleftrightarrow>
     distinct (map fst (am_labels a)) \<and> distinct (map fst (am_annotations a)) \<and>
     bounded_labels (am_labels a) \<and> bounded_annotations (am_annotations a) \<and>
     length (am_generatorURL a) \<le> 4096 \<and> opt_max 256 (am_fingerprint a)"

record alertmanager_payload =
  ap_groupKey :: string
  ap_truncatedAlerts :: int
  ap_status :: alert_status
  ap_receiver :: string
  ap_groupLabels :: labels
  ap_commonLabels :: labels
  ap_commonAnnotations :: labels
  ap_externalURL :: string
  ap_alerts :: "alertmanager_alert list"

definition alertmanager_payload_valid :: "alertmanager_payload \<Rightarrow> bool" where
  "alertmanager_payload_valid p \<longleftrightarrow>
     length (ap_groupKey p) \<le> 2048 \<and> 0 \<le> ap_truncatedAlerts p \<and> length (ap_receiver p) \<le> 255 \<and>
     length (ap_externalURL p) \<le> 4096 \<and> ap_alerts p \<noteq> [] \<and> length (ap_alerts p) \<le> 100 \<and>
     list_all alertmanager_alert_valid (ap_alerts p)"

section \<open>Normalisation\<close>

definition STABLE_LABELS :: "string list" where
  "STABLE_LABELS = [''alertname'', ''service'', ''environment'', ''namespace'', ''cluster'', ''deployment'']"

record normalized_alert =
  na_source :: string
  na_alert_name :: string
  na_status :: alert_status
  na_severity :: string
  na_service :: string
  na_environment :: environment
  na_namespace :: "string option"
  na_starts_at :: time
  na_ends_at :: "time option"
  na_labels :: labels
  na_annotations :: jdict
  na_fingerprint :: string
  na_payload_digest :: string

definition label_or :: "labels \<Rightarrow> string \<Rightarrow> string \<Rightarrow> string" where
  "label_or d k dflt = (case dict_get d k of None \<Rightarrow> dflt | Some v \<Rightarrow> v)"

definition json_labels :: "labels \<Rightarrow> jdict" where
  "json_labels d = map (\<lambda>(k, v). (k, JStr v)) d"

text \<open>\<^verbatim>\<open>labels.get("service") or labels.get("job") or "unknown"\<close>: an empty value counts as missing.\<close>

definition alert_service :: "labels \<Rightarrow> string" where
  "alert_service d =
     (if label_or d ''service'' [] \<noteq> [] then label_or d ''service'' []
      else if label_or d ''job'' [] \<noteq> [] then label_or d ''job'' [] else ''unknown'')"

definition alert_environment :: "labels \<Rightarrow> environment" where
  "alert_environment d =
     (let raw = py_lower (label_or d ''environment'' ''staging'')
      in if raw = ''local'' then ENV_LOCAL else if raw = ''production'' then ENV_PRODUCTION
         else ENV_STAGING)"

definition stable_text :: "labels \<Rightarrow> string" where
  "stable_text d = join_with [char_of (31 :: nat)] (map (\<lambda>k. label_or d k []) STABLE_LABELS)"

definition redact_dict :: "jdict \<Rightarrow> jdict" where
  "redact_dict d = (case redact (JObj d) of JObj kvs \<Rightarrow> kvs | _ \<Rightarrow> [])"

definition digest_payload :: "alertmanager_alert \<Rightarrow> json" where
  "digest_payload a = JObj
     [(''status'', JStr (alert_status_value (am_status a))),
      (''starts_at'', JStr (isoformat (am_startsAt a))),
      (''ends_at'', jopt (\<lambda>t. JStr (isoformat t)) (am_endsAt a)),
      (''labels'', JObj (json_labels (am_labels a))),
      (''annotations'', JObj (redact_dict (json_labels (am_annotations a))))]"

definition from_alertmanager :: "alertmanager_alert \<Rightarrow> normalized_alert" where
  "from_alertmanager a =
     (let d = am_labels a in
      \<lparr>na_source = ''prometheus'',
       na_alert_name = take 128 (label_or d ''alertname'' ''UnknownPrometheusAlert''),
       na_status = am_status a, na_severity = take 16 (label_or d ''severity'' ''warning''),
       na_service = take 255 (alert_service d), na_environment = alert_environment d,
       na_namespace = (case dict_get d ''namespace'' of
          None \<Rightarrow> None | Some v \<Rightarrow> if v = [] then None else Some (take 253 v)),
       na_starts_at = am_startsAt a, na_ends_at = am_endsAt a, na_labels = d,
       na_annotations = redact_dict (json_labels (am_annotations a)),
       na_fingerprint = sha256_hex (stable_text d),
       na_payload_digest = sha256_hex (json_dumps (digest_payload a))\<rparr>)"

section \<open>Ingestion\<close>

definition ALERT_INCIDENT_TYPES :: "(string \<times> string) list" where
  "ALERT_INCIDENT_TYPES =
     [(''HighHTTPErrorRate'', ''reliability.bad-deployment''),
      (''HighCPUSaturation'', ''reliability.cpu-saturation''),
      (''ContainerOOMKilled'', ''reliability.memory-pressure''),
      (''WorkloadUnavailable'', ''reliability.platform-self-healing'')]"

definition alert_incident_type :: "string \<Rightarrow> string" where
  "alert_incident_type name =
     (case dict_get ALERT_INCIDENT_TYPES name of None \<Rightarrow> ''reliability.prometheus-alert'' | Some t \<Rightarrow> t)"

definition TERMINAL_STATES :: "incident_state set" where
  "TERMINAL_STATES = {RESOLVED, BLOCKED, ESCALATED}"

record alert_ingestion_result =
  ar_alert_id :: uuid
  ar_incident_id :: "uuid option"
  ar_duplicate :: bool
  ar_created_incident :: bool
  ar_status :: alert_status

definition alert_record_ok :: "alert_record \<Rightarrow> database \<Rightarrow> bool" where
  "alert_record_ok r d \<longleftrightarrow>
     (\<forall>x \<in> set (db_alert_records d). \<not> (alr_source x = alr_source r \<and> alr_fingerprint x = alr_fingerprint r))"

definition set_alert :: "uuid \<Rightarrow> (alert_record \<Rightarrow> alert_record) \<Rightarrow> ('w, unit) H" where
  "set_alert i f = updM (db_alert_records_update (upd_row alr_id i f))"

definition same_alert :: "normalized_alert \<Rightarrow> alert_record \<Rightarrow> bool" where
  "same_alert a r \<longleftrightarrow> alr_source r = na_source a \<and> alr_fingerprint r = na_fingerprint a"

text \<open>\<open>scalar_one_or_none\<close>: two matching rows are an exception.\<close>

definition find_alert :: "normalized_alert \<Rightarrow> ('w, alert_record option) H" where
  "find_alert a = bindM (dbM (\<lambda>d. filter (same_alert a) (db_alert_records d))) (\<lambda>rows.
     case rows of [] \<Rightarrow> returnM None
     | r # rest \<Rightarrow> (if rest = [] then returnM (Some r) else raiseM (PyError ''MultipleResultsFound'')))"

definition deduplicate_alert :: "'w env \<Rightarrow> normalized_alert \<Rightarrow> string \<Rightarrow> alert_record \<Rightarrow>
    ('w, alert_ingestion_result) H" where
  "deduplicate_alert E a correlation_id r =
     bindM (utc_now E) (\<lambda>t.
     thenM (seqM
       [set_alert (alr_id r) (\<lambda>x. x\<lparr>alr_last_received_at := t, alr_repeat_count := alr_repeat_count x + 1\<rparr>),
        voidM (record_audit E ((audit_args ''ALERT_DEDUPLICATED'' correlation_id ''SUCCEEDED'')
          \<lparr>aa_incident_id := alr_incident_id r, aa_actor_type := ACTOR_SERVICE,
           aa_metadata := [(''fingerprint'', JStr (na_fingerprint a)),
             (''repeat_count'', JInt (alr_repeat_count r + 1))]\<rparr>))])
     (returnM \<lparr>ar_alert_id = alr_id r, ar_incident_id = alr_incident_id r, ar_duplicate = True,
        ar_created_incident = False, ar_status = alr_status r\<rparr>))"

definition linked_incident :: "alert_record option \<Rightarrow> ('w, incident option) H" where
  "linked_incident existing =
     (case existing of
        None \<Rightarrow> returnM None
      | Some r \<Rightarrow>
          (case alr_incident_id r of
             None \<Rightarrow> returnM None
           | Some i \<Rightarrow> dbM (\<lambda>d. find_row inc_id i (db_incidents d))))"

definition annotation :: "normalized_alert \<Rightarrow> string \<Rightarrow> string option" where
  "annotation a k = json_text_opt (jget (na_annotations a) k)"

definition alert_summary :: "normalized_alert \<Rightarrow> string option" where
  "alert_summary a =
     (case annotation a ''summary'' of
        Some s \<Rightarrow> (if s \<noteq> [] then Some s else annotation a ''description'')
      | None \<Rightarrow> annotation a ''description'')"

definition notify_critical :: "'w env \<Rightarrow> normalized_alert \<Rightarrow> uuid \<Rightarrow> ('w, unit) H" where
  "notify_critical E a i =
     whenM (py_lower (na_severity a) = ''critical'')
       (bindM (load_incident i) (\<lambda>inc.
        voidM (queue_incident_notification E ''critical_incident_detected'' inc
          [(''service'', JStr (na_service a)), (''cause'', jstr_opt (annotation a ''summary''))] True)))"

definition open_alert_incident :: "'w env \<Rightarrow> normalized_alert \<Rightarrow> string \<Rightarrow> ('w, uuid) H" where
  "open_alert_incident E a correlation_id =
     bindM (create_incident E correlation_id (alert_incident_type (na_alert_name a))
       (na_alert_name a @ '' on '' @ na_service a) (na_environment a) (alert_summary a) None None
       ''alertmanager'' ACTOR_SERVICE) (\<lambda>i.
     thenM (seqM [set_incident i (inc_severity_update (\<lambda>_. na_severity a)), notify_critical E a i])
     (returnM i))"

definition new_alert_record :: "normalized_alert \<Rightarrow> uuid option \<Rightarrow> time \<Rightarrow> uuid \<Rightarrow> time \<Rightarrow> alert_record" where
  "new_alert_record a incident now i t =
     \<lparr>alr_id = i, alr_created_at = t, alr_incident_id = incident, alr_source = na_source a,
      alr_fingerprint = na_fingerprint a, alr_payload_digest = na_payload_digest a,
      alr_alert_name = na_alert_name a, alr_status = na_status a, alr_severity = na_severity a,
      alr_service = na_service a, alr_environment = na_environment a, alr_namespace = na_namespace a,
      alr_labels = json_labels (na_labels a), alr_annotations = na_annotations a,
      alr_starts_at = na_starts_at a, alr_ends_at = na_ends_at a, alr_last_received_at = now,
      alr_repeat_count = 1\<rparr>"

definition refresh_alert :: "normalized_alert \<Rightarrow> uuid option \<Rightarrow> time \<Rightarrow> alert_record \<Rightarrow> alert_record" where
  "refresh_alert a incident now r = r
     \<lparr>alr_incident_id := (case incident of None \<Rightarrow> alr_incident_id r | Some i \<Rightarrow> Some i),
      alr_payload_digest := na_payload_digest a, alr_status := na_status a,
      alr_severity := na_severity a, alr_labels := json_labels (na_labels a),
      alr_annotations := na_annotations a, alr_ends_at := na_ends_at a,
      alr_last_received_at := now, alr_repeat_count := alr_repeat_count r + 1\<rparr>"

definition store_alert :: "'w env \<Rightarrow> normalized_alert \<Rightarrow> alert_record option \<Rightarrow> uuid option \<Rightarrow> ('w, uuid) H" where
  "store_alert E a existing incident =
     bindM (utc_now E) (\<lambda>now.
     case existing of
       None \<Rightarrow> insert_row E db_alert_records_update alert_record_ok (new_alert_record a incident now)
     | Some r \<Rightarrow> thenM (set_alert (alr_id r) (refresh_alert a incident now)) (returnM (alr_id r)))"

definition note_alert :: "'w env \<Rightarrow> normalized_alert \<Rightarrow> string \<Rightarrow> uuid \<Rightarrow> uuid \<Rightarrow> ('w, unit) H" where
  "note_alert E a correlation_id alert_id i =
     (let event_type = (if na_status a = ALERT_FIRING then ''ALERT_RECEIVED'' else ''ALERT_RESOLVED'');
          details = [(''alert_id'', JStr (uuid_str alert_id)), (''alert_name'', JStr (na_alert_name a)),
            (''fingerprint'', JStr (na_fingerprint a)), (''service'', JStr (na_service a)),
            (''status'', JStr (alert_status_value (na_status a)))] in
      bindM (load_incident i) (\<lambda>inc. seqM
        [add_incident_event E i correlation_id event_type (Some (inc_state inc)) (Some (inc_state inc))
           ''alertmanager'' ACTOR_SERVICE details,
         voidM (record_audit E ((audit_args event_type correlation_id ''SUCCEEDED'')
           \<lparr>aa_incident_id := Some i, aa_actor := ''alertmanager'', aa_actor_type := ACTOR_SERVICE,
            aa_metadata := details\<rparr>))]))"

definition needs_incident :: "normalized_alert \<Rightarrow> incident option \<Rightarrow> bool" where
  "needs_incident a linked \<longleftrightarrow> na_status a = ALERT_FIRING \<and>
     (case linked of None \<Rightarrow> True | Some inc \<Rightarrow> inc_state inc \<in> TERMINAL_STATES)"

definition correlate_alert :: "'w env \<Rightarrow> normalized_alert \<Rightarrow> string \<Rightarrow> alert_record option \<Rightarrow>
    ('w, alert_ingestion_result) H" where
  "correlate_alert E a correlation_id existing =
     bindM (linked_incident existing) (\<lambda>linked.
     bindM (if needs_incident a linked then bindM (open_alert_incident E a correlation_id) (\<lambda>i. returnM (Some i))
            else returnM (map_option inc_id linked)) (\<lambda>incident.
     bindM (store_alert E a existing incident) (\<lambda>alert_id.
     thenM (case incident of None \<Rightarrow> returnM () | Some i \<Rightarrow> note_alert E a correlation_id alert_id i)
     (returnM \<lparr>ar_alert_id = alert_id, ar_incident_id = incident, ar_duplicate = False,
        ar_created_incident = needs_incident a linked, ar_status = na_status a\<rparr>))))"

definition ingest_one :: "'w env \<Rightarrow> string \<Rightarrow> normalized_alert \<Rightarrow> ('w, alert_ingestion_result) H" where
  "ingest_one E correlation_id a =
     bindM (find_alert a) (\<lambda>existing.
     case existing of
       Some r \<Rightarrow> (if alr_payload_digest r = na_payload_digest a then deduplicate_alert E a correlation_id r
                  else correlate_alert E a correlation_id existing)
     | None \<Rightarrow> correlate_alert E a correlation_id existing)"

definition ingest_alerts :: "'w env \<Rightarrow> normalized_alert list \<Rightarrow> string \<Rightarrow> ('w, alert_ingestion_result list) H" where
  "ingest_alerts E alerts correlation_id = mapM (ingest_one E correlation_id) alerts"

section \<open>Invariants that ignore the outboxes\<close>

text \<open>
  An invariant of the session that says nothing about the audit trail, the stream and the outbox is
  kept by everything that only writes there. \<open>quiet\<close> names the database updates the invariant does
  not notice.
\<close>

locale ambient_invariant =
  fixes I :: "'w sys \<Rightarrow> bool" and quiet :: "(database \<Rightarrow> database) \<Rightarrow> bool"
  assumes world: "I s \<Longrightarrow> I (s\<lparr>sy_world := w\<rparr>)"
    and fresh: "I s \<Longrightarrow> I (s\<lparr>sy_next := Suc (sy_next s)\<rparr>)"
    and log: "I s \<Longrightarrow> I (s\<lparr>sy_trace := tr\<rparr>)"
    and quiet_update: "quiet h \<Longrightarrow> I s \<Longrightarrow> I (s\<lparr>sy_db := h (sy_db s)\<rparr>)"
    and quiet_outbox: "quiet (db_audit_events_update f1)" "quiet (db_stream_events_update f2)"
      "quiet (db_notifications_update f3)"
begin

lemma inv_prims:
  "preserves I (worldM g)" "preserves I (utc_now E)" "preserves I fresh_id" "preserves I (logM e)"
  "preserves I (dbM k)"
  by (auto simp: preserves_wp wp_simps intro: world fresh log)

lemma inv_updM: "quiet h \<Longrightarrow> preserves I (updM h)"
  by (simp add: preserves_wp wp_updM quiet_update)

lemma inv_insert_row: "(\<And>f. quiet (set_rows f)) \<Longrightarrow> preserves I (insert_row E set_rows ok mk)"
  unfolding insert_row_def by (intro inv_rules inv_prims inv_updM)

lemma inv_record_audit: "preserves I (record_audit E a)"
  unfolding record_audit_def by (intro inv_insert_row quiet_outbox)

lemma inv_append_stream_event: "preserves I (append_stream_event E ty i p)"
  unfolding append_stream_event_def by (intro inv_insert_row quiet_outbox)

lemma inv_queue_incident_notification: "preserves I (queue_incident_notification E ty inc d pub)"
  unfolding queue_incident_notification_def queue_notification_def queue_channel_def
  by (intro inv_rules inv_prims inv_insert_row inv_record_audit quiet_outbox)

end

text \<open>One alert record per source and fingerprint, with keys that were handed out once.\<close>

definition alert_key :: "alert_record \<Rightarrow> string \<times> string" where
  "alert_key r = (alr_source r, alr_fingerprint r)"

definition alert_inv :: "'w sys \<Rightarrow> bool" where
  "alert_inv s \<longleftrightarrow> (let rows = db_alert_records (sy_db s) in
     distinct (map alert_key rows) \<and> distinct (map alr_id rows) \<and> (\<forall>r \<in> set rows. alr_id r < sy_next s))"

interpretation alerts: ambient_invariant alert_inv "\<lambda>h. \<forall>d. db_alert_records (h d) = db_alert_records d"
  by unfold_locales (auto simp: alert_inv_def Let_def less_Suc_eq)

interpretation event_log: ambient_invariant log_inv
  "\<lambda>h. \<forall>d. db_incidents (h d) = db_incidents d \<and> db_incident_events (h d) = db_incident_events d"
  by unfold_locales (auto simp: log_inv_def log_consistent_def keys_bounded_def events_of_def less_Suc_eq)

lemma keeps_alerts_create_incident [frame]:
  "keeps (\<lambda>s. db_alert_records (sy_db s)) (create_incident E c ty ti v su sid cid a aty)"
  unfolding create_incident_def add_incident_event_def add_active_def
  by (intro frame keeps_db_insert_row keeps_modifyM) simp_all

lemma alert_inv_incident_ops [inv_rules]:
  "preserves alert_inv (create_incident E c ty ti v su sid cid a aty)"
  "preserves alert_inv (set_incident i f)"
  "preserves alert_inv (add_incident_event E i c ty fs ts a aty ds)"
  "preserves alert_inv (load_row rows key i)"
  unfolding create_incident_def set_incident_def add_incident_event_def add_active_def load_row_def
  by (intro inv_rules alerts.inv_prims alerts.inv_updM alerts.inv_insert_row alerts.inv_append_stream_event
      alerts.inv_record_audit preserves_modifyM; simp add: alert_inv_def)+

section \<open>Steps\<close>

lemma filter_same_alert:
  assumes "alert_inv s"
  shows "filter (same_alert a) (db_alert_records (sy_db s)) =
    (case find (same_alert a) (db_alert_records (sy_db s)) of None \<Rightarrow> [] | Some r \<Rightarrow> [r])"
  by (rule filter_unique [of alert_key _ _ "(na_source a, na_fingerprint a)"])
    (use assms in \<open>auto simp: alert_inv_def Let_def same_alert_def alert_key_def\<close>)

lemma wp_find_alert:
  assumes "alert_inv s"
  shows "wp (find_alert a) Q X s = Q (find (same_alert a) (db_alert_records (sy_db s))) s"
  by (simp add: find_alert_def wp_simps filter_same_alert [OF assms] split: option.splits)

lemma create_incident_post:
  "wp (create_incident E c ty ti v su sid cid a aty)
     (\<lambda>i t. \<exists>row. inc_id row = i \<and> i = sy_next s \<and> inc_state row = DETECTED \<and>
        db_incidents (sy_db t) = db_incidents (sy_db s) @ [row] \<and>
        db_alert_records (sy_db t) = db_alert_records (sy_db s)) (\<lambda>_ _. False) s"
  by (simp add: create_incident_def add_active_def add_incident_event_def append_stream_event_def
      wp_simps Let_def case_prod_unfold incident_ok_def no_constraint_def)

lemma find_row_snoc: "\<forall>r \<in> set rows. key r \<noteq> key x \<Longrightarrow> find_row key (key x) (rows @ [x]) = Some x"
  by (induction rows) (auto simp: find_row_def)

lemma keeps_queue_tables [frame]:
  "keeps (\<lambda>s. (db_incidents (sy_db s), db_alert_records (sy_db s))) (queue_incident_notification E ty inc d pub)"
  by (intro frame) simp_all

text \<open>Opening an incident for an alert gives a new live incident, beside all the old ones; only the
  notification of a critical alert can raise.\<close>

lemma open_alert_incident_post:
  assumes "log_inv s"
  shows "wp (open_alert_incident E a c)
    (\<lambda>i t. \<exists>row. inc_id row = i \<and> inc_state row = DETECTED \<and>
       find_row inc_id i (db_incidents (sy_db t)) = Some row \<and>
       length (db_incidents (sy_db t)) = Suc (length (db_incidents (sy_db s))) \<and>
       db_alert_records (sy_db t) = db_alert_records (sy_db s))
    (\<lambda>_ _. py_lower (na_severity a) = ''critical'') s"
proof -
  have new: "\<forall>r \<in> set (db_incidents (sy_db s)). inc_id r \<noteq> sy_next s"
    using assms by (auto simp: log_inv_def keys_bounded_def)
  show ?thesis
    unfolding open_alert_incident_def wp_bindM
  proof (rule wp_mono [OF create_incident_post], goal_cases)
    case (1 i t)
    then obtain row where row: "inc_id row = i" "i = sy_next s" "inc_state row = DETECTED"
      "db_incidents (sy_db t) = db_incidents (sy_db s) @ [row]"
      "db_alert_records (sy_db t) = db_alert_records (sy_db s)" by blast
    with new have found: "find_row inc_id (sy_next s) (db_incidents (sy_db s) @ [row]) = Some row"
      using find_row_snoc [of "db_incidents (sy_db s)" inc_id row] by simp
    have keep: "wp (queue_incident_notification E ty inc d pub)
        (\<lambda>_ u. db_incidents (sy_db u) = db_incidents (sy_db t') \<and>
          db_alert_records (sy_db u) = db_alert_records (sy_db t'))
        (\<lambda>_ u. db_incidents (sy_db u) = db_incidents (sy_db t') \<and>
          db_alert_records (sy_db u) = db_alert_records (sy_db t')) t'" for ty inc d pub and t' :: "'a sys"
      using keeps_wp [OF keeps_queue_tables, of E ty inc d pub t'] by simp
    show ?case
      by (auto simp: wp_simps set_incident_def notify_critical_def find_upd_row found row
          intro!: wp_mono [OF keep])
  qed simp
qed

lemma wp_store_alert_new:
  assumes "find (same_alert a) (db_alert_records (sy_db s)) = None"
  shows "wp (store_alert E a None incident)
    (\<lambda>k t. \<exists>row. filter (same_alert a) (db_alert_records (sy_db t)) = [row] \<and> alr_id row = k \<and>
       alr_payload_digest row = na_payload_digest a \<and> alr_incident_id row = incident \<and>
       db_incidents (sy_db t) = db_incidents (sy_db s)) (\<lambda>_ _. False) s"
  using assms
  by (auto simp: store_alert_def wp_simps Let_def case_prod_unfold alert_record_ok_def new_alert_record_def
      find_None_iff same_alert_def filter_empty_conv)

lemma wp_store_alert_again:
  assumes "alert_inv s" and "find (same_alert a) (db_alert_records (sy_db s)) = Some r"
  shows "wp (store_alert E a (Some r) incident)
    (\<lambda>k t. \<exists>row. filter (same_alert a) (db_alert_records (sy_db t)) = [row] \<and> alr_id row = k \<and>
       alr_payload_digest row = na_payload_digest a \<and>
       (incident = None \<or> alr_incident_id row = incident) \<and>
       db_incidents (sy_db t) = db_incidents (sy_db s)) (\<lambda>_ _. False) s"
proof -
  have same: "same_alert a (refresh_alert a incident now x) = same_alert a x" for now x
    by (simp add: same_alert_def refresh_alert_def)
  have rows: "filter (same_alert a) (db_alert_records (sy_db s)) = [r]"
    using assms by (simp add: filter_same_alert)
  show ?thesis
    by (simp add: store_alert_def set_alert_def wp_simps filter_upd_row same rows)
      (auto simp: upd_row_def refresh_alert_def split: option.splits)
qed

lemma wp_note_alert:
  assumes "find_row inc_id i (db_incidents (sy_db s)) = Some inc"
  shows "wp (note_alert E a c k i)
    (\<lambda>_ t. db_incidents (sy_db t) = db_incidents (sy_db s) \<and>
       db_alert_records (sy_db t) = db_alert_records (sy_db s)) (\<lambda>_ _. False) s"
  using assms by (simp add: note_alert_def add_incident_event_def wp_simps Let_def case_prod_unfold no_constraint_def)

lemma terminal_states_eq: "st \<in> TERMINAL_STATES \<longleftrightarrow> terminal_state st"
  by (simp add: TERMINAL_STATES_def terminal_state_def)

section \<open>Properties\<close>

text \<open>What ingesting one alert leaves behind: exactly one record for its source and fingerprint, with
  the content of the alert, linked to a live incident when the alert is firing and new.\<close>

definition alert_settled :: "normalized_alert \<Rightarrow> 'w sys \<Rightarrow> alert_ingestion_result \<Rightarrow> 'w sys \<Rightarrow> bool" where
  "alert_settled a s r t \<longleftrightarrow>
     (\<exists>row. filter (same_alert a) (db_alert_records (sy_db t)) = [row] \<and> alr_id row = ar_alert_id r \<and>
        alr_payload_digest row = na_payload_digest a \<and>
        (ar_duplicate r \<or> na_status a \<noteq> ALERT_FIRING \<or>
           (\<exists>i inc. alr_incident_id row = Some i \<and> find_row inc_id i (db_incidents (sy_db t)) = Some inc \<and>
              \<not> terminal_state (inc_state inc)))) \<and>
     length (db_incidents (sy_db t)) = length (db_incidents (sy_db s)) + (if ar_created_incident r then 1 else 0) \<and>
     (ar_created_incident r \<longrightarrow> na_status a = ALERT_FIRING \<and> \<not> ar_duplicate r)"

lemma deduplicate_settled:
  assumes "alert_inv s" and "find (same_alert a) (db_alert_records (sy_db s)) = Some r"
    and "alr_payload_digest r = na_payload_digest a"
  shows "wp (deduplicate_alert E a c r) (alert_settled a s) (\<lambda>_ _. False) s"
proof -
  have rows: "filter (same_alert a) (db_alert_records (sy_db s)) = [r]"
    using assms(1,2) by (simp add: filter_same_alert)
  have same: "same_alert a (x\<lparr>alr_last_received_at := now, alr_repeat_count := n\<rparr>) = same_alert a x" for x now n
    by (simp add: same_alert_def)
  show ?thesis
    by (simp add: deduplicate_alert_def set_alert_def wp_simps Let_def case_prod_unfold alert_settled_def
        filter_upd_row same rows) (simp add: upd_row_def assms(3))
qed

lemma wp_store_alert:
  assumes "alert_inv s" and "existing = find (same_alert a) (db_alert_records (sy_db s))"
  shows "wp (store_alert E a existing incident)
    (\<lambda>k t. \<exists>row. filter (same_alert a) (db_alert_records (sy_db t)) = [row] \<and> alr_id row = k \<and>
       alr_payload_digest row = na_payload_digest a \<and>
       (incident = None \<or> alr_incident_id row = incident) \<and>
       db_incidents (sy_db t) = db_incidents (sy_db s)) (\<lambda>_ _. False) s"
proof (cases existing)
  case None
  then show ?thesis
    using assms(2) wp_store_alert_new [of a s E incident] by (auto elim!: wp_mono)
next
  case (Some r)
  then show ?thesis using wp_store_alert_again [OF assms(1)] assms(2) by simp
qed

lemma correlate_finish:
  assumes inv: "alert_inv t" and existing: "existing = find (same_alert a) (db_alert_records (sy_db t))"
    and live: "case incident of None \<Rightarrow> na_status a \<noteq> ALERT_FIRING
      | Some i \<Rightarrow> (\<exists>inc. find_row inc_id i (db_incidents (sy_db t)) = Some inc \<and>
          (na_status a = ALERT_FIRING \<longrightarrow> \<not> terminal_state (inc_state inc)))"
    and count: "length (db_incidents (sy_db t)) = length (db_incidents (sy_db s)) + (if created then 1 else 0)"
      "created \<Longrightarrow> na_status a = ALERT_FIRING"
  shows "wp (bindM (store_alert E a existing incident) (\<lambda>alert_id.
     thenM (case incident of None \<Rightarrow> returnM () | Some i \<Rightarrow> note_alert E a c alert_id i)
     (returnM \<lparr>ar_alert_id = alert_id, ar_incident_id = incident, ar_duplicate = False,
        ar_created_incident = created, ar_status = na_status a\<rparr>))) (alert_settled a s) (\<lambda>_ _. False) t"
  unfolding wp_bindM wp_thenM
proof (rule wp_mono [OF wp_store_alert [OF inv existing]], goal_cases)
  case (1 k u)
  then obtain row where row: "filter (same_alert a) (db_alert_records (sy_db u)) = [row]" "alr_id row = k"
    "alr_payload_digest row = na_payload_digest a" "incident = None \<or> alr_incident_id row = incident"
    "db_incidents (sy_db u) = db_incidents (sy_db t)" by blast
  show ?case
  proof (cases incident)
    case None
    with row live count show ?thesis by (auto simp: alert_settled_def)
  next
    case (Some i)
    then obtain inc where inc: "find_row inc_id i (db_incidents (sy_db u)) = Some inc"
      "na_status a = ALERT_FIRING \<longrightarrow> \<not> terminal_state (inc_state inc)" using live row(5) by auto
    show ?thesis unfolding Some option.case wp_returnM
      by (rule wp_mono [OF wp_note_alert [OF inc(1)]])
        (use Some row inc count in \<open>auto simp: alert_settled_def\<close>)
  qed
qed simp

lemma alert_inv_open [inv_rules]: "preserves alert_inv (open_alert_incident E a c)"
  unfolding open_alert_incident_def notify_critical_def
  by (intro inv_rules alerts.inv_queue_incident_notification)

lemma wp_linked_incident:
  "wp (linked_incident existing) Q X s = Q (Option.bind (Option.bind existing alr_incident_id)
     (\<lambda>i. find_row inc_id i (db_incidents (sy_db s)))) s"
  by (simp add: linked_incident_def wp_simps split: option.splits)

lemma correlate_settled:
  assumes inv: "log_inv s" "alert_inv s"
    and existing: "existing = find (same_alert a) (db_alert_records (sy_db s))"
  shows "wp (correlate_alert E a c existing) (alert_settled a s)
    (\<lambda>_ _. py_lower (na_severity a) = ''critical'') s"
proof -
  define linked where "linked = Option.bind (Option.bind existing alr_incident_id)
     (\<lambda>i. find_row inc_id i (db_incidents (sy_db s)))"
  have key: "linked = Some inc \<Longrightarrow> find_row inc_id (inc_id inc) (db_incidents (sy_db s)) = Some inc" for inc
    by (auto simp: linked_def bind_eq_Some_conv dest: find_row_key)
  show ?thesis
  proof (cases "needs_incident a linked")
    case True
    then have firing: "na_status a = ALERT_FIRING" by (simp add: needs_incident_def)
    show ?thesis
      unfolding correlate_alert_def wp_bindM [of "linked_incident existing"] wp_linked_incident
        linked_def [symmetric] if_P [OF True] True
      unfolding wp_bindM [of "bindM _ _"] wp_bindM [of "open_alert_incident E a c"] wp_returnM
    proof (rule wp_mono [OF wp_conj [OF open_alert_incident_post [OF inv(1)]
        preservesD [OF alert_inv_open inv(2)]]], goal_cases)
      case (1 i t)
      then show ?case
        by (intro wp_mono [OF correlate_finish [where s = s]])
          (auto simp: True existing firing terminal_state_def)
    qed simp
  next
    case False
    show ?thesis
      unfolding correlate_alert_def wp_bindM [of "linked_incident existing"] wp_linked_incident
        linked_def [symmetric] if_not_P [OF False] wp_bindM [of "returnM _"] wp_returnM
      by (rule wp_mono [OF correlate_finish [where s = s]])
        (use False inv existing key in \<open>auto simp: needs_incident_def terminal_states_eq split: option.splits\<close>)
  qed
qed

lemma ingest_one_settled:
  assumes "log_inv s" and "alert_inv s"
  shows "wp (ingest_one E c a) (alert_settled a s) (\<lambda>_ _. py_lower (na_severity a) = ''critical'') s"
proof (cases "find (same_alert a) (db_alert_records (sy_db s))")
  case None
  then show ?thesis
    using correlate_settled [OF assms, of None a] by (simp add: ingest_one_def wp_bindM wp_find_alert [OF assms(2)])
next
  case (Some r)
  have repeated: "wp (deduplicate_alert E a c r) (alert_settled a s)
      (\<lambda>_ _. py_lower (na_severity a) = ''critical'') s" if "alr_payload_digest r = na_payload_digest a"
    by (rule wp_mono [OF deduplicate_settled [OF assms(2) Some that]]) simp_all
  with Some show ?thesis
    using correlate_settled [OF assms, of "Some r" a]
    by (simp add: ingest_one_def wp_bindM wp_find_alert [OF assms(2)])
qed


definition demo_wire_alert :: alertmanager_alert where
  "demo_wire_alert = \<lparr>am_status = ALERT_FIRING, am_labels = [(''alertname'', ''HighCPUSaturation''),
     (''service'', ''demo'')], am_annotations = [], am_startsAt = 0, am_endsAt = None, am_generatorURL = [],
     am_fingerprint = None\<rparr>"

lemma demo_severity: "py_lower (na_severity (from_alertmanager demo_wire_alert)) \<noteq> ''critical''"
proof -
  have "na_severity (from_alertmanager demo_wire_alert) = ''warning''"
    by (simp add: from_alertmanager_def demo_wire_alert_def label_or_def dict_get_def Let_def)
  moreover have "py_lower ''warning'' \<noteq> ''critical''" by code_simp
  ultimately show ?thesis by simp
qed

lemma demo_sys_alert_inv: "alert_inv demo_sys" "log_inv demo_sys"
  by (simp_all add: alert_inv_def log_inv_def log_consistent_def keys_bounded_def demo_sys_def
      empty_database_def)


subsection \<open>What ingestion preserves\<close>

lemma alert_inv_set_alert:
  assumes "\<And>r. alr_id (f r) = alr_id r" and "\<And>r. alert_key (f r) = alert_key r"
  shows "preserves alert_inv (set_alert i f)"
proof -
  have "map alr_id (upd_row alr_id i f rows) = map alr_id rows"
    "map alert_key (upd_row alr_id i f rows) = map alert_key rows" for rows
    by (simp_all add: upd_row_def assms)
  then show ?thesis
    by (auto simp: preserves_wp set_alert_def wp_updM alert_inv_def Let_def assms dest!: upd_row_mem split: if_splits)
qed

lemma alert_inv_store [inv_rules]: "preserves alert_inv (store_alert E a existing incident)"
proof -
  have "preserves alert_inv (insert_row E db_alert_records_update alert_record_ok (new_alert_record a incident t))" for t
    by (auto simp: preserves_wp wp_insert_row Let_def case_prod_unfold alert_inv_def alert_record_ok_def
        new_alert_record_def alert_key_def less_Suc_eq)
  then show ?thesis
    unfolding store_alert_def
    by (intro inv_rules alerts.inv_prims alert_inv_set_alert)
      (simp_all add: refresh_alert_def alert_key_def)
qed

lemma alert_inv_ingest_one [inv_rules]: "preserves alert_inv (ingest_one E c a)"
  unfolding ingest_one_def find_alert_def deduplicate_alert_def correlate_alert_def linked_incident_def
    note_alert_def
  by (intro inv_rules alerts.inv_prims alerts.inv_record_audit alert_inv_set_alert)
    (simp_all add: alert_key_def)

lemma log_inv_ingest_one [inv_rules]: "preserves log_inv (ingest_one E c a)"
  unfolding ingest_one_def find_alert_def deduplicate_alert_def correlate_alert_def linked_incident_def
    note_alert_def store_alert_def set_alert_def open_alert_incident_def notify_critical_def
  by (intro inv_rules log_inv_updM log_inv_insert_row log_inv_set_incident log_inv_note_event)
    simp_all

text \<open>C39. Ingestion keeps the books: a batch of alerts, whatever it contains and however it ends, leaves
  at most one record per source and fingerprint and the event log of every incident replaying to its
  state.\<close>

theorem ingestion_keeps_invariants:
  "preserves alert_inv (ingest_alerts E alerts c) \<and> preserves log_inv (ingest_alerts E alerts c)"
  unfolding ingest_alerts_def by (intro conjI inv_rules)



section \<open>Normalised alerts\<close>

lemma redact_dict_masked: "secrets_masked (JObj (redact_dict d))"
proof -
  have "redact (JObj d) = JObj (redact_dict d)"
    by (simp add: redact_dict_def redact_def redact_untrusted.simps [of 0] MAX_REDACTION_DEPTH_def)
  then show ?thesis using redact_untrusted_masked [of 0 "JObj d"] by (simp add: redact_def)
qed

text \<open>A normalised alert fits its record and groups by its stable labels: whatever labels and
  annotations arrive, names, severity, service and namespace are within the column bounds, the service
  is never empty, both hashes have 64 digits, and no value under a sensitive annotation key is kept;
  two alerts that agree on the six stable labels get the same fingerprint, whatever else they carry.\<close>

theorem normalized_alert_well_formed:
  "(let n = from_alertmanager a in
      length (na_alert_name n) \<le> 128 \<and> length (na_severity n) \<le> 16 \<and>
      1 \<le> length (na_service n) \<and> length (na_service n) \<le> 255 \<and> opt_max 253 (na_namespace n) \<and>
      length (na_fingerprint n) = 64 \<and> length (na_payload_digest n) = 64 \<and>
      secrets_masked (JObj (na_annotations n))) \<and>
   (map (dict_get (am_labels a)) STABLE_LABELS = map (dict_get (am_labels b)) STABLE_LABELS \<longrightarrow>
      na_fingerprint (from_alertmanager a) = na_fingerprint (from_alertmanager b))"
proof
  have "take 255 (alert_service d) \<noteq> []" for d by (simp add: alert_service_def)
  then have "1 \<le> length (take 255 (alert_service d))" for d by (metis One_nat_def Suc_leI length_greater_0_conv)
  then show "let n = from_alertmanager a in
      length (na_alert_name n) \<le> 128 \<and> length (na_severity n) \<le> 16 \<and>
      1 \<le> length (na_service n) \<and> length (na_service n) \<le> 255 \<and> opt_max 253 (na_namespace n) \<and>
      length (na_fingerprint n) = 64 \<and> length (na_payload_digest n) = 64 \<and>
      secrets_masked (JObj (na_annotations n))"
    by (simp add: from_alertmanager_def Let_def opt_max_def redact_dict_masked del: secrets_masked.simps
        split: option.splits)
  show "map (dict_get (am_labels a)) STABLE_LABELS = map (dict_get (am_labels b)) STABLE_LABELS \<longrightarrow>
      na_fingerprint (from_alertmanager a) = na_fingerprint (from_alertmanager b)"
    by (simp add: from_alertmanager_def Let_def stable_text_def label_or_def STABLE_LABELS_def)
qed

theorem normalized_alert_well_formed_witness:
  "na_fingerprint (from_alertmanager demo_wire_alert) =
     na_fingerprint (from_alertmanager (demo_wire_alert\<lparr>am_annotations := [(''summary'', ''x'')]\<rparr>))"
  using normalized_alert_well_formed [of demo_wire_alert "demo_wire_alert\<lparr>am_annotations := [(''summary'', ''x'')]\<rparr>"]
  by simp

end
