(* ===== verification/CW_Security.thy ===== *)
theory CW_Security
  imports CW_Alerts CW_Execution
begin

text \<open>
  Runtime-security events (\<open>security/schemas.py\<close>, \<open>security/normalization.py\<close>,
  \<open>security/service.py\<close>): the allowlisted schema of a Tetragon event, its redacted payload and its
  fingerprint, and \<open>ingest_security_event\<close>, which opens an incident for a new event, proposes the
  quarantine of its pod and asks the policy engine about it. Nothing is executed here.

  The wire types are given as their typed values; JSON decoding and the parsing of dates are the web
  framework's. Dates are UTC.
\<close>

section \<open>The schema\<close>

record process_details =
  prd_binary :: string
  prd_parent_binary :: "string option"

datatype network_protocol = PROTO_TCP | PROTO_UDP

fun network_protocol_value :: "network_protocol \<Rightarrow> string" where
  "network_protocol_value PROTO_TCP = ''tcp''"
| "network_protocol_value PROTO_UDP = ''udp''"

record network_details =
  nwd_destination_host :: string
  nwd_destination_port :: int
  nwd_protocol :: network_protocol

record tetragon_security_event =
  tse_source :: string
  tse_event_type :: security_category
  tse_severity :: string
  tse_environment :: environment
  tse_namespace :: string
  tse_pod :: string
  tse_workload :: "string option"
  tse_container :: string
  tse_process :: "process_details option"
  tse_network :: "network_details option"
  tse_policy :: string
  tse_timestamp :: time
  tse_evidence_ref :: string
  tse_workload_labels :: labels
  tse_secrets_or_data_exposure :: bool

definition process_details_valid :: "process_details \<Rightarrow> bool" where
  "process_details_valid p \<longleftrightarrow> str_bounds 1 512 (prd_binary p) \<and> opt_max 512 (prd_parent_binary p)"

definition network_details_valid :: "network_details \<Rightarrow> bool" where
  "network_details_valid n \<longleftrightarrow> str_bounds 1 253 (nwd_destination_host n) \<and>
     1 \<le> nwd_destination_port n \<and> nwd_destination_port n \<le> 65535"

text \<open>\<^verbatim>\<open>^tetragon:[A-Za-z0-9._:/-]{1,500}$\<close>.\<close>

definition evidence_reference :: "string \<Rightarrow> bool" where
  "evidence_reference v \<longleftrightarrow> py_startswith v ''tetragon:'' \<and>
     (let rest = drop (length ''tetragon:'') v in
      1 \<le> length rest \<and> length rest \<le> 500 \<and> (\<forall>c \<in> set rest. is_alnum_char c \<or> c \<in> set ''._:/-''))"

definition ALLOWED_LABELS :: "string list" where
  "ALLOWED_LABELS = [''cloudward.io/demo-target'', ''cloudward.io/environment'',
     ''cloudward.io/criticality'', ''app.kubernetes.io/name'']"

definition workload_labels_valid :: "labels \<Rightarrow> bool" where
  "workload_labels_valid d \<longleftrightarrow> distinct (map fst d) \<and> length d \<le> 12 \<and>
     list_all (\<lambda>(k, v). k \<in> set ALLOWED_LABELS \<and> length k \<le> 128 \<and> length v \<le> 128) d"

definition EXPECTED_CATEGORY :: "(string \<times> security_category) list" where
  "EXPECTED_CATEGORY =
     [(''cloudward-s1-unexpected-shell'', SUSPICIOUS_PROCESS),
      (''cloudward-s2-unexpected-egress'', UNEXPECTED_EGRESS),
      (''cloudward-s3-privilege-attempt'', PRIVILEGE_BEHAVIOR)]"

definition opt_all :: "('a \<Rightarrow> bool) \<Rightarrow> 'a option \<Rightarrow> bool" where
  "opt_all P v = (case v of None \<Rightarrow> True | Some x \<Rightarrow> P x)"

definition tetragon_event_fields_valid :: "tetragon_security_event \<Rightarrow> bool" where
  "tetragon_event_fields_valid v \<longleftrightarrow>
     tse_source v = ''tetragon'' \<and> tse_severity v \<in> {''info'', ''warning'', ''high'', ''critical''} \<and>
     str_bounds 1 253 (tse_namespace v) \<and> dns_label (tse_namespace v) \<and>
     str_bounds 1 253 (tse_pod v) \<and> dns_label (tse_pod v) \<and>
     opt_max 253 (tse_workload v) \<and> opt_all dns_label (tse_workload v) \<and>
     str_bounds 1 253 (tse_container v) \<and> dns_label (tse_container v) \<and>
     opt_all process_details_valid (tse_process v) \<and> opt_all network_details_valid (tse_network v) \<and>
     str_bounds 1 253 (tse_policy v) \<and>
     str_bounds 1 512 (tse_evidence_ref v) \<and> evidence_reference (tse_evidence_ref v) \<and>
     workload_labels_valid (tse_workload_labels v)"

definition category_matches_policy_and_evidence :: "tetragon_security_event \<Rightarrow> bool" where
  "category_matches_policy_and_evidence v \<longleftrightarrow>
     dict_get EXPECTED_CATEGORY (tse_policy v) = Some (tse_event_type v) \<and>
     tse_namespace v = ''cloudward-staging'' \<and> tse_environment v = ENV_STAGING \<and>
     dict_get (tse_workload_labels v) DEMO_TARGET_LABEL = Some ''true'' \<and>
     (tse_event_type v = UNEXPECTED_EGRESS \<longrightarrow> tse_network v \<noteq> None) \<and>
     (tse_event_type v \<noteq> UNEXPECTED_EGRESS \<longrightarrow> tse_process v \<noteq> None)"

definition tetragon_event_valid :: "tetragon_security_event \<Rightarrow> bool" where
  "tetragon_event_valid v \<longleftrightarrow>
     tetragon_event_fields_valid v \<and> category_matches_policy_and_evidence v"

section \<open>Normalisation\<close>

definition process_details_json :: "process_details \<Rightarrow> json" where
  "process_details_json p = JObj [(''binary'', JStr (prd_binary p)),
     (''parent_binary'', jstr_opt (prd_parent_binary p))]"

definition network_details_json :: "network_details \<Rightarrow> json" where
  "network_details_json n = JObj [(''destination_host'', JStr (nwd_destination_host n)),
     (''destination_port'', JInt (nwd_destination_port n)),
     (''protocol'', JStr (network_protocol_value (nwd_protocol n)))]"

definition rkey_kind :: re where
  "rkey_kind = RStar (RPred (\<lambda>c. is_upper_char c \<or> c = CHR '' ''))"

definition SECRET_PATTERNS :: "re list" where
  "SECRET_PATTERNS =
     [rseqs [RWordB, ralts [rlit_ci ''bearer'', rlit_ci ''basic''], rplus rspace,
        rplus (rword ''._~+/=-'')],
      rseqs [ralts [rlit_ci ''password'', rlit_ci ''passwd'', rlit_ci ''token'', rlit_ci ''secret'',
          rseqs [rlit_ci ''api'', ropt (RPred (\<lambda>c. c \<in> set ''_-'')), rlit_ci ''key'']],
        RStar rspace, RPred (\<lambda>c. c \<in> set ''=:''), RStar rspace, rplus (rnot '',;'')],
      rseqs [RWordB, ralts [RSeq (rlit_ci ''postgres'') (ropt (rlit_ci ''ql'')), rlit_ci ''mysql'',
          rlit_ci ''redis'', RSeq (rlit_ci ''mongodb'') (ropt (rlit_ci ''+srv''))], rlit ''://'',
        rplus (rnot [])],
      rseqs [rlit ''-----BEGIN '', rkey_kind, rlit ''PRIVATE KEY-----'', RLazy (RPred (\<lambda>_. True)),
        rlit ''-----END '', rkey_kind, rlit ''PRIVATE KEY-----'']]"

definition mask_secrets :: "string \<Rightarrow> string" where
  "mask_secrets s = fold (\<lambda>p t. rsub REps p (None, t)) SECRET_PATTERNS s"

text \<open>Redaction never makes a value deeper, so the recursion below ends.\<close>

lemma fold_max_ge: "a \<le> fold max xs a \<and> (\<forall>x \<in> set xs. x \<le> fold max xs (a :: nat))"
proof (induction xs arbitrary: a)
  case (Cons x xs)
  from Cons [of "max x a"] show ?case by (auto intro: order_trans)
qed simp

lemma json_depth_child:
  "x \<in> set xs \<Longrightarrow> json_depth x < json_depth (JList xs)"
  "(k, x) \<in> set kvs \<Longrightarrow> json_depth x < json_depth (JObj kvs)"
  using fold_max_ge [of 0 "map json_depth xs"] fold_max_ge [of 0 "map (\<lambda>(k, x). json_depth x) kvs"]
  by (fastforce simp: less_Suc_eq_le)+

lemma redact_untrusted_shallower: "json_depth (redact_untrusted d v) \<le> json_depth v"
proof (induction d v rule: redact_untrusted.induct)
  case (1 d v)
  show ?case
  proof (cases "MAX_REDACTION_DEPTH \<le> d")
    case True
    then show ?thesis by (subst redact_untrusted.simps) (simp add: TRUNCATED_DEPTH_def)
  next
    case False
    show ?thesis
    proof (cases v)
      case (JList xs)
      have "json_depth (redact_untrusted (Suc d) x) \<le> fold max (map json_depth xs) 0" if "x \<in> set xs" for x
        using "1.IH"(1) [OF False JList that] json_depth_child(1) [OF that] by simp
      with JList False show ?thesis by (subst redact_untrusted.simps) (auto intro!: fold_max_le)
    next
      case (JObj kvs)
      have "json_depth (redact_untrusted (Suc d) x) \<le> fold max (map (\<lambda>(k, x). json_depth x) kvs) 0"
        if "(k, x) \<in> set kvs" and "\<not> sensitive_key k" for k x
        using "1.IH"(2) [OF False JObj that(1) refl that(2)] json_depth_child(2) [OF that(1)] by simp
      with JObj False show ?thesis by (subst redact_untrusted.simps) (auto intro!: fold_max_le)
    qed (subst redact_untrusted.simps, simp add: False)+
  qed
qed

function redact_security_value :: "json \<Rightarrow> json" where
  "redact_security_value v =
     (case redact v of
        JStr s \<Rightarrow> JStr (mask_secrets s)
      | JObj kvs \<Rightarrow> JObj (map (\<lambda>(k, x). (k, redact_security_value x)) kvs)
      | JList xs \<Rightarrow> JList (map redact_security_value xs)
      | r \<Rightarrow> r)"
  by pat_completeness auto
termination
proof (relation "measure json_depth")
  show "((x, v) \<in> measure json_depth)" if "redact v = JList xs" and "x \<in> set xs" for v xs x
    using that json_depth_child(1) redact_untrusted_shallower [of 0 v]
    by (metis in_measure order_less_le_trans redact_def)
  show "((x, v) \<in> measure json_depth)"
    if "redact v = JObj kvs" and "kv \<in> set kvs" and "(k, x) = kv" for v kvs kv k x
    using that json_depth_child(2) redact_untrusted_shallower [of 0 v]
    by (metis in_measure order_less_le_trans redact_def)
qed simp

declare redact_security_value.simps [simp del]

definition raw_payload :: "tetragon_security_event \<Rightarrow> json" where
  "raw_payload v = JObj
     [(''process'', jopt process_details_json (tse_process v)),
      (''network'', jopt network_details_json (tse_network v)),
      (''workload_labels'', JObj (json_labels (tse_workload_labels v))),
      (''secrets_or_data_exposure'', JBool (tse_secrets_or_data_exposure v))]"

definition normalized_payload :: "tetragon_security_event \<Rightarrow> jdict" where
  "normalized_payload v = (case redact_security_value (raw_payload v) of JObj d \<Rightarrow> d | _ \<Rightarrow> [])"

text \<open>\<open>int\<close> of a timestamp drops the fraction towards zero.\<close>

definition int_seconds :: "time \<Rightarrow> int" where
  "int_seconds t = (if 0 \<le> t then t div 1000000 else - ((- t) div 1000000))"

definition canonical_event :: "tetragon_security_event \<Rightarrow> int \<Rightarrow> json" where
  "canonical_event v bucket = JObj
     [(''source'', JStr (tse_source v)),
      (''event_type'', JStr (security_category_value (tse_event_type v))),
      (''namespace'', JStr (tse_namespace v)), (''pod'', JStr (tse_pod v)),
      (''container'', JStr (tse_container v)), (''policy'', JStr (tse_policy v)),
      (''process'', jopt process_details_json (tse_process v)),
      (''network'', jopt network_details_json (tse_network v)), (''bucket'', JInt bucket)]"

definition event_fingerprint :: "tetragon_security_event \<Rightarrow> int \<Rightarrow> string" where
  "event_fingerprint v window_seconds =
     sha256_hex (json_dumps (canonical_event v (int_seconds (tse_timestamp v) div window_seconds)))"

section \<open>Reading an event back\<close>

text \<open>\<open>ProcessDetails.model_validate\<close> and \<open>NetworkDetails.model_validate\<close> of a stored payload; extra keys
  are refused.\<close>

definition keys_within :: "jdict \<Rightarrow> string list \<Rightarrow> bool" where
  "keys_within d ks = list_all (\<lambda>(k, _). k \<in> set ks) d"

definition process_details_validate :: "json \<Rightarrow> exn + process_details" where
  "process_details_validate v =
     (case v of
        JObj d \<Rightarrow>
          (case (dict_get d ''binary'', parse_opt_str (dict_get d ''parent_binary'')) of
             (Some (JStr b), Some pb) \<Rightarrow>
               (let p = \<lparr>prd_binary = b, prd_parent_binary = pb\<rparr> in
                if keys_within d [''binary'', ''parent_binary''] \<and> process_details_valid p then Inr p
                else Inl validation_error)
           | _ \<Rightarrow> Inl validation_error)
      | _ \<Rightarrow> Inl validation_error)"

definition parse_protocol :: "json option \<Rightarrow> network_protocol option" where
  "parse_protocol v =
     (case v of None \<Rightarrow> Some PROTO_TCP
      | Some j \<Rightarrow> (if j = JStr ''tcp'' then Some PROTO_TCP else if j = JStr ''udp'' then Some PROTO_UDP
          else None))"

definition network_details_validate :: "json \<Rightarrow> exn + network_details" where
  "network_details_validate v =
     (case v of
        JObj d \<Rightarrow>
          (case (dict_get d ''destination_host'',
                 Option.bind (dict_get d ''destination_port'') parse_int,
                 parse_protocol (dict_get d ''protocol'')) of
             (Some (JStr h), Some n, Some pr) \<Rightarrow>
               (let x = \<lparr>nwd_destination_host = h, nwd_destination_port = n, nwd_protocol = pr\<rparr> in
                if keys_within d [''destination_host'', ''destination_port'', ''protocol''] \<and>
                   network_details_valid x then Inr x
                else Inl validation_error)
           | _ \<Rightarrow> Inl validation_error)
      | _ \<Rightarrow> Inl validation_error)"

record security_event_response =
  ser_id :: uuid
  ser_event_type :: security_category
  ser_severity :: string
  ser_environment :: environment
  ser_namespace :: string
  ser_pod :: string
  ser_workload :: "string option"
  ser_container :: string
  ser_policy :: string
  ser_evidence_ref :: string
  ser_incident_id :: "uuid option"
  ser_containment_status :: containment_status
  ser_risk_score :: "int option"
  ser_policy_decision :: "string option"
  ser_occurred_at :: time
  ser_last_seen_at :: time
  ser_dedup_count :: int
  ser_process :: "process_details option"
  ser_network :: "network_details option"

definition validate_if_present :: "(json \<Rightarrow> exn + 'a) \<Rightarrow> json \<Rightarrow> exn + 'a option" where
  "validate_if_present f v = (if py_truth v then map_sum id Some (f v) else Inr None)"

definition to_security_event_response :: "security_event \<Rightarrow> exn + security_event_response" where
  "to_security_event_response r =
     (case validate_if_present process_details_validate (jget (sev_payload r) ''process'') of
        Inl e \<Rightarrow> Inl e
      | Inr pd \<Rightarrow>
     (case validate_if_present network_details_validate (jget (sev_payload r) ''network'') of
        Inl e \<Rightarrow> Inl e
      | Inr nd \<Rightarrow> Inr
          \<lparr>ser_id = sev_id r, ser_event_type = sev_event_type r, ser_severity = sev_severity r,
           ser_environment = sev_environment r, ser_namespace = sev_namespace r, ser_pod = sev_pod r,
           ser_workload = sev_workload r, ser_container = sev_container_name r,
           ser_policy = sev_policy r, ser_evidence_ref = sev_evidence_ref r,
           ser_incident_id = sev_incident_id r, ser_containment_status = sev_containment_status r,
           ser_risk_score = sev_risk_score r, ser_policy_decision = sev_policy_decision r,
           ser_occurred_at = sev_occurred_at r, ser_last_seen_at = sev_last_seen_at r,
           ser_dedup_count = sev_dedup_count r, ser_process = pd, ser_network = nd\<rparr>))"

section \<open>Ingestion\<close>

fun security_title :: "security_category \<Rightarrow> string" where
  "security_title SUSPICIOUS_PROCESS = ''Unexpected shell process detected''"
| "security_title UNEXPECTED_EGRESS = ''Unexpected internal egress detected''"
| "security_title PRIVILEGE_BEHAVIOR = ''Privilege-related behavior detected''"

definition security_incident_title :: "tetragon_security_event \<Rightarrow> string" where
  "security_incident_title v = security_title (tse_event_type v) @ '' '' @ [CHR 0xB7] @ '' '' @ tse_pod v"

fun security_runbook_id :: "security_category \<Rightarrow> string" where
  "security_runbook_id SUSPICIOUS_PROCESS = ''security.suspicious-shell-pattern''"
| "security_runbook_id UNEXPECTED_EGRESS = ''security.unexpected-egress''"
| "security_runbook_id PRIVILEGE_BEHAVIOR = ''security.privilege-related-behavior''"

fun diagnostic_confidence :: "security_category \<Rightarrow> rat" where
  "diagnostic_confidence SUSPICIOUS_PROCESS = 96 / 100"
| "diagnostic_confidence UNEXPECTED_EGRESS = 94 / 100"
| "diagnostic_confidence PRIVILEGE_BEHAVIOR = 95 / 100"

definition CRITICALITY_LABEL :: string where
  "CRITICALITY_LABEL = ''cloudward.io/criticality''"

definition event_sensitivity :: "tetragon_security_event \<Rightarrow> sensitivity" where
  "event_sensitivity v =
     (let criticality = label_or (tse_workload_labels v) CRITICALITY_LABEL ''low'' in
      if tse_event_type v = PRIVILEGE_BEHAVIOR \<or> tse_secrets_or_data_exposure v \<or>
         criticality \<in> {''high'', ''critical''} then SENS_HIGH
      else if tse_event_type v = UNEXPECTED_EGRESS \<or> criticality = ''medium'' then SENS_MODERATE
      else SENS_LOW)"

record security_ingestion_result =
  sir_event :: uuid
  sir_duplicate :: bool

definition set_security_event :: "uuid \<Rightarrow> (security_event \<Rightarrow> security_event) \<Rightarrow> ('w, unit) H" where
  "set_security_event i f = updM (db_security_events_update (upd_row sev_id i f))"

definition same_event :: "string \<Rightarrow> string \<Rightarrow> security_event \<Rightarrow> bool" where
  "same_event source fingerprint r \<longleftrightarrow> sev_source r = source \<and> sev_fingerprint r = fingerprint"

definition one_or_none :: "'r list \<Rightarrow> ('w, 'r option) H" where
  "one_or_none rows =
     (case rows of [] \<Rightarrow> returnM None
      | r # rest \<Rightarrow> (if rest = [] then returnM (Some r) else raiseM (PyError ''MultipleResultsFound'')))"

definition find_security_event :: "string \<Rightarrow> string \<Rightarrow> ('w, security_event option) H" where
  "find_security_event source fingerprint =
     bindM (dbM (\<lambda>d. filter (same_event source fingerprint) (db_security_events d))) one_or_none"

definition deduplicate_event :: "'w env \<Rightarrow> string \<Rightarrow> security_event \<Rightarrow> ('w, security_ingestion_result) H" where
  "deduplicate_event E fingerprint r =
     bindM (utc_now E) (\<lambda>t.
     thenM (seqM
       [set_security_event (sev_id r) (\<lambda>x. x\<lparr>sev_dedup_count := sev_dedup_count x + 1, sev_last_seen_at := t\<rparr>),
        voidM (record_audit E ((audit_args ''SECURITY_EVENT_DEDUPLICATED'' (sev_correlation_id r) ''SUCCEEDED'')
          \<lparr>aa_incident_id := sev_incident_id r, aa_actor := ''tetragon-forwarder'',
           aa_actor_type := ACTOR_SERVICE,
           aa_metadata := [(''fingerprint'', JStr fingerprint),
             (''dedup_count'', JInt (sev_dedup_count r + 1))]\<rparr>))])
     (returnM \<lparr>sir_event = sev_id r, sir_duplicate = True\<rparr>))"

definition security_summary :: "tetragon_security_event \<Rightarrow> string" where
  "security_summary v = ''Tetragon policy '' @ tse_policy v @
     '' detected controlled runtime behavior in '' @ tse_namespace v @ ''/'' @ tse_pod v @ ''.''"

definition workload_or_pod :: "string option \<Rightarrow> string \<Rightarrow> string" where
  "workload_or_pod workload pod = (case workload of None \<Rightarrow> pod | Some w \<Rightarrow> if w = [] then pod else w)"

definition open_security_incident :: "'w env \<Rightarrow> tetragon_security_event \<Rightarrow> string \<Rightarrow> ('w, uuid) H" where
  "open_security_incident E v correlation_id =
     bindM (create_incident E correlation_id
       (''security.'' @ py_lower (security_category_value (tse_event_type v)))
       (security_incident_title v) (tse_environment v) (Some (security_summary v)) None None
       ''tetragon-forwarder'' ACTOR_SERVICE) (\<lambda>i.
     thenM (seqM
       [set_incident i (inc_severity_update (\<lambda>_. tse_severity v)),
        whenM (py_lower (tse_severity v) = ''critical'')
          (bindM (load_incident i) (\<lambda>inc.
           voidM (queue_incident_notification E ''critical_incident_detected'' inc
             [(''service'', JStr (workload_or_pod (tse_workload v) (tse_pod v))),
              (''cause'', JStr (tse_policy v))] True))),
        set_incident i (\<lambda>r. r\<lparr>inc_runbook_id := Some (security_runbook_id (tse_event_type v)),
          inc_runbook_version := Some 1\<rparr>)])
     (returnM i))"

definition new_security_event :: "tetragon_security_event \<Rightarrow> string \<Rightarrow> string \<Rightarrow> uuid \<Rightarrow> time \<Rightarrow> uuid \<Rightarrow> time \<Rightarrow>
    security_event" where
  "new_security_event v correlation_id fingerprint incident now i t =
     \<lparr>sev_id = i, sev_created_at = t, sev_correlation_id = correlation_id,
      sev_incident_id = Some incident, sev_source = tse_source v, sev_fingerprint = fingerprint,
      sev_event_type = tse_event_type v, sev_severity = tse_severity v,
      sev_environment = tse_environment v, sev_namespace = tse_namespace v, sev_pod = tse_pod v,
      sev_workload = tse_workload v, sev_container_name = tse_container v, sev_policy = tse_policy v,
      sev_evidence_ref = tse_evidence_ref v, sev_occurred_at = tse_timestamp v, sev_last_seen_at = now,
      sev_dedup_count = 1, sev_risk_score = None, sev_policy_decision = None,
      sev_containment_status = CS_NOT_PROPOSED, sev_payload = normalized_payload v\<rparr>"

definition sx_audit :: "'w env \<Rightarrow> string \<Rightarrow> uuid \<Rightarrow> string \<Rightarrow> (audit_call \<Rightarrow> audit_call) \<Rightarrow> ('w, unit) H" where
  "sx_audit E correlation_id incident event f = voidM (record_audit E
     (f ((audit_args event correlation_id ''SUCCEEDED'')\<lparr>aa_incident_id := Some incident\<rparr>)))"

definition sx_change :: "'w env \<Rightarrow> uuid \<Rightarrow> incident_state \<Rightarrow> jdict \<Rightarrow> ('w, unit) H" where
  "sx_change E i target details = change_incident_state E i target ''cloudward'' ACTOR_SYSTEM details False"

text \<open>The event row, its audit trail and its evidence, up to \<open>CLASSIFYING\<close>.\<close>

definition store_event :: "'w env \<Rightarrow> tetragon_security_event \<Rightarrow> string \<Rightarrow> string \<Rightarrow> uuid \<Rightarrow> ('w, uuid) H" where
  "store_event E v correlation_id fingerprint i =
     bindM (utc_now E) (\<lambda>now.
     bindM (insert_row E db_security_events_update security_event_ok
       (new_security_event v correlation_id fingerprint i now)) (\<lambda>k.
     thenM (seqM
       [sx_audit E correlation_id i ''TETRAGON_DETECTION_RECEIVED'' (\<lambda>a. a
          \<lparr>aa_actor := ''tetragon-forwarder'', aa_actor_type := ACTOR_SERVICE,
           aa_metadata := [(''event_id'', JStr (uuid_str k)), (''policy'', JStr (tse_policy v))]\<rparr>),
        sx_audit E correlation_id i ''SECURITY_EVENT_NORMALIZED'' (\<lambda>a. a
          \<lparr>aa_actor := ''cloudward-security'',
           aa_metadata := [(''event_type'', JStr (security_category_value (tse_event_type v))),
             (''fingerprint'', JStr fingerprint)]\<rparr>),
        voidM (insert_row E db_evidence_snapshots_update no_constraint
          (\<lambda>e t. \<lparr>evs_id = e, evs_incident_id = i, evs_created_at = t,
             evs_correlation_id = correlation_id, evs_evidence_type = ET_SECURITY_EVENT,
             evs_summary = security_category_value (tse_event_type v) @ '' observed by '' @ tse_policy v @
               '' on '' @ tse_namespace v @ ''/'' @ tse_pod v,
             evs_reference = Some (tse_evidence_ref v), evs_query = None, evs_window_start = None,
             evs_window_end = None, evs_phase = PHASE_INCIDENT,
             evs_payload = dict_merge [(''security_event_id'', JStr (uuid_str k)),
               (''policy'', JStr (tse_policy v)), (''severity'', JStr (tse_severity v))]
               (normalized_payload v),
             evs_collected_by = ''tetragon-forwarder''\<rparr>)),
        sx_change E i COLLECTING_EVIDENCE [],
        sx_change E i CLASSIFYING []])
     (returnM k)))"

definition security_risk_context :: "tetragon_security_event \<Rightarrow> risk_context" where
  "security_risk_context v =
     \<lparr>rc_environment = environment_value (tse_environment v), rc_action = APPLY_QUARANTINE,
      rc_target_count = 1, rc_reversible = Some True,
      rc_confidence = diagnostic_confidence (tse_event_type v),
      rc_sensitivity = event_sensitivity v, rc_destructive_override = False\<rparr>"

definition propose_quarantine :: "'w env \<Rightarrow> tetragon_security_event \<Rightarrow> string \<Rightarrow> uuid \<Rightarrow> uuid \<Rightarrow>
    ('w, risk_result \<times> uuid) H" where
  "propose_quarantine E v correlation_id i k =
     bindM (liftR (mk_risk_context (security_risk_context v))) (\<lambda>ctx.
     bindM (liftR (risk_calculate ctx)) (\<lambda>risk.
     thenM (seqM
       [set_incident i (inc_risk_score_update (\<lambda>_. Some (rr_score risk))),
        sx_audit E correlation_id i ''SECURITY_RISK_CALCULATED'' (\<lambda>a. a
          \<lparr>aa_action := Some (action_value APPLY_QUARANTINE), aa_risk_score := Some (rr_score risk),
           aa_metadata := risk_result_json risk\<rparr>),
        sx_change E i ACTION_PROPOSED []])
     (bindM (insert_row E db_action_proposals_update action_proposal_ok
        (\<lambda>p t. \<lparr>prp_id = p, prp_created_at = t, prp_incident_id = i,
           prp_correlation_id = correlation_id, prp_action_type = APPLY_QUARANTINE,
           prp_parameters = [(''security_event_id'', JStr (uuid_str k)),
             (''namespace'', JStr (tse_namespace v)), (''pod'', JStr (tse_pod v)),
             (''target_count'', JInt 1), (''policy'', JStr ''targeted-cilium-egress-deny'')],
           prp_status = RS_PENDING, prp_risk_score = rr_score risk,
           prp_risk_calculation = risk_result_json risk, prp_proposed_by = ''cloudward-security''\<rparr>))
      (\<lambda>p. thenM (seqM
        [sx_audit E correlation_id i ''QUARANTINE_PROPOSED'' (\<lambda>a. a
           \<lparr>aa_action := Some (action_value APPLY_QUARANTINE), aa_risk_score := Some (rr_score risk),
            aa_metadata := [(''proposal_id'', JStr (uuid_str p)), (''target_pods'', JInt 1)]\<rparr>),
         sx_change E i POLICY_EVALUATION []])
      (returnM (risk, p))))))"

text \<open>\<^verbatim>\<open>dict(payload.get("workload_labels") or {})\<close>, read as the dictionary of strings \<open>TargetInput\<close> needs.\<close>

definition payload_labels :: "jdict \<Rightarrow> exn + labels" where
  "payload_labels payload =
     (case py_or (jget payload ''workload_labels'') (JObj []) of
        JObj kvs \<Rightarrow>
          (if list_all (\<lambda>(_, x). \<exists>s. x = JStr s) kvs
           then Inr (map (\<lambda>(k, x). (k, case x of JStr s \<Rightarrow> s | _ \<Rightarrow> [])) kvs)
           else Inl validation_error)
      | _ \<Rightarrow> Inl (PyError ''TypeError''))"

definition security_policy_input :: "tetragon_security_event \<Rightarrow> labels \<Rightarrow> risk_result \<Rightarrow> policy_input" where
  "security_policy_input v ls risk =
     \<lparr>pi_environment = environment_value (tse_environment v), pi_action = APPLY_QUARANTINE,
      pi_risk_score = rr_score risk, pi_risk_factors = rr_factors risk,
      pi_confidence = diagnostic_confidence (tse_event_type v), pi_blast_radius = 1,
      pi_reversible = True, pi_service_criticality = label_or ls CRITICALITY_LABEL ''low'',
      pi_target = \<lparr>ti_namespace = tse_namespace v, ti_pod_name = tse_pod v, ti_labels = ls,
        ti_controller_managed = True, ti_target_pods = 1\<rparr>,
      pi_approval = no_approval\<rparr>"

definition decision_name :: "policy_result \<Rightarrow> string" where
  "decision_name r = py_str (case dict_get (policy_result_json r) ''decision'' of
     Some x \<Rightarrow> x | None \<Rightarrow> JStr (if pr_allowed r then ''ALLOW'' else ''DENY''))"

text \<open>What follows from the decision: an allowed quarantine waits for an operator, one that needs
  approval waits for it, and any other is rejected.\<close>

definition settle_event :: "'w env \<Rightarrow> uuid \<Rightarrow> uuid \<Rightarrow> uuid \<Rightarrow> policy_result \<Rightarrow> ('w, unit) H" where
  "settle_event E i k p decision =
     (if pr_allowed decision then
        set_security_event k (sev_containment_status_update (\<lambda>_. CS_PROPOSED))
      else if pr_requires_approval decision then seqM
        [set_security_event k (sev_containment_status_update (\<lambda>_. CS_AWAITING_APPROVAL)),
         sx_change E i AWAITING_APPROVAL []]
      else seqM
        [set_proposal p (prp_status_update (\<lambda>_. RS_REJECTED)),
         sx_change E i BLOCKED [(''policy_reason'', JStr (pr_reason decision))]])"

definition decide_quarantine :: "'w env \<Rightarrow> tetragon_security_event \<Rightarrow> string \<Rightarrow> uuid \<Rightarrow> uuid \<Rightarrow> risk_result \<Rightarrow>
    uuid \<Rightarrow> ('w, unit) H" where
  "decide_quarantine E v correlation_id i k risk p =
     bindM (liftR (payload_labels (normalized_payload v))) (\<lambda>ls.
     bindM (liftR (mk_policy_input (security_policy_input v ls risk))) (\<lambda>pin.
     bindM (opa_evaluate E pin) (\<lambda>decision.
     seqM
       [set_security_event k (\<lambda>r. r\<lparr>sev_risk_score := Some (rr_score risk),
          sev_policy_decision := Some (decision_name decision)\<rparr>),
        voidM (insert_row E db_policy_decisions_update no_constraint
          (\<lambda>d t. \<lparr>pol_id = d, pol_incident_id = i, pol_proposal_id = p, pol_created_at = t,
             pol_correlation_id = correlation_id,
             pol_policy_path = set_opa_decision_path (e_settings E), pol_allowed = pr_allowed decision,
             pol_requires_approval = pr_requires_approval decision, pol_reason = pr_reason decision,
             pol_input_digest = policy_digest pin, pol_result = policy_result_json decision\<rparr>)),
        sx_audit E correlation_id i ''SECURITY_OPA_EVALUATED'' (\<lambda>a. a
          \<lparr>aa_action := Some (action_value APPLY_QUARANTINE), aa_risk_score := Some (rr_score risk),
           aa_policy_decision := Some (decision_name decision),
           aa_metadata := [(''requires_approval'', JBool (pr_requires_approval decision)),
             (''reason'', JStr (pr_reason decision))]\<rparr>),
        settle_event E i k p decision])))"

text \<open>The stream event is a row of its own here, without the redaction of \<open>append_stream_event\<close>.\<close>

definition stream_security_event :: "'w env \<Rightarrow> uuid \<Rightarrow> uuid \<Rightarrow> ('w, unit) H" where
  "stream_security_event E i k =
     bindM (load_row db_security_events sev_id k) (\<lambda>r.
     voidM (insert_row E db_stream_events_update no_constraint
       (\<lambda>x t. \<lparr>ste_id = x, ste_created_at = t, ste_event_type = ''security.event'',
          ste_incident_id = Some i,
          ste_payload = JObj [(''type'', JStr ''security.event''),
            (''security_event_id'', JStr (uuid_str k)), (''incident_id'', JStr (uuid_str i)),
            (''event_type'', JStr (security_category_value (sev_event_type r))),
            (''severity'', JStr (sev_severity r)), (''namespace'', JStr (sev_namespace r)),
            (''containment_status'', JStr (containment_status_value (sev_containment_status r)))]\<rparr>)))"

definition ingest_security_event :: "'w env \<Rightarrow> tetragon_security_event \<Rightarrow> ('w, security_ingestion_result) H" where
  "ingest_security_event E v =
     (let fingerprint = event_fingerprint v (set_security_dedup_window_seconds (e_settings E));
          correlation_id = ''security-'' @ take 24 fingerprint in
      bindM (find_security_event (tse_source v) fingerprint) (\<lambda>existing.
      case existing of
        Some r \<Rightarrow> deduplicate_event E fingerprint r
      | None \<Rightarrow>
          bindM (open_security_incident E v correlation_id) (\<lambda>i.
          bindM (store_event E v correlation_id fingerprint i) (\<lambda>k.
          bindM (propose_quarantine E v correlation_id i k) (\<lambda>(risk, p).
          thenM (decide_quarantine E v correlation_id i k risk p)
          (thenM (stream_security_event E i k)
          (returnM \<lparr>sir_event = k, sir_duplicate = False\<rparr>)))))))"

section \<open>Frames\<close>

lemmas sx_defs = set_security_event_def sx_audit_def sx_change_def set_proposal_def

lemma keeps_effects_sx [frame]:
  "keeps effects (set_security_event k f)" "keeps effects (sx_audit E c i ev g)"
  "keeps effects (sx_change E i tgt ds)" "keeps effects (set_proposal p h)"
  "keeps effects (one_or_none rows)"
  unfolding sx_defs one_or_none_def by (intro frame)+

lemma keeps_effects_security_stages [frame]:
  "keeps effects (find_security_event src fp)" "keeps effects (deduplicate_event E fp r)"
  "keeps effects (open_security_incident E v c)" "keeps effects (store_event E v c fp i)"
  "keeps effects (propose_quarantine E v c i k)" "keeps effects (settle_event E i k p d)"
  "keeps effects (stream_security_event E i k)"
  unfolding find_security_event_def deduplicate_event_def open_security_incident_def store_event_def
    propose_quarantine_def settle_event_def stream_security_event_def
  by (intro frame)+

section \<open>One event per fingerprint\<close>

definition security_inv :: "'w sys \<Rightarrow> bool" where
  "security_inv s \<longleftrightarrow> (let rows = db_security_events (sy_db s) in
     distinct (map (\<lambda>r. (sev_source r, sev_fingerprint r)) rows) \<and> distinct (map sev_id rows) \<and>
     (\<forall>r \<in> set rows. sev_id r < sy_next s))"

interpretation security_events: ambient_invariant security_inv
  "\<lambda>h. \<forall>d. db_security_events (h d) = db_security_events d"
  by unfold_locales (auto simp: security_inv_def Let_def less_Suc_eq)

lemma filter_same_event:
  assumes "security_inv s"
  shows "filter (same_event src fp) (db_security_events (sy_db s)) =
    (case find (same_event src fp) (db_security_events (sy_db s)) of None \<Rightarrow> [] | Some r \<Rightarrow> [r])"
  by (rule filter_unique [of "\<lambda>r. (sev_source r, sev_fingerprint r)" _ _ "(src, fp)"])
    (use assms in \<open>auto simp: security_inv_def Let_def same_event_def\<close>)

lemma wp_find_security_event:
  assumes "security_inv s"
  shows "wp (find_security_event src fp) Q X s = Q (find (same_event src fp) (db_security_events (sy_db s))) s"
  by (simp add: find_security_event_def one_or_none_def wp_simps filter_same_event [OF assms]
      split: option.splits)

section \<open>What ingestion leaves behind\<close>

text \<open>The part of the state a stage is described by: the state of the incident, the security events, the
  proposals and the external effects.\<close>

definition sx_view :: "uuid \<Rightarrow> 'w sys \<Rightarrow> incident_state option \<times> security_event list \<times> action_proposal list \<times>
    ext_event list" where
  "sx_view i s = (state_of i s, db_security_events (sy_db s), db_action_proposals (sy_db s), effects s)"

lemma keeps_sx_view:
  assumes "keeps (\<lambda>s. db_incidents (sy_db s)) m" and "keeps (\<lambda>s. db_security_events (sy_db s)) m"
    and "keeps (\<lambda>s. db_action_proposals (sy_db s)) m" and "keeps effects m"
  shows "keeps (sx_view i) m"
  using assms by (simp add: keeps_def sx_view_def state_of_def)

lemma wp_sx_audit: "wp (sx_audit E c i ev f) (\<lambda>_ t. sx_view j t = sx_view j s) (\<lambda>_ _. False) s"
  by (simp add: sx_audit_def wp_simps Let_def case_prod_unfold sx_view_def state_of_def effects_def)

lemma wp_sx_insert:
  assumes "\<And>h d. db_incidents (set_rows h d) = db_incidents d"
    "\<And>h d. db_security_events (set_rows h d) = db_security_events d"
    "\<And>h d. db_action_proposals (set_rows h d) = db_action_proposals d"
  shows "wp (voidM (insert_row E set_rows no_constraint mk)) (\<lambda>_ t. sx_view j t = sx_view j s) (\<lambda>_ _. False) s"
  by (simp add: wp_simps Let_def case_prod_unfold no_constraint_def sx_view_def state_of_def effects_def assms)

lemma wp_set_incident_view:
  assumes "\<And>r. inc_id (f r) = inc_id r" and "\<And>r. inc_state (f r) = inc_state r"
  shows "wp (set_incident i f) (\<lambda>_ t. sx_view j t = sx_view j s) (\<lambda>_ _. False) s"
proof -
  have "map_option inc_state (find_row inc_id j (upd_row inc_id i f rows)) =
      map_option inc_state (find_row inc_id j rows)" for rows
    by (cases "find_row inc_id j rows") (auto simp: find_upd_row assms)
  then show ?thesis
    by (simp add: set_incident_def wp_simps sx_view_def state_of_def effects_def)
qed

text \<open>A change to a state that is neither terminal nor the wait for an approval has no consequence that
  could fail.\<close>

definition quiet_state :: "incident_state \<Rightarrow> bool" where
  "quiet_state st \<longleftrightarrow> \<not> terminal_state st \<and> st \<noteq> AWAITING_APPROVAL"

lemma announce_quiet:
  assumes "quiet_state target"
  shows "wp (announce_change E inc target a aty ds) (\<lambda>_ _. True) (\<lambda>_ _. False) s"
  using assms
  by (simp add: announce_change_def notify_change_def notification_event_def quiet_state_def terminal_state_def
      append_stream_event_def wp_simps Let_def case_prod_unfold no_constraint_def split: incident_state.splits)

lemma keeps_view_change:
  "keeps (\<lambda>s. db_security_events (sy_db s)) (change_incident_state E i tgt a aty ds fc)"
  "keeps (\<lambda>s. db_action_proposals (sy_db s)) (change_incident_state E i tgt a aty ds fc)"
  by (intro frame; simp)+

lemma keeps_view_change_all:
  "keeps (\<lambda>s. (db_security_events (sy_db s), db_action_proposals (sy_db s), effects s))
     (change_incident_state E i tgt a aty ds fc)"
  using keeps_view_change [of E i tgt a aty ds fc] keeps_change_incident_state(1) [of E i tgt a aty ds fc]
  by (simp add: keeps_def)

lemma sx_change_wp:
  assumes "sx_view i s = (Some st, evs, ps, es)" and "target \<in> allowed_transitions st" and "st \<noteq> target"
  shows "wp (sx_change E i target ds) (\<lambda>_ t. sx_view i t = (Some target, evs, ps, es))
    (\<lambda>_ t. effects t = es \<and> \<not> quiet_state target) s"
proof -
  obtain inc where inc: "find_row inc_id i (db_incidents (sy_db s)) = Some inc" "inc_state inc = st"
    using assms(1) by (auto simp: sx_view_def state_of_def)
  have "wp (announce_change E inc target ''cloudward'' ACTOR_SYSTEM ds) (\<lambda>_ _. True)
      (\<lambda>_ _. \<not> quiet_state target) u" for u :: "'a sys"
    using announce_quiet [of target E inc _ _ ds u] by (cases "quiet_state target") (auto elim: wp_mono)
  then have "wp (sx_change E i target ds) (\<lambda>_ _. True) (\<lambda>_ _. \<not> quiet_state target) s"
    unfolding sx_change_def change_incident_state_def wp_bindM wp_load_row using inc assms(2,3)
    by (auto simp: wp_seqM_Cons wp_whenM wp_voidM wp_liftR transition_incident_def
        intro!: wp_mono [OF record_change_post])
  with change_incident_state_reaches [OF inc(1), of target False E "''cloudward''" ACTOR_SYSTEM ds]
    keeps_wp [OF keeps_view_change_all, of E i target "''cloudward''" ACTOR_SYSTEM ds False s]
  show ?thesis using assms inc(2)
    by (auto simp: sx_change_def sx_view_def wp_def split: prod.splits sum.splits)
qed

subsection \<open>The stages\<close>

lemma create_incident_view:
  assumes "log_inv s"
  shows "wp (create_incident E c ty ti v su sid cid a aty)
    (\<lambda>i t. sx_view i t = (Some DETECTED, db_security_events (sy_db s), db_action_proposals (sy_db s), effects s))
    (\<lambda>_ _. False) s"
proof -
  have "find_row inc_id (sy_next s) (db_incidents (sy_db s)) = None"
    using assms by (auto simp: log_inv_def keys_bounded_def find_row_def find_None_iff)
  then show ?thesis
    by (simp add: create_incident_def add_active_def add_incident_event_def append_stream_event_def
        wp_simps Let_def case_prod_unfold incident_ok_def no_constraint_def sx_view_def state_of_def effects_def
        find_row_append)
qed

text \<open>A step between two states with the same view. The rules below walk a handler forwards: each step's
  postcondition is the precondition of the next.\<close>

lemma wp_seq_nil: "Q () s \<Longrightarrow> wp (seqM []) Q X s"
  by simp

lemmas flow_rules = wp_then_post wp_bind_post wp_seq_post wp_seq_nil

definition stays :: "uuid \<Rightarrow> (incident_state option \<times> security_event list \<times> action_proposal list \<times>
    ext_event list) \<Rightarrow> 'w sys \<Rightarrow> bool" where
  "stays i w s \<longleftrightarrow> sx_view i s = w"

lemma stays_set_incident:
  assumes "stays i w s" and "\<And>r. inc_id (f r) = inc_id r" and "\<And>r. inc_state (f r) = inc_state r"
  shows "wp (set_incident j f) (\<lambda>_. stays i w) X s"
  by (rule wp_mono [OF wp_set_incident_view [of f j i, OF assms(2,3)]]) (use assms(1) in \<open>auto simp: stays_def\<close>)

lemma stays_audit:
  assumes "stays i w s"
  shows "wp (sx_audit E c j ev f) (\<lambda>_. stays i w) X s"
  by (rule wp_mono [OF wp_sx_audit [of _ _ _ _ _ i]]) (use assms in \<open>auto simp: stays_def\<close>)

lemma stays_insert:
  assumes "stays i w s"
    and "\<And>h d. db_incidents (set_rows h d) = db_incidents d"
    and "\<And>h d. db_security_events (set_rows h d) = db_security_events d"
    and "\<And>h d. db_action_proposals (set_rows h d) = db_action_proposals d"
  shows "wp (voidM (insert_row E set_rows no_constraint mk)) (\<lambda>_. stays i w) X s"
  by (rule wp_mono [OF wp_sx_insert [of set_rows _ _ i, OF assms(2-4)]])
    (use assms(1) in \<open>auto simp: stays_def\<close>)

lemma stays_queue:
  assumes "stays i w s"
  shows "wp (queue_incident_notification E ty inc d pub) (\<lambda>_. stays i w) (\<lambda>_. stays i w) s"
proof -
  have "keeps (sx_view i) (queue_incident_notification E ty inc d pub)"
    by (rule keeps_sx_view; intro frame; simp)
  from keeps_wp [OF this, of s] show ?thesis using assms by (auto simp: stays_def elim: wp_mono)
qed

lemma stays_found:
  assumes "stays i (Some st, evs, ps, es) s"
  obtains inc where "find_row inc_id i (db_incidents (sy_db s)) = Some inc"
  using assms by (auto simp: stays_def sx_view_def state_of_def)

lemma stays_change:
  assumes "stays i (Some st, evs, ps, es) s" and "target \<in> allowed_transitions st" and "st \<noteq> target"
    and "quiet_state target"
  shows "wp (sx_change E i target ds) (\<lambda>_. stays i (Some target, evs, ps, es)) X s"
  by (rule wp_mono [OF sx_change_wp [OF _ assms(2,3)]]) (use assms(1,4) in \<open>auto simp: stays_def\<close>)

lemma open_security_incident_post:
  assumes "log_inv s"
  shows "wp (open_security_incident E v c)
    (\<lambda>i. stays i (Some DETECTED, db_security_events (sy_db s), db_action_proposals (sy_db s), effects s))
    (\<lambda>_ t. effects t = effects s \<and> py_lower (tse_severity v) = ''critical'') s"
proof -
  let ?w = "(Some DETECTED, db_security_events (sy_db s), db_action_proposals (sy_db s), effects s)"
  let ?X = "\<lambda>_ t. effects t = effects s \<and> py_lower (tse_severity v) = ''critical''"
  have notify: "wp (whenM (py_lower (tse_severity v) = ''critical'') (bindM (load_incident i) (\<lambda>inc.
      voidM (queue_incident_notification E ty inc d pub)))) (\<lambda>_. stays i ?w) ?X t"
    if "stays i ?w t" for i ty d pub t
  proof -
    from that obtain inc where "find_row inc_id i (db_incidents (sy_db t)) = Some inc" by (rule stays_found)
    moreover have "wp (queue_incident_notification E ty inc d pub) (\<lambda>_. stays i ?w) (\<lambda>_ u. effects u = effects s) t"
      by (rule wp_mono [OF stays_queue [OF that]]) (simp_all add: stays_def sx_view_def)
    ultimately show ?thesis using that by (auto simp: wp_whenM wp_bindM wp_load_row wp_voidM elim: wp_mono)
  qed
  show ?thesis
    unfolding open_security_incident_def
  proof (rule wp_bind_post [where J = "\<lambda>i. stays i ?w"], goal_cases)
    case 1
    show ?case by (rule wp_mono [OF create_incident_view [OF assms]]) (auto simp: stays_def)
  next
    case (2 i t)
    show ?case
      by (assumption | rule 2 | rule flow_rules | rule stays_set_incident notify | simp)+
  qed
qed

text \<open>The row of an event, as the forwarder reported it.\<close>

definition row_of_event :: "tetragon_security_event \<Rightarrow> string \<Rightarrow> uuid \<Rightarrow> security_event \<Rightarrow> bool" where
  "row_of_event v fp i r \<longleftrightarrow> sev_source r = tse_source v \<and> sev_fingerprint r = fp \<and>
     sev_incident_id r = Some i \<and> sev_namespace r = tse_namespace v \<and> sev_pod r = tse_pod v \<and>
     sev_event_type r = tse_event_type v \<and> sev_payload r = normalized_payload v"

lemma store_event_post:
  assumes view: "stays i (Some DETECTED, evs, ps, es) s"
    and new: "\<forall>r \<in> set evs. \<not> same_event (tse_source v) fp r"
  shows "wp (store_event E v c fp i)
    (\<lambda>k t. \<exists>row. sev_id row = k \<and> row_of_event v fp i row \<and> sev_containment_status row = CS_NOT_PROPOSED \<and>
       stays i (Some CLASSIFYING, evs @ [row], ps, es) t) (\<lambda>_ _. False) s"
  unfolding store_event_def
proof (rule wp_bind_post [where J = "\<lambda>_. stays i (Some DETECTED, evs, ps, es)"], goal_cases)
  case 1
  show ?case using view by (simp add: wp_simps stays_def sx_view_def state_of_def effects_def)
next
  case (2 now t)
  show ?case
  proof (rule wp_bind_post [where J = "\<lambda>k t. \<exists>row. sev_id row = k \<and> row_of_event v fp i row \<and>
      sev_containment_status row = CS_NOT_PROPOSED \<and> stays i (Some DETECTED, evs @ [row], ps, es) t"], goal_cases)
    case 1
    have "security_event_ok (new_security_event v c fp i now k u) (sy_db t)" for k u
      using 2 new by (auto simp: security_event_ok_def new_security_event_def stays_def sx_view_def same_event_def)
    moreover have "row_of_event v fp i (new_security_event v c fp i now k u)"
      "sev_containment_status (new_security_event v c fp i now k u) = CS_NOT_PROPOSED"
      "sev_id (new_security_event v c fp i now k u) = k" for k u
      by (simp_all add: row_of_event_def new_security_event_def)
    ultimately show ?case using 2
      by (auto simp: wp_insert_row Let_def case_prod_unfold stays_def sx_view_def state_of_def effects_def)
  next
    case (2 k u)
    then obtain row where row: "sev_id row = k" "row_of_event v fp i row"
      "sev_containment_status row = CS_NOT_PROPOSED" "stays i (Some DETECTED, evs @ [row], ps, es) u" by blast
    have "wp (thenM (seqM [sx_audit E c i a1 f1, sx_audit E c i a2 f2,
        voidM (insert_row E db_evidence_snapshots_update no_constraint mk),
        sx_change E i COLLECTING_EVIDENCE [], sx_change E i CLASSIFYING []]) (returnM k))
        (\<lambda>k'. \<lambda>x. k' = k \<and> stays i (Some CLASSIFYING, evs @ [row], ps, es) x) (\<lambda>_ _. False) u" for a1 f1 a2 f2 mk
      by (assumption | rule row(4) | rule flow_rules | rule stays_audit stays_insert stays_change
          | simp add: allowed_transitions.simps quiet_state_def terminal_state_def)+
    then show ?case by (rule wp_mono) (use row in auto)
  qed
qed

lemma security_risk:
  obtains risk where "mk_risk_context (security_risk_context v) = Inr (security_risk_context v)"
    "risk_calculate (security_risk_context v) = Inr risk" "0 \<le> rr_score risk" "rr_score risk \<le> 100"
proof -
  have valid: "risk_context_valid (security_risk_context v)"
    by (cases "tse_event_type v") (simp_all add: risk_context_valid_def security_risk_context_def)
  then show ?thesis
    using that risk_calculate_eq [OF valid] factor_sum_bounds [OF risk_factors_of_valid [OF valid]]
    by (simp add: mk_risk_context_def)
qed

lemma propose_quarantine_post:
  assumes view: "stays i (Some CLASSIFYING, evs, ps, es) s"
  shows "wp (propose_quarantine E v c i k)
    (\<lambda>(risk, p) t. \<exists>row. prp_id row = p \<and> prp_incident_id row = i \<and> prp_action_type row = APPLY_QUARANTINE \<and>
       prp_status row = RS_PENDING \<and> 0 \<le> rr_score risk \<and> rr_score risk \<le> 100 \<and>
       stays i (Some POLICY_EVALUATION, evs, ps @ [row], es) t) (\<lambda>_ _. False) s"
proof -
  obtain risk where risk: "mk_risk_context (security_risk_context v) = Inr (security_risk_context v)"
    "risk_calculate (security_risk_context v) = Inr risk" "0 \<le> rr_score risk" "rr_score risk \<le> 100"
    by (rule security_risk)
  let ?J = "\<lambda>p t. \<exists>row. prp_id row = p \<and> prp_incident_id row = i \<and> prp_action_type row = APPLY_QUARANTINE \<and>
    prp_status row = RS_PENDING \<and> stays i (Some ACTION_PROPOSED, evs, ps @ [row], es) t"
  show ?thesis
    unfolding propose_quarantine_def wp_bindM wp_liftR risk(1,2) sum.case
  proof (rule wp_then_post [where J = "stays i (Some ACTION_PROPOSED, evs, ps, es)"], goal_cases)
    case 1
    show ?case
      by (assumption | rule view | rule flow_rules | rule stays_set_incident stays_audit stays_change
          | simp add: quiet_state_def terminal_state_def)+
  next
    case (2 t)
    show ?case
    proof (rule wp_bind_post [where J = ?J], goal_cases)
      case 1
      show ?case using 2 risk(3,4)
        by (auto simp: wp_insert_row Let_def case_prod_unfold action_proposal_ok_def stays_def sx_view_def
            state_of_def effects_def)
    next
      case (2 p u)
      then obtain row where row: "prp_id row = p" "prp_incident_id row = i"
        "prp_action_type row = APPLY_QUARANTINE" "prp_status row = RS_PENDING"
        "stays i (Some ACTION_PROPOSED, evs, ps @ [row], es) u" by blast
      have "wp (thenM (seqM [sx_audit E c i a f, sx_change E i POLICY_EVALUATION []]) (returnM (risk, p)))
          (\<lambda>r x. r = (risk, p) \<and> stays i (Some POLICY_EVALUATION, evs, ps @ [row], es) x) (\<lambda>_ _. False) u" for a f
        by (assumption | rule row(5) | rule flow_rules | rule stays_audit stays_change
            | simp add: quiet_state_def terminal_state_def)+
      then show ?case by (rule wp_mono) (use row risk(3,4) in auto)
    qed
  qed
qed

subsection \<open>The labels the policy engine sees\<close>

lemma redact_security_JStr: "\<exists>t. redact_security_value (JStr s) = JStr t"
  by (simp add: redact_security_value.simps [of "JStr s"] redact_def redact_untrusted.simps [of 0] MAX_REDACTION_DEPTH_def)

lemma redact_obj_eq: "redact (JObj kvs) =
    JObj (map (\<lambda>(k, x). (k, if sensitive_key k then JStr REDACTED else redact_untrusted (Suc 0) x)) kvs)"
  by (simp add: redact_def redact_untrusted.simps [of 0] MAX_REDACTION_DEPTH_def)

lemma redact_security_JObj: "redact_security_value (JObj kvs) =
    JObj (map (\<lambda>(k, x). (k, redact_security_value (if sensitive_key k then JStr REDACTED
       else redact_untrusted (Suc 0) x))) kvs)"
  by (simp add: redact_security_value.simps [of "JObj kvs"] redact_obj_eq comp_def case_prod_unfold)

lemma payload_keys: "\<not> sensitive_key ''process''" "\<not> sensitive_key ''network''"
  "\<not> sensitive_key ''workload_labels''" "sensitive_key ''secrets_or_data_exposure''"
  by code_simp+

text \<open>A dictionary of strings stays one, with the same keys.\<close>

definition string_dict :: "jdict \<Rightarrow> bool" where
  "string_dict kvs \<longleftrightarrow> list_all (\<lambda>(_, x). \<exists>s. x = JStr s) kvs"

lemma string_dict_map: "(\<And>k s. (k, JStr s) \<in> set kvs \<Longrightarrow> \<exists>t. f k (JStr s) = JStr t) \<Longrightarrow> string_dict kvs \<Longrightarrow>
    string_dict (map (\<lambda>(k, x). (k, f k x)) kvs)"
  by (fastforce simp: string_dict_def list_all_iff)

lemma redact_untrusted_string_dict:
  assumes "string_dict kvs" and "d < MAX_REDACTION_DEPTH"
  shows "\<exists>kvs'. redact_untrusted d (JObj kvs) = JObj kvs' \<and> map fst kvs' = map fst kvs \<and> string_dict kvs'"
proof -
  have "\<exists>u. (if sensitive_key k then JStr REDACTED else redact_untrusted (Suc d) (JStr y)) = JStr u" for k y
    by (simp add: redact_untrusted.simps [of "Suc d"] TRUNCATED_DEPTH_def)
  then show ?thesis using assms
    by (auto simp: redact_untrusted.simps [of d] comp_def case_prod_unfold intro!: string_dict_map
        [of kvs "\<lambda>k x. if sensitive_key k then JStr REDACTED else redact_untrusted (Suc d) x", unfolded case_prod_unfold])
qed

lemma redact_security_string_dict:
  assumes "string_dict kvs"
  shows "\<exists>kvs'. redact_security_value (JObj kvs) = JObj kvs' \<and> map fst kvs' = map fst kvs \<and> string_dict kvs'"
proof -
  obtain kvs1 where kvs1: "redact (JObj kvs) = JObj kvs1" "map fst kvs1 = map fst kvs" "string_dict kvs1"
    using redact_untrusted_string_dict [OF assms, of 0] by (auto simp: redact_def MAX_REDACTION_DEPTH_def)
  have "string_dict (map (\<lambda>(k, x). (k, redact_security_value x)) kvs1)"
    by (rule string_dict_map [OF _ kvs1(3), of "\<lambda>k. redact_security_value"]) (rule redact_security_JStr)
  with kvs1 show ?thesis by (simp add: redact_security_value.simps [of "JObj kvs"] comp_def case_prod_unfold)
qed

lemma normalized_labels:
  "\<exists>kvs. dict_get (normalized_payload v) ''workload_labels'' = Some (JObj kvs) \<and> string_dict kvs \<and>
     map fst kvs = map fst (tse_workload_labels v)"
proof -
  have dict: "string_dict (json_labels ls)" and keys: "map fst (json_labels ls) = map fst ls" for ls
    by (auto simp: string_dict_def json_labels_def list_all_iff comp_def case_prod_unfold)
  obtain kvs1 where "redact_untrusted (Suc 0) (JObj (json_labels (tse_workload_labels v))) = JObj kvs1"
    "map fst kvs1 = map fst (tse_workload_labels v)" "string_dict kvs1"
    using redact_untrusted_string_dict [OF dict, of "Suc 0"] keys by (auto simp: MAX_REDACTION_DEPTH_def)
  moreover from this obtain kvs2 where "redact_security_value (JObj kvs1) = JObj kvs2"
    "map fst kvs2 = map fst (tse_workload_labels v)" "string_dict kvs2"
    using redact_security_string_dict by metis
  ultimately show ?thesis
    by (simp add: normalized_payload_def raw_payload_def redact_security_JObj dict_get_def payload_keys)
qed

text \<open>The demo label is no secret: it reaches the engine as the forwarder sent it. The exposure flag is
  masked, because its key contains \<open>secret\<close>.\<close>

lemma mask_secrets_short:
  assumes "length x < 5"
  shows "mask_secrets x = x"
proof -
  have "list_all (\<lambda>body. 5 \<le> min_len body) SECRET_PATTERNS" by code_simp
  then have "fold (\<lambda>body y. rsub REps body (None, y)) ps x = x" if "set ps \<subseteq> set SECRET_PATTERNS" for ps
    using that assms by (induction ps) (force simp: list_all_iff rsub_short)+
  then show ?thesis by (simp add: mask_secrets_def)
qed

lemma demo_label_plain: "\<not> sensitive_key DEMO_TARGET_LABEL" "redact_text ''true'' = ''true''"
  "mask_secrets ''true'' = ''true''"
  by (code_simp, simp_all add: redact_text_short mask_secrets_short)

lemma redact_untrusted_JStr: "d < MAX_REDACTION_DEPTH \<Longrightarrow> redact_untrusted d (JStr x) = JStr (redact_text x)"
  by (simp add: redact_untrusted.simps [of d])

lemma redact_security_plain:
  "redact_text x = x \<Longrightarrow> mask_secrets x = x \<Longrightarrow> redact_security_value (JStr x) = JStr x"
  by (simp add: redact_security_value.simps [of "JStr x"] redact_def redact_untrusted_JStr MAX_REDACTION_DEPTH_def)

lemma dict_get_map: "dict_get (map (\<lambda>(k, x). (k, f k x)) kvs) key = map_option (f key) (dict_get kvs key)"
  by (induction kvs) (auto simp: dict_get_def)

lemma dict_get_json_labels: "dict_get (json_labels ls) key = map_option JStr (dict_get ls key)"
  by (induction ls) (auto simp: dict_get_def json_labels_def)

lemma normalized_demo_label:
  assumes "dict_get (tse_workload_labels v) DEMO_TARGET_LABEL = Some ''true''"
    and "dict_get (normalized_payload v) ''workload_labels'' = Some (JObj kvs)"
  shows "dict_get kvs DEMO_TARGET_LABEL = Some (JStr ''true'')"
proof -
  let ?r = "\<lambda>d k x. if sensitive_key k then JStr REDACTED else redact_untrusted d x"
  have inner: "redact_untrusted (Suc 0) (JObj d) = JObj (map (\<lambda>(k, x). (k, ?r (Suc (Suc 0)) k x)) d)" for d
    by (simp add: redact_untrusted.simps [of "Suc 0"] MAX_REDACTION_DEPTH_def)
  have kvs: "kvs = map (\<lambda>(k, x). (k, redact_security_value (?r (Suc 0) k x)))
      (map (\<lambda>(k, x). (k, ?r (Suc (Suc 0)) k x)) (json_labels (tse_workload_labels v)))"
    using assms(2)
    by (simp add: normalized_payload_def raw_payload_def redact_security_JObj dict_get_def payload_keys inner)
  show ?thesis
    unfolding kvs dict_get_map [of "\<lambda>k x. redact_security_value (?r (Suc 0) k x)"]
      dict_get_map [of "?r (Suc (Suc 0))"] dict_get_json_labels assms(1)
    by (simp add: demo_label_plain redact_untrusted_JStr redact_security_plain MAX_REDACTION_DEPTH_def)
qed

lemma exposure_flag_masked:
  "dict_get (normalized_payload v) ''secrets_or_data_exposure'' = Some (redact_security_value (JStr REDACTED))"
  by (simp add: normalized_payload_def raw_payload_def redact_security_JObj dict_get_def payload_keys)

lemma dict_get_labels_of: "string_dict kvs \<Longrightarrow>
    dict_get (map (\<lambda>(k, x). (k, case x of JStr s \<Rightarrow> s | _ \<Rightarrow> [])) kvs) key =
      map_option (\<lambda>x. case x of JStr s \<Rightarrow> s | _ \<Rightarrow> []) (dict_get kvs key)"
  by (rule dict_get_map)

lemma payload_labels_normalized:
  assumes "dict_get (tse_workload_labels v) DEMO_TARGET_LABEL = Some ''true''"
  shows "\<exists>ls. payload_labels (normalized_payload v) = Inr ls \<and> map fst ls = map fst (tse_workload_labels v) \<and>
     dict_get ls DEMO_TARGET_LABEL = Some ''true''"
proof -
  obtain kvs where kvs: "dict_get (normalized_payload v) ''workload_labels'' = Some (JObj kvs)" "string_dict kvs"
    "map fst kvs = map fst (tse_workload_labels v)" using normalized_labels by blast
  have demo: "dict_get kvs DEMO_TARGET_LABEL = Some (JStr ''true'')" by (rule normalized_demo_label [OF assms kvs(1)])
  let ?ls = "map (\<lambda>(k, x). (k, case x of JStr s \<Rightarrow> s | _ \<Rightarrow> [])) kvs"
  have "payload_labels (normalized_payload v) = Inr ?ls"
    using kvs(1,2) by (auto simp: payload_labels_def jget_def py_or_def string_dict_def)
  moreover have "dict_get ?ls DEMO_TARGET_LABEL = Some ''true''" using dict_get_labels_of [OF kvs(2)] demo by simp
  moreover have "map fst ?ls = map fst (tse_workload_labels v)" using kvs(3) by (simp add: comp_def case_prod_unfold)
  ultimately show ?thesis by blast
qed

subsection \<open>The decision\<close>

definition outcome_state :: "policy_result \<Rightarrow> incident_state" where
  "outcome_state d = (if pr_allowed d then POLICY_EVALUATION
     else if pr_requires_approval d then AWAITING_APPROVAL else BLOCKED)"

definition outcome_containment :: "policy_result \<Rightarrow> containment_status" where
  "outcome_containment d = (if pr_allowed d then CS_PROPOSED
     else if pr_requires_approval d then CS_AWAITING_APPROVAL else CS_NOT_PROPOSED)"

definition outcome_status :: "policy_result \<Rightarrow> record_status" where
  "outcome_status d = (if pr_allowed d \<or> pr_requires_approval d then RS_PENDING else RS_REJECTED)"

text \<open>The question put to the engine: may this one pod be quarantined, with no approval claimed?\<close>

definition asks_about :: "tetragon_security_event \<Rightarrow> policy_input \<Rightarrow> bool" where
  "asks_about v pin \<longleftrightarrow> pi_action pin = APPLY_QUARANTINE \<and> pi_blast_radius pin = 1 \<and>
     ti_namespace (pi_target pin) = tse_namespace v \<and> ti_pod_name (pi_target pin) = tse_pod v \<and>
     ti_target_pods (pi_target pin) = 1 \<and>
     dict_get (ti_labels (pi_target pin)) DEMO_TARGET_LABEL = Some ''true'' \<and>
     \<not> ai_approved (pi_approval pin)"

definition engine_answers :: "'w env \<Rightarrow> policy_input \<Rightarrow> policy_result \<Rightarrow> bool" where
  "engine_answers E pin d \<longleftrightarrow> (\<exists>w. opa_decide (fst (e_opa_post E (opa_url (e_settings E))
     (JObj [(''input'', policy_input_json pin)]) w)) = Inr d)"

definition client_crashes :: "'w env \<Rightarrow> bool" where
  "client_crashes E \<longleftrightarrow> (\<exists>url body w c. fst (e_opa_post E url body w) = Inl (OPA_OTHER c))"

text \<open>How ingestion can fail: in the notification of a critical event or in the policy client, before anything
  was asked, or after an answer that does not allow the quarantine.\<close>

definition only_asked :: "'w env \<Rightarrow> tetragon_security_event \<Rightarrow> ext_event list \<Rightarrow> 'w sys \<Rightarrow> bool" where
  "only_asked E v es t \<longleftrightarrow>
     (effects t = es \<and> (py_lower (tse_severity v) = ''critical'' \<or> client_crashes E)) \<or>
     (\<exists>pin d. effects t = es @ [EvOpa pin d] \<and> asks_about v pin \<and> engine_answers E pin d \<and> \<not> pr_allowed d)"

text \<open>The rows of the event and of the proposal after the decision.\<close>

definition decided_row :: "policy_result \<Rightarrow> security_event \<Rightarrow> security_event \<Rightarrow> bool" where
  "decided_row d old new \<longleftrightarrow> sev_id new = sev_id old \<and> sev_source new = sev_source old \<and>
     sev_fingerprint new = sev_fingerprint old \<and> sev_incident_id new = sev_incident_id old \<and>
     sev_namespace new = sev_namespace old \<and> sev_pod new = sev_pod old \<and>
     sev_event_type new = sev_event_type old \<and> sev_payload new = sev_payload old \<and>
     sev_policy_decision new = Some (decision_name d) \<and>
     (sev_containment_status old = CS_NOT_PROPOSED \<longrightarrow> sev_containment_status new = outcome_containment d)"

lemma stays_set_event:
  assumes "stays i (st, evs, ps, es) s"
  shows "wp (set_security_event k f) (\<lambda>_. stays i (st, upd_row sev_id k f evs, ps, es)) X s"
  using assms by (simp add: set_security_event_def wp_updM stays_def sx_view_def state_of_def effects_def)

lemma stays_set_proposal:
  assumes "stays i (st, evs, ps, es) s"
  shows "wp (set_proposal p f) (\<lambda>_. stays i (st, evs, upd_row prp_id p f ps, es)) X s"
  using assms by (simp add: set_proposal_def wp_updM stays_def sx_view_def state_of_def effects_def)

lemma stays_change_any:
  assumes "stays i (Some st, evs, ps, es) s" and "target \<in> allowed_transitions st" and "st \<noteq> target"
    and "\<And>e t. effects t = es \<Longrightarrow> X e t"
  shows "wp (sx_change E i target ds) (\<lambda>_. stays i (Some target, evs, ps, es)) X s"
  by (rule wp_mono [OF sx_change_wp [OF _ assms(2,3)]]) (use assms(1,4) in \<open>auto simp: stays_def\<close>)

lemma keeps_opa_view: "keeps (\<lambda>s. (db_incidents (sy_db s), db_security_events (sy_db s), db_action_proposals (sy_db s)))
    (opa_evaluate E pin)"
  by (rule keeps_opa_evaluate(1) [where f = "\<lambda>d. (db_incidents d, db_security_events d, db_action_proposals d)"])

lemma opa_evaluate_asks:
  "wp (opa_evaluate E pin) (\<lambda>r t. effects t = effects s @ [EvOpa pin r] \<and> engine_answers E pin r)
     (\<lambda>_ t. effects t = effects s \<and> client_crashes E) s"
proof -
  have "opa_decide v = Inl e \<Longrightarrow> \<exists>c. v = Inl (OPA_OTHER c)" for v e
    by (auto simp: opa_decide_def split: sum.splits opa_failure.splits json.splits option.splits)
  then show ?thesis
    by (auto simp: opa_evaluate_def wp_simps effects_def is_task_def engine_answers_def client_crashes_def
        split: sum.splits) blast
qed

lemma settle_event_post:
  assumes view: "stays i (Some POLICY_EVALUATION, evs, ps, es) s"
    and "(\<And>e t. effects t = es \<Longrightarrow> \<not> pr_allowed d \<Longrightarrow> X e t)"
  shows "wp (settle_event E i k p d)
    (\<lambda>_. stays i (Some (outcome_state d),
       upd_row sev_id k (\<lambda>r. if pr_allowed d \<or> pr_requires_approval d
          then r\<lparr>sev_containment_status := outcome_containment d\<rparr> else r) evs,
       upd_row prp_id p (\<lambda>r. if outcome_status d = RS_REJECTED then r\<lparr>prp_status := RS_REJECTED\<rparr> else r) ps, es)) X s"
proof -
  have same: "upd_row key j (\<lambda>r. r) rows = rows" for key :: "'b \<Rightarrow> uuid" and j rows
    by (simp add: upd_row_def)
  show ?thesis
  proof (cases "pr_allowed d")
    case True
    then show ?thesis using stays_set_event [OF view, of k]
      by (simp add: settle_event_def outcome_state_def outcome_containment_def outcome_status_def same)
  next
    case False
    have "wp (seqM [set_security_event k f, sx_change E i AWAITING_APPROVAL []])
        (\<lambda>_. stays i (Some AWAITING_APPROVAL, upd_row sev_id k f evs, ps, es)) X s" for f
      by (rule wp_seq_post [OF stays_set_event [OF view]], rule wp_seq_post, rule stays_change_any, assumption)
        (auto simp: False assms(2))
    moreover have "wp (seqM [set_proposal p f, sx_change E i BLOCKED ds])
        (\<lambda>_. stays i (Some BLOCKED, evs, upd_row prp_id p f ps, es)) X s" for f ds
      by (rule wp_seq_post [OF stays_set_proposal [OF view]], rule wp_seq_post, rule stays_change_any, assumption)
        (auto simp: False assms(2))
    ultimately show ?thesis using False
      by (auto simp: settle_event_def outcome_state_def outcome_containment_def outcome_status_def same)
  qed
qed

lemma decide_quarantine_post:
  assumes view: "stays i (Some POLICY_EVALUATION, evs @ [row], ps @ [prop], es) s"
    and k: "sev_id row = k" and p: "prp_id prop = p" "prp_status prop = RS_PENDING"
    and risk: "0 \<le> rr_score risk" "rr_score risk \<le> 100"
    and demo: "dict_get (tse_workload_labels v) DEMO_TARGET_LABEL = Some ''true''"
  shows "wp (decide_quarantine E v c i k risk p)
    (\<lambda>_ t. \<exists>pin d evs' row' ps' prop'. asks_about v pin \<and> engine_answers E pin d \<and> decided_row d row row' \<and>
       prop' = prop\<lparr>prp_status := outcome_status d\<rparr> \<and>
       stays i (Some (outcome_state d), evs' @ [row'], ps' @ [prop'], es @ [EvOpa pin d]) t)
    (\<lambda>_. only_asked E v es) s"
proof -
  obtain ls where ls: "payload_labels (normalized_payload v) = Inr ls"
    "dict_get ls DEMO_TARGET_LABEL = Some ''true''" using payload_labels_normalized [OF demo] by blast
  let ?pin = "security_policy_input v ls risk"
  have pin: "mk_policy_input ?pin = Inr ?pin" "asks_about v ?pin"
    using risk ls(2) by (cases "tse_event_type v";
      simp add: mk_policy_input_def policy_input_valid_def security_policy_input_def asks_about_def no_approval_def)+
  let ?f = "\<lambda>d r. r\<lparr>sev_risk_score := Some (rr_score risk), sev_policy_decision := Some (decision_name d)\<rparr>"
  let ?g = "\<lambda>d r. if pr_allowed d \<or> pr_requires_approval d
    then r\<lparr>sev_containment_status := outcome_containment d\<rparr> else r"
  let ?h = "\<lambda>d r. if outcome_status d = RS_REJECTED then r\<lparr>prp_status := RS_REJECTED\<rparr> else r"
  have rest: "wp (seqM [set_security_event k (?f d), voidM (insert_row E db_policy_decisions_update no_constraint mk),
      sx_audit E c i ev a, settle_event E i k p d])
      (\<lambda>_. stays i (Some (outcome_state d), upd_row sev_id k (?g d) (upd_row sev_id k (?f d) (evs @ [row])),
        upd_row prp_id p (?h d) (ps @ [prop]), es @ [EvOpa ?pin d])) (\<lambda>_. only_asked E v es) t"
    if "stays i (Some POLICY_EVALUATION, evs @ [row], ps @ [prop], es @ [EvOpa ?pin d]) t"
      and "engine_answers E ?pin d" for d mk ev a t
    by (rule wp_seq_post [OF stays_set_event [OF that(1)]], rule wp_seq_post, rule stays_insert, assumption, simp,
        simp, simp, rule wp_seq_post, rule stays_audit, assumption, rule wp_seq_post, rule settle_event_post, assumption)
      (use pin(2) that(2) in \<open>auto simp: only_asked_def\<close>)
  have found: "decided_row d row (?g d (?f d row))" "?h d prop = prop\<lparr>prp_status := outcome_status d\<rparr>" for d
    using p(2) by (auto simp: decided_row_def outcome_containment_def outcome_status_def)
  show ?thesis
    unfolding decide_quarantine_def wp_bindM wp_liftR ls(1) pin(1) sum.case
  proof (rule wp_mono [OF wp_conj [OF keeps_wp [OF keeps_opa_view] opa_evaluate_asks]], goal_cases)
    case (1 d t)
    then have "stays i (Some POLICY_EVALUATION, evs @ [row], ps @ [prop], es @ [EvOpa ?pin d]) t"
      using view by (simp add: stays_def sx_view_def state_of_def)
    moreover have "upd_row sev_id k (?g d) (upd_row sev_id k (?f d) (evs @ [row])) =
        upd_row sev_id k (?g d) (upd_row sev_id k (?f d) evs) @ [?g d (?f d row)]"
      using k by (simp add: upd_row_def)
    moreover have "upd_row prp_id p (?h d) (ps @ [prop]) =
        upd_row prp_id p (?h d) ps @ [prop\<lparr>prp_status := outcome_status d\<rparr>]"
      using p(1) found(2) by (simp add: upd_row_def)
    ultimately show ?case
      by (intro wp_mono [OF rest [of d]]) (use 1 pin(2) found(1) in \<open>simp_all only:, blast\<close>)
  next
    case (2 e t)
    then show ?case using view by (simp add: only_asked_def stays_def sx_view_def)
  qed
qed

lemma stream_security_event_post:
  assumes "stays i (st, evs @ [row], ps, es) s" and "sev_id row = k"
  shows "wp (stream_security_event E j k) (\<lambda>_. stays i (st, evs @ [row], ps, es)) (\<lambda>_ _. False) s"
proof -
  have "find_row sev_id k (evs @ [row]) \<noteq> None"
    using assms(2) by (auto simp: find_row_append split: option.splits)
  then show ?thesis using assms(1)
    by (auto simp: stream_security_event_def wp_simps Let_def case_prod_unfold no_constraint_def stays_def
        sx_view_def state_of_def effects_def split: option.splits)
qed

section \<open>Properties\<close>

definition event_settled :: "'w env \<Rightarrow> tetragon_security_event \<Rightarrow> string \<Rightarrow> 'w sys \<Rightarrow> uuid \<Rightarrow> 'w sys \<Rightarrow> bool" where
  "event_settled E v fp s k t \<longleftrightarrow>
     (\<exists>i pin d row prop. effects t = effects s @ [EvOpa pin d] \<and> asks_about v pin \<and> engine_answers E pin d \<and>
        row \<in> set (db_security_events (sy_db t)) \<and> sev_id row = k \<and> row_of_event v fp i row \<and>
        sev_containment_status row = outcome_containment d \<and>
        sev_policy_decision row = Some (decision_name d) \<and> state_of i t = Some (outcome_state d) \<and>
        prop \<in> set (db_action_proposals (sy_db t)) \<and> prp_incident_id prop = i \<and>
        prp_action_type prop = APPLY_QUARANTINE \<and> prp_status prop = outcome_status d)"

definition window_fingerprint :: "'w env \<Rightarrow> tetragon_security_event \<Rightarrow> string" where
  "window_fingerprint E v = event_fingerprint v (set_security_dedup_window_seconds (e_settings E))"

lemma new_event_settled:
  assumes inv: "log_inv s" and new: "\<forall>r \<in> set (db_security_events (sy_db s)). \<not> same_event (tse_source v) fp r"
    and demo: "dict_get (tse_workload_labels v) DEMO_TARGET_LABEL = Some ''true''"
  shows "wp (bindM (open_security_incident E v c) (\<lambda>i.
      bindM (store_event E v c fp i) (\<lambda>k.
      bindM (propose_quarantine E v c i k) (\<lambda>(risk, p).
      thenM (decide_quarantine E v c i k risk p)
      (thenM (stream_security_event E i k)
      (returnM \<lparr>sir_event = k, sir_duplicate = False\<rparr>))))))
    (\<lambda>r t. \<not> sir_duplicate r \<and> event_settled E v fp s (sir_event r) t) (\<lambda>_. only_asked E v (effects s)) s"
proof (rule wp_bind_post [OF wp_mono [OF open_security_incident_post [OF inv]]], assumption, goal_cases)
  case (2 i t1)
  show ?case
  proof (rule wp_bind_post [OF wp_mono [OF store_event_post [OF 2 new]]], assumption, goal_cases)
    case (2 k t2)
    then obtain row where row: "sev_id row = k" "row_of_event v fp i row"
      "sev_containment_status row = CS_NOT_PROPOSED"
      "stays i (Some CLASSIFYING, db_security_events (sy_db s) @ [row], db_action_proposals (sy_db s), effects s) t2"
      by blast
    show ?case
    proof (rule wp_bind_post [OF wp_mono [OF propose_quarantine_post [OF row(4)]]], assumption, goal_cases)
      case (2 rp t3)
      obtain risk p where rp: "rp = (risk, p)" by (cases rp)
      from 2 obtain pr where pr: "prp_id pr = p" "prp_incident_id pr = i"
        "prp_action_type pr = APPLY_QUARANTINE" "prp_status pr = RS_PENDING" "0 \<le> rr_score risk"
        "rr_score risk \<le> 100"
        "stays i (Some POLICY_EVALUATION, db_security_events (sy_db s) @ [row],
           db_action_proposals (sy_db s) @ [pr], effects s) t3" by (auto simp: rp)
      show ?case
        unfolding rp prod.case
      proof (rule wp_then_post [OF decide_quarantine_post [OF pr(7) row(1) pr(1,4,5,6) demo]], goal_cases)
        case (1 t4)
        then obtain pin d evs' row' ps' where d: "asks_about v pin" "decided_row d row row'" "engine_answers E pin d"
          "stays i (Some (outcome_state d), evs' @ [row'], ps' @ [pr\<lparr>prp_status := outcome_status d\<rparr>],
             effects s @ [EvOpa pin d]) t4" by blast
        have "sev_id row' = k" using d(2) row(1) by (simp add: decided_row_def)
        from stream_security_event_post [OF d(4) this, of E i] show ?case
          unfolding wp_thenM wp_returnM
        proof (rule wp_mono, goal_cases)
          case (1 u t5)
          then have t5: "effects t5 = effects s @ [EvOpa pin d]" "state_of i t5 = Some (outcome_state d)"
            "row' \<in> set (db_security_events (sy_db t5))"
            "pr\<lparr>prp_status := outcome_status d\<rparr> \<in> set (db_action_proposals (sy_db t5))"
            by (simp_all add: stays_def sx_view_def)
          have "row_of_event v fp i row' \<and> sev_containment_status row' = outcome_containment d \<and>
              sev_policy_decision row' = Some (decision_name d) \<and> sev_id row' = k"
            using d(2) row by (simp add: decided_row_def row_of_event_def)
          then show ?case unfolding event_settled_def using t5 d(1,3) pr(2,3)
            by (auto intro!: exI [of _ i] exI [of _ pin] exI [of _ d] bexI [of _ row'] exI [of _ row']
                exI [of _ "pr\<lparr>prp_status := outcome_status d\<rparr>"])
        qed simp
      qed
    qed auto
  qed auto
qed (auto simp: only_asked_def)

lemma ingest_security_event_wp:
  assumes "log_inv s" and "security_inv s" and "tetragon_event_valid v"
  shows "wp (ingest_security_event E v)
    (\<lambda>r t. if sir_duplicate r
       then effects t = effects s \<and> db_incidents (sy_db t) = db_incidents (sy_db s) \<and>
         (\<exists>row \<in> set (db_security_events (sy_db t)). sev_id row = sir_event r \<and>
            same_event (tse_source v) (window_fingerprint E v) row)
       else event_settled E v (window_fingerprint E v) s (sir_event r) t)
    (\<lambda>_. only_asked E v (effects s)) s"
proof (cases "find (same_event (tse_source v) (window_fingerprint E v)) (db_security_events (sy_db s))")
  case None
  then have new: "\<forall>r \<in> set (db_security_events (sy_db s)). \<not> same_event (tse_source v) (window_fingerprint E v) r"
    by (simp add: find_None_iff)
  have demo: "dict_get (tse_workload_labels v) DEMO_TARGET_LABEL = Some ''true''"
    using assms(3) by (simp add: tetragon_event_valid_def category_matches_policy_and_evidence_def)
  show ?thesis
    unfolding ingest_security_event_def Let_def window_fingerprint_def [symmetric] wp_bindM [of "find_security_event _ _"]
      wp_find_security_event [OF assms(2)] None option.case
    by (rule wp_mono [OF new_event_settled [OF assms(1) new demo]]) auto
next
  case (Some r)
  then have "r \<in> set (db_security_events (sy_db s))" "same_event (tse_source v) (window_fingerprint E v) r"
    by (auto simp: find_Some_iff)
  moreover from this have "\<exists>row \<in> set (upd_row sev_id (sev_id r) f (db_security_events (sy_db s))).
      sev_id row = sev_id r \<and> same_event (tse_source v) (window_fingerprint E v) row"
    if "\<And>x. (sev_id (f x), sev_source (f x), sev_fingerprint (f x)) = (sev_id x, sev_source x, sev_fingerprint x)" for f
    using that by (intro bexI [of _ "f r"]) (auto simp: upd_row_def same_event_def)
  ultimately show ?thesis using Some
    unfolding ingest_security_event_def Let_def window_fingerprint_def [symmetric] wp_bindM [of "find_security_event _ _"]
      wp_find_security_event [OF assms(2)]
    by (simp add: deduplicate_event_def set_security_event_def wp_simps Let_def case_prod_unfold effects_def)
qed

subsection \<open>What ingestion preserves\<close>

lemma security_inv_set_event [inv_rules]:
  assumes "\<And>r. sev_id (f r) = sev_id r" and "\<And>r. sev_source (f r) = sev_source r"
    and "\<And>r. sev_fingerprint (f r) = sev_fingerprint r"
  shows "preserves security_inv (set_security_event k f)"
proof -
  have "map sev_id (upd_row sev_id k f rows) = map sev_id rows"
    "map (\<lambda>r. (sev_source r, sev_fingerprint r)) (upd_row sev_id k f rows) =
       map (\<lambda>r. (sev_source r, sev_fingerprint r)) rows" for rows
    by (simp_all add: upd_row_def assms)
  then show ?thesis
    by (auto simp: preserves_wp set_security_event_def wp_updM security_inv_def Let_def assms dest!: upd_row_mem
        split: if_splits)
qed

lemma security_inv_store_row:
  "preserves security_inv (insert_row E db_security_events_update security_event_ok (new_security_event v c fp i now))"
  by (auto simp: preserves_wp wp_insert_row Let_def case_prod_unfold security_inv_def security_event_ok_def
      new_security_event_def less_Suc_eq)

lemma security_inv_queue [inv_rules]: "preserves security_inv (queue_incident_notification E ty inc d pub)"
  by (rule security_events.inv_queue_incident_notification)

lemma security_inv_ops [inv_rules]:
  "preserves security_inv (worldM g)" "preserves security_inv (utc_now E)" "preserves security_inv (dbM h)"
  "preserves security_inv (opa_evaluate E pin)" "preserves security_inv (record_audit E a)"
  "preserves security_inv (load_row rows key i)" "preserves security_inv (set_incident j f)"
  "preserves security_inv (set_proposal p k)" "preserves security_inv (add_active w n)"
  "preserves security_inv (add_incident_event E j c ty fs ts a' aty ds)"
  "preserves security_inv (append_stream_event E ty' oi pl)"
  unfolding opa_evaluate_def load_row_def set_incident_def set_proposal_def add_active_def add_incident_event_def
  by (intro inv_rules security_events.inv_prims security_events.inv_updM security_events.inv_record_audit
      security_events.inv_insert_row security_events.inv_append_stream_event preserves_modifyM;
      simp add: security_inv_def)+

lemma security_inv_insert:
  "(\<And>h d. db_security_events (set_rows h d) = db_security_events d) \<Longrightarrow>
     preserves security_inv (insert_row E set_rows ok mk)"
  by (rule security_events.inv_insert_row) simp

lemma security_inv_change [inv_rules]: "preserves security_inv (change_incident_state E i tgt a aty ds fc)"
  unfolding change_incident_state_def record_change_def announce_change_def notify_change_def
    request_approval_def ensure_runtime_approval_def stream_approval_def capture_terminal_incident_def remember_def
  by (intro inv_rules security_inv_insert security_events.inv_updM) simp_all

lemma security_inv_ingest [inv_rules]: "preserves security_inv (ingest_security_event E v)"
  unfolding ingest_security_event_def find_security_event_def one_or_none_def deduplicate_event_def
    open_security_incident_def create_incident_def store_event_def propose_quarantine_def decide_quarantine_def
    settle_event_def stream_security_event_def sx_audit_def sx_change_def
  by (intro inv_rules security_inv_store_row security_inv_insert) simp_all

lemma log_inv_ingest [inv_rules]: "preserves log_inv (ingest_security_event E v)"
  unfolding ingest_security_event_def find_security_event_def one_or_none_def deduplicate_event_def
    open_security_incident_def store_event_def propose_quarantine_def decide_quarantine_def
    settle_event_def stream_security_event_def sx_defs opa_evaluate_def
  by (intro inv_rules log_inv_insert_row log_inv_updM log_inv_set_incident) simp_all

subsection \<open>The theorems\<close>


definition demo_event :: tetragon_security_event where
  "demo_event = \<lparr>tse_source = ''tetragon'', tse_event_type = SUSPICIOUS_PROCESS, tse_severity = ''high'',
     tse_environment = ENV_STAGING, tse_namespace = ''cloudward-staging'', tse_pod = ''demo-a'',
     tse_workload = Some ''demo'', tse_container = ''app'',
     tse_process = Some \<lparr>prd_binary = ''/bin/sh'', prd_parent_binary = None\<rparr>, tse_network = None,
     tse_policy = ''cloudward-s1-unexpected-shell'', tse_timestamp = 90000000,
     tse_evidence_ref = ''tetragon:event/1'',
     tse_workload_labels = [(''cloudward.io/demo-target'', ''true'')],
     tse_secrets_or_data_exposure = False\<rparr>"

lemma demo_event_valid: "tetragon_event_valid demo_event"
  by code_simp

lemma demo_sys_security_inv: "security_inv demo_sys"
  by (simp add: security_inv_def demo_sys_def empty_database_def)


text \<open>What identifies an event within a deduplication window.\<close>

definition event_identity :: "tetragon_security_event \<Rightarrow> _" where
  "event_identity v = (tse_source v, tse_event_type v, tse_namespace v, tse_pod v, tse_container v, tse_policy v,
     tse_process v, tse_network v)"

lemma same_window_fingerprint:
  assumes "event_identity v = event_identity w"
    and "int_seconds (tse_timestamp v) div n = int_seconds (tse_timestamp w) div n"
  shows "event_fingerprint v n = event_fingerprint w n"
  using assms by (simp add: event_fingerprint_def canonical_event_def event_identity_def)

text \<open>C17. Repetitions within a window are recognised: after an event was ingested, any valid event with the
  same identity (source, category, namespace, pod, container, policy, process and network) whose time falls
  into the same deduplication window is reported as a duplicate of the stored one, whatever its severity,
  labels, evidence or exact time; that never raises, opens no incident, proposes nothing and sends
  nothing.\<close>

theorem security_event_deduplicated:
  fixes E E' :: "'w env"
  defines "n \<equiv> set_security_dedup_window_seconds (e_settings E)"
  assumes "log_inv s" and "security_inv s" and "tetragon_event_valid v"
    and "ingest_security_event E v s = (Inr r, t)"
    and "set_security_dedup_window_seconds (e_settings E') = n"
    and "event_identity w = event_identity v"
    and "int_seconds (tse_timestamp w) div n = int_seconds (tse_timestamp v) div n"
  shows "wp (ingest_security_event E' w)
    (\<lambda>r' u. sir_duplicate r' \<and> sir_event r' = sir_event r \<and> effects u = effects t \<and>
       db_incidents (sy_db u) = db_incidents (sy_db t) \<and>
       db_action_proposals (sy_db u) = db_action_proposals (sy_db t) \<and>
       map sev_id (db_security_events (sy_db u)) = map sev_id (db_security_events (sy_db t)))
    (\<lambda>_ _. False) t"
proof -
  have inv: "security_inv t"
    using security_inv_ingest [of E v] assms(3,5) by (auto simp: preserves_def dest: spec [of _ s])
  have fp: "window_fingerprint E' w = window_fingerprint E v" "tse_source w = tse_source v"
    using same_window_fingerprint [OF assms(7,8)] assms(6,7)
    by (simp_all add: window_fingerprint_def n_def event_identity_def)
  obtain row where row: "row \<in> set (db_security_events (sy_db t))" "sev_id row = sir_event r"
    "same_event (tse_source v) (window_fingerprint E v) row"
    using wp_returned [OF ingest_security_event_wp [OF assms(2-4)] assms(5)]
    by (auto simp: event_settled_def row_of_event_def same_event_def split: if_splits)
  have "row \<in> set (filter (same_event (tse_source v) (window_fingerprint E v)) (db_security_events (sy_db t)))"
    using row by simp
  then have "find (same_event (tse_source v) (window_fingerprint E v)) (db_security_events (sy_db t)) = Some row"
    unfolding filter_same_event [OF inv] by (simp split: option.splits)
  then show ?thesis
    unfolding ingest_security_event_def Let_def window_fingerprint_def [symmetric] wp_bindM [of "find_security_event _ _"]
      wp_find_security_event [OF inv] fp
    using row(2)
    by (simp add: deduplicate_event_def set_security_event_def wp_simps Let_def case_prod_unfold effects_def)
      (simp add: upd_row_def)
qed

theorem security_event_deduplicated_witness:
  "\<exists>r t. ingest_security_event demo_env demo_event demo_sys = (Inr r, t) \<and>
     wp (ingest_security_event demo_env (demo_event\<lparr>tse_severity := ''critical'', tse_timestamp := 119000000\<rparr>))
       (\<lambda>r' u. sir_duplicate r' \<and> effects u = effects t) (\<lambda>_ _. False) t"
proof -
  have "pr_allowed d" if "engine_answers demo_env pin d" for pin d
    using that by (auto simp: engine_answers_def demo_env_def demo_opa_reply_def opa_decide_def dict_get_def
        policy_result_validate_def parse_bool_def parse_opt_str_def)
  moreover have "py_lower (tse_severity demo_event) \<noteq> ''critical''" by code_simp
  moreover have "\<not> client_crashes demo_env" by (simp add: client_crashes_def demo_env_def)
  ultimately have "wp (ingest_security_event demo_env demo_event) (\<lambda>_ _. True) (\<lambda>_ _. False) demo_sys"
    by (intro wp_mono [OF ingest_security_event_wp [OF demo_sys_alert_inv(2) demo_sys_security_inv demo_event_valid]])
      (auto simp: only_asked_def)
  then obtain r t where rt: "ingest_security_event demo_env demo_event demo_sys = (Inr r, t)"
    by (auto simp: wp_def split: prod.splits sum.splits)
  have "wp (ingest_security_event demo_env (demo_event\<lparr>tse_severity := ''critical'', tse_timestamp := 119000000\<rparr>))
       (\<lambda>r' u. sir_duplicate r' \<and> effects u = effects t) (\<lambda>_ _. False) t"
    by (rule wp_mono [OF security_event_deduplicated [OF demo_sys_alert_inv(2) demo_sys_security_inv demo_event_valid rt]])
      (auto simp: event_identity_def int_seconds_def demo_event_def demo_env_def demo_settings_def)
  with rt show ?thesis by blast
qed

text \<open>Ingestion keeps the books of the security events: whatever the event and however ingestion ends, there
  is at most one event per source and fingerprint, and the event log of every incident replays to its
  state.\<close>

theorem security_ingestion_keeps_invariants:
  "preserves security_inv (ingest_security_event E v) \<and> preserves log_inv (ingest_security_event E v)"
  by (intro conjI inv_rules)

end
