(* ===== verification/CW_Json.thy ===== *)
theory CW_Json
  imports CW_Pylib
begin

text \<open>
  Python's \<open>json.loads\<close>, as far as the program uses it: decoding the text a pod answers with. Text is
  Latin-1, so an escape beyond that range is read as a question mark; the literals \<open>NaN\<close> and
  \<open>Infinity\<close>, which the rationals do not have, are read as null. The parser runs on fuel: every nested
  call is on a strictly shorter rest, at most two calls deep per character, so twice the length is enough.
\<close>

definition json_blank :: "char \<Rightarrow> bool" where
  "json_blank c \<longleftrightarrow> (of_char c :: nat) \<in> {9, 10, 13, 32}"

definition skip_blanks :: "string \<Rightarrow> string" where
  "skip_blanks s = dropWhile json_blank s"

definition hex_value :: "char \<Rightarrow> nat option" where
  "hex_value c =
     (let n = (of_char c :: nat) in
      if 48 \<le> n \<and> n \<le> 57 then Some (n - 48)
      else if 97 \<le> n \<and> n \<le> 102 then Some (n - 87)
      else if 65 \<le> n \<and> n \<le> 70 then Some (n - 55) else None)"

definition json_escape :: "char \<Rightarrow> char option" where
  "json_escape c =
     (let n = (of_char c :: nat) in
      if n = 34 \<or> n = 92 \<or> n = 47 then Some c
      else if n = 98 then Some (char_of (8 :: nat)) else if n = 102 then Some (char_of (12 :: nat))
      else if n = 110 then Some (char_of (10 :: nat)) else if n = 114 then Some (char_of (13 :: nat))
      else if n = 116 then Some (char_of (9 :: nat)) else None)"

definition json_unicode :: "nat \<Rightarrow> nat \<Rightarrow> nat \<Rightarrow> nat \<Rightarrow> char" where
  "json_unicode a b c d =
     (let n = a * 4096 + b * 256 + c * 16 + d in if n < 256 then char_of n else CHR ''?'')"

text \<open>The characters of a string behind its opening quote, with what follows the closing one.\<close>

fun json_chars :: "string \<Rightarrow> (string \<times> string) option" where
  "json_chars [] = None"
| "json_chars (x # xs) =
     (let n = (of_char x :: nat) in
      if n = 34 then Some ([], xs)
      else if n < 32 then None
      else if n \<noteq> 92 then map_option (map_prod (Cons x) id) (json_chars xs)
      else case xs of
        [] \<Rightarrow> None
      | e # ys \<Rightarrow>
          (if e = CHR ''u'' then
             (case ys of
                a # b # c # d # zs \<Rightarrow>
                  (case (hex_value a, hex_value b, hex_value c, hex_value d) of
                     (Some a', Some b', Some c', Some d') \<Rightarrow>
                       map_option (map_prod (Cons (json_unicode a' b' c' d')) id) (json_chars zs)
                   | _ \<Rightarrow> None)
              | _ \<Rightarrow> None)
           else case json_escape e of
               None \<Rightarrow> None
             | Some c \<Rightarrow> map_option (map_prod (Cons c) id) (json_chars ys)))"

definition digits_int :: "string \<Rightarrow> int" where
  "digits_int s = foldl (\<lambda>n c. n * 10 + (of_char c - 48)) 0 s"

text \<open>\<^verbatim>\<open>(-?(?:0|[1-9]\d*))(\.\d+)?([eE][-+]?\d+)?\<close>: an integer without fraction and exponent, a float
  otherwise.\<close>

definition json_number :: "string \<Rightarrow> (json \<times> string) option" where
  "json_number s =
     (let (neg, t) = (case s of c # cs \<Rightarrow> if c = CHR ''-'' then (True, cs) else (False, s) | [] \<Rightarrow> (False, s));
          ds = takeWhile is_digit_char t;
          ip = (case ds of [] \<Rightarrow> [] | c # cs \<Rightarrow> if c = CHR ''0'' then [c] else ds);
          r1 = drop (length ip) t;
          fp = (case r1 of c # cs \<Rightarrow> if c = CHR ''.'' then takeWhile is_digit_char cs else [] | [] \<Rightarrow> []);
          r2 = (if fp = [] then r1 else drop (Suc (length fp)) r1);
          (esign, et) = (case r2 of
             c # cs \<Rightarrow> (if c = CHR ''e'' \<or> c = CHR ''E'' then
               (case cs of k # ks \<Rightarrow> if k = CHR ''-'' then (- 1, ks) else if k = CHR ''+'' then (1, ks) else (1, cs)
                | [] \<Rightarrow> (1, [])) else (1 :: int, []))
           | [] \<Rightarrow> (1, []));
          ep = takeWhile is_digit_char et;
          r3 = (if ep = [] then r2 else drop (length ep) et);
          m = (of_int (digits_int (ip @ fp)) :: rat) / 10 ^ length fp;
          e = digits_int ep
      in if ip = [] then None
         else if fp = [] \<and> ep = [] then Some (JInt ((if neg then - 1 else 1) * digits_int ip), r2)
         else Some (JFloat ((if neg then - 1 else 1) *
           (if 0 \<le> esign then m * 10 ^ nat e else m / 10 ^ nat e)), r3))"

definition json_literal :: "string \<Rightarrow> (json \<times> string) option" where
  "json_literal s =
     (case find (\<lambda>(k, _). py_startswith s k)
        [(''null'', JNull), (''true'', JBool True), (''false'', JBool False), (''NaN'', JNull),
         (''Infinity'', JNull), (''-Infinity'', JNull)] of
        Some (k, v) \<Rightarrow> Some (v, drop (length k) s)
      | None \<Rightarrow> json_number s)"

fun json_value :: "nat \<Rightarrow> string \<Rightarrow> (json \<times> string) option"
  and json_items :: "nat \<Rightarrow> json list \<Rightarrow> string \<Rightarrow> (json \<times> string) option"
  and json_members :: "nat \<Rightarrow> jdict \<Rightarrow> string \<Rightarrow> (json \<times> string) option" where
  "json_value 0 s = None"
| "json_value (Suc k) s =
     (case s of
        [] \<Rightarrow> None
      | c # cs \<Rightarrow>
          (if c = CHR 0x22 then map_option (map_prod JStr id) (json_chars cs)
           else if c = CHR ''['' then
             (case skip_blanks cs of
                d # ds \<Rightarrow> if d = CHR '']'' then Some (JList [], ds) else json_items k [] (d # ds)
              | [] \<Rightarrow> None)
           else if c = CHR 0x7B then
             (case skip_blanks cs of
                d # ds \<Rightarrow> if d = CHR 0x7D then Some (JObj [], ds) else json_members k [] (d # ds)
              | [] \<Rightarrow> None)
           else json_literal s))"
| "json_items 0 acc s = None"
| "json_items (Suc k) acc s =
     (case json_value k s of
        None \<Rightarrow> None
      | Some (v, r) \<Rightarrow>
          (case skip_blanks r of
             c # cs \<Rightarrow> (if c = CHR '']'' then Some (JList (acc @ [v]), cs)
               else if c = CHR '','' then json_items k (acc @ [v]) (skip_blanks cs) else None)
           | [] \<Rightarrow> None))"
| "json_members 0 acc s = None"
| "json_members (Suc k) acc s =
     (case s of
        [] \<Rightarrow> None
      | q # qs \<Rightarrow>
          (if q \<noteq> CHR 0x22 then None
           else case json_chars qs of
             None \<Rightarrow> None
           | Some (key, r) \<Rightarrow>
               (case skip_blanks r of
                  [] \<Rightarrow> None
                | c # cs \<Rightarrow>
                    (if c \<noteq> CHR '':'' then None
                     else case json_value k (skip_blanks cs) of
                       None \<Rightarrow> None
                     | Some (v, r') \<Rightarrow>
                         (case skip_blanks r' of
                            d # ds \<Rightarrow>
                              (if d = CHR 0x7D then Some (JObj (AList.update key v acc), ds)
                               else if d = CHR '','' then json_members k (AList.update key v acc) (skip_blanks ds)
                               else None)
                          | [] \<Rightarrow> None)))))"

definition json_loads :: "string \<Rightarrow> json option" where
  "json_loads s =
     (case json_value (2 * length s + 2) (skip_blanks s) of
        Some (v, r) \<Rightarrow> if skip_blanks r = [] then Some v else None
      | None \<Rightarrow> None)"

text \<open>The two directions agree on a document of the kind the probe answers with.\<close>

lemma json_loads_example:
  "json_loads (json_dumps (JObj [(''reachable'', JBool True), (''latency'', JFloat (5 / 2)),
     (''hops'', JList [JInt 1, JInt (- 20)]), (''target'', JStr ''a/b'')])) =
   Some (JObj [(''hops'', JList [JInt 1, JInt (- 20)]), (''latency'', JFloat (5 / 2)),
     (''reachable'', JBool True), (''target'', JStr ''a/b'')])"
  by code_simp

end
