(* ===== verification/CW_Probe.thy ===== *)
theory CW_Probe
  imports CW_Kube CW_Json
begin

text \<open>
  The reads of the Kubernetes executor (\<open>kubernetes/executor.py\<close>) beside those of \<open>CW_Kube\<close>: the events
  of an object, the state of an Argo CD application, the controlled egress probe and the catalogued
  security scenarios of the demo pods. The last two are requests to a fixed path of a pod through the
  API server's proxy.
\<close>

section \<open>Events\<close>

definition last_n :: "nat \<Rightarrow> 'a list \<Rightarrow> 'a list" where
  "last_n n xs = drop (length xs - n) xs"

definition get_events :: "'w env \<Rightarrow> string \<Rightarrow> string \<Rightarrow> ('w, json list) H" where
  "get_events E ns object_name =
     thenM (validate_name ns ''namespace'') (thenM (validate_name object_name ''object name'')
     (bindM (apiM (e_list_events E ns (''involvedObject.name='' @ object_name))
        (\<lambda>st. raiseM (api_error ''KUBERNETES_API_ERROR'' ''Unable to list Kubernetes events'' st)))
     (\<lambda>items. returnM (map (\<lambda>e. JObj [(''reason'', jstr_opt (ke_reason e)), (''type'', jstr_opt (ke_type e)),
        (''message'', jstr_opt (ke_message e)), (''count'', jopt JInt (ke_count e))]) (last_n 50 items)))))"

section \<open>Argo CD\<close>

record argo_application_state =
  aas_name :: string
  aas_target_revision :: string
  aas_observed_revision :: "string option"
  aas_sync_status :: string
  aas_health_status :: string
  aas_operation_phase :: "string option"
  aas_reconciled_at :: "string option"
  aas_out_of_sync_resources :: "jdict list"

definition has_persistent_drift :: "argo_application_state \<Rightarrow> bool" where
  "has_persistent_drift a \<longleftrightarrow> aas_sync_status a \<noteq> ''Synced'' \<or> aas_out_of_sync_resources a \<noteq> []"

definition argo_state_json :: "argo_application_state \<Rightarrow> jdict" where
  "argo_state_json a =
     [(''name'', JStr (aas_name a)), (''target_revision'', JStr (aas_target_revision a)),
      (''observed_revision'', jstr_opt (aas_observed_revision a)),
      (''sync_status'', JStr (aas_sync_status a)), (''health_status'', JStr (aas_health_status a)),
      (''operation_phase'', jstr_opt (aas_operation_phase a)),
      (''reconciled_at'', jstr_opt (aas_reconciled_at a)),
      (''out_of_sync_resources'', JList (map JObj (aas_out_of_sync_resources a))),
      (''has_persistent_drift'', JBool (has_persistent_drift a))]"

text \<open>\<^verbatim>\<open>d.get(k) or {}\<close> of a value that must then be a dictionary, and \<^verbatim>\<open>str(d.get(k) or default)\<close>.\<close>

definition sub_dict :: "jdict \<Rightarrow> string \<Rightarrow> exn + jdict" where
  "sub_dict d k = attr_dict (py_or (jget d k) (JObj []))"

definition text_or :: "jdict \<Rightarrow> string \<Rightarrow> string \<Rightarrow> string" where
  "text_or d k dflt = py_str (py_or (jget d k) (JStr dflt))"

definition text_opt :: "jdict \<Rightarrow> string \<Rightarrow> string option" where
  "text_opt d k = (if py_truth (jget d k) then Some (py_str (jget d k)) else None)"

fun out_of_sync :: "json list \<Rightarrow> exn + jdict list" where
  "out_of_sync [] = Inr []"
| "out_of_sync (v # vs) =
     (case attr_dict v of
        Inl e \<Rightarrow> Inl e
      | Inr r \<Rightarrow>
          (case out_of_sync vs of
             Inl e \<Rightarrow> Inl e
           | Inr rs \<Rightarrow> Inr (if jget r ''status'' \<noteq> JStr ''Synced''
               then [(''group'', JStr (text_or r ''group'' [])), (''kind'', JStr (text_or r ''kind'' [])),
                 (''namespace'', JStr (text_or r ''namespace'' [])), (''name'', JStr (text_or r ''name'' [])),
                 (''status'', JStr (text_or r ''status'' ''Unknown''))] # rs
               else rs)))"

definition json_elements :: "json \<Rightarrow> exn + json list" where
  "json_elements v = (case v of JList xs \<Rightarrow> Inr xs | JObj kvs \<Rightarrow> Inr (map (JStr \<circ> fst) kvs)
     | JStr s \<Rightarrow> Inr (map (\<lambda>c. JStr [c]) s) | _ \<Rightarrow> Inl (PyError ''TypeError''))"

definition argo_state :: "string \<Rightarrow> json \<Rightarrow> exn + argo_application_state" where
  "argo_state name application =
     (case attr_dict application of Inl e \<Rightarrow> Inl e | Inr app \<Rightarrow>
     (case sub_dict app ''spec'' of Inl e \<Rightarrow> Inl e | Inr spec \<Rightarrow>
     (case sub_dict app ''status'' of Inl e \<Rightarrow> Inl e | Inr status \<Rightarrow>
     (case sub_dict spec ''source'' of Inl e \<Rightarrow> Inl e | Inr source \<Rightarrow>
     (case sub_dict status ''sync'' of Inl e \<Rightarrow> Inl e | Inr sync \<Rightarrow>
     (case sub_dict status ''health'' of Inl e \<Rightarrow> Inl e | Inr health \<Rightarrow>
     (case sub_dict status ''operationState'' of Inl e \<Rightarrow> Inl e | Inr operation \<Rightarrow>
     (case json_elements (py_or (jget status ''resources'') (JList [])) of Inl e \<Rightarrow> Inl e | Inr resources \<Rightarrow>
     (case out_of_sync resources of Inl e \<Rightarrow> Inl e | Inr drifted \<Rightarrow>
       Inr \<lparr>aas_name = name, aas_target_revision = text_or source ''targetRevision'' [],
         aas_observed_revision = text_opt sync ''revision'', aas_sync_status = text_or sync ''status'' ''Unknown'',
         aas_health_status = text_or health ''status'' ''Unknown'',
         aas_operation_phase = text_opt operation ''phase'',
         aas_reconciled_at = text_opt status ''reconciledAt'',
         aas_out_of_sync_resources = drifted\<rparr>)))))))))"

definition get_argocd_application :: "'w env \<Rightarrow> string \<Rightarrow> ('w, argo_application_state) H" where
  "get_argocd_application E name =
     thenM (validate_name name ''Argo CD application name'')
     (thenM (raise_if (\<not> e_custom_api E) (cw_error ''KUBERNETES_CLIENT_UNAVAILABLE''
        ''The Kubernetes custom resources client is unavailable'' 503))
     (bindM (apiM (e_get_custom E ''argocd'' ''applications'' name)
        (\<lambda>st. raiseM (CloudWardError ''ARGOCD_API_ERROR'' ''Unable to read Argo CD application status'' 502
          (Some (JObj [(''status'', jopt JInt st), (''application'', JStr name)])))))
     (\<lambda>application. liftR (argo_state name application))))"

section \<open>The controlled probe\<close>

record controlled_egress_probe =
  cep_namespace :: string
  cep_pod_name :: string
  cep_reachable :: bool

text \<open>A proxied answer is decoded when it is text.\<close>

definition decode_payload :: "exn \<Rightarrow> json \<Rightarrow> exn + json" where
  "decode_payload invalid payload =
     (case payload of
        JStr s \<Rightarrow> (case json_loads s of None \<Rightarrow> Inl invalid | Some v \<Rightarrow> Inr v)
      | _ \<Rightarrow> Inr payload)"

definition read_reachable :: "json \<Rightarrow> exn + bool" where
  "read_reachable payload =
     (let invalid = cw_error ''SECURITY_PROBE_INVALID''
        ''Controlled egress probe returned an invalid response'' 502 in
      case decode_payload invalid payload of
        Inl e \<Rightarrow> Inl e
      | Inr (JObj d) \<Rightarrow> (case jget d ''reachable'' of JBool b \<Rightarrow> Inr b | _ \<Rightarrow> Inl invalid)
      | Inr _ \<Rightarrow> Inl invalid)"

definition probe_controlled_security_egress :: "'w env \<Rightarrow> string \<Rightarrow> string \<Rightarrow> ('w, controlled_egress_probe) H" where
  "probe_controlled_security_egress E ns pod_name =
     thenM (require_namespace E ns)
     (thenM (validate_name pod_name ''pod name'')
     (bindM (get_pod_health E ns pod_name) (\<lambda>pod.
      thenM (raise_if (dict_get (ps_labels pod) DEMO_TARGET_LABEL \<noteq> Some ''true'')
        (cw_error ''KUBERNETES_TARGET_DENIED'' ''Pod is not labeled as a CloudWard demo target'' 403))
      (bindM (apiM (e_pod_proxy E pod_name ns ''demo/security/egress-probe'')
         (\<lambda>st. raiseM (api_error ''SECURITY_PROBE_FAILED''
            ''Unable to execute the controlled egress probe'' st))) (\<lambda>payload.
       bindM (liftR (read_reachable payload)) (\<lambda>reachable.
       returnM \<lparr>cep_namespace = ns, cep_pod_name = pod_name, cep_reachable = reachable\<rparr>))))))"

section \<open>Catalogued scenarios\<close>

definition SECURITY_SCENARIO_PATHS :: "(string \<times> string) list" where
  "SECURITY_SCENARIO_PATHS =
     [(''security.suspicious-shell-pattern'', ''demo/security/suspicious-shell''),
      (''security.unexpected-egress'', ''demo/security/unexpected-egress''),
      (''security.privilege-related-behavior'', ''demo/security/privilege-attempt'')]"

record scenario_trigger_result =
  str_scenario_id :: string
  str_namespace :: string
  str_pod_name :: string
  str_endpoint :: string
  str_result :: jdict

definition flag_or :: "jdict \<Rightarrow> string \<Rightarrow> bool \<Rightarrow> bool" where
  "flag_or d k dflt = (case dict_get d k of None \<Rightarrow> dflt | Some v \<Rightarrow> py_truth v)"

definition plain_text :: "jdict \<Rightarrow> string \<Rightarrow> string" where
  "plain_text d k = (case dict_get d k of None \<Rightarrow> [] | Some v \<Rightarrow> py_str v)"

definition security_scenario_result :: "string \<Rightarrow> jdict \<Rightarrow> exn + jdict" where
  "security_scenario_result scenario_id d =
     (let (result, safe) =
        (if scenario_id = ''security.suspicious-shell-pattern'' then
           ([(''shell_signal'', JStr (plain_text d ''shell_signal'')),
             (''internal_simulator_reachable'', JBool (flag_or d ''internal_simulator_reachable'' False)),
             (''external_connection'', JBool (flag_or d ''external_connection'' True))],
            plain_text d ''shell_signal'' = ''completed'' \<and>
            flag_or d ''internal_simulator_reachable'' False \<and> \<not> flag_or d ''external_connection'' True)
         else if scenario_id = ''security.unexpected-egress'' then
           ([(''target'', JStr (plain_text d ''target'')),
             (''reachable'', JBool (flag_or d ''reachable'' False)),
             (''external_connection'', JBool (flag_or d ''external_connection'' True))],
            plain_text d ''target'' = ''internal-c2-simulator'' \<and> flag_or d ''reachable'' False \<and>
            \<not> flag_or d ''external_connection'' True)
         else
           ([(''operation'', JStr (plain_text d ''operation'')), (''denied'', JBool (flag_or d ''denied'' False)),
             (''exploit_attempted'', JBool (flag_or d ''exploit_attempted'' True))],
            plain_text d ''operation'' = ''controlled-read-/proc/1/mem'' \<and> flag_or d ''denied'' False \<and>
            \<not> flag_or d ''exploit_attempted'' True))
      in if safe then Inr result
         else Inl (cw_error ''SECURITY_SCENARIO_SAFETY_CHECK_FAILED''
           ''Controlled security scenario did not satisfy its fixed safety contract'' 502))"

text \<open>A request that takes longer than the timeout fails with \<open>TimeoutError\<close>.\<close>

definition call_scenario :: "'w env \<Rightarrow> string \<Rightarrow> string \<Rightarrow> string \<Rightarrow> ('w, json) H" where
  "call_scenario E ns pod_name endpoint =
     bindM (worldM (e_pod_proxy E pod_name ns endpoint)) (\<lambda>r.
     case r of
       Inr payload \<Rightarrow> returnM payload
     | Inl f \<Rightarrow> (case f of
         ApiException st \<Rightarrow> raiseM (api_error ''SECURITY_SCENARIO_TRIGGER_FAILED''
           ''Kubernetes rejected the controlled security scenario trigger'' st)
       | ApiOther c \<Rightarrow>
           if c = ''TimeoutError'' then raiseM (cw_error ''SECURITY_SCENARIO_TRIGGER_TIMEOUT''
             ''Controlled security scenario trigger timed out'' 504)
           else raiseM (PyError c)))"

definition trigger_controlled_security_scenario :: "'w env \<Rightarrow> string \<Rightarrow> string \<Rightarrow> string \<Rightarrow> rat \<Rightarrow>
    ('w, scenario_trigger_result) H" where
  "trigger_controlled_security_scenario E ns pod_name scenario_id timeout =
     (let invalid = cw_error ''SECURITY_SCENARIO_RESPONSE_INVALID''
        ''Controlled security scenario returned an invalid response'' 502 in
      thenM (require_namespace E ns)
      (thenM (raise_if (ns \<noteq> ''cloudward-staging'') (cw_error ''SECURITY_SCENARIO_NAMESPACE_DENIED''
         ''Runtime-security scenarios are restricted to cloudward-staging'' 403))
      (thenM (validate_name pod_name ''pod name'')
      (case dict_get SECURITY_SCENARIO_PATHS scenario_id of
         None \<Rightarrow> raiseM (cw_error ''SECURITY_SCENARIO_DENIED''
           ''Security scenario is not in the fixed executable catalog'' 422)
       | Some endpoint \<Rightarrow>
           bindM (get_pod_health E ns pod_name) (\<lambda>pod.
           thenM (raise_if (dict_get (ps_labels pod) DEMO_TARGET_LABEL \<noteq> Some ''true'' \<or>
               \<not> ps_controller_managed pod) (cw_error ''KUBERNETES_TARGET_DENIED''
             ''Security scenario target is outside the controlled demo boundary'' 403))
           (thenM (raise_if (\<not> (1 \<le> timeout \<and> timeout \<le> 10)) (cw_error ''SECURITY_SCENARIO_TIMEOUT_INVALID''
             ''Security scenario timeout is outside the fixed bound'' 422))
           (bindM (call_scenario E ns pod_name endpoint) (\<lambda>payload.
            bindM (liftR (decode_payload invalid payload)) (\<lambda>decoded.
            bindM (liftR (case decoded of
                JObj d \<Rightarrow> if jget d ''scenario'' = JStr scenario_id then security_scenario_result scenario_id d
                  else Inl invalid
              | _ \<Rightarrow> Inl invalid)) (\<lambda>result.
            returnM \<lparr>str_scenario_id = scenario_id, str_namespace = ns, str_pod_name = pod_name,
              str_endpoint = ''/'' @ endpoint, str_result = result\<rparr>))))))))))"

section \<open>Frames\<close>

lemmas probe_defs = get_events_def get_argocd_application_def probe_controlled_security_egress_def
  trigger_controlled_security_scenario_def call_scenario_def

text \<open>All of them only read.\<close>

lemma keeps_probes:
  assumes "\<And>s w. f (s\<lparr>sy_world := w\<rparr>) = f s"
  shows "keeps f (get_events E ns n)" "keeps f (get_argocd_application E n)"
    "keeps f (probe_controlled_security_egress E ns n)"
    "keeps f (trigger_controlled_security_scenario E ns n sc to)"
  unfolding probe_defs by (intro frame keeps_worldM keeps_kube_reads assms)+

text \<open>A scenario that is reported as triggered is one of the catalogue, ran in the staging namespace and
  met its safety contract.\<close>

lemma scenario_result_safe:
  "security_scenario_result sc d = Inr r \<Longrightarrow>
     dict_get r ''external_connection'' \<noteq> Some (JBool True) \<and> dict_get r ''exploit_attempted'' \<noteq> Some (JBool True)"
  by (auto simp: security_scenario_result_def dict_get_def Let_def split: if_splits)

lemma triggered_scenario_confined:
  "wp (trigger_controlled_security_scenario E ns n sc to)
     (\<lambda>r _. ns = ''cloudward-staging'' \<and> sc \<in> fst ` set SECURITY_SCENARIO_PATHS \<and> 1 \<le> to \<and> to \<le> 10 \<and>
        dict_get (str_result r) ''external_connection'' \<noteq> Some (JBool True)) (\<lambda>_ _. True) s"
proof -
  have path: "dict_get SECURITY_SCENARIO_PATHS sc = Some p \<Longrightarrow> sc \<in> fst ` set SECURITY_SCENARIO_PATHS" for p
    by (force simp: dict_get_def dest: map_of_SomeD)
  show ?thesis
    unfolding trigger_controlled_security_scenario_def Let_def get_pod_health_def apiM_def call_scenario_def
    by (auto simp: wp_simps path split: option.splits sum.splits api_failure.splits json.splits
        dest: scenario_result_safe)
qed

end
