(* ===== verification/CW_Quarantine.thy ===== *)
theory CW_Quarantine
  imports CW_Security CW_Probe CW_Verification
begin

text \<open>
  The quarantine workflow (\<open>security/quarantine.py\<close>): an operator applies the quarantine proposed for a
  security event, or removes it. Both ask the policy engine afresh with the operator's approval and the
  live labels of the pod, act through the typed executor, watch the result until a deadline, and record
  the outcome; a \<open>CloudWardError\<close> on the way is recorded and raised again, any other exception passes.
\<close>

section \<open>Shared steps\<close>

definition set_quarantine :: "uuid \<Rightarrow> (quarantine_record \<Rightarrow> quarantine_record) \<Rightarrow> ('w, unit) H" where
  "set_quarantine i f = updM (db_quarantine_records_update (upd_row qrr_id i f))"

definition event_and_incident :: "uuid \<Rightarrow> ('w, security_event \<times> incident) H" where
  "event_and_incident event_id =
     bindM (dbM (\<lambda>d. find_row sev_id event_id (db_security_events d))) (\<lambda>found.
     case found of
       None \<Rightarrow> raiseM (cw_error ''SECURITY_EVENT_NOT_FOUND'' ''Security event was not found'' 404)
     | Some ev \<Rightarrow>
         (case sev_incident_id ev of
            None \<Rightarrow> raiseM (cw_error ''SECURITY_EVENT_NOT_ACTIONABLE''
              ''Security event has no linked incident'' 409)
          | Some i \<Rightarrow>
              bindM (dbM (\<lambda>d. find_row inc_id i (db_incidents d))) (\<lambda>inc.
              case inc of None \<Rightarrow> raiseM (PyError ''NoResultFound'') | Some x \<Rightarrow> returnM (ev, x))))"

definition proposal_for_apply :: "security_event \<Rightarrow> ('w, uuid) H" where
  "proposal_for_apply ev =
     bindM (dbM (\<lambda>d. newest prp_created_at (\<lambda>p. Some (prp_incident_id p) = sev_incident_id ev \<and>
       prp_action_type p = APPLY_QUARANTINE) (db_action_proposals d))) (\<lambda>found.
     case found of
       None \<Rightarrow> raiseM (cw_error ''QUARANTINE_PROPOSAL_NOT_FOUND''
         ''No policy-evaluated quarantine proposal exists'' 409)
     | Some p \<Rightarrow> returnM (prp_id p))"

fun category_sensitivity :: "security_category \<Rightarrow> sensitivity" where
  "category_sensitivity SUSPICIOUS_PROCESS = SENS_LOW"
| "category_sensitivity UNEXPECTED_EGRESS = SENS_MODERATE"
| "category_sensitivity PRIVILEGE_BEHAVIOR = SENS_HIGH"

definition quarantine_risk_context :: "security_event \<Rightarrow> action_type \<Rightarrow> risk_context" where
  "quarantine_risk_context ev action =
     \<lparr>rc_environment = environment_value (sev_environment ev), rc_action = action, rc_target_count = 1,
      rc_reversible = Some True, rc_confidence = 95 / 100,
      rc_sensitivity = category_sensitivity (sev_event_type ev), rc_destructive_override = False\<rparr>"

definition quarantine_policy_input :: "security_event \<Rightarrow> string \<Rightarrow> action_type \<Rightarrow> labels \<Rightarrow> bool \<Rightarrow> risk_result \<Rightarrow>
    policy_input" where
  "quarantine_policy_input ev actor action live controller_managed risk =
     \<lparr>pi_environment = environment_value (sev_environment ev), pi_action = action,
      pi_risk_score = rr_score risk, pi_risk_factors = rr_factors risk, pi_confidence = 95 / 100,
      pi_blast_radius = 1, pi_reversible = True,
      pi_service_criticality = label_or live CRITICALITY_LABEL ''low'',
      pi_target = \<lparr>ti_namespace = sev_namespace ev, ti_pod_name = sev_pod ev, ti_labels = live,
        ti_controller_managed = controller_managed, ti_target_pods = 1\<rparr>,
      pi_approval = \<lparr>ai_approved = True, ai_approval_id = Some (''manual-'' @ uuid_str (sev_id ev)),
        ai_approved_by = Some actor\<rparr>\<rparr>"

definition authorize :: "'w env \<Rightarrow> security_event \<Rightarrow> string \<Rightarrow> action_type \<Rightarrow> pod_state \<Rightarrow>
    ('w, risk_result \<times> policy_input \<times> policy_result) H" where
  "authorize E ev actor action pod =
     bindM (liftR (mk_risk_context (quarantine_risk_context ev action))) (\<lambda>ctx.
     bindM (liftR (risk_calculate ctx)) (\<lambda>risk.
     bindM (liftR (mk_policy_input (quarantine_policy_input ev actor action (ps_labels pod)
        (ps_controller_managed pod) risk))) (\<lambda>pin.
     bindM (opa_evaluate E pin) (\<lambda>decision. returnM (risk, pin, decision)))))"

definition persist_decision :: "'w env \<Rightarrow> security_event \<Rightarrow> uuid \<Rightarrow> uuid \<Rightarrow> policy_input \<Rightarrow> policy_result \<Rightarrow> int \<Rightarrow>
    ('w, unit) H" where
  "persist_decision E ev i p pin decision score = seqM
     [voidM (insert_row E db_policy_decisions_update no_constraint
        (\<lambda>d t. \<lparr>pol_id = d, pol_incident_id = i, pol_proposal_id = p, pol_created_at = t,
           pol_correlation_id = sev_correlation_id ev,
           pol_policy_path = set_opa_decision_path (e_settings E), pol_allowed = pr_allowed decision,
           pol_requires_approval = pr_requires_approval decision, pol_reason = pr_reason decision,
           pol_input_digest = policy_digest pin, pol_result = policy_result_json decision\<rparr>)),
      set_security_event (sev_id ev) (\<lambda>r. r\<lparr>sev_risk_score := Some score,
        sev_policy_decision := Some (if pr_allowed decision then ''ALLOW'' else ''DENY'')\<rparr>)]"

text \<open>\<^verbatim>\<open>int(highest or 0) + 1\<close>.\<close>

definition next_attempt :: "uuid \<Rightarrow> database \<Rightarrow> int" where
  "next_attempt i d =
     (case map exe_attempt (filter (\<lambda>x. exe_incident_id x = i) (db_action_executions d)) of
        [] \<Rightarrow> 1 | n # ns \<Rightarrow> fold max ns n + 1)"

definition execution_key :: "uuid \<Rightarrow> action_type \<Rightarrow> security_event \<Rightarrow> int \<Rightarrow> string" where
  "execution_key i action ev attempt = sha256_hex (uuid_str i @ '':'' @ action_value action @ '':'' @
     sev_namespace ev @ '':'' @ sev_pod ev @ '':'' @ str_of_int attempt)"

definition new_quarantine_execution :: "'w env \<Rightarrow> security_event \<Rightarrow> uuid \<Rightarrow> uuid \<Rightarrow> action_type \<Rightarrow>
    ('w, uuid \<times> int) H" where
  "new_quarantine_execution E ev i p action =
     bindM (dbM (next_attempt i)) (\<lambda>attempt.
     thenM (raise_if (attempt > 3) (cw_error ''ACTION_ATTEMPT_LIMIT_REACHED''
       ''The incident action attempt limit has been reached'' 409))
     (bindM (insert_row E db_action_executions_update action_execution_ok
       (new_execution i p (sev_correlation_id ev) action attempt
          (Some (execution_key i action ev attempt)) None)) (\<lambda>x.
      returnM (x, attempt))))"

definition publish_containment :: "'w env \<Rightarrow> security_event \<Rightarrow> uuid \<Rightarrow> uuid \<Rightarrow> ('w, unit) H" where
  "publish_containment E ev i q =
     bindM (load_row db_quarantine_records qrr_id q) (\<lambda>r.
     voidM (insert_row E db_stream_events_update no_constraint
       (\<lambda>x t. \<lparr>ste_id = x, ste_created_at = t, ste_event_type = ''security.containment'',
          ste_incident_id = Some i,
          ste_payload = JObj [(''type'', JStr ''security.containment''),
            (''security_event_id'', JStr (uuid_str (sev_id ev))), (''incident_id'', JStr (uuid_str i)),
            (''containment_status'', JStr (containment_status_value (qrr_status r)))]\<rparr>)))"

definition quarantine_id :: "security_event \<Rightarrow> string" where
  "quarantine_id ev = take 12 (uuid_hex (sev_id ev))"

section \<open>Watching the cluster\<close>

definition check_json :: "string \<times> bool \<Rightarrow> json" where
  "check_json c = JObj [(''name'', JStr (fst c)), (''passed'', JBool (snd c))]"

definition checks_json :: "(string \<times> bool) list \<Rightarrow> jdict" where
  "checks_json cs = [(''success'', JBool (list_all snd cs)), (''checks'', JList (map check_json cs))]"

definition containment_checks :: "quarantine_policy_state \<Rightarrow> controlled_egress_probe \<Rightarrow> pod_state \<Rightarrow>
    (string \<times> bool) list" where
  "containment_checks state probe pod =
     [(''cilium_policy_enforced'', qs_enforced state),
      (''target_label_matches'', qs_target_label_matches state),
      (''forbidden_egress_blocked'', \<not> cep_reachable probe), (''pod_health_preserved'', ps_ready pod)]"

definition observe_containment :: "'w env \<Rightarrow> security_event \<Rightarrow> string \<Rightarrow> ('w, (string \<times> bool) list) H" where
  "observe_containment E ev policy_name =
     bindM (get_quarantine_policy_state E (sev_namespace ev) (sev_pod ev) policy_name (quarantine_id ev)) (\<lambda>state.
     bindM (probe_controlled_security_egress E (sev_namespace ev) (sev_pod ev)) (\<lambda>probe.
     bindM (get_pod_health E (sev_namespace ev) (sev_pod ev)) (\<lambda>pod.
     returnM (containment_checks state probe pod))))"

definition release_checks :: "quarantine_policy_state \<Rightarrow> controlled_egress_probe \<Rightarrow> (string \<times> bool) list" where
  "release_checks state probe =
     [(''cilium_policy_removed'', \<not> qs_policy_exists state),
      (''target_label_removed'', \<not> qs_target_label_matches state),
      (''controlled_egress_restored'', cep_reachable probe)]"

definition observe_release :: "'w env \<Rightarrow> security_event \<Rightarrow> string \<Rightarrow> ('w, (string \<times> bool) list) H" where
  "observe_release E ev policy_name =
     bindM (get_quarantine_policy_state E (sev_namespace ev) (sev_pod ev) policy_name (quarantine_id ev)) (\<lambda>state.
     bindM (probe_controlled_security_egress E (sev_namespace ev) (sev_pod ev)) (\<lambda>probe.
     returnM (release_checks state probe)))"

text \<open>The polling loop of both waits: \<open>observe\<close> gives the checks of one round, \<open>latest\<close> the last ones seen.
  Running out of fuel is the exception \<open>diverged\<close>.\<close>

fun poll_checks :: "nat \<Rightarrow> 'w env \<Rightarrow> ('w, (string \<times> bool) list) H \<Rightarrow> rat \<Rightarrow> rat \<Rightarrow> (string \<times> bool) list option \<Rightarrow>
    ('w, (string \<times> bool) list option) H" where
  "poll_checks 0 E observe deadline poll latest = raiseM diverged"
| "poll_checks (Suc n) E observe deadline poll latest =
     bindM (monotonic E) (\<lambda>t.
     if t < deadline then
       bindM observe (\<lambda>checks.
       if list_all snd checks then returnM (Some checks)
       else thenM (sleepM E poll) (poll_checks n E observe deadline poll (Some checks)))
     else returnM latest)"

definition wait_for :: "'w env \<Rightarrow> ('w, (string \<times> bool) list) H \<Rightarrow> ('w, (string \<times> bool) list option) H" where
  "wait_for E observe =
     (let timeout = set_security_quarantine_verify_timeout_seconds (e_settings E);
          poll = set_security_quarantine_verify_poll_seconds (e_settings E) in
      bindM (monotonic E) (\<lambda>start.
      poll_checks (verify_fuel timeout poll) E observe (start + timeout) poll None))"

definition wait_for_containment :: "'w env \<Rightarrow> security_event \<Rightarrow> string \<Rightarrow> ('w, jdict) H" where
  "wait_for_containment E ev policy_name =
     bindM (wait_for E (observe_containment E ev policy_name)) (\<lambda>latest.
     returnM (case latest of Some cs \<Rightarrow> checks_json cs
       | None \<Rightarrow> [(''success'', JBool False), (''checks'', JList [])]))"

definition policy_state_json :: "quarantine_policy_state \<Rightarrow> jdict" where
  "policy_state_json q =
     [(''namespace'', JStr (qs_namespace q)), (''pod_name'', JStr (qs_pod_name q)),
      (''policy_name'', JStr (qs_policy_name q)), (''policy_exists'', JBool (qs_policy_exists q)),
      (''target_label_matches'', JBool (qs_target_label_matches q)),
      (''deny_all_egress'', JBool (qs_deny_all_egress q)), (''enforced'', JBool (qs_enforced q))]"

definition wait_for_release :: "'w env \<Rightarrow> security_event \<Rightarrow> string \<Rightarrow> jdict \<Rightarrow> ('w, jdict) H" where
  "wait_for_release E ev policy_name initial_state =
     bindM (wait_for E (observe_release E ev policy_name)) (\<lambda>latest.
     returnM ((''initial_policy_state'', JObj initial_state) #
       (case latest of Some cs \<Rightarrow> checks_json cs | None \<Rightarrow> [])))"

text \<open>\<^verbatim>\<open>verification["success"]\<close>.\<close>

definition success_of :: "jdict \<Rightarrow> exn + bool" where
  "success_of d = (case dict_get d ''success'' of None \<Rightarrow> Inl (PyError ''KeyError'') | Some v \<Rightarrow> Inr (py_truth v))"

section \<open>Applying a quarantine\<close>

definition qx_audit :: "'w env \<Rightarrow> security_event \<Rightarrow> uuid \<Rightarrow> string \<Rightarrow> string \<Rightarrow> action_type \<Rightarrow> int \<Rightarrow>
    (audit_call \<Rightarrow> audit_call) \<Rightarrow> ('w, unit) H" where
  "qx_audit E ev i event result action score f = voidM (record_audit E
     (f ((audit_args event (sev_correlation_id ev) result)\<lparr>aa_incident_id := Some i,
        aa_action := Some (action_value action), aa_risk_score := Some score\<rparr>)))"

definition by_user :: "string \<Rightarrow> audit_call \<Rightarrow> audit_call" where
  "by_user actor a = a\<lparr>aa_actor := actor, aa_actor_type := ACTOR_USER\<rparr>"

definition live_quarantine :: "uuid \<Rightarrow> database \<Rightarrow> quarantine_record option" where
  "live_quarantine k d = newest qrr_created_at
     (\<lambda>q. qrr_security_event_id q = k \<and> qrr_status q \<noteq> CS_REMOVED) (db_quarantine_records d)"

definition new_quarantine :: "security_event \<Rightarrow> uuid \<Rightarrow> int \<Rightarrow> uuid \<Rightarrow> time \<Rightarrow> quarantine_record" where
  "new_quarantine ev i score q t =
     \<lparr>qrr_id = q, qrr_created_at = t, qrr_incident_id = i, qrr_security_event_id = sev_id ev,
      qrr_namespace = sev_namespace ev, qrr_pod = sev_pod ev, qrr_workload = sev_workload ev,
      qrr_policy_name = ''cloudward-quarantine-'' @ quarantine_id ev,
      qrr_selector = [(QUARANTINE_LABEL, JStr (quarantine_id ev))],
      qrr_reason = ''Contain '' @ security_category_value (sev_event_type ev) @ '' detected by '' @ sev_policy ev,
      qrr_risk_score = score, qrr_opa_decision = ''ALLOW'', qrr_status = CS_APPLYING, qrr_verification = [],
      qrr_applied_at = None, qrr_removed_at = None\<rparr>"

text \<open>\<^verbatim>\<open>record = existing or QuarantineRecord(...)\<close>, marked as being applied, and the move to \<open>EXECUTING\<close>.\<close>

definition mark_applying :: "'w env \<Rightarrow> security_event \<Rightarrow> uuid \<Rightarrow> string \<Rightarrow> int \<Rightarrow> quarantine_record option \<Rightarrow>
    ('w, uuid) H" where
  "mark_applying E ev i actor score existing =
     bindM (case existing of
         Some r \<Rightarrow> thenM (set_quarantine (qrr_id r) (qrr_status_update (\<lambda>_. CS_APPLYING))) (returnM (qrr_id r))
       | None \<Rightarrow> insert_row E db_quarantine_records_update quarantine_record_ok (new_quarantine ev i score)) (\<lambda>q.
     thenM (set_security_event (sev_id ev) (sev_containment_status_update (\<lambda>_. CS_APPLYING)))
     (bindM (load_incident i) (\<lambda>inc.
      thenM (whenM (inc_state inc \<in> {POLICY_EVALUATION, AWAITING_APPROVAL})
        (change_incident_state E i EXECUTING actor ACTOR_USER [] False))
      (returnM q))))"

text \<open>The body of the \<^verbatim>\<open>try\<close>: the act itself, with the egress probed before it and the watch after it.\<close>

definition impose_quarantine :: "'w env \<Rightarrow> security_event \<Rightarrow> uuid \<Rightarrow> string \<Rightarrow> uuid \<Rightarrow> ('w, jdict) H" where
  "impose_quarantine E ev i actor q =
     bindM (probe_controlled_security_egress E (sev_namespace ev) (sev_pod ev)) (\<lambda>before.
     thenM (raise_if (\<not> cep_reachable before) (cw_error ''QUARANTINE_BASELINE_FAILED''
       ''Controlled internal egress was not reachable before quarantine'' 409))
     (thenM (apply_quarantine_policy E (sev_namespace ev) (sev_pod ev) (quarantine_id ev) (uuid_str i))
     (thenM (bindM (utc_now E) (\<lambda>t. set_quarantine q (qrr_applied_at_update (\<lambda>_. Some t))))
     (thenM (change_incident_state E i VERIFYING actor ACTOR_USER [] False)
     (bindM (load_row db_quarantine_records qrr_id q) (\<lambda>r.
      bindM (wait_for_containment E ev (qrr_policy_name r)) (\<lambda>verification.
      bindM (liftR (success_of verification)) (\<lambda>ok.
      thenM (raise_if (\<not> ok) (cw_error ''QUARANTINE_VERIFICATION_FAILED''
        ''Cilium quarantine could not be verified'' 502))
      (returnM verification)))))))))"

definition close_execution :: "'w env \<Rightarrow> uuid \<Rightarrow> jdict \<Rightarrow> ('w, unit) H" where
  "close_execution E x result = bindM (utc_now E) (\<lambda>t.
     set_execution x (\<lambda>r. r\<lparr>exe_status := RS_SUCCEEDED, exe_result := result, exe_completed_at := Some t\<rparr>))"

definition record_containment :: "'w env \<Rightarrow> security_event \<Rightarrow> uuid \<Rightarrow> string \<Rightarrow> int \<Rightarrow> uuid \<Rightarrow> uuid \<Rightarrow> int \<Rightarrow> uuid \<Rightarrow>
    policy_result \<Rightarrow> jdict \<Rightarrow> ('w, uuid) H" where
  "record_containment E ev i actor score p x attempt q decision verification =
     thenM (seqM
       [set_quarantine q (\<lambda>r. r\<lparr>qrr_status := CS_CONTAINED, qrr_verification := verification\<rparr>),
        set_security_event (sev_id ev) (sev_containment_status_update (\<lambda>_. CS_CONTAINED)),
        close_execution E x verification,
        set_proposal p (prp_status_update (\<lambda>_. RS_SUCCEEDED)),
        voidM (insert_row E db_verification_records_update no_constraint
          (\<lambda>v t. \<lparr>ver_id = v, ver_created_at = t, ver_incident_id = i, ver_action_execution_id = Some x,
             ver_attempt = attempt, ver_success = True,
             ver_checks = (case jget verification ''checks'' of JList cs \<Rightarrow> cs | _ \<Rightarrow> []),
             ver_before_values = [(''controlled_internal_egress_reachable'', JBool True)],
             ver_after_values = [(''controlled_internal_egress_reachable'', JBool False)],
             ver_started_at = t, ver_completed_at = t\<rparr>)),
        bindM (load_row db_quarantine_records qrr_id q) (\<lambda>r.
          qx_audit E ev i ''QUARANTINE_EXECUTED'' ''SUCCEEDED'' APPLY_QUARANTINE score (\<lambda>a. (by_user actor a)
            \<lparr>aa_policy_decision := Some ''ALLOW'',
             aa_metadata := [(''policy_name'', JStr (qrr_policy_name r)), (''target_pods'', JInt 1)]\<rparr>)),
        bindM (load_incident i) (\<lambda>inc.
          voidM (queue_incident_notification E ''security_containment_executed'' inc
            [(''service'', JStr (workload_or_pod (sev_workload ev) (sev_pod ev))),
             (''cause'', JStr (security_category_value (sev_event_type ev))),
             (''policy_reason'', JStr (pr_reason decision))] True)),
        qx_audit E ev i ''CONTAINMENT_VERIFIED'' ''SUCCEEDED'' APPLY_QUARANTINE score (\<lambda>a. a
          \<lparr>aa_actor := ''cloudward-verifier'', aa_metadata := verification\<rparr>),
        publish_containment E ev i q,
        commit])
     (returnM q)"

definition fail_execution :: "'w env \<Rightarrow> uuid \<Rightarrow> exn \<Rightarrow> ('w, unit) H" where
  "fail_execution E x e = bindM (utc_now E) (\<lambda>t.
     set_execution x (\<lambda>r. r\<lparr>exe_status := RS_FAILED, exe_error_code := Some (exn_code e), exe_completed_at := Some t\<rparr>))"

definition containment_failed :: "'w env \<Rightarrow> security_event \<Rightarrow> uuid \<Rightarrow> int \<Rightarrow> uuid \<Rightarrow> uuid \<Rightarrow> exn \<Rightarrow> ('w, uuid) H" where
  "containment_failed E ev i score x q e =
     thenM (seqM
       [set_quarantine q (\<lambda>r. r\<lparr>qrr_status := CS_VERIFICATION_FAILED,
          qrr_verification := [(''success'', JBool False), (''error_code'', JStr (exn_code e))]\<rparr>),
        set_security_event (sev_id ev) (sev_containment_status_update (\<lambda>_. CS_VERIFICATION_FAILED)),
        fail_execution E x e,
        bindM (load_incident i) (\<lambda>inc.
          whenM (inc_state inc \<in> {EXECUTING, VERIFYING})
            (change_incident_state E i ESCALATED ''cloudward'' ACTOR_SYSTEM
              [(''reason'', JStr ''containment verification failed''), (''error_code'', JStr (exn_code e))] False)),
        qx_audit E ev i ''CONTAINMENT_VERIFICATION_FAILED'' ''FAILED'' APPLY_QUARANTINE score (\<lambda>a. a
          \<lparr>aa_actor := ''cloudward-verifier'', aa_metadata := [(''error_code'', JStr (exn_code e))]\<rparr>),
        publish_containment E ev i q,
        commit])
     (raiseM e)"

definition deny_quarantine :: "'w env \<Rightarrow> security_event \<Rightarrow> uuid \<Rightarrow> string \<Rightarrow> int \<Rightarrow> policy_result \<Rightarrow> ('w, uuid) H" where
  "deny_quarantine E ev i actor score decision =
     thenM (seqM
       [qx_audit E ev i ''QUARANTINE_POLICY_DENIED'' ''REJECTED'' APPLY_QUARANTINE score (\<lambda>a. (by_user actor a)
          \<lparr>aa_policy_decision := Some ''DENY'', aa_metadata := [(''reason'', JStr (pr_reason decision))]\<rparr>),
        commit])
     (raiseM (cw_error ''QUARANTINE_DENIED'' (pr_reason decision) 403))"

definition execute_quarantine :: "'w env \<Rightarrow> security_event \<Rightarrow> uuid \<Rightarrow> string \<Rightarrow> int \<Rightarrow> uuid \<Rightarrow> policy_result \<Rightarrow>
    quarantine_record option \<Rightarrow> ('w, uuid) H" where
  "execute_quarantine E ev i actor score p decision existing =
     bindM (mark_applying E ev i actor score existing) (\<lambda>q.
     bindM (new_quarantine_execution E ev i p APPLY_QUARANTINE) (\<lambda>(x, attempt).
     catch_cloudward
       (bindM (impose_quarantine E ev i actor q)
          (record_containment E ev i actor score p x attempt q decision))
       (containment_failed E ev i score x q)))"

text \<open>From the check of the incident on: the live pod, the decision, and what follows from it.\<close>

definition attempt_quarantine :: "'w env \<Rightarrow> security_event \<Rightarrow> incident \<Rightarrow> string \<Rightarrow> quarantine_record option \<Rightarrow>
    ('w, uuid) H" where
  "attempt_quarantine E ev inc actor existing =
     thenM (raise_if (inc_state inc \<in> {BLOCKED, ESCALATED, RESOLVED}) (cw_error ''INCIDENT_NOT_ACTIONABLE''
       ''The security incident is in a terminal state'' 409))
     (bindM (get_pod_health E (sev_namespace ev) (sev_pod ev)) (\<lambda>pod.
      thenM (raise_if (dict_get (ps_labels pod) DEMO_TARGET_LABEL \<noteq> Some ''true'')
        (cw_error ''KUBERNETES_TARGET_DENIED'' ''Live quarantine target is outside the demo safety boundary'' 403))
      (bindM (authorize E ev actor APPLY_QUARANTINE pod) (\<lambda>(risk, pin, decision).
       bindM (proposal_for_apply ev) (\<lambda>p.
       thenM (persist_decision E ev (inc_id inc) p pin decision (rr_score risk))
       (if \<not> pr_allowed decision then deny_quarantine E ev (inc_id inc) actor (rr_score risk) decision
        else execute_quarantine E ev (inc_id inc) actor (rr_score risk) p decision existing))))))"

definition apply_quarantine :: "'w env \<Rightarrow> uuid \<Rightarrow> string \<Rightarrow> ('w, uuid) H" where
  "apply_quarantine E event_id actor =
     bindM (event_and_incident event_id) (\<lambda>(ev, inc).
     bindM (dbM (live_quarantine (sev_id ev))) (\<lambda>existing.
     case existing of
       None \<Rightarrow> attempt_quarantine E ev inc actor None
     | Some r \<Rightarrow>
         if qrr_status r = CS_CONTAINED then returnM (qrr_id r)
         else if qrr_status r = CS_APPLYING then returnM (qrr_id r)
         else attempt_quarantine E ev inc actor (Some r)))"

section \<open>Removing a quarantine\<close>

definition lift_quarantine :: "'w env \<Rightarrow> security_event \<Rightarrow> string \<Rightarrow> ('w, jdict) H" where
  "lift_quarantine E ev policy_name =
     bindM (remove_quarantine_policy E (sev_namespace ev) (sev_pod ev) policy_name (quarantine_id ev)) (\<lambda>state.
     bindM (wait_for_release E ev policy_name (policy_state_json state)) (\<lambda>verification.
     bindM (liftR (success_of verification)) (\<lambda>ok.
     thenM (raise_if (\<not> ok) (cw_error ''QUARANTINE_REMOVAL_VERIFICATION_FAILED''
       ''Quarantine removal could not be verified'' 502))
     (returnM verification))))"

definition record_removal :: "'w env \<Rightarrow> security_event \<Rightarrow> uuid \<Rightarrow> string \<Rightarrow> int \<Rightarrow> uuid \<Rightarrow> uuid \<Rightarrow>
    quarantine_record \<Rightarrow> jdict \<Rightarrow> ('w, uuid) H" where
  "record_removal E ev i actor score p x r verification =
     thenM (seqM
       [bindM (utc_now E) (\<lambda>t. set_quarantine (qrr_id r) (\<lambda>y. y\<lparr>qrr_status := CS_REMOVED,
          qrr_removed_at := Some t, qrr_verification := verification\<rparr>)),
        set_security_event (sev_id ev) (sev_containment_status_update (\<lambda>_. CS_REMOVED)),
        close_execution E x verification,
        set_proposal p (prp_status_update (\<lambda>_. RS_SUCCEEDED)),
        bindM (load_incident i) (\<lambda>inc.
          whenM (inc_state inc = VERIFYING) (seqM
            [set_incident i (inc_resolution_source_update (\<lambda>_. Some CLOUDWARD_REMEDIATION)),
             change_incident_state E i RESOLVED actor ACTOR_USER [] False])),
        qx_audit E ev i ''QUARANTINE_REMOVED'' ''SUCCEEDED'' REMOVE_QUARANTINE score (\<lambda>a. (by_user actor a)
          \<lparr>aa_policy_decision := Some ''ALLOW'', aa_metadata := [(''policy_name'', JStr (qrr_policy_name r))]\<rparr>),
        publish_containment E ev i (qrr_id r),
        commit])
     (returnM (qrr_id r))"

definition removal_failed :: "'w env \<Rightarrow> security_event \<Rightarrow> uuid \<Rightarrow> string \<Rightarrow> int \<Rightarrow> uuid \<Rightarrow> uuid \<Rightarrow> exn \<Rightarrow>
    ('w, uuid) H" where
  "removal_failed E ev i actor score x q e =
     thenM (seqM
       [set_quarantine q (qrr_status_update (\<lambda>_. CS_VERIFICATION_FAILED)),
        set_security_event (sev_id ev) (sev_containment_status_update (\<lambda>_. CS_VERIFICATION_FAILED)),
        fail_execution E x e,
        qx_audit E ev i ''QUARANTINE_REMOVAL_FAILED'' ''FAILED'' REMOVE_QUARANTINE score (\<lambda>a. (by_user actor a)
          \<lparr>aa_metadata := [(''error_code'', JStr (exn_code e))]\<rparr>),
        publish_containment E ev i q,
        commit])
     (raiseM e)"

definition propose_removal :: "'w env \<Rightarrow> security_event \<Rightarrow> uuid \<Rightarrow> string \<Rightarrow> risk_result \<Rightarrow> quarantine_record \<Rightarrow>
    ('w, uuid) H" where
  "propose_removal E ev i actor risk r =
     insert_row E db_action_proposals_update action_proposal_ok
       (\<lambda>p t. \<lparr>prp_id = p, prp_created_at = t, prp_incident_id = i,
          prp_correlation_id = sev_correlation_id ev, prp_action_type = REMOVE_QUARANTINE,
          prp_parameters = [(''security_event_id'', JStr (uuid_str (sev_id ev))),
            (''namespace'', JStr (sev_namespace ev)), (''pod'', JStr (sev_pod ev)),
            (''policy_name'', JStr (qrr_policy_name r))],
          prp_status = RS_PENDING, prp_risk_score = rr_score risk,
          prp_risk_calculation = risk_result_json risk, prp_proposed_by = actor\<rparr>)"

definition execute_removal :: "'w env \<Rightarrow> security_event \<Rightarrow> uuid \<Rightarrow> string \<Rightarrow> int \<Rightarrow> uuid \<Rightarrow> quarantine_record \<Rightarrow>
    ('w, uuid) H" where
  "execute_removal E ev i actor score p r =
     thenM (seqM
       [set_quarantine (qrr_id r) (qrr_status_update (\<lambda>_. CS_REMOVING)),
        set_security_event (sev_id ev) (sev_containment_status_update (\<lambda>_. CS_REMOVING))])
     (bindM (new_quarantine_execution E ev i p REMOVE_QUARANTINE) (\<lambda>(x, attempt).
      catch_cloudward
        (bindM (lift_quarantine E ev (qrr_policy_name r)) (record_removal E ev i actor score p x r))
        (removal_failed E ev i actor score x (qrr_id r))))"

definition attempt_removal :: "'w env \<Rightarrow> security_event \<Rightarrow> uuid \<Rightarrow> string \<Rightarrow> quarantine_record \<Rightarrow> ('w, uuid) H" where
  "attempt_removal E ev i actor r =
     bindM (get_pod_health E (sev_namespace ev) (sev_pod ev)) (\<lambda>pod.
     bindM (authorize E ev actor REMOVE_QUARANTINE pod) (\<lambda>(risk, pin, decision).
     bindM (propose_removal E ev i actor risk r) (\<lambda>p.
     thenM (persist_decision E ev i p pin decision (rr_score risk))
     (if \<not> pr_allowed decision then
        thenM (seqM [set_proposal p (prp_status_update (\<lambda>_. RS_REJECTED)), commit])
          (raiseM (cw_error ''QUARANTINE_REMOVAL_DENIED'' (pr_reason decision) 403))
      else execute_removal E ev i actor (rr_score risk) p r))))"

definition remove_quarantine :: "'w env \<Rightarrow> uuid \<Rightarrow> string \<Rightarrow> ('w, uuid) H" where
  "remove_quarantine E event_id actor =
     bindM (event_and_incident event_id) (\<lambda>(ev, inc).
     bindM (dbM (\<lambda>d. newest qrr_created_at (\<lambda>q. qrr_security_event_id q = sev_id ev)
       (db_quarantine_records d))) (\<lambda>found.
     case found of
       None \<Rightarrow> raiseM (cw_error ''QUARANTINE_NOT_FOUND'' ''No quarantine exists for this security event'' 404)
     | Some r \<Rightarrow>
         if qrr_status r = CS_REMOVED then returnM (qrr_id r) else attempt_removal E ev (inc_id inc) actor r))"

section \<open>Watching, in general\<close>

text \<open>
  Both waits run the same loop over their own observation. What the loop needs of an observation: it
  changes nothing but the outside world's own state, its checks have the expected shape, and on a steady
  clock it takes no negative time.
\<close>

definition steady_reads :: "'w env \<Rightarrow> ('w \<Rightarrow> rat) \<Rightarrow> bool" where
  "steady_reads E now \<longleftrightarrow> steady_clock E now \<and>
     (\<forall>a b w. now w \<le> now (snd (e_read_pod E a b w))) \<and>
     (\<forall>a b c w. now w \<le> now (snd (e_pod_proxy E a b c w))) \<and>
     (\<forall>a b c w. now w \<le> now (snd (e_get_custom E a b c w)))"

lemma keeps_any:
  assumes "keeps (\<lambda>s. s\<lparr>sy_world := w\<rparr>) m" and "\<And>s w. f (s\<lparr>sy_world := w\<rparr>) = f s"
  shows "keeps f m"
proof -
  have "f (snd (m s)) = f s" for s
    using assms(2) [where s = "snd (m s)" and w = w] assms(2) [where s = s and w = w] keepsD [OF assms(1), of s]
    by simp
  then show ?thesis by (simp add: keeps_def)
qed

locale watch =
  fixes observe :: "'w env \<Rightarrow> ('w, (string \<times> bool) list) H" and shape :: "(string \<times> bool) list \<Rightarrow> bool"
  assumes only_reads: "keeps (\<lambda>s. s\<lparr>sy_world := w\<rparr>) (observe E)"
    and shaped: "results shape (observe E)"
    and timely: "steady_reads E now \<Longrightarrow> preserves (\<lambda>s. c \<le> now (sy_world s)) (observe E)"
begin

lemma keeps_poll:
  assumes "\<And>s w. f (s\<lparr>sy_world := w\<rparr>) = f s"
  shows "keeps f (poll_checks n E (observe E) deadline poll latest)"
proof -
  have "keeps f (monotonic E)" "keeps f (sleepM E d)" for d
    by (simp_all add: monotonic_def sleepM_def keeps_worldM assms)
  then show ?thesis
    by (induction n arbitrary: latest) (auto intro!: frame keeps_any [OF only_reads] simp: assms)
qed

lemma keeps_wait:
  assumes "\<And>s w. f (s\<lparr>sy_world := w\<rparr>) = f s"
  shows "keeps f (wait_for E (observe E))"
  unfolding wait_for_def Let_def monotonic_def
  by (intro frame keeps_poll keeps_worldM) (simp_all add: assms)

lemma poll_shaped:
  "(latest = None \<or> (\<exists>cs. latest = Some cs \<and> shape cs)) \<Longrightarrow>
     results (\<lambda>r. case r of None \<Rightarrow> True | Some cs \<Rightarrow> shape cs) (poll_checks n E (observe E) deadline poll latest)"
proof (induction n arbitrary: latest)
  case (Suc n)
  show ?case
    unfolding poll_checks.simps
    by (rule results_bindM, rule results_if, rule results_bindM_of [OF shaped])
      (use Suc in \<open>auto intro!: result_rules\<close>)
qed (simp add: results_raiseM)

lemma wait_shaped: "results (\<lambda>r. case r of None \<Rightarrow> True | Some cs \<Rightarrow> shape cs) (wait_for E (observe E))"
  unfolding wait_for_def Let_def by (intro result_rules poll_shaped) simp

text \<open>A sleep brings the deadline nearer by one poll interval, so the fuel is never used up: with more of it the
  loop does exactly the same. It returns with all checks passed or with the deadline behind it, or passes on an
  exception of the observation.\<close>

lemma observation_time:
  assumes "steady_reads E now" and "c \<le> now (sy_world s)"
  shows "c \<le> now (sy_world (snd (observe E s)))"
  using timely [OF assms(1), of c] assms(2) by (simp add: preserves_def)

lemma poll_fuel:
  assumes steady: "steady_reads E now" and poll: "0 < poll"
    and fuel: "deadline \<le> now (sy_world s) + of_nat m * poll"
  shows "poll_checks (Suc m + n) E (observe E) deadline poll latest s =
    poll_checks (Suc m) E (observe E) deadline poll latest s"
  using fuel
proof (induction m arbitrary: s latest)
  have clock: "steady_clock E now" using steady by (simp add: steady_reads_def)
  case 0
  then show ?case
    using steady_tick(2) [OF clock, of "sy_world s"]
    by (simp add: bindM_def monotonic_def worldM_def steady_tick(1) [OF clock] split_beta)
next
  have clock: "steady_clock E now" using steady by (simp add: steady_reads_def)
  case (Suc m)
  have later: "thenM (sleepM E poll) (poll_checks (Suc m + n) E (observe E) deadline poll l) t =
      thenM (sleepM E poll) (poll_checks (Suc m) E (observe E) deadline poll l) t"
    if "now (sy_world s) \<le> now (sy_world t)" for l and t :: "'w sys"
  proof -
    have "now (sy_world t) + poll \<le> now (snd (e_sleep E poll (sy_world t)))"
      using steady_tick(3) [OF clock, of poll] poll by simp
    then have "deadline \<le> now (snd (e_sleep E poll (sy_world t))) + of_nat m * poll"
      using Suc.prems that by (simp add: algebra_simps)
    then show ?thesis
      using Suc.IH [of "t\<lparr>sy_world := snd (e_sleep E poll (sy_world t))\<rparr>" l]
      by (simp add: thenM_def bindM_def sleepM_def worldM_def split_beta del: poll_checks.simps)
  qed
  have "now (sy_world s) \<le> now (sy_world (snd (observe E (s\<lparr>sy_world := snd (e_monotonic E (sy_world s))\<rparr>))))"
    by (rule observation_time [OF steady]) (use steady_tick(2) [OF clock] in simp)
  from later [OF this] show ?case
    unfolding add_Suc [of "Suc m"] poll_checks.simps(2) [of "Suc m + n"] poll_checks.simps(2) [of "Suc m"]
    by (auto simp: bindM_def monotonic_def worldM_def split_beta split: sum.splits simp del: poll_checks.simps)
qed

lemma poll_ends:
  assumes steady: "steady_reads E now"
  shows "wp (poll_checks m E (observe E) deadline poll latest)
    (\<lambda>r t. (\<exists>cs. r = Some cs \<and> list_all snd cs) \<or> deadline \<le> now (sy_world t)) (\<lambda>_ _. True) s"
proof (induction m arbitrary: s latest)
  case (Suc m)
  have clock: "steady_clock E now" using steady by (simp add: steady_reads_def)
  have "wp (bindM (observe E) (\<lambda>checks. if list_all snd checks then returnM (Some checks)
       else thenM (sleepM E poll) (poll_checks m E (observe E) deadline poll (Some checks))))
    (\<lambda>r t. (\<exists>cs. r = Some cs \<and> list_all snd cs) \<or> deadline \<le> now (sy_world t)) (\<lambda>_ _. True) t" for t
    by (rule wp_bind_post [OF wp_trivial]) (auto intro!: wp_then_post [OF wp_trivial] Suc.IH)
  then show ?case
    unfolding poll_checks.simps(2) monotonic_def wp_bindM [of "worldM _"] wp_worldM steady_tick(1) [OF clock]
    using steady_tick(2) [OF clock, of "sy_world s"] by auto
qed (simp add: wp_raiseM)

lemma enough_fuel:
  assumes clock: "steady_clock E now" and poll: "0 < (poll :: rat)"
  shows "fst (e_monotonic E (sy_world s)) + timeout \<le>
    now (snd (e_monotonic E (sy_world s))) + of_nat (nat \<lceil>timeout / poll\<rceil>) * poll"
proof -
  have "timeout / poll \<le> of_nat (nat \<lceil>timeout / poll\<rceil>)" using of_nat_ceiling by blast
  then have "timeout \<le> of_nat (nat \<lceil>timeout / poll\<rceil>) * poll" using poll by (simp add: field_simps)
  then show ?thesis using steady_tick(1,2) [OF clock, of "sy_world s"] by simp
qed

lemma wait_fuel:
  assumes steady: "steady_reads E now" and settings: "settings_valid (e_settings E)"
  shows "bindM (monotonic E) (\<lambda>start. poll_checks (verify_fuel
       (set_security_quarantine_verify_timeout_seconds (e_settings E))
       (set_security_quarantine_verify_poll_seconds (e_settings E)) + n) E (observe E)
       (start + set_security_quarantine_verify_timeout_seconds (e_settings E))
       (set_security_quarantine_verify_poll_seconds (e_settings E)) None) s = wait_for E (observe E) s"
proof -
  let ?timeout = "set_security_quarantine_verify_timeout_seconds (e_settings E)"
  let ?poll = "set_security_quarantine_verify_poll_seconds (e_settings E)"
  have clock: "steady_clock E now" using steady by (simp add: steady_reads_def)
  have poll: "0 < ?poll" using settings by (simp add: settings_valid_def)
  have "poll_checks (Suc (nat \<lceil>?timeout / ?poll\<rceil>) + n) E (observe E) (fst (e_monotonic E (sy_world s)) + ?timeout)
      ?poll None (s\<lparr>sy_world := snd (e_monotonic E (sy_world s))\<rparr>) =
    poll_checks (Suc (nat \<lceil>?timeout / ?poll\<rceil>)) E (observe E) (fst (e_monotonic E (sy_world s)) + ?timeout)
      ?poll None (s\<lparr>sy_world := snd (e_monotonic E (sy_world s))\<rparr>)"
    by (rule poll_fuel [OF steady poll]) (use enough_fuel [OF clock poll, of s ?timeout] in simp)
  then show ?thesis
    unfolding wait_for_def Let_def verify_fuel_def
    by (simp add: bindM_def monotonic_def worldM_def split_beta del: poll_checks.simps)
qed

lemma wait_ends:
  assumes steady: "steady_reads E now"
  shows "wp (wait_for E (observe E))
    (\<lambda>r t. (\<exists>cs. r = Some cs \<and> list_all snd cs) \<or>
       now (sy_world s) + set_security_quarantine_verify_timeout_seconds (e_settings E) \<le> now (sy_world t))
    (\<lambda>_ _. True) s"
proof -
  have clock: "steady_clock E now" using steady by (simp add: steady_reads_def)
  show ?thesis
    unfolding wait_for_def Let_def wp_bindM monotonic_def wp_worldM steady_tick(1) [OF clock]
    by (rule poll_ends [OF steady])
qed

end

text \<open>The two observations of the workflow.\<close>

lemmas observe_defs = observe_containment_def observe_release_def get_quarantine_policy_state_def
  probe_controlled_security_egress_def get_pod_health_def require_namespace_def validate_name_def
  require_custom_api_def apiM_def

lemma keeps_observe:
  assumes "\<And>s w. f (s\<lparr>sy_world := w\<rparr>) = f s"
  shows "keeps f (observe_containment E ev pn)" "keeps f (observe_release E ev pn)"
  unfolding observe_containment_def observe_release_def
  by (intro frame keeps_kube_reads keeps_probes assms)+

lemma timely_observe:
  assumes "steady_reads E now"
  shows "preserves (\<lambda>s. c \<le> now (sy_world s)) (observe_containment E ev pn)"
    "preserves (\<lambda>s. c \<le> now (sy_world s)) (observe_release E ev pn)"
proof -
  have calls: "preserves (\<lambda>s. c \<le> now (sy_world s)) (worldM (e_read_pod E a b))"
    "preserves (\<lambda>s. c \<le> now (sy_world s)) (worldM (e_pod_proxy E a b d))"
    "preserves (\<lambda>s. c \<le> now (sy_world s)) (worldM (\<lambda>w. map_prod (map_sum id Some) id (e_get_custom E a b d w)))"
    for a b d
    by (rule preserves_worldM, use assms in \<open>auto simp: steady_reads_def intro: order_trans\<close>)+
  show "preserves (\<lambda>s. c \<le> now (sy_world s)) (observe_containment E ev pn)"
    "preserves (\<lambda>s. c \<le> now (sy_world s)) (observe_release E ev pn)"
    unfolding observe_defs by (intro inv_rules calls)+
qed

definition containment_shape :: "(string \<times> bool) list \<Rightarrow> bool" where
  "containment_shape cs \<longleftrightarrow> (\<exists>st pr pod. cs = containment_checks st pr pod)"

definition release_shape :: "(string \<times> bool) list \<Rightarrow> bool" where
  "release_shape cs \<longleftrightarrow> (\<exists>st pr. cs = release_checks st pr)"

lemma shaped_observe:
  "results containment_shape (observe_containment E ev pn)" "results release_shape (observe_release E ev pn)"
proof -
  show "results containment_shape (observe_containment E ev pn)"
    unfolding observe_containment_def by (intro result_rules) (auto simp: containment_shape_def)
  show "results release_shape (observe_release E ev pn)"
    unfolding observe_release_def by (intro result_rules) (auto simp: release_shape_def)
qed

interpretation containment_watch: watch "\<lambda>E. observe_containment E ev pn" containment_shape for ev pn
  by unfold_locales (simp_all add: keeps_observe timely_observe shaped_observe)

interpretation release_watch: watch "\<lambda>E. observe_release E ev pn" release_shape for ev pn
  by unfold_locales (simp_all add: keeps_observe timely_observe shaped_observe)

end
