(* ===== verification/CW_Containment.thy ===== *)
theory CW_Containment
  imports CW_Quarantine CW_Demo "HOL-Library.Sublist"
begin

text \<open>
  What the quarantine workflow (\<open>CW_Quarantine\<close>) guarantees: which requests it can send to the cluster, what
  it leaves in the database on every way out, and that its waits end.
\<close>

section \<open>The requests of the executor\<close>

definition imposing :: "string \<Rightarrow> string \<Rightarrow> string \<Rightarrow> string \<Rightarrow> ext_event list" where
  "imposing ns pod qid i =
     [EvLabelPod ns pod QUARANTINE_LABEL (Some qid),
      EvCreateCustom ns policy_plural (quarantine_body ns pod (''cloudward-quarantine-'' @ qid) qid i),
      EvLabelPod ns pod QUARANTINE_LABEL None]"

definition lifting :: "string \<Rightarrow> string \<Rightarrow> string \<Rightarrow> ext_event list" where
  "lifting ns pod policy_name =
     [EvDeleteCustom ns policy_plural policy_name, EvLabelPod ns pod QUARANTINE_LABEL None]"

lemma effects_world [simp]: "effects (s\<lparr>sy_world := w\<rparr>) = effects s"
  by (simp add: effects_def)

lemma policy_state_trace:
  "wp (get_quarantine_policy_state E ns p n q) (\<lambda>_ t. sy_trace t = sy_trace s) (\<lambda>_ t. sy_trace t = sy_trace s) s"
  by (rule keeps_wp [OF keeps_kube_reads(6)]) simp

lemma effects_sent:
  "sy_trace t = sy_trace s @ es \<Longrightarrow> filter (\<lambda>e. \<not> is_task e) es = es \<Longrightarrow> effects t = effects s @ es"
  by (simp add: effects_def)

lemma sent_simps:
  "take 0 (imposing ns pod qid i) = []" "take 0 (lifting ns pod pn) = []"
  "filter (\<lambda>e. \<not> is_task e) (take n (imposing ns pod qid i)) = take n (imposing ns pod qid i)"
  "filter (\<lambda>e. \<not> is_task e) (imposing ns pod qid i) = imposing ns pod qid i"
  "filter (\<lambda>e. \<not> is_task e) (lifting ns pod pn) = lifting ns pod pn"
  "filter (\<lambda>e. \<not> is_task e) (tl (lifting ns pod pn)) = tl (lifting ns pod pn)"
  "filter (\<lambda>e. \<not> is_task e) (take n (lifting ns pod pn)) = take n (lifting ns pod pn)"
  by (auto simp: imposing_def lifting_def is_task_def filter_id_conv dest!: in_set_takeD)

lemma apply_policy_trace:
  fixes s :: "'w sys" and ns pod qid i :: string
  defines "es \<equiv> imposing ns pod qid i"
  shows "wp (apply_quarantine_policy E ns pod qid i)
     (\<lambda>_ t. sy_trace t = sy_trace s @ take 2 es \<and> ns = ''cloudward-staging'')
     (\<lambda>_ t. sy_trace t = sy_trace s \<or> ns = ''cloudward-staging'' \<and> (sy_trace t = sy_trace s @ take 1 es \<or>
        sy_trace t = sy_trace s @ take 2 es \<or> sy_trace t = sy_trace s @ es)) s"
proof -
  obtain a b c pn st where abc: "''cloudward-quarantine-'' @ qid = pn" "''cloudward-staging'' = st"
    "EvLabelPod ns pod QUARANTINE_LABEL (Some qid) = a"
    "EvCreateCustom ns policy_plural (quarantine_body ns pod pn qid i) = b"
    "EvLabelPod ns pod QUARANTINE_LABEL None = c" by blast
  then have es: "es = [a, b, c]" by (auto simp: es_def imposing_def)
  have state: "wp (get_quarantine_policy_state E n pod pn qid) Q X t"
    if "\<And>r u. sy_trace u = sy_trace t \<Longrightarrow> Q r u" "\<And>r u. sy_trace u = sy_trace t \<Longrightarrow> X r u" for Q X n and t :: "'w sys"
    by (rule wp_mono [OF policy_state_trace]) (use that in auto)
  show ?thesis
    unfolding apply_quarantine_policy_def get_pod_health_def patch_pod_label_def require_custom_api_def
      wp_simps Let_def abc es
    by (auto simp: wp_simps Let_def split: prod.splits sum.splits api_failure.splits intro!: state)
qed

lemma remove_policy_trace:
  fixes s :: "'w sys" and ns pod qid pn :: string
  defines "es \<equiv> lifting ns pod pn"
  shows "wp (remove_quarantine_policy E ns pod pn qid)
     (\<lambda>_ t. sy_trace t = sy_trace s @ es \<or> sy_trace t = sy_trace s @ tl es)
     (\<lambda>_ t. sy_trace t = sy_trace s \<or> sy_trace t = sy_trace s @ take 1 es \<or>
        sy_trace t = sy_trace s @ es \<or> sy_trace t = sy_trace s @ tl es) s"
proof -
  have state: "wp (get_quarantine_policy_state E ns pod pn qid) Q X t"
    if "\<And>r u. sy_trace u = sy_trace t \<Longrightarrow> Q r u" "\<And>r u. sy_trace u = sy_trace t \<Longrightarrow> X r u" for Q X and t :: "'w sys"
    by (rule wp_mono [OF policy_state_trace]) (use that in auto)
  show ?thesis
    unfolding remove_quarantine_policy_def patch_pod_label_def require_custom_api_def wp_simps Let_def
    by (auto simp: wp_simps Let_def es_def lifting_def split: prod.splits sum.splits api_failure.splits
        intro!: state)
qed

section \<open>Frames\<close>

lemmas quarantine_parts = set_quarantine_def event_and_incident_def proposal_for_apply_def persist_decision_def
  new_quarantine_execution_def publish_containment_def qx_audit_def close_execution_def fail_execution_def
  deny_quarantine_def mark_applying_def record_containment_def containment_failed_def propose_removal_def
  record_removal_def removal_failed_def

lemma keeps_waits:
  assumes "\<And>s w. f (s\<lparr>sy_world := w\<rparr>) = f s"
  shows "keeps f (wait_for_containment E ev pn)" "keeps f (wait_for_release E ev pn st)"
  unfolding wait_for_containment_def wait_for_release_def
  by (intro frame containment_watch.keeps_wait release_watch.keeps_wait assms)+

lemma keeps_effects_quarantine [frame]:
  "keeps effects (event_and_incident k)" "keeps effects (proposal_for_apply ev)"
  "keeps effects (persist_decision E ev i p pin d sc)" "keeps effects (new_quarantine_execution E ev i p ac)"
  "keeps effects (deny_quarantine E ev i actor sc d)" "keeps effects (mark_applying E ev i actor sc ex)"
  "keeps effects (record_containment E ev i actor sc p x n q d v)" "keeps effects (containment_failed E ev i sc x q e)"
  "keeps effects (propose_removal E ev i actor risk r)" "keeps effects (record_removal E ev i actor sc p x r v)"
  "keeps effects (removal_failed E ev i actor sc x q' e)" "keeps effects (set_quarantine q'' f)"
  unfolding quarantine_parts by (intro frame)+

section \<open>Authorised requests\<close>

text \<open>The question an operator's request asks the policy engine.\<close>

definition asks_permission :: "security_event \<Rightarrow> string \<Rightarrow> action_type \<Rightarrow> policy_input \<Rightarrow> bool" where
  "asks_permission ev actor action pin \<longleftrightarrow> pi_action pin = action \<and> pi_blast_radius pin = 1 \<and>
     ti_namespace (pi_target pin) = sev_namespace ev \<and> ti_pod_name (pi_target pin) = sev_pod ev \<and>
     ti_target_pods (pi_target pin) = 1 \<and> ai_approved (pi_approval pin) \<and>
     ai_approved_by (pi_approval pin) = Some actor"

lemma authorize_asks:
  "wp (authorize E ev actor action pod)
     (\<lambda>(risk, pin, d) t. effects t = effects s @ [EvOpa pin d] \<and> engine_answers E pin d \<and>
        asks_permission ev actor action pin)
     (\<lambda>_ t. effects t = effects s) s"
proof -
  have "asks_permission ev actor action pin" if "mk_policy_input (quarantine_policy_input ev actor action ls cm risk) = Inr pin"
    for ls cm risk pin
    using that by (auto simp: mk_policy_input_def quarantine_policy_input_def asks_permission_def split: if_splits)
  then show ?thesis
    unfolding authorize_def wp_bindM wp_liftR wp_returnM
    by (auto split: sum.splits intro!: wp_mono [OF opa_evaluate_asks])
qed

definition asked_then :: "'w env \<Rightarrow> uuid \<Rightarrow> string \<Rightarrow> action_type \<Rightarrow> (security_event \<Rightarrow> uuid \<Rightarrow> ext_event list \<Rightarrow> bool) \<Rightarrow>
    'w sys \<Rightarrow> 'w sys \<Rightarrow> bool" where
  "asked_then E k actor action reqs s t \<longleftrightarrow>
     (\<exists>ev i pin d es. find_row sev_id k (db_security_events (sy_db s)) = Some ev \<and> sev_incident_id ev = Some i \<and>
        asks_permission ev actor action pin \<and> engine_answers E pin d \<and>
        effects t = effects s @ EvOpa pin d # es \<and> (es = [] \<or> pr_allowed d \<and> reqs ev i es))"

definition imposes :: "security_event \<Rightarrow> uuid \<Rightarrow> ext_event list \<Rightarrow> bool" where
  "imposes ev i es \<longleftrightarrow> sev_namespace ev = ''cloudward-staging'' \<and>
     prefix es (imposing (sev_namespace ev) (sev_pod ev) (quarantine_id ev) (uuid_str i))"

definition lifts :: "quarantine_record list \<Rightarrow> security_event \<Rightarrow> uuid \<Rightarrow> ext_event list \<Rightarrow> bool" where
  "lifts rows ev i es \<longleftrightarrow> (\<exists>r \<in> set rows. qrr_security_event_id r = sev_id ev \<and>
     subseq es (lifting (sev_namespace ev) (sev_pod ev) (qrr_policy_name r)))"

lemma wp_event_and_incident:
  assumes "\<And>ev i inc. find_row sev_id k (db_security_events (sy_db s)) = Some ev \<Longrightarrow> sev_incident_id ev = Some i \<Longrightarrow>
      find_row inc_id i (db_incidents (sy_db s)) = Some inc \<Longrightarrow> inc_id inc = i \<Longrightarrow> sev_id ev = k \<Longrightarrow> Q (ev, inc) s"
    and "\<And>e. X e s"
  shows "wp (event_and_incident k) Q X s"
  using assms find_row_key [of sev_id k "db_security_events (sy_db s)"]
    find_row_key [of inc_id _ "db_incidents (sy_db s)"]
  by (force simp: event_and_incident_def wp_simps split: option.splits)

text \<open>A handler that sends at most one of the request sequences \<open>reqs\<close>: one step of it does, the steps before
  and after send nothing.\<close>

definition sends :: "(ext_event list \<Rightarrow> bool) \<Rightarrow> ('w, 'a) H \<Rightarrow> bool" where
  "sends reqs m \<longleftrightarrow> (\<forall>s. \<exists>es. effects (snd (m s)) = effects s @ es \<and> (es = [] \<or> reqs es))"

lemma sends_wp: "sends reqs m \<longleftrightarrow> (\<forall>s. wp m (\<lambda>_ t. \<exists>es. effects t = effects s @ es \<and> (es = [] \<or> reqs es))
    (\<lambda>_ t. \<exists>es. effects t = effects s @ es \<and> (es = [] \<or> reqs es)) s)"
  by (simp add: sends_def wp_total)

lemma sends_keeps: "keeps effects m \<Longrightarrow> sends reqs m"
  by (simp add: sends_def keeps_def)

lemma sends_after:
  assumes "keeps effects m" and "\<And>x. sends reqs (g x)"
  shows "sends reqs (bindM m g)"
proof -
  have "\<exists>es. effects (snd (bindM m g s)) = effects s @ es \<and> (es = [] \<or> reqs es)" for s
    using keepsD [OF assms(1), of s] assms(2)
    by (auto simp: sends_def bindM_def split: prod.splits sum.splits) metis
  then show ?thesis by (simp add: sends_def)
qed

lemma sends_before:
  assumes "sends reqs m" and "\<And>x. keeps effects (g x)"
  shows "sends reqs (bindM m g)"
proof -
  have "effects (snd (bindM m g s)) = effects (snd (m s))" for s
    using assms(2) by (auto simp: keeps_def bindM_def split: prod.splits sum.splits)
  then show ?thesis using assms(1) by (simp add: sends_def)
qed

lemma sends_caught:
  assumes "sends reqs m" and "\<And>e. keeps effects (h e)"
  shows "sends reqs (catch_cloudward m h)"
proof -
  have "effects (snd (catch_cloudward m h s)) = effects (snd (m s))" for s
    using assms(2) by (auto simp: catch_cloudward_def tryM_def raiseM_def keeps_def split: prod.splits sum.splits) 
  then show ?thesis using assms(1) by (simp add: sends_def)
qed

lemma sends_apply_policy:
  "sends (imposes ev i) (apply_quarantine_policy E (sev_namespace ev) (sev_pod ev) (quarantine_id ev) (uuid_str i))"
  unfolding sends_wp
proof (intro allI, rule wp_mono [OF apply_policy_trace], goal_cases)
  case (1 s r t)
  then show ?case by (auto dest!: effects_sent simp: sent_simps imposes_def take_is_prefix)
next
  case (2 s e t)
  then show ?case
    by (auto dest!: effects_sent simp: sent_simps imposes_def take_is_prefix effects_def intro: exI [of _ "[]"])
qed

lemma sends_remove_policy:
  assumes "r \<in> set rows" and "qrr_security_event_id r = sev_id ev"
  shows "sends (lifts rows ev i)
    (remove_quarantine_policy E (sev_namespace ev) (sev_pod ev) (qrr_policy_name r) (quarantine_id ev))"
proof -
  have lifts: "subseq es (lifting (sev_namespace ev) (sev_pod ev) (qrr_policy_name r)) \<Longrightarrow> lifts rows ev i es" for es
    using assms by (auto simp: lifts_def)
  show ?thesis
    unfolding sends_wp
  proof (intro allI, rule wp_mono [OF remove_policy_trace], goal_cases)
    case (1 s r t)
    then show ?case by (auto dest!: effects_sent simp: sent_simps intro!: lifts)
  next
    case (2 s e t)
    then show ?case
      by (auto dest!: effects_sent simp: sent_simps intro!: lifts intro: exI [of _ "[]"] simp: effects_def)
         (auto simp: lifting_def)
  qed
qed

lemmas sends_thenM = sends_after [of _ _ "\<lambda>_. n" for n, folded thenM_def] sends_before [of _ _ "\<lambda>_. n" for n, folded thenM_def]

lemma sends_impose: "sends (imposes ev i) (impose_quarantine E ev i actor q)"
  unfolding impose_quarantine_def
  by (rule sends_after [OF keeps_probes(3)], simp, rule sends_thenM(1), rule frame, rule sends_thenM(2),
    rule sends_apply_policy, intro frame keeps_waits, simp)

lemma sends_lift:
  assumes "r \<in> set rows" and "qrr_security_event_id r = sev_id ev"
  shows "sends (lifts rows ev i) (lift_quarantine E ev (qrr_policy_name r))"
  unfolding lift_quarantine_def
  by (rule sends_before, rule sends_remove_policy [OF assms], intro frame keeps_waits, simp)

lemma sends_execute: "sends (imposes ev i) (execute_quarantine E ev i actor sc p d ex)"
  unfolding execute_quarantine_def
  by (rule sends_after, rule frame, rule sends_after, rule frame, simp add: split_beta, rule sends_caught,
      rule sends_before, rule sends_impose, (rule frame)+)

lemma sends_removal:
  assumes "r \<in> set rows" and "qrr_security_event_id r = sev_id ev"
  shows "sends (lifts rows ev i) (execute_removal E ev i actor sc p r)"
  unfolding execute_removal_def
  by (rule sends_thenM(1), (intro frame; fail), rule sends_after, rule frame, simp add: split_beta, rule sends_caught,
      rule sends_before, rule sends_lift [OF assms], (rule frame)+)

text \<open>A handler that asks at most once, and sends something only after an allowing answer.\<close>

definition asks_at :: "'w sys \<Rightarrow> 'w env \<Rightarrow> security_event \<Rightarrow> string \<Rightarrow> action_type \<Rightarrow> (ext_event list \<Rightarrow> bool) \<Rightarrow>
    ('w, 'a) H \<Rightarrow> bool" where
  "asks_at s E ev actor action reqs m \<longleftrightarrow> effects (snd (m s)) = effects s \<or>
     (\<exists>pin d es. asks_permission ev actor action pin \<and> engine_answers E pin d \<and>
        effects (snd (m s)) = effects s @ EvOpa pin d # es \<and> (es = [] \<or> pr_allowed d \<and> reqs es))"

definition asks_first :: "'w env \<Rightarrow> security_event \<Rightarrow> string \<Rightarrow> action_type \<Rightarrow> (ext_event list \<Rightarrow> bool) \<Rightarrow> ('w, 'a) H \<Rightarrow> bool" where
  "asks_first E ev actor action reqs m \<longleftrightarrow> (\<forall>s. asks_at s E ev actor action reqs m)"

lemma asks_at_dbM:
  "asks_at s E ev actor action reqs (g (f (sy_db s))) \<Longrightarrow> asks_at s E ev actor action reqs (bindM (dbM f) g)"
  by (simp add: asks_at_def bindM_def dbM_def readM_def)

lemma asks_at_ends [simp]: "asks_at s E ev actor action reqs (returnM x)" "asks_at s E ev actor action reqs (raiseM e)"
  by (simp_all add: asks_at_def returnM_def raiseM_def)

lemma asks_first_after:
  assumes "keeps effects m" and "\<And>x. asks_first E ev actor action reqs (g x)"
  shows "asks_first E ev actor action reqs (bindM m g)"
proof -
  have "effects (snd (bindM m g s)) = effects s \<or> (\<exists>x t. bindM m g s = g x t \<and> effects t = effects s)" for s
    using keepsD [OF assms(1), of s] by (auto simp: bindM_def split: prod.splits sum.splits)
  then show ?thesis using assms(2) unfolding asks_first_def asks_at_def by metis
qed

lemmas asks_first_then = asks_first_after [of _ _ _ _ _ _ "\<lambda>_. n" for n, folded thenM_def]

lemma asks_first_authorize:
  assumes "\<And>risk pin d. sends (\<lambda>es. pr_allowed d \<and> reqs es) (g (risk, pin, d))"
  shows "asks_first E ev actor action reqs (bindM (authorize E ev actor action pod) g)"
proof -
  let ?J = "\<lambda>s t. effects t = effects s \<or> (\<exists>pin d es. asks_permission ev actor action pin \<and> engine_answers E pin d \<and>
        effects t = effects s @ EvOpa pin d # es \<and> (es = [] \<or> pr_allowed d \<and> reqs es))"
  have "wp (bindM (authorize E ev actor action pod) g) (\<lambda>_. ?J s) (\<lambda>_. ?J s) s" for s
    unfolding wp_bindM
  proof (rule wp_mono [OF authorize_asks], goal_cases)
    case (1 x t)
    obtain risk pin d where x: "x = (risk, pin, d)" by (cases x)
    from 1 show ?case unfolding x
      by (intro wp_mono [OF assms [unfolded sends_wp, rule_format]]) fastforce+
  qed simp
  then show ?thesis by (simp add: asks_first_def asks_at_def wp_total)
qed

lemma sends_if:
  "(c \<Longrightarrow> sends reqs m) \<Longrightarrow> (\<not> c \<Longrightarrow> sends reqs n) \<Longrightarrow> sends reqs (if c then m else n)"
  by simp

lemma sends_mono: "sends reqs m \<Longrightarrow> (\<And>es. reqs es \<Longrightarrow> reqs' es) \<Longrightarrow> sends reqs' m"
  unfolding sends_def by metis

lemma asked_then_found:
  assumes "\<And>ev inc. sev_id ev = k \<Longrightarrow> sev_incident_id ev = Some (inc_id inc) \<Longrightarrow>
      find_row sev_id k (db_security_events (sy_db s)) = Some ev \<Longrightarrow>
      asks_at s E ev actor action (reqs ev (inc_id inc)) (g (ev, inc))"
  defines "J \<equiv> \<lambda>t. effects t = effects s \<or> asked_then E k actor action reqs s t"
  shows "wp (bindM (event_and_incident k) g) (\<lambda>_. J) (\<lambda>_. J) s"
  unfolding wp_bindM
proof (rule wp_event_and_incident, goal_cases)
  case (1 ev i inc)
  then show ?case using assms(1) [of ev inc] unfolding wp_total J_def asks_at_def asked_then_def by blast
qed (simp add: J_def)

lemma asks_firstD: "asks_first E ev actor action reqs m \<Longrightarrow> asks_at s E ev actor action reqs m"
  by (simp add: asks_first_def)

lemma attempt_asks:
  "asks_first E ev actor APPLY_QUARANTINE (imposes ev (inc_id inc)) (attempt_quarantine E ev inc actor existing)"
  unfolding attempt_quarantine_def
  by (rule asks_first_then, rule frame, rule asks_first_after, rule frame, rule asks_first_then, rule frame,
      rule asks_first_authorize, simp del: if_not_P, rule sends_after, rule frame, rule sends_thenM(1), rule frame,
      rule sends_if, rule sends_keeps, rule frame, rule sends_mono [OF sends_execute], simp)

lemma attempt_removal_asks:
  assumes "r \<in> set rows" and "qrr_security_event_id r = sev_id ev"
  shows "asks_first E ev actor REMOVE_QUARANTINE (lifts rows ev i) (attempt_removal E ev i actor r)"
  unfolding attempt_removal_def
  by (rule asks_first_after, rule frame, rule asks_first_authorize, simp del: if_not_P, rule sends_after, rule frame,
      rule sends_thenM(1), rule frame, rule sends_if, rule sends_keeps, (intro frame; fail),
      rule sends_mono [OF sends_removal [OF assms]], simp)

text \<open>C18. Nothing is done to the cluster without a fresh permission. When an operator applies or removes a
  quarantine, the policy engine is asked at most once, with exactly this operation on exactly the pod of the
  security event and the operator as the approver; and a request reaches the cluster only after the engine
  allowed it. Applying can send only the label of this pod, then the deny-all policy that selects it, then
  the removal of the label again, in this order, and only in the staging namespace; removing can send only
  the deletion of a policy recorded for this event and the removal of the label. This holds on every way out,
  exceptions included, whatever the cluster and the engine answer.\<close>

theorem quarantine_requests_authorised:
  "wp (apply_quarantine E k actor)
     (\<lambda>_ t. effects t = effects s \<or> asked_then E k actor APPLY_QUARANTINE imposes s t)
     (\<lambda>_ t. effects t = effects s \<or> asked_then E k actor APPLY_QUARANTINE imposes s t) s \<and>
   wp (remove_quarantine E k actor)
     (\<lambda>_ t. effects t = effects s \<or>
        asked_then E k actor REMOVE_QUARANTINE (lifts (db_quarantine_records (sy_db s))) s t)
     (\<lambda>_ t. effects t = effects s \<or>
        asked_then E k actor REMOVE_QUARANTINE (lifts (db_quarantine_records (sy_db s))) s t) s"
proof
  show "wp (apply_quarantine E k actor)
     (\<lambda>_ t. effects t = effects s \<or> asked_then E k actor APPLY_QUARANTINE imposes s t)
     (\<lambda>_ t. effects t = effects s \<or> asked_then E k actor APPLY_QUARANTINE imposes s t) s"
    unfolding apply_quarantine_def
    by (rule asked_then_found) (auto intro!: asks_at_dbM asks_firstD [OF attempt_asks] split: option.split)
  show "wp (remove_quarantine E k actor)
     (\<lambda>_ t. effects t = effects s \<or>
        asked_then E k actor REMOVE_QUARANTINE (lifts (db_quarantine_records (sy_db s))) s t)
     (\<lambda>_ t. effects t = effects s \<or>
        asked_then E k actor REMOVE_QUARANTINE (lifts (db_quarantine_records (sy_db s))) s t) s"
    unfolding remove_quarantine_def
    by (rule asked_then_found) (auto intro!: asks_at_dbM asks_firstD [OF attempt_removal_asks]
        dest: newest_mem split: option.split)
qed

section \<open>What is recorded\<close>

text \<open>The rows of a quarantine: the record \<open>q\<close> of the event \<open>k\<close>, and the event itself.\<close>

definition qx_rows :: "'w sys \<Rightarrow> quarantine_record list \<times> security_event list" where
  "qx_rows s = (db_quarantine_records (sy_db s), db_security_events (sy_db s))"

definition rows_at :: "database \<Rightarrow> uuid \<Rightarrow> uuid \<Rightarrow> (quarantine_record \<Rightarrow> bool) \<Rightarrow> (security_event \<Rightarrow> bool) \<Rightarrow>
    'w sys \<Rightarrow> bool" where
  "rows_at c k q P V s \<longleftrightarrow> sy_committed s = c \<and>
     (\<exists>r. find_row qrr_id q (db_quarantine_records (sy_db s)) = Some r \<and> qrr_security_event_id r = k \<and> P r) \<and>
     (\<exists>e. find_row sev_id k (db_security_events (sy_db s)) = Some e \<and> V e)"

abbreviation anything :: "'a \<Rightarrow> bool" where "anything \<equiv> \<lambda>_. True"

lemma rows_at_any: "rows_at c k q P V s \<Longrightarrow> rows_at c k q anything anything s"
  by (auto simp: rows_at_def)

lemma rows_at_keeps:
  assumes "keeps qx_rows m" and "keeps sy_committed m" and "rows_at c k q P V s"
  shows "wp m (\<lambda>_. rows_at c k q P V) (\<lambda>_. rows_at c k q anything anything) s"
  by (rule wp_mono [OF wp_conj [OF keeps_wp [OF assms(1)] keeps_wp [OF assms(2)]]])
    (use assms(3) in \<open>auto simp: rows_at_def qx_rows_def\<close>)

lemma rows_at_set_quarantine:
  assumes "rows_at c k q P V s" and "\<And>r. qrr_id (f r) = qrr_id r"
    and "\<And>r. qrr_security_event_id (f r) = qrr_security_event_id r" and "\<And>r. P r \<Longrightarrow> P' (f r)"
  shows "wp (set_quarantine q f) (\<lambda>_. rows_at c k q P' V) X s"
  using assms by (auto simp: set_quarantine_def wp_updM rows_at_def find_upd_row)

lemma rows_at_set_event:
  assumes "rows_at c k q P V s" and "\<And>r. sev_id (f r) = sev_id r" and "\<And>r. V r \<Longrightarrow> V' (f r)"
  shows "wp (set_security_event k f) (\<lambda>_. rows_at c k q P V') X s"
  using assms by (auto simp: set_security_event_def wp_updM rows_at_def find_upd_row)

lemma keeps_qx:
  "keeps (\<lambda>s. db_quarantine_records (sy_db s)) m \<Longrightarrow> keeps (\<lambda>s. db_security_events (sy_db s)) m \<Longrightarrow> keeps qx_rows m"
  by (simp add: keeps_def qx_rows_def)

lemma keeps_qx_steps [frame]:
  "keeps qx_rows (set_execution x f)" "keeps qx_rows (set_proposal p g)" "keeps qx_rows (record_audit E a)"
  "keeps qx_rows (queue_incident_notification E ty inc ds pub)" "keeps qx_rows (utc_now E)"
  "keeps qx_rows (worldM call)" "keeps qx_rows (change_incident_state E i tgt ac aty ds fc)"
  "keeps qx_rows (insert_row E db_verification_records_update ok1 mk1)"
  "keeps qx_rows (insert_row E db_stream_events_update ok2 mk2)"
  "keeps qx_rows (insert_row E db_action_executions_update ok3 mk3)"
  "keeps qx_rows (insert_row E db_policy_decisions_update ok4 mk4)"
  "keeps qx_rows (insert_row E db_action_proposals_update ok5 mk5)"
  "keeps qx_rows (opa_evaluate E pin)"
  by (rule keeps_qx; (unfold set_execution_def set_proposal_def)?; intro frame keeps_db_updM keeps_db_insert_row; simp)+

lemma wp_commit_rows:
  "rows_at c k q P V s \<Longrightarrow> wp commit (\<lambda>_ t. rows_at (sy_db t) k q P V t) X s"
  by (simp add: wp_commit rows_at_def)

lemmas qx_part_defs = close_execution_def fail_execution_def qx_audit_def publish_containment_def

lemma keeps_qx_parts [frame]:
  "keeps qx_rows (close_execution E x v)" "keeps sy_committed (close_execution E x v)"
  "keeps qx_rows (fail_execution E x e)" "keeps sy_committed (fail_execution E x e)"
  "keeps qx_rows (qx_audit E ev i ty re ac sc f)" "keeps sy_committed (qx_audit E ev i ty re ac sc f)"
  "keeps qx_rows (publish_containment E ev i q)" "keeps sy_committed (publish_containment E ev i q)"
  unfolding qx_part_defs by (intro frame)+

definition contained :: "jdict \<Rightarrow> quarantine_record \<Rightarrow> bool" where
  "contained v r \<longleftrightarrow> qrr_status r = CS_CONTAINED \<and> qrr_verification r = v"

definition contained_event :: "containment_status \<Rightarrow> security_event \<Rightarrow> bool" where
  "contained_event st e \<longleftrightarrow> sev_containment_status e = st"

lemma record_containment_rows:
  assumes "rows_at c (sev_id ev) q P V s"
  shows "wp (record_containment E ev i actor sc p x n q d v)
    (\<lambda>q' t. q' = q \<and> rows_at (sy_db t) (sev_id ev) q (contained v) (contained_event CS_CONTAINED) t)
    (\<lambda>_. rows_at c (sev_id ev) q anything anything) s"
  unfolding record_containment_def
  by (rule wp_then_post, rule wp_seq_post, rule rows_at_set_quarantine [where P' = "contained v", OF assms],
      simp, simp, simp add: contained_def,
      rule wp_seq_post, rule rows_at_set_event [where V' = "contained_event CS_CONTAINED"], assumption, simp,
      simp add: contained_event_def,
      (rule wp_seq_post, rule rows_at_keeps, (intro frame; fail), (intro frame; fail), assumption)+,
      rule wp_seq_post, rule wp_commit_rows, assumption, rule wp_seq_nil, assumption, simp)

definition failed :: "exn \<Rightarrow> quarantine_record \<Rightarrow> bool" where
  "failed e r \<longleftrightarrow> qrr_status r = CS_VERIFICATION_FAILED \<and>
     qrr_verification r = [(''success'', JBool False), (''error_code'', JStr (exn_code e))]"

text \<open>The handler of a failed containment raises a \<open>CloudWardError\<close> only after everything is committed.\<close>

lemma raises_rows [raise_rules]:
  "raises (\<lambda>e. \<not> is_cloudward e) (load_row rows key i)"
  "raises (\<lambda>e. \<not> is_cloudward e) (insert_row E set_rows ok mk)"
  unfolding load_row_def insert_row_def by (intro raise_rules; simp)+

lemma raises_tryM [raise_rules]: "(\<And>e. raises P (h e)) \<Longrightarrow> raises P (tryM m h)"
  by (auto simp: raises_def wp_tryM intro: wp_always)

lemma raises_mapM: "(\<And>x. raises P (g x)) \<Longrightarrow> raises P (mapM g xs)"
  by (induction xs) (auto intro!: raise_rules)

lemma raises_steps [raise_rules]:
  "raises (\<lambda>e. \<not> is_cloudward e) (record_audit E a)"
  "raises (\<lambda>e. \<not> is_cloudward e) (append_stream_event E ty oi pl)"
  "raises (\<lambda>e. \<not> is_cloudward e) (set_incident i f)"
  "raises (\<lambda>e. \<not> is_cloudward e) (add_active v n)"
  "raises (\<lambda>e. \<not> is_cloudward e) (add_incident_event E i co ty' fs ts ac aty ds)"
  unfolding record_audit_def append_stream_event_def set_incident_def add_active_def add_incident_event_def
  by (intro raise_rules)+

lemma raises_queue [raise_rules]: "raises (\<lambda>e. \<not> is_cloudward e) (queue_incident_notification E ty inc d pub)"
  unfolding queue_incident_notification_def queue_notification_def queue_channel_def
  by (intro raise_rules raises_mapM) (auto simp: mk_notification_message_def split: if_splits)

lemma raises_capture [raise_rules]: "raises (\<lambda>e. \<not> is_cloudward e) (capture_terminal_incident E inc)"
  unfolding capture_terminal_incident_def remember_def
  by (intro raise_rules) (auto simp: mk_memory_write_def mk_fingerprint_input_def split: if_splits)

lemma raises_changing [raise_rules]:
  "raises (\<lambda>e. \<not> is_cloudward e) (notify_change E i tgt ds)"
  "raises (\<lambda>e. \<not> is_cloudward e) (record_change E inc tgt a aty ds)"
  unfolding notify_change_def record_change_def by (intro raise_rules)+

lemma raises_escalating: "raises (\<lambda>e. \<not> is_cloudward e) (announce_change E inc ESCALATED a aty ds)"
  unfolding announce_change_def by (intro raise_rules) simp_all

definition escalated :: "uuid \<Rightarrow> 'w sys \<Rightarrow> bool" where
  "escalated i s \<longleftrightarrow> state_of i s \<noteq> Some EXECUTING \<and> state_of i s \<noteq> Some VERIFYING"

lemma escalation_wp:
  "wp (bindM (load_incident i) (\<lambda>inc. whenM (inc_state inc \<in> {EXECUTING, VERIFYING})
       (change_incident_state E i ESCALATED a aty ds False)))
     (\<lambda>_. escalated i) (\<lambda>e _. \<not> is_cloudward e) s"
proof (cases "find_row inc_id i (db_incidents (sy_db s))")
  case None
  then show ?thesis by (simp add: wp_bindM wp_load_row)
next
  case (Some inc)
  show ?thesis
  proof (cases "inc_state inc \<in> {EXECUTING, VERIFYING}")
    case True
    then have ok: "inc_state inc \<noteq> ESCALATED" "ESCALATED \<in> allowed_transitions (inc_state inc)" by auto
    have "wp (change_incident_state E i ESCALATED a aty ds False) (\<lambda>_ _. True) (\<lambda>e _. \<not> is_cloudward e) s"
      using ok Some
      by (auto simp: change_incident_state_def wp_bindM wp_load_row wp_seqM_Cons wp_whenM wp_voidM wp_liftR
          transition_incident_def intro!: wp_mono [OF raisesD [OF raises_changing(2)]]
            wp_mono [OF raisesD [OF raises_escalating]])
    from wp_conj [OF change_incident_state_reaches [OF Some ok(1), of False] this]
    show ?thesis using True Some ok
      by (auto simp: wp_bindM wp_load_row wp_whenM escalated_def elim!: wp_mono)
  next
    case False
    then show ?thesis using Some
      by (auto simp: wp_bindM wp_load_row wp_whenM escalated_def state_of_def)
  qed
qed

lemma raises_qx_parts [raise_rules]:
  "raises (\<lambda>e. \<not> is_cloudward e) (qx_audit E ev i ty re ac sc f)"
  "raises (\<lambda>e. \<not> is_cloudward e) (publish_containment E ev i q)"
  "raises (\<lambda>e. \<not> is_cloudward e) (fail_execution E x e')"
  "raises (\<lambda>e. \<not> is_cloudward e) (set_quarantine q g)"
  "raises (\<lambda>e. \<not> is_cloudward e) (set_security_event k h)"
  unfolding qx_part_defs set_quarantine_def set_security_event_def set_execution_def by (intro raise_rules)+

definition left_failed :: "database \<Rightarrow> uuid \<Rightarrow> uuid \<Rightarrow> exn \<Rightarrow> 'w sys \<Rightarrow> bool" where
  "left_failed c k q e s \<longleftrightarrow> rows_at c k q (failed e) (contained_event CS_VERIFICATION_FAILED) s"

lemma failed_step:
  assumes "left_failed c k q e s" and "keeps qx_rows m" and "keeps sy_committed m"
    and "raises (\<lambda>e. \<not> is_cloudward e) m"
  shows "wp m (\<lambda>_. left_failed c k q e) (\<lambda>e' t. \<not> is_cloudward e' \<and> sy_committed t = c) s"
  using wp_conj [OF rows_at_keeps [OF assms(2,3) assms(1) [unfolded left_failed_def]] raisesD [OF assms(4)]]
  by (rule wp_mono) (auto simp: left_failed_def rows_at_def)

lemma escalated_keeps: "keeps (\<lambda>s. db_incidents (sy_db s)) m \<Longrightarrow> preserves (escalated i) m"
  unfolding escalated_def state_of_def by (rule preserves_keeps)

lemma escalated_step:
  assumes "left_failed c k q e s \<and> escalated i s" and "keeps qx_rows m" and "keeps sy_committed m"
    and "raises (\<lambda>e. \<not> is_cloudward e) m" and "preserves (escalated i) m"
  shows "wp m (\<lambda>_ t. left_failed c k q e t \<and> escalated i t) (\<lambda>e' t. \<not> is_cloudward e' \<and> sy_committed t = c) s"
  by (rule wp_mono [OF wp_conj [OF failed_step [of c k q e, OF _ assms(2,3,4)] preservesD [OF assms(5)]]])
    (use assms(1) in auto)

lemma containment_failed_rows:
  assumes "rows_at c (sev_id ev) q P V s"
  shows "wp (containment_failed E ev i sc x q e) (\<lambda>_ _. False)
    (\<lambda>e' t. \<not> is_cloudward e' \<and> sy_committed t = c \<or>
       e' = e \<and> left_failed (sy_db t) (sev_id ev) q e t \<and> escalated i t) s"
proof -
  let ?X = "\<lambda>e' t. \<not> is_cloudward e' \<and> sy_committed t = c"
  let ?J = "left_failed c (sev_id ev) q e"
  have escalate: "wp (bindM (load_incident i) (\<lambda>inc. whenM (inc_state inc \<in> {EXECUTING, VERIFYING})
       (change_incident_state E i ESCALATED a aty ds False))) (\<lambda>_ t. ?J t \<and> escalated i t) ?X t" if "?J t" for t a aty ds
  proof -
    have "keeps qx_rows (bindM (load_incident i) (\<lambda>inc. whenM (inc_state inc \<in> {EXECUTING, VERIFYING})
         (change_incident_state E i ESCALATED a aty ds False)))"
      "keeps sy_committed (bindM (load_incident i) (\<lambda>inc. whenM (inc_state inc \<in> {EXECUTING, VERIFYING})
         (change_incident_state E i ESCALATED a aty ds False)))" by (intro frame)+
    from wp_conj [OF rows_at_keeps [OF this that [unfolded left_failed_def]] escalation_wp]
    show ?thesis by (rule wp_mono) (auto simp: left_failed_def rows_at_def)
  qed
  have settle: "wp commit (\<lambda>_ t. left_failed (sy_db t) (sev_id ev) q e t \<and> escalated i t) ?X t"
    if "?J t \<and> escalated i t" for t
    using that by (simp add: wp_commit left_failed_def rows_at_def escalated_def state_of_def)
  have audited: "preserves (escalated i) (qx_audit E ev i ty re ac sc f)" 
    "preserves (escalated i) (publish_containment E ev i q)" for ty re ac f
    by (rule escalated_keeps; unfold qx_part_defs; intro frame keeps_db_insert_row; simp)+
  have "wp (containment_failed E ev i sc x q e) (\<lambda>_ _. False)
    (\<lambda>e' t. ?X e' t \<or> e' = e \<and> left_failed (sy_db t) (sev_id ev) q e t \<and> escalated i t) s"
    unfolding containment_failed_def
    by (rule wp_then_post, rule wp_mono,
        rule wp_seq_post, rule rows_at_set_quarantine [where P' = "failed e", OF assms], simp, simp,
        simp add: failed_def, rule wp_seq_post,
        rule rows_at_set_event [where V' = "contained_event CS_VERIFICATION_FAILED"], assumption, simp,
        simp add: contained_event_def, rule wp_seq_post, rule failed_step [where c = c and k = "sev_id ev" and q = q and e = e], simp add: left_failed_def,
        (intro frame raise_rules; fail)+,
        rule wp_seq_post, rule escalate, assumption,
        (rule wp_seq_post, rule escalated_step, assumption, (intro frame raise_rules audited; fail)+)+,
        rule wp_seq_post, rule settle, assumption, rule wp_seq_nil, assumption) simp_all
  then show ?thesis .
qed

definition verified :: "jdict \<Rightarrow> bool" where
  "verified v \<longleftrightarrow> (\<exists>cs. containment_shape cs \<and> list_all snd cs \<and> v = checks_json cs)"

lemma wait_for_containment_results:
  "results (\<lambda>v. verified v \<or> success_of v = Inr False) (wait_for_containment E ev pn)"
proof -
  have seen: "verified (checks_json cs) \<or> success_of (checks_json cs) = Inr False" if "containment_shape cs" for cs
    using that by (auto simp: verified_def success_of_def checks_json_def dict_get_def)
  have none: "success_of [(''success'', JBool False), (''checks'', JList [])] = Inr False"
    by (simp add: success_of_def dict_get_def)
  show ?thesis
    unfolding wait_for_containment_def
    by (intro results_bindM_of [OF containment_watch.wait_shaped] results_returnM)
      (auto dest: seen simp: none split: option.splits)
qed

lemma impose_verified: "results verified (impose_quarantine E ev i actor q)"
proof -
  have checked: "results verified (bindM (liftR (success_of v)) (\<lambda>ok. thenM (raise_if (\<not> ok) e) (returnM v)))"
    if "verified v \<or> success_of v = Inr False" for v e
    using that by (auto simp: results_def wp_simps split: sum.splits)
  show ?thesis
    unfolding impose_quarantine_def
    by (rule results_bindM, (rule results_thenM)+, rule results_bindM,
        rule results_bindM_of [OF wait_for_containment_results], rule checked)
qed

lemma rows_at_inv: "keeps qx_rows m \<Longrightarrow> keeps sy_committed m \<Longrightarrow> preserves (rows_at c k q anything anything) m"
  by (auto simp: preserves_def keeps_def rows_at_def qx_rows_def)

lemma qx_rows_world [simp]: "qx_rows (s\<lparr>sy_world := w\<rparr>) = qx_rows s"
  by (simp add: qx_rows_def)

lemma keeps_qx_log [frame]: "keeps qx_rows (logM e)"
  by (simp add: logM_def keeps_modifyM qx_rows_def)

lemma keeps_qx_cluster [frame]:
  "keeps qx_rows (apply_quarantine_policy E ns p qid j)" "keeps sy_committed (apply_quarantine_policy E ns p qid j)"
  "keeps qx_rows (remove_quarantine_policy E ns p pn qid)" "keeps sy_committed (remove_quarantine_policy E ns p pn qid)"
  unfolding apply_quarantine_policy_def remove_quarantine_policy_def patch_pod_label_def get_pod_health_def
  by (intro frame keeps_kube_reads; simp)+

lemma rows_at_impose: "preserves (rows_at c k q anything anything) (impose_quarantine E ev i actor q)"
proof -
  have stamp: "preserves (rows_at c k q anything anything) (set_quarantine q (qrr_applied_at_update f))" for f
    by (auto simp: preserves_wp intro!: wp_mono [OF rows_at_set_quarantine])
  show ?thesis
    unfolding impose_quarantine_def
    by (intro inv_rules) (rule stamp | rule rows_at_inv; (intro frame keeps_probes keeps_waits)?; simp)+
qed

text \<open>Quarantine records have distinct keys below the supply.\<close>

definition quarantine_inv :: "'w sys \<Rightarrow> bool" where
  "quarantine_inv s \<longleftrightarrow> distinct (map qrr_id (db_quarantine_records (sy_db s))) \<and>
     (\<forall>r \<in> set (db_quarantine_records (sy_db s)). qrr_id r < sy_next s)"

text \<open>The state in which the handler decides: nothing is committed, no quarantine record has changed, and the
  event still has its containment status.\<close>

definition containment_of :: "uuid \<Rightarrow> 'w sys \<Rightarrow> containment_status option" where
  "containment_of k s = map_option sev_containment_status (find_row sev_id k (db_security_events (sy_db s)))"

definition ready :: "database \<Rightarrow> uuid \<Rightarrow> containment_status \<Rightarrow> quarantine_record list \<Rightarrow> 'w sys \<Rightarrow> bool" where
  "ready c k st rs s \<longleftrightarrow> sy_committed s = c \<and> quarantine_inv s \<and> db_quarantine_records (sy_db s) = rs \<and>
     containment_of k s = Some st"

definition record_of :: "uuid \<Rightarrow> quarantine_record list \<Rightarrow> quarantine_record option \<Rightarrow> bool" where
  "record_of k rs found \<longleftrightarrow> (\<forall>r. found = Some r \<longrightarrow> r \<in> set rs \<and> qrr_security_event_id r = k)"

interpretation ready: ambient_invariant "ready c k st rs"
  "\<lambda>h. \<forall>d. db_quarantine_records (h d) = db_quarantine_records d \<and> db_security_events (h d) = db_security_events d"
  for c k st rs
  by unfold_locales (auto simp: ready_def quarantine_inv_def containment_of_def less_Suc_eq)

lemma ready_steps [inv_rules]:
  "preserves (ready c k st rs) (opa_evaluate E pin)"
  "preserves (ready c k st rs) (insert_row E db_policy_decisions_update no_constraint mk)"
  "preserves (ready c k st rs) (record_audit E a)" "preserves (ready c k st rs) (dbM g)"
  "(\<And>r. sev_id (f r) = sev_id r) \<Longrightarrow> (\<And>r. sev_containment_status (f r) = sev_containment_status r) \<Longrightarrow>
     preserves (ready c k st rs) (set_security_event k' f)"
proof -
  show "preserves (ready c k st rs) (set_security_event k' f)" if "\<And>r. sev_id (f r) = sev_id r"
    "\<And>r. sev_containment_status (f r) = sev_containment_status r"
    using that
    by (auto simp: preserves_wp set_security_event_def wp_updM ready_def quarantine_inv_def containment_of_def
        find_upd_row)
qed (unfold opa_evaluate_def, (intro inv_rules ready.inv_prims ready.inv_insert_row ready.inv_record_audit; simp)+)

lemma mark_applying_rows:
  assumes "ready c (sev_id ev) st rs s" and "record_of (sev_id ev) rs found"
  shows "wp (mark_applying E ev i actor sc found) (\<lambda>q. rows_at c (sev_id ev) q anything anything)
    (\<lambda>_ t. sy_committed t = c) s"
proof -
  let ?k = "sev_id ev"
  have rest: "wp (thenM (set_security_event ?k (sev_containment_status_update f))
     (bindM (load_incident i) (\<lambda>inc.
      thenM (whenM (inc_state inc \<in> {POLICY_EVALUATION, AWAITING_APPROVAL})
        (change_incident_state E i EXECUTING actor ACTOR_USER [] False))
      (returnM q)))) (\<lambda>q. rows_at c ?k q anything anything) (\<lambda>_ t. sy_committed t = c) t"
    if "rows_at c ?k q anything anything t" for q t f
  proof -
    have "preserves (rows_at c ?k q anything anything) (set_security_event ?k (sev_containment_status_update f))"
      by (auto simp: preserves_wp intro!: wp_mono [OF rows_at_set_event])
    then have "preserves (rows_at c ?k q anything anything)
      (thenM (set_security_event ?k (sev_containment_status_update f))
       (bindM (load_incident i) (\<lambda>inc.
        (whenM (inc_state inc \<in> {POLICY_EVALUATION, AWAITING_APPROVAL})
          (change_incident_state E i EXECUTING actor ACTOR_USER [] False)))))"
      by (intro inv_rules) (assumption | rule rows_at_inv; intro frame)+
    from preservesD [OF this that] show ?thesis
      by (auto simp: wp_thenM wp_bindM elim!: wp_mono) (simp_all add: rows_at_def)
  qed
  show ?thesis
  proof (cases found)
    case None
    have "find_row qrr_id (sy_next s) (db_quarantine_records (sy_db s)) = None"
      using assms by (auto simp: ready_def quarantine_inv_def find_row_def find_None_iff)
    moreover have "qrr_id (new_quarantine ev i sc q u) = q" "qrr_security_event_id (new_quarantine ev i sc q u) = ?k"
      for q u by (simp_all add: new_quarantine_def)
    ultimately have "wp (insert_row E db_quarantine_records_update quarantine_record_ok (new_quarantine ev i sc))
        (\<lambda>q. rows_at c ?k q anything anything) (\<lambda>_ t. sy_committed t = c) s"
      using assms by (auto simp: wp_insert_row Let_def case_prod_unfold rows_at_def ready_def containment_of_def find_row_append)
    then show ?thesis unfolding mark_applying_def None option.case wp_bindM [of "insert_row _ _ _ _"]
      by (rule wp_mono) (rule rest, assumption)+
  next
    case (Some r)
    then have "find_row qrr_id (qrr_id r) (db_quarantine_records (sy_db s)) = Some r"
      using assms by (auto simp: ready_def record_of_def quarantine_inv_def intro!: find_row_distinct)
    with Some assms have "rows_at c ?k (qrr_id r) anything anything s"
      by (auto simp: rows_at_def ready_def record_of_def containment_of_def)
    then have "wp (set_quarantine (qrr_id r) (qrr_status_update f)) (\<lambda>_. rows_at c ?k (qrr_id r) anything anything)
        (\<lambda>_ t. sy_committed t = c) s" for f
      by (rule rows_at_set_quarantine) simp_all
    then show ?thesis unfolding mark_applying_def Some option.case wp_bindM [of "thenM _ _"] wp_thenM [of "set_quarantine _ _"] wp_returnM
      by (rule wp_mono) (rule rest, assumption)+
  qed
qed

lemma impose_state: "wp (impose_quarantine E ev i actor q) (\<lambda>_ t. state_of i t = Some VERIFYING) (\<lambda>_ _. True) s"
proof -
  have move: "wp (change_incident_state E i VERIFYING a aty ds False) (\<lambda>_ t. state_of i t = Some VERIFYING) (\<lambda>_ _. True) t"
    for t a aty ds
  proof (cases "state_of i t = None")
    case True
    then show ?thesis by (simp add: change_incident_state_def wp_bindM wp_load_row state_of_def)
  next
    case False
    from change_incident_state_sets [OF this] show ?thesis by (rule wp_mono) auto
  qed
  have watch: "preserves (\<lambda>t. state_of i t = Some VERIFYING)
      (bindM (load_row db_quarantine_records qrr_id q) (\<lambda>r.
      bindM (wait_for_containment E ev (qrr_policy_name r)) (\<lambda>verification.
      bindM (liftR (success_of verification)) (\<lambda>ok.
      thenM (raise_if (\<not> ok) e) (returnM verification)))))" for e
    by (rule preserves_keeps, intro frame keeps_waits, simp add: state_of_def)
  show ?thesis
    unfolding impose_quarantine_def
    by (rule wp_bind_post [OF wp_trivial], rule wp_then_post [OF wp_trivial], rule wp_then_post [OF wp_trivial],
        rule wp_then_post [OF wp_trivial], rule wp_then_post, rule move,
        rule wp_mono [OF preservesD [OF watch]]) auto
qed

lemma record_containment_incidents:
  "keeps (\<lambda>s. db_incidents (sy_db s)) (record_containment E ev i actor sc p x n q d v)"
  unfolding record_containment_def set_quarantine_def set_security_event_def set_proposal_def set_execution_def qx_part_defs
  by (intro frame keeps_db_updM keeps_db_insert_row; simp)

definition contained_now :: "uuid \<Rightarrow> uuid \<Rightarrow> uuid \<Rightarrow> 'w sys \<Rightarrow> bool" where
  "contained_now k i q t \<longleftrightarrow> state_of i t = Some VERIFYING \<and>
     (\<exists>v. verified v \<and> rows_at (sy_db t) k q (contained v) (contained_event CS_CONTAINED) t)"

definition failed_now :: "uuid \<Rightarrow> uuid \<Rightarrow> exn \<Rightarrow> 'w sys \<Rightarrow> bool" where
  "failed_now k i e t \<longleftrightarrow> is_cloudward e \<and> escalated i t \<and>
     (\<exists>q. rows_at (sy_db t) k q (failed e) (contained_event CS_VERIFICATION_FAILED) t)"

lemma impose_and_record:
  assumes "rows_at c (sev_id ev) q anything anything s"
  shows "wp (catch_cloudward (bindM (impose_quarantine E ev i actor q) (record_containment E ev i actor sc p x n q d))
       (containment_failed E ev i sc x q))
    (\<lambda>q. contained_now (sev_id ev) i q)
    (\<lambda>e t. sy_committed t = c \<and> \<not> is_cloudward e \<or> failed_now (sev_id ev) i e t) s"
proof -
  let ?T = "rows_at c (sev_id ev) q anything anything"
  have "wp (impose_quarantine E ev i actor q) (\<lambda>v t. verified v \<and> state_of i t = Some VERIFYING \<and> ?T t) (\<lambda>_. ?T) s"
    by (rule wp_mono [OF wp_conj [OF wp_conj [OF resultsD [OF impose_verified] impose_state] 
      preservesD [OF rows_at_impose assms]]]) auto
  moreover have "wp (record_containment E ev i actor sc p x n q d v) (\<lambda>q. contained_now (sev_id ev) i q) (\<lambda>_. ?T) t"
    if "verified v \<and> state_of i t = Some VERIFYING \<and> ?T t" for v t
    by (rule wp_mono [OF wp_conj [OF keeps_wp [OF record_containment_incidents] record_containment_rows]])
      (use that in \<open>auto simp: contained_now_def state_of_def\<close>)
  ultimately have "wp (bindM (impose_quarantine E ev i actor q) (record_containment E ev i actor sc p x n q d))
      (\<lambda>q. contained_now (sev_id ev) i q) (\<lambda>_. ?T) s" by (rule wp_bind_post)
  then show ?thesis unfolding wp_catch_cloudward
  proof (rule wp_mono, goal_cases)
    case (2 e t)
    show ?case
    proof (cases "is_cloudward e")
      case True
      show ?thesis unfolding if_P [OF True]
        by (rule wp_mono [OF containment_failed_rows [OF 2]])
          (use True in \<open>auto simp: failed_now_def left_failed_def\<close>)
    qed (use 2 in \<open>simp add: rows_at_def\<close>)
  qed
qed

lemma execute_quarantine_wp:
  assumes "ready c (sev_id ev) st rs s" and "record_of (sev_id ev) rs found"
  shows "wp (execute_quarantine E ev i actor sc p d found) (\<lambda>q. contained_now (sev_id ev) i q)
    (\<lambda>e t. sy_committed t = c \<and> (\<not> is_cloudward e \<or> effects t = effects s) \<or> failed_now (sev_id ev) i e t) s"
proof -
  let ?k = "sev_id ev" and ?X = "\<lambda>e t. sy_committed t = c \<and> (\<not> is_cloudward e \<or> effects t = effects s) \<or> failed_now (sev_id ev) i e t"
  have mark: "wp (mark_applying E ev i actor sc found)
      (\<lambda>q t. rows_at c ?k q anything anything t \<and> effects t = effects s) ?X s"
    by (rule wp_mono [OF wp_conj [OF mark_applying_rows [OF assms] keeps_wp [OF keeps_effects_quarantine(6)]]]) auto
  have start: "wp (new_quarantine_execution E ev i p APPLY_QUARANTINE) (\<lambda>_. rows_at c ?k q anything anything) ?X t"
    if "rows_at c ?k q anything anything t \<and> effects t = effects s" for q t
  proof -
    have "preserves (rows_at c ?k q anything anything) (new_quarantine_execution E ev i p APPLY_QUARANTINE)"
      unfolding new_quarantine_execution_def by (intro inv_rules) (rule rows_at_inv; intro frame)+
    from wp_conj [OF preservesD [OF this conjunct1 [OF that]] keeps_wp [OF keeps_effects_quarantine(4)]]
    show ?thesis by (rule wp_mono) (use that in \<open>auto simp: rows_at_def\<close>)
  qed
  have act: "wp (case xn of (x, n) \<Rightarrow> catch_cloudward (bindM (impose_quarantine E ev i actor q) 
       (record_containment E ev i actor sc p x n q d)) (containment_failed E ev i sc x q))
      (\<lambda>q. contained_now ?k i q) ?X t" if "rows_at c ?k q anything anything t" for xn q t
    by (cases xn) (auto intro!: wp_mono [OF impose_and_record [OF that]])
  show ?thesis
    unfolding execute_quarantine_def
    by (rule wp_bind_post [OF mark], rule wp_bind_post [OF start], assumption, rule act)
qed

definition denied_now :: "uuid \<Rightarrow> exn \<Rightarrow> 'w sys \<Rightarrow> 'w sys \<Rightarrow> bool" where
  "denied_now k e s t \<longleftrightarrow> cw_code e = Some ''QUARANTINE_DENIED'' \<and> sy_committed t = sy_db t \<and>
     db_quarantine_records (sy_db t) = db_quarantine_records (sy_db s) \<and> containment_of k t = containment_of k s"

definition questioned :: "'w sys \<Rightarrow> 'w sys \<Rightarrow> bool" where
  "questioned s t \<longleftrightarrow> effects t = effects s \<or> (\<exists>pin d. effects t = effects s @ [EvOpa pin d])"

lemma deny_quarantine_wp:
  assumes "ready c k st rs s"
  shows "wp (deny_quarantine E ev i actor sc d) (\<lambda>_ _. False)
    (\<lambda>e t. cw_code e = Some ''QUARANTINE_DENIED'' \<and> ready (sy_db t) k st rs t) s"
proof -
  have "wp (qx_audit E ev i ty re ac sc f) (\<lambda>_. ready c k st rs) (\<lambda>_ _. False) s" for ty re ac f
    using preservesD [OF ready_steps(3) assms] unfolding qx_audit_def wp_voidM
    by (simp add: wp_record_audit Let_def case_prod_unfold)
  then show ?thesis
    unfolding deny_quarantine_def wp_thenM wp_seqM_Cons
    by (rule wp_mono) (auto simp: wp_simps ready_def quarantine_inv_def containment_of_def)
qed

text \<open>Before the question nothing is sent; after it, one event more.\<close>

definition asked :: "bool \<Rightarrow> 'w sys \<Rightarrow> 'w sys \<Rightarrow> bool" where
  "asked done s t \<longleftrightarrow> (if done then \<exists>pin d. effects t = effects s @ [EvOpa pin d] else effects t = effects s)"

lemma asked_questioned: "asked done s t \<Longrightarrow> questioned s t"
  by (auto simp: asked_def questioned_def split: if_splits)

lemma ready_bind:
  assumes "ready c k st rs t \<and> asked done s t" and "preserves (ready c k st rs) m" and "keeps effects m"
    and "\<And>x u. ready c k st rs u \<and> asked done s u \<Longrightarrow> wp (g x) Q X u"
    and "\<And>e u. sy_committed u = c \<Longrightarrow> questioned s u \<Longrightarrow> X e u"
  shows "wp (bindM m g) Q X t"
  unfolding wp_bindM
  by (rule wp_mono [OF wp_conj [OF preservesD [OF assms(2) conjunct1 [OF assms(1)]] keeps_wp [OF assms(3)]]])
    (use assms(1) in \<open>auto intro!: assms(4,5) simp: asked_def questioned_def ready_def split: if_splits\<close>)

lemmas ready_then = ready_bind [where g = "\<lambda>_. n" for n, folded thenM_def]

lemma ready_parts:
  "preserves (ready c k st rs) (get_pod_health E ns n)" "preserves (ready c k st rs) (proposal_for_apply ev)"
  "preserves (ready c k st rs) (persist_decision E ev i p pin d sc)"
  "preserves (ready c k st rs) (authorize E ev actor ac pod)"
  unfolding get_pod_health_def proposal_for_apply_def persist_decision_def authorize_def require_namespace_def
    validate_name_def apiM_def
  by (intro inv_rules ready.inv_prims preserves_api_failure; simp)+

lemma attempt_quarantine_wp:
  assumes "ready c (sev_id ev) st rs s" and "record_of (sev_id ev) rs found"
  shows "wp (attempt_quarantine E ev inc actor found) (\<lambda>q. contained_now (sev_id ev) (inc_id inc) q)
    (\<lambda>e t. sy_committed t = c \<and> (\<not> is_cloudward e \<or> questioned s t) \<or>
       questioned s t \<and> denied_now (sev_id ev) e s t \<or> failed_now (sev_id ev) (inc_id inc) e t) s"
    (is "wp _ ?Q ?X s")
proof -
  let ?R = "ready c (sev_id ev) st rs" and ?i = "inc_id inc"
  have authorised: "wp (bindM (authorize E ev actor APPLY_QUARANTINE pod) g) ?Q ?X t"
    if "?R t \<and> asked False s t" "\<And>x u. ?R u \<and> asked True s u \<Longrightarrow> wp (g x) ?Q ?X u" for pod g t
    unfolding wp_bindM
  proof (rule wp_mono [OF wp_conj [OF preservesD [OF ready_parts(4) conjunct1 [OF that(1)]] authorize_asks]], goal_cases)
    case (1 x u)
    then show ?case using that(1) by (intro that(2)) (auto simp: asked_def)
  qed (use that(1) in \<open>auto simp: asked_def questioned_def ready_def\<close>)
  have deny: "wp (deny_quarantine E ev ?i actor sc d) ?Q ?X t" if "?R t \<and> asked True s t" for sc d t
    by (rule wp_mono [OF wp_conj [OF deny_quarantine_wp [OF conjunct1 [OF that]] keeps_wp [OF keeps_effects_quarantine(5)]]])
      (use that assms in \<open>auto simp: denied_now_def ready_def asked_def questioned_def\<close>)
  have execute: "wp (execute_quarantine E ev ?i actor sc p d found) ?Q ?X t" if "?R t \<and> asked True s t" for sc p d t
    by (rule wp_mono [OF execute_quarantine_wp [OF conjunct1 [OF that] assms(2)]])
      (use that in \<open>auto simp: asked_def questioned_def\<close>)
  have decided: "wp (case x of (risk, pin, d) \<Rightarrow> bindM (proposal_for_apply ev) (\<lambda>p.
       thenM (persist_decision E ev ?i p pin d (rr_score risk))
       (if \<not> pr_allowed d then deny_quarantine E ev ?i actor (rr_score risk) d
        else execute_quarantine E ev ?i actor (rr_score risk) p d found))) ?Q ?X t"
    if "?R t \<and> asked True s t" for x t
    by (cases x, simp only: prod.case, rule ready_bind [OF that ready_parts(2) keeps_effects_quarantine(2)],
        rule ready_then, assumption, rule ready_parts, rule keeps_effects_quarantine)
      (use deny execute in auto)
  have start: "?R s \<and> asked False s s" using assms(1) by (simp add: asked_def)
  show ?thesis
    unfolding attempt_quarantine_def
    by (rule ready_then [OF start], (intro inv_rules frame; fail)+,
        rule ready_bind, assumption, rule ready_parts, rule frame, rule ready_then, assumption,
        (intro inv_rules frame; fail)+, rule authorised, assumption, rule decided) auto
qed

section \<open>The outcome\<close>

lemma live_quarantine_of: "record_of k (db_quarantine_records d) (live_quarantine k d)"
  by (auto simp: record_of_def live_quarantine_def dest: newest_mem)

definition incident_of :: "uuid \<Rightarrow> 'w sys \<Rightarrow> uuid option" where
  "incident_of k s = Option.bind (find_row sev_id k (db_security_events (sy_db s))) sev_incident_id"


text \<open>C20. The waits end. When the clock does not go backwards while the cluster is read, the watch after applying
  and the watch after removing a quarantine both end within the fuel of the model, whatever the cluster
  answers: with any amount of additional fuel they do exactly the same. They return a result that reports
  success only in a round in which every check passed; a wait that returns without success has used up its
  whole timeout.\<close>

theorem quarantine_waits_terminate:
  fixes E :: "'w env"
  defines "timeout \<equiv> set_security_quarantine_verify_timeout_seconds (e_settings E)"
    and "poll \<equiv> set_security_quarantine_verify_poll_seconds (e_settings E)"
  assumes "steady_reads E now" and "settings_valid (e_settings E)"
    and "observe = observe_containment E ev pn \<or> observe = observe_release E ev pn"
  shows "bindM (monotonic E) (\<lambda>start. poll_checks (verify_fuel timeout poll + n) E observe (start + timeout) poll None) s =
      wait_for E observe s \<and>
    wp (wait_for E observe) (\<lambda>r t. (\<exists>cs. r = Some cs \<and> list_all snd cs) \<or>
      now (sy_world s) + timeout \<le> now (sy_world t)) (\<lambda>_ _. True) s"
  using assms(5) unfolding timeout_def poll_def
  by (elim disjE; simp only: containment_watch.wait_fuel [OF assms(3,4)] release_watch.wait_fuel [OF assms(3,4)]
      containment_watch.wait_ends [OF assms(3)] release_watch.wait_ends [OF assms(3)] simp_thms)

section \<open>Invariants\<close>

interpretation quarantines: ambient_invariant quarantine_inv
  "\<lambda>h. \<forall>d. db_quarantine_records (h d) = db_quarantine_records d"
  by unfold_locales (auto simp: quarantine_inv_def less_Suc_eq)

lemma quarantine_inv_ops [inv_rules]:
  "preserves quarantine_inv (worldM g)" "preserves quarantine_inv (utc_now E)" "preserves quarantine_inv (dbM h)"
  "preserves quarantine_inv (opa_evaluate E pin)" "preserves quarantine_inv (record_audit E a)"
  "preserves quarantine_inv (load_row rows key i)" "preserves quarantine_inv (set_incident j f)"
  "preserves quarantine_inv (set_proposal p k)" "preserves quarantine_inv (set_execution x l)"
  "preserves quarantine_inv (set_security_event x' l')" "preserves quarantine_inv (add_active w n)"
  "preserves quarantine_inv (add_incident_event E j c ty fs ts a' aty ds)" "preserves quarantine_inv (logM ev)"
  "preserves quarantine_inv (append_stream_event E ty' oi pl)" "preserves quarantine_inv commit"
  "preserves quarantine_inv (queue_incident_notification E ty'' inc d pub)"
  unfolding opa_evaluate_def load_row_def set_incident_def set_proposal_def add_active_def add_incident_event_def
    set_execution_def set_security_event_def commit_def
  by (intro inv_rules quarantines.inv_prims quarantines.inv_updM quarantines.inv_record_audit
      quarantines.inv_insert_row quarantines.inv_append_stream_event quarantines.inv_queue_incident_notification
      preserves_modifyM; simp add: quarantine_inv_def)+

lemma quarantine_inv_insert:
  "(\<And>h d. db_quarantine_records (set_rows h d) = db_quarantine_records d) \<Longrightarrow>
     preserves quarantine_inv (insert_row E set_rows ok mk)"
  by (rule quarantines.inv_insert_row) simp

lemma quarantine_inv_change [inv_rules]: "preserves quarantine_inv (change_incident_state E i tgt a aty ds fc)"
  unfolding change_incident_state_def record_change_def announce_change_def notify_change_def
    request_approval_def ensure_runtime_approval_def stream_approval_def capture_terminal_incident_def remember_def
  by (intro inv_rules quarantine_inv_insert quarantines.inv_updM) simp_all

lemma quarantine_inv_set [inv_rules]:
  assumes "\<And>r. qrr_id (f r) = qrr_id r"
  shows "preserves quarantine_inv (set_quarantine q f)"
proof -
  have "map qrr_id (upd_row qrr_id q f rows) = map qrr_id rows" for rows
    by (simp add: upd_row_def assms)
  then show ?thesis
    by (auto simp: preserves_wp set_quarantine_def wp_updM quarantine_inv_def assms dest!: upd_row_mem split: if_splits)
qed

lemma quarantine_inv_new [inv_rules]:
  "preserves quarantine_inv (insert_row E db_quarantine_records_update quarantine_record_ok (new_quarantine ev i sc))"
  by (auto simp: preserves_wp wp_insert_row Let_def case_prod_unfold quarantine_inv_def new_quarantine_def less_Suc_eq)

lemma security_inv_more [inv_rules]:
  "preserves security_inv (logM e)" "preserves security_inv commit" "preserves security_inv (set_execution x f)"
  "preserves security_inv (set_quarantine q g)"
  unfolding set_execution_def set_quarantine_def commit_def
  by (intro security_events.inv_prims security_events.inv_updM preserves_modifyM; simp add: security_inv_def)+

lemma log_inv_more [inv_rules]:
  "preserves log_inv (set_security_event k f)" "preserves log_inv (set_quarantine q g)"
  unfolding set_security_event_def set_quarantine_def by (intro log_inv_updM; simp)+

text \<open>An invariant that does not look at the outside world survives every read and every request.\<close>

locale world_blind =
  fixes I :: "'w sys \<Rightarrow> bool"
  assumes blind: "I (s\<lparr>sy_world := w\<rparr>) = I s"
    and logging: "preserves I (logM e)"
begin

lemma inv_reading: "(\<And>f :: 'w sys \<Rightarrow> bool. (\<And>s w. f (s\<lparr>sy_world := w\<rparr>) = f s) \<Longrightarrow> keeps f m) \<Longrightarrow> preserves I m"
  using preserves_keeps [of I m "\<lambda>b. b"] blind by simp

lemma inv_reads:
  "preserves I (get_pod_health E ns n)" "preserves I (probe_controlled_security_egress E ns n)"
  "preserves I (wait_for_containment E ev pn)" "preserves I (wait_for_release E ev pn js)"
  "preserves I (get_quarantine_policy_state E ns n p q)" "preserves I (worldM g)"
  by (rule inv_reading; (rule keeps_kube_reads keeps_probes keeps_waits keeps_worldM); simp)+

lemma inv_requests:
  "preserves I (apply_quarantine_policy E ns n q j)" "preserves I (remove_quarantine_policy E ns n p q)"
  unfolding apply_quarantine_policy_def remove_quarantine_policy_def patch_pod_label_def require_namespace_def
    require_custom_api_def validate_name_def apiM_def
  by (intro inv_rules inv_reads preserves_api_failure logging)+

end

interpretation blind_log: world_blind log_inv
  by unfold_locales (simp_all add: log_inv_def inv_rules)

interpretation blind_security: world_blind security_inv
  by unfold_locales (simp_all add: security_inv_def inv_rules)

interpretation blind_quarantine: world_blind quarantine_inv
  by unfold_locales (simp_all add: quarantine_inv_def inv_rules)

lemmas workflow_defs = apply_quarantine_def attempt_quarantine_def authorize_def execute_quarantine_def
  impose_quarantine_def remove_quarantine_def attempt_removal_def execute_removal_def lift_quarantine_def
  event_and_incident_def proposal_for_apply_def persist_decision_def new_quarantine_execution_def qx_part_defs
  deny_quarantine_def mark_applying_def record_containment_def containment_failed_def propose_removal_def
  record_removal_def removal_failed_def

lemma log_inv_quarantine:
  "preserves log_inv (apply_quarantine E k actor)" "preserves log_inv (remove_quarantine E k actor)"
  unfolding workflow_defs opa_evaluate_def set_proposal_def set_execution_def
  by (intro inv_rules blind_log.inv_reads blind_log.inv_requests log_inv_insert_row log_inv_updM
      log_inv_set_incident; simp)+

lemma security_inv_quarantine:
  "preserves security_inv (apply_quarantine E k actor)" "preserves security_inv (remove_quarantine E k actor)"
  unfolding workflow_defs
  by (intro inv_rules blind_security.inv_reads blind_security.inv_requests security_inv_insert; simp)+

lemma quarantine_inv_quarantine:
  "preserves quarantine_inv (apply_quarantine E k actor)" "preserves quarantine_inv (remove_quarantine E k actor)"
  unfolding workflow_defs
  by (intro inv_rules blind_quarantine.inv_reads blind_quarantine.inv_requests quarantine_inv_insert; simp)+

lemma quarantine_inv_ingest: "preserves quarantine_inv (ingest_security_event E v)"
  unfolding ingest_security_event_def find_security_event_def one_or_none_def deduplicate_event_def
    open_security_incident_def create_incident_def store_event_def propose_quarantine_def decide_quarantine_def
    settle_event_def stream_security_event_def sx_audit_def sx_change_def
  by (intro inv_rules quarantine_inv_insert) simp_all

definition records_inv :: "'w sys \<Rightarrow> bool" where
  "records_inv s \<longleftrightarrow> log_inv s \<and> security_inv s \<and> quarantine_inv s"

lemma records_inv_all:
  "preserves log_inv m \<Longrightarrow> preserves security_inv m \<Longrightarrow> preserves quarantine_inv m \<Longrightarrow> preserves records_inv m"
  by (simp add: preserves_def records_inv_def)

text \<open>C21. The security records stay consistent. Whatever the event, the operator and the answers of the outside
  world, and whether the handler returns or raises, ingesting a security event, applying a quarantine and
  removing one keep: one security event per source and fingerprint, distinct keys of events and quarantine
  records, and an event log of every incident that replays to its state along accepted transitions.\<close>

theorem security_records_consistent:
  "preserves records_inv (ingest_security_event E v) \<and> preserves records_inv (apply_quarantine E k actor) \<and>
   preserves records_inv (remove_quarantine E k actor)"
  by (intro conjI records_inv_all log_inv_ingest security_inv_ingest quarantine_inv_ingest log_inv_quarantine
      security_inv_quarantine quarantine_inv_quarantine)

section \<open>Witnesses\<close>

lemma demo_steady_reads: "steady_reads demo_env (\<lambda>w. of_int (dw_clock w) / 1000000)"
proof -
  have "of_int (dw_clock w) / 1000000 + d \<le> (of_int (dw_clock w) + of_int \<lceil>d * 1000000\<rceil>) / (1000000 :: rat)"
    for d and w :: demo_world using le_of_int_ceiling [of "d * 1000000"] by (simp add: field_simps)
  then show ?thesis by (simp add: steady_reads_def steady_clock_def demo_env_def)
qed

definition demo_security_event :: security_event where
  "demo_security_event =
     \<lparr>sev_id = 1, sev_created_at = 0, sev_correlation_id = ''c'', sev_incident_id = Some 2, sev_source = ''tetragon'',
      sev_fingerprint = ''f'', sev_event_type = UNEXPECTED_EGRESS, sev_severity = ''warning'',
      sev_environment = ENV_STAGING, sev_namespace = ''cloudward-staging'', sev_pod = ''demo-a'', sev_workload = None,
      sev_container_name = ''app'', sev_policy = ''egress'', sev_evidence_ref = ''ref'', sev_occurred_at = 0,
      sev_last_seen_at = 0, sev_dedup_count = 1, sev_risk_score = None, sev_policy_decision = None,
      sev_containment_status = CS_PROPOSED, sev_payload = []\<rparr>"

definition demo_attacked :: "demo_world sys" where
  "demo_attacked = demo_sys\<lparr>sy_db := empty_database\<lparr>db_security_events := [demo_security_event],
     db_incidents := [(demo_incident POLICY_EVALUATION)\<lparr>inc_id := 2\<rparr>]\<rparr>, sy_next := 3\<rparr>"

theorem quarantine_waits_terminate_witness:
  "bindM (monotonic demo_env) (\<lambda>start. poll_checks (verify_fuel 30 1 + 5) demo_env
      (observe_containment demo_env demo_security_event ''q'') (start + 30) 1 None) demo_attacked =
    wait_for demo_env (observe_containment demo_env demo_security_event ''q'') demo_attacked \<and>
   wp (wait_for demo_env (observe_containment demo_env demo_security_event ''q''))
     (\<lambda>r t. (\<exists>cs. r = Some cs \<and> list_all snd cs) \<or> 30 \<le> (of_int (dw_clock (sy_world t)) / 1000000 :: rat))
     (\<lambda>_ _. True) demo_attacked"
proof -
  have settings: "settings_valid (e_settings demo_env)"
    "set_security_quarantine_verify_timeout_seconds (e_settings demo_env) = 30"
    "set_security_quarantine_verify_poll_seconds (e_settings demo_env) = 1"
    by (simp_all add: settings_valid_def demo_env_def demo_settings_def py_startswith_def)
  from quarantine_waits_terminate [OF demo_steady_reads settings(1) disjI1 [OF refl],
      where n = 5 and s = demo_attacked and ev = demo_security_event and pn = "''q''"]
  show ?thesis unfolding settings by (auto simp: demo_attacked_def demo_sys_def elim!: wp_mono)
qed


end
