(* ===== verification/CW_Finops.thy ===== *)
theory CW_Finops
  imports CW_Env "HOL-Library.Multiset"
begin

text \<open>
  The FinOps engine (\<open>finops/engine.py\<close>, \<open>finops/schemas.py\<close>): deterministic rightsizing of a workload and the
  node-efficiency review, from observed usage, requests and costs. A usage sample is a finite figure or one
  of \<open>nan\<close>, \<open>inf\<close> and \<open>-inf\<close>. A pydantic model is its record with the field constraints as a predicate; the
  \<open>observed\<close> dump of a result is kept as the observation and the keys added to it.
\<close>

section \<open>Observations\<close>

datatype sample = Finite rat | NotFinite

record evidence_window =
  ew_start :: time
  ew_end :: time
  ew_requested_seconds :: int
  ew_observed_seconds :: int
  ew_sample_count :: int
  ew_demo_oriented :: bool

definition evidence_window_valid :: "evidence_window \<Rightarrow> bool" where
  "evidence_window_valid w \<longleftrightarrow> 60 \<le> ew_requested_seconds w \<and> 0 \<le> ew_observed_seconds w \<and>
     0 \<le> ew_sample_count w \<and> ew_start w < ew_end w"

record cost_allocation =
  ca_total_cost :: "rat option"
  ca_cpu_cost :: "rat option"
  ca_memory_cost :: "rat option"
  ca_currency :: string

definition at_least :: "rat \<Rightarrow> rat option \<Rightarrow> bool" where
  "at_least b x = (case x of None \<Rightarrow> True | Some v \<Rightarrow> b \<le> v)"

definition more_than :: "rat \<Rightarrow> rat option \<Rightarrow> bool" where
  "more_than b x = (case x of None \<Rightarrow> True | Some v \<Rightarrow> b < v)"

definition cost_allocation_valid :: "cost_allocation \<Rightarrow> bool" where
  "cost_allocation_valid a \<longleftrightarrow> at_least 0 (ca_total_cost a) \<and> at_least 0 (ca_cpu_cost a) \<and>
     at_least 0 (ca_memory_cost a) \<and> 3 \<le> length (ca_currency a) \<and> length (ca_currency a) \<le> 8"

definition finops_environments :: "string set" where
  "finops_environments = {''local'', ''staging'', ''production''}"

record workload_observation =
  wo_service :: string
  wo_environment :: string
  wo_namespace :: string
  wo_deployment :: string
  wo_replicas :: int
  wo_cpu_request_cores :: rat
  wo_cpu_limit_cores :: "rat option"
  wo_memory_request_bytes :: rat
  wo_memory_limit_bytes :: "rat option"
  wo_cpu_usage_cores :: "sample list"
  wo_memory_usage_bytes :: "sample list"
  wo_allocation :: cost_allocation
  wo_window :: evidence_window
  wo_source_queries :: "(string \<times> string) list"

definition workload_observation_valid :: "workload_observation \<Rightarrow> bool" where
  "workload_observation_valid ob \<longleftrightarrow>
     1 \<le> length (wo_service ob) \<and> length (wo_service ob) \<le> 253 \<and> wo_environment ob \<in> finops_environments \<and>
     1 \<le> length (wo_namespace ob) \<and> length (wo_namespace ob) \<le> 253 \<and>
     1 \<le> length (wo_deployment ob) \<and> length (wo_deployment ob) \<le> 253 \<and> 1 \<le> wo_replicas ob \<and>
     0 < wo_cpu_request_cores ob \<and> more_than 0 (wo_cpu_limit_cores ob) \<and>
     0 < wo_memory_request_bytes ob \<and> more_than 0 (wo_memory_limit_bytes ob) \<and>
     cost_allocation_valid (wo_allocation ob) \<and> evidence_window_valid (wo_window ob)"

record node_observation =
  no_environment :: string
  no_node_count :: int
  no_allocatable_cpu_cores :: rat
  no_allocatable_memory_bytes :: rat
  no_requested_cpu_cores :: rat
  no_requested_memory_bytes :: rat
  no_cpu_usage_cores :: "sample list"
  no_memory_usage_bytes :: "sample list"
  no_pod_count :: int
  no_allocation :: cost_allocation
  no_window :: evidence_window
  no_source_queries :: "(string \<times> string) list"

definition node_observation_valid :: "node_observation \<Rightarrow> bool" where
  "node_observation_valid ob \<longleftrightarrow> no_environment ob \<in> finops_environments \<and> 1 \<le> no_node_count ob \<and>
     0 < no_allocatable_cpu_cores ob \<and> 0 < no_allocatable_memory_bytes ob \<and>
     0 \<le> no_requested_cpu_cores ob \<and> 0 \<le> no_requested_memory_bytes ob \<and> 0 \<le> no_pod_count ob \<and>
     cost_allocation_valid (no_allocation ob) \<and> evidence_window_valid (no_window ob)"

record percentiles =
  pc_p50 :: rat
  pc_p95 :: rat
  pc_p99 :: rat

definition percentiles_valid :: "percentiles \<Rightarrow> bool" where
  "percentiles_valid p \<longleftrightarrow> 0 \<le> pc_p50 p \<and> 0 \<le> pc_p95 p \<and> 0 \<le> pc_p99 p"

definition mk_percentiles :: "percentiles \<Rightarrow> exn + percentiles" where
  "mk_percentiles p = (if percentiles_valid p then Inr p else Inl validation_error)"

section \<open>Results\<close>

record recommendation_draft =
  rd_recommendation_type :: string
  rd_service :: string
  rd_environment :: string
  rd_why :: string
  rd_current_config :: jdict
  rd_recommended_config :: jdict
  rd_evidence :: jdict
  rd_estimated_savings :: jdict
  rd_risk_score :: int
  rd_confidence :: rat
  rd_limitations :: "string list"
  rd_evidence_window :: evidence_window
  rd_source_fingerprint :: string

definition recommendation_draft_valid :: "recommendation_draft \<Rightarrow> bool" where
  "recommendation_draft_valid r \<longleftrightarrow>
     rd_recommendation_type r \<in> {''WORKLOAD_RIGHTSIZING'', ''NODE_EFFICIENCY''} \<and>
     rd_environment r \<in> finops_environments \<and> 0 \<le> rd_risk_score r \<and> rd_risk_score r \<le> 100 \<and>
     0 \<le> rd_confidence r \<and> rd_confidence r \<le> 1 \<and> evidence_window_valid (rd_evidence_window r) \<and>
     length (rd_source_fingerprint r) = 64"

definition mk_recommendation_draft :: "recommendation_draft \<Rightarrow> exn + recommendation_draft" where
  "mk_recommendation_draft r = (if recommendation_draft_valid r then Inr r else Inl validation_error)"

datatype finops_outcome = RECOMMENDED | NO_RECOMMENDATION | INSUFFICIENT_DATA

datatype observed =
    WorkloadObserved workload_observation "(percentiles \<times> percentiles) option"
  | NodesObserved node_observation "(rat \<times> rat) option"

record analysis_result =
  ar_scenario_id :: string
  ar_outcome :: finops_outcome
  ar_reason :: string
  ar_recommendation :: "recommendation_draft option"
  ar_observed :: observed

definition F1 :: string where "F1 = ''finops.overprovisioned-workload''"

definition F2 :: string where "F2 = ''finops.wasted-node-capacity''"

section \<open>Figures\<close>

record finops_policy =
  fp_cpu_headroom_factor :: rat
  fp_memory_headroom_factor :: rat
  fp_minimum_cpu_cores :: rat
  fp_minimum_memory_bytes :: int
  fp_minimum_reduction_fraction :: rat
  fp_minimum_samples :: int
  fp_minimum_demo_window_seconds :: int
  fp_minimum_production_window_seconds :: int
  fp_minimum_coverage :: rat
  fp_node_request_utilization_threshold :: rat
  fp_node_actual_utilization_threshold :: rat

definition MIB :: int where "MIB = 1024 * 1024"

definition default_finops_policy :: finops_policy where
  "default_finops_policy =
     \<lparr>fp_cpu_headroom_factor = 3 / 2, fp_memory_headroom_factor = 135 / 100, fp_minimum_cpu_cores = 5 / 100,
      fp_minimum_memory_bytes = 64 * MIB, fp_minimum_reduction_fraction = 20 / 100, fp_minimum_samples = 5,
      fp_minimum_demo_window_seconds = 900, fp_minimum_production_window_seconds = 604800,
      fp_minimum_coverage = 80 / 100, fp_node_request_utilization_threshold = 45 / 100,
      fp_node_actual_utilization_threshold = 35 / 100\<rparr>"

definition usable :: "sample list \<Rightarrow> rat list" where
  "usable values = [v. Finite v \<leftarrow> values, 0 \<le> v]"

definition quantile :: "sample list \<Rightarrow> rat \<Rightarrow> exn + rat" where
  "quantile values q =
     (case sort (usable values) of
        [] \<Rightarrow> Inl (PyError ''ValueError'')
      | ordered \<Rightarrow>
          (let position = of_int (int (length ordered) - 1) * q;
               lower = \<lfloor>position\<rfloor>; upper = \<lceil>position\<rceil> in
           Inr (if lower = upper then ordered ! nat lower
             else ordered ! nat lower + (ordered ! nat upper - ordered ! nat lower) * (position - of_int lower))))"

definition bind_exn :: "exn + 'a \<Rightarrow> ('a \<Rightarrow> exn + 'b) \<Rightarrow> exn + 'b" where
  "bind_exn m f = (case m of Inl e \<Rightarrow> Inl e | Inr x \<Rightarrow> f x)"

definition percentiles_of :: "sample list \<Rightarrow> exn + percentiles" where
  "percentiles_of series =
     bind_exn (quantile series (50 / 100)) (\<lambda>a.
     bind_exn (quantile series (95 / 100)) (\<lambda>b.
     bind_exn (quantile series (99 / 100)) (\<lambda>c.
     mk_percentiles \<lparr>pc_p50 = a, pc_p95 = b, pc_p99 = c\<rparr>)))"

definition round_cpu_up :: "rat \<Rightarrow> rat" where
  "round_cpu_up v = of_int \<lceil>v * 100\<rceil> / 100"

definition round_memory_up :: "rat \<Rightarrow> int" where
  "round_memory_up v = \<lceil>v / of_int MIB\<rceil> * MIB"

text \<open>\<^verbatim>\<open>round(x, n)\<close>.\<close>

definition round_to :: "nat \<Rightarrow> rat \<Rightarrow> rat" where
  "round_to n x = of_int (py_round (x * 10 ^ n)) / 10 ^ n"

definition window_problem :: "finops_policy \<Rightarrow> string \<Rightarrow> int \<Rightarrow> int \<Rightarrow> nat \<Rightarrow> string option" where
  "window_problem P environment requested observed samples =
     (let required = (if environment = ''production'' then fp_minimum_production_window_seconds P
                      else fp_minimum_demo_window_seconds P) in
      if requested < required then Some (''The requested observation window is below the '' @ str_of_int required @
          ''-second minimum.'')
      else if of_int observed < of_int requested * fp_minimum_coverage P
      then Some ''Observed samples do not cover enough of the requested evidence window.''
      else if int samples < fp_minimum_samples P
      then Some ''Too few utilization samples were observed for a safe recommendation.''
      else None)"

section \<open>Dumps\<close>

text \<open>\<^verbatim>\<open>model_dump(mode="json")\<close> writes a UTC time with the suffix \<open>Z\<close>.\<close>

definition json_time :: "time \<Rightarrow> json" where
  "json_time t = JStr (take (length (isoformat t) - 6) (isoformat t) @ ''Z'')"

definition window_json :: "evidence_window \<Rightarrow> json" where
  "window_json w = JObj
     [(''start'', json_time (ew_start w)), (''end'', json_time (ew_end w)),
      (''requested_seconds'', JInt (ew_requested_seconds w)), (''observed_seconds'', JInt (ew_observed_seconds w)),
      (''sample_count'', JInt (ew_sample_count w)), (''demo_oriented'', JBool (ew_demo_oriented w))]"

definition percentiles_json :: "percentiles \<Rightarrow> json" where
  "percentiles_json p = JObj
     [(''p50'', JFloat (pc_p50 p)), (''p95'', JFloat (pc_p95 p)), (''p99'', JFloat (pc_p99 p))]"

definition allocation_json :: "cost_allocation \<Rightarrow> json" where
  "allocation_json a = JObj
     [(''total_cost'', jopt JFloat (ca_total_cost a)), (''cpu_cost'', jopt JFloat (ca_cpu_cost a)),
      (''memory_cost'', jopt JFloat (ca_memory_cost a)), (''currency'', JStr (ca_currency a)),
      (''model'', JStr ''opencost-local'')]"

definition queries_json :: "(string \<times> string) list \<Rightarrow> json" where
  "queries_json qs = JObj (map (\<lambda>(k, v). (k, JStr v)) qs)"

definition finops_digest :: "jdict \<Rightarrow> string" where
  "finops_digest payload = sha256_hex (json_dumps (JObj payload))"

section \<open>Rightsizing a workload\<close>

text \<open>The proposed requests. The memory figure is an \<open>int\<close> when it was rounded up and the request's own \<open>float\<close>
  when the request stays.\<close>

record rightsizing =
  rz_cpu :: rat
  rz_memory :: "int option"
  rz_cpu_reduction :: rat
  rz_memory_reduction :: rat

definition memory_of :: "workload_observation \<Rightarrow> int option \<Rightarrow> rat" where
  "memory_of ob m = (case m of None \<Rightarrow> wo_memory_request_bytes ob | Some n \<Rightarrow> of_int n)"

definition memory_json :: "workload_observation \<Rightarrow> int option \<Rightarrow> json" where
  "memory_json ob m = (case m of None \<Rightarrow> JFloat (wo_memory_request_bytes ob) | Some n \<Rightarrow> JInt n)"

definition rightsize :: "finops_policy \<Rightarrow> workload_observation \<Rightarrow> percentiles \<Rightarrow> percentiles \<Rightarrow> rightsizing" where
  "rightsize P ob cpu memory =
     (let cpu_request = wo_cpu_request_cores ob; memory_request = wo_memory_request_bytes ob;
          recommended_cpu = min cpu_request
            (round_cpu_up (max (pc_p95 cpu * fp_cpu_headroom_factor P) (fp_minimum_cpu_cores P)));
          rounded = round_memory_up (max (pc_p95 memory * fp_memory_headroom_factor P)
            (of_int (fp_minimum_memory_bytes P)));
          recommended_memory = (if of_int rounded < memory_request then Some rounded else None);
          cpu_reduction = 1 - recommended_cpu / cpu_request;
          memory_reduction = 1 - memory_of ob recommended_memory / memory_request;
          keep_cpu = cpu_reduction < fp_minimum_reduction_fraction P;
          keep_memory = memory_reduction < fp_minimum_reduction_fraction P in
      \<lparr>rz_cpu = (if keep_cpu then cpu_request else recommended_cpu),
       rz_memory = (if keep_memory then None else recommended_memory),
       rz_cpu_reduction = (if keep_cpu then 0 else cpu_reduction),
       rz_memory_reduction = (if keep_memory then 0 else memory_reduction)\<rparr>)"

definition workload_confidence :: "workload_observation \<Rightarrow> rat" where
  "workload_confidence ob =
     (let coverage = min 1 (of_int (ew_observed_seconds (wo_window ob)) / of_int (ew_requested_seconds (wo_window ob)));
          completeness = (if ca_total_cost (wo_allocation ob) \<noteq> None then 1 else 85 / 100) in
      round_to 2 (min (99 / 100) (coverage * completeness)))"

definition workload_risk :: "workload_observation \<Rightarrow> rat \<Rightarrow> rat \<Rightarrow> int" where
  "workload_risk ob reduction confidence =
     min 100 (py_round (10 + reduction * 35 + (1 - confidence) * 25 +
       (if wo_environment ob = ''production'' then 20 else 0)))"

definition workload_savings :: "workload_observation \<Rightarrow> rightsizing \<Rightarrow> rat option" where
  "workload_savings ob z =
     (case (ca_cpu_cost (wo_allocation ob), ca_memory_cost (wo_allocation ob)) of
        (Some c, Some m) \<Rightarrow> Some (round_to 4 (c * rz_cpu_reduction z + m * rz_memory_reduction z))
      | _ \<Rightarrow> None)"

definition workload_evidence :: "finops_policy \<Rightarrow> workload_observation \<Rightarrow> percentiles \<Rightarrow> percentiles \<Rightarrow> jdict" where
  "workload_evidence P ob cpu memory =
     [(''cpu_usage_cores'', percentiles_json cpu), (''memory_usage_bytes'', percentiles_json memory),
      (''replicas'', JInt (wo_replicas ob)), (''allocation'', allocation_json (wo_allocation ob)),
      (''queries'', queries_json (wo_source_queries ob)),
      (''headroom'', JObj [(''cpu_factor'', JFloat (fp_cpu_headroom_factor P)),
         (''memory_factor'', JFloat (fp_memory_headroom_factor P)),
         (''minimum_cpu_cores'', JFloat (fp_minimum_cpu_cores P)),
         (''minimum_memory_bytes'', JInt (fp_minimum_memory_bytes P))])]"

definition workload_limits :: "workload_observation \<Rightarrow> json" where
  "workload_limits ob = JObj [(''cpu_cores'', jopt JFloat (wo_cpu_limit_cores ob)),
     (''memory_bytes'', jopt JFloat (wo_memory_limit_bytes ob))]"

definition workload_config :: "workload_observation \<Rightarrow> rat \<Rightarrow> int option \<Rightarrow> jdict" where
  "workload_config ob cpu memory =
     [(''replicas'', JInt (wo_replicas ob)),
      (''requests'', JObj [(''cpu_cores'', JFloat cpu), (''memory_bytes'', memory_json ob memory)]),
      (''limits'', workload_limits ob)]"

definition workload_limitations :: "workload_observation \<Rightarrow> rat option \<Rightarrow> string list" where
  "workload_limitations ob savings =
     [''The estimate uses the local OpenCost model and is not an AWS savings claim.'',
      ''A pull request requires human review; CloudWard will not resize a live production Deployment.''] @
     (if ew_demo_oriented (wo_window ob)
      then [''The evidence window is shortened for the local demo and is not production-grade.''] else []) @
     (if savings = None
      then [''OpenCost did not provide CPU and memory cost components, so monetary savings are not estimated.'']
      else [])"

definition workload_draft :: "finops_policy \<Rightarrow> workload_observation \<Rightarrow> percentiles \<Rightarrow> percentiles \<Rightarrow> rightsizing \<Rightarrow>
    recommendation_draft" where
  "workload_draft P ob cpu memory z =
     (let confidence = workload_confidence ob;
          savings = workload_savings ob z;
          evidence = workload_evidence P ob cpu memory;
          current = workload_config ob (wo_cpu_request_cores ob) None;
          recommended = workload_config ob (rz_cpu z) (rz_memory z) in
      \<lparr>rd_recommendation_type = ''WORKLOAD_RIGHTSIZING'', rd_service = wo_service ob,
       rd_environment = wo_environment ob,
       rd_why = ''Sustained p95 CPU and/or memory usage remains below the current request after deterministic safety headroom.'',
       rd_current_config = current, rd_recommended_config = recommended, rd_evidence = evidence,
       rd_estimated_savings = [(''value'', jopt JFloat savings), (''currency'', JStr (ca_currency (wo_allocation ob))),
         (''window'', JStr ''observed''), (''model'', JStr ''opencost-local''), (''is_aws_estimate'', JBool False)],
       rd_risk_score = workload_risk ob (max (rz_cpu_reduction z) (rz_memory_reduction z)) confidence,
       rd_confidence = confidence, rd_limitations = workload_limitations ob savings,
       rd_evidence_window = wo_window ob,
       rd_source_fingerprint = finops_digest
         [(''service'', JStr (wo_service ob)), (''environment'', JStr (wo_environment ob)),
          (''window'', window_json (wo_window ob)), (''current'', JObj current),
          (''recommended'', JObj recommended), (''evidence'', JObj evidence)]\<rparr>)"

definition no_result :: "string \<Rightarrow> finops_outcome \<Rightarrow> string \<Rightarrow> observed \<Rightarrow> analysis_result" where
  "no_result scenario outcome reason ob =
     \<lparr>ar_scenario_id = scenario, ar_outcome = outcome, ar_reason = reason, ar_recommendation = None, ar_observed = ob\<rparr>"

definition analyze_workload :: "finops_policy \<Rightarrow> workload_observation \<Rightarrow> exn + analysis_result" where
  "analyze_workload P ob =
     (case window_problem P (wo_environment ob) (ew_requested_seconds (wo_window ob))
        (ew_observed_seconds (wo_window ob))
        (min (length (wo_cpu_usage_cores ob)) (length (wo_memory_usage_bytes ob))) of
        Some problem \<Rightarrow> Inr (no_result F1 INSUFFICIENT_DATA problem (WorkloadObserved ob None))
      | None \<Rightarrow>
          bind_exn (percentiles_of (wo_cpu_usage_cores ob)) (\<lambda>cpu.
          bind_exn (percentiles_of (wo_memory_usage_bytes ob)) (\<lambda>memory.
          let z = rightsize P ob cpu memory in
          if rz_cpu_reduction z = 0 \<and> rz_memory_reduction z = 0 then
            Inr (no_result F1 NO_RECOMMENDATION
              ''Observed p95 usage plus configured safety headroom does not support a safe reduction.''
              (WorkloadObserved ob (Some (cpu, memory))))
          else
            bind_exn (mk_recommendation_draft (workload_draft P ob cpu memory z)) (\<lambda>draft.
            Inr \<lparr>ar_scenario_id = F1, ar_outcome = RECOMMENDED, ar_reason = rd_why draft,
              ar_recommendation = Some draft, ar_observed = WorkloadObserved ob None\<rparr>))))"

section \<open>Node efficiency\<close>

definition node_request_utilization :: "node_observation \<Rightarrow> rat" where
  "node_request_utilization ob =
     max (no_requested_cpu_cores ob / no_allocatable_cpu_cores ob)
       (no_requested_memory_bytes ob / no_allocatable_memory_bytes ob)"

definition node_actual_utilization :: "node_observation \<Rightarrow> percentiles \<Rightarrow> percentiles \<Rightarrow> rat" where
  "node_actual_utilization ob cpu memory =
     max (pc_p95 cpu / no_allocatable_cpu_cores ob) (pc_p95 memory / no_allocatable_memory_bytes ob)"

definition node_draft :: "node_observation \<Rightarrow> percentiles \<Rightarrow> percentiles \<Rightarrow> recommendation_draft" where
  "node_draft ob cpu memory =
     (let current =
            [(''node_count'', JInt (no_node_count ob)),
             (''allocatable_cpu_cores'', JFloat (no_allocatable_cpu_cores ob)),
             (''allocatable_memory_bytes'', JFloat (no_allocatable_memory_bytes ob)),
             (''requested_cpu_cores'', JFloat (no_requested_cpu_cores ob)),
             (''requested_memory_bytes'', JFloat (no_requested_memory_bytes ob)),
             (''pod_count'', JInt (no_pod_count ob))];
          evidence =
            [(''cpu_usage_cores'', percentiles_json cpu), (''memory_usage_bytes'', percentiles_json memory),
             (''request_utilization'', JFloat (round_to 4 (node_request_utilization ob))),
             (''actual_p95_utilization'', JFloat (round_to 4 (node_actual_utilization ob cpu memory))),
             (''allocation'', allocation_json (no_allocation ob)),
             (''queries'', queries_json (no_source_queries ob))] in
      \<lparr>rd_recommendation_type = ''NODE_EFFICIENCY'', rd_service = ''cluster-capacity'',
       rd_environment = no_environment ob,
       rd_why = ''Both scheduled requests and observed p95 usage are below the configured node-efficiency thresholds.'',
       rd_current_config = current,
       rd_recommended_config =
         [(''actions'', JList [JStr ''Review whether the baseline node count can be reduced.'',
            JStr ''Adjust future autoscaler/Karpenter capacity strategy after topology and disruption review.'']),
          (''automatic_change'', JBool False)],
       rd_evidence = evidence,
       rd_estimated_savings = [(''value'', JNull), (''currency'', JStr (ca_currency (no_allocation ob))),
         (''model'', JStr ''opencost-local''), (''is_aws_estimate'', JBool False)],
       rd_risk_score = min 100 (20 + (if no_environment ob = ''production'' then 20 else 0)),
       rd_confidence = round_to 2 (min (95 / 100)
         (of_int (ew_observed_seconds (no_window ob)) / of_int (ew_requested_seconds (no_window ob)))),
       rd_limitations =
         [''No monetary savings are claimed because node topology and an avoidable-node price were not proven.'',
          ''The result uses a local OpenCost model and is not an AWS or EKS validation.'',
          ''CloudWard does not change node count or production infrastructure automatically.''],
       rd_evidence_window = no_window ob,
       rd_source_fingerprint = finops_digest
         [(''environment'', JStr (no_environment ob)), (''window'', window_json (no_window ob)),
          (''current'', JObj current), (''evidence'', JObj evidence)]\<rparr>)"

definition analyze_nodes :: "finops_policy \<Rightarrow> node_observation \<Rightarrow> exn + analysis_result" where
  "analyze_nodes P ob =
     (case window_problem P (no_environment ob) (ew_requested_seconds (no_window ob))
        (ew_observed_seconds (no_window ob))
        (min (length (no_cpu_usage_cores ob)) (length (no_memory_usage_bytes ob))) of
        Some problem \<Rightarrow> Inr (no_result F2 INSUFFICIENT_DATA problem (NodesObserved ob None))
      | None \<Rightarrow>
          bind_exn (percentiles_of (no_cpu_usage_cores ob)) (\<lambda>cpu.
          bind_exn (percentiles_of (no_memory_usage_bytes ob)) (\<lambda>memory.
          let requested = node_request_utilization ob; actual = node_actual_utilization ob cpu memory in
          if requested \<ge> fp_node_request_utilization_threshold P \<or> actual \<ge> fp_node_actual_utilization_threshold P
          then Inr (no_result F2 NO_RECOMMENDATION
            ''Observed node requests or p95 usage do not meet the configured underutilization thresholds.''
            (NodesObserved ob (Some (requested, actual))))
          else
            bind_exn (mk_recommendation_draft (node_draft ob cpu memory)) (\<lambda>draft.
            Inr \<lparr>ar_scenario_id = F2, ar_outcome = RECOMMENDED, ar_reason = rd_why draft,
              ar_recommendation = Some draft, ar_observed = NodesObserved ob None\<rparr>))))"

section \<open>Quantiles\<close>

text \<open>Linear interpolation in a sorted list is monotone in the position and stays between the ends.\<close>

definition interpolate :: "rat list \<Rightarrow> rat \<Rightarrow> rat" where
  "interpolate xs p = xs ! nat \<lfloor>p\<rfloor> + (xs ! nat \<lceil>p\<rceil> - xs ! nat \<lfloor>p\<rfloor>) * (p - of_int \<lfloor>p\<rfloor>)"

lemma last_index:
  assumes "0 \<le> p" and "p \<le> of_nat (length xs) - (1 :: rat)"
  shows "nat \<lceil>p\<rceil> < length xs" "nat \<lfloor>p\<rfloor> < length xs" "nat \<lfloor>p\<rfloor> \<le> nat \<lceil>p\<rceil>"
proof -
  have "p \<le> of_int (int (length xs) - 1)" using assms by simp
  then have "\<lceil>p\<rceil> \<le> int (length xs) - 1" by (simp only: ceiling_le_iff)
  moreover have "0 \<le> \<lfloor>p\<rfloor>" "\<lfloor>p\<rfloor> \<le> \<lceil>p\<rceil>" using assms(1) by (simp_all add: floor_le_ceiling)
  ultimately show "nat \<lceil>p\<rceil> < length xs" "nat \<lfloor>p\<rfloor> < length xs" "nat \<lfloor>p\<rfloor> \<le> nat \<lceil>p\<rceil>" by linarith+
qed

lemma interpolate_between:
  assumes "sorted xs" and "0 \<le> p" and "p \<le> of_nat (length xs) - 1"
  shows "xs ! nat \<lfloor>p\<rfloor> \<le> interpolate xs p" and "interpolate xs p \<le> xs ! nat \<lceil>p\<rceil>"
proof -
  have "xs ! nat \<lfloor>p\<rfloor> \<le> xs ! nat \<lceil>p\<rceil>"
    by (rule sorted_nth_mono [OF assms(1) last_index(3,1) [OF assms(2,3)]])
  moreover have "0 \<le> p - of_int \<lfloor>p\<rfloor>" "p - of_int \<lfloor>p\<rfloor> \<le> 1" by linarith+
  ultimately show "xs ! nat \<lfloor>p\<rfloor> \<le> interpolate xs p" "interpolate xs p \<le> xs ! nat \<lceil>p\<rceil>"
    using mult_left_le [of "p - of_int \<lfloor>p\<rfloor>" "xs ! nat \<lceil>p\<rceil> - xs ! nat \<lfloor>p\<rfloor>"] by (auto simp: interpolate_def)
qed

lemma interpolate_mono:
  assumes "sorted xs" and "0 \<le> p" and "p \<le> p'" and "p' \<le> of_nat (length xs) - 1"
  shows "interpolate xs p \<le> interpolate xs p'"
proof (cases "\<lfloor>p\<rfloor> = \<lfloor>p'\<rfloor>")
  case True
  show ?thesis
  proof (cases "p = of_int \<lfloor>p\<rfloor>")
    case integral: True
    have "interpolate xs p = xs ! nat \<lfloor>p'\<rfloor>" unfolding interpolate_def True [symmetric] using integral by simp
    then show ?thesis using interpolate_between(1) [OF assms(1), of p'] assms by simp
  next
    case False
    then have "\<lceil>p\<rceil> = \<lfloor>p\<rfloor> + 1" "\<lceil>p'\<rceil> = \<lfloor>p\<rfloor> + 1" using assms(3) True by linarith+
    moreover from this have "xs ! nat \<lfloor>p\<rfloor> \<le> xs ! nat (\<lfloor>p\<rfloor> + 1)"
      using assms(1) last_index(1,3) [of p' xs] assms(2-4) True by (intro sorted_nth_mono) simp_all
    ultimately show ?thesis
      using assms(3) by (simp add: interpolate_def True [symmetric] mult_left_mono)
  qed
next
  case False
  then have lt: "\<lceil>p\<rceil> \<le> \<lfloor>p'\<rfloor>" using assms(3) by linarith
  have "xs ! nat \<lceil>p\<rceil> \<le> xs ! nat \<lfloor>p'\<rfloor>"
    using assms lt last_index(2) [of p' xs] by (intro sorted_nth_mono) auto
  then show ?thesis
    using interpolate_between(2) [OF assms(1), of p] interpolate_between(1) [OF assms(1), of p'] assms by linarith
qed

lemma quantile_eq:
  "quantile vs q = (let xs = sort (usable vs) in
     if xs = [] then Inl (PyError ''ValueError'') else Inr (interpolate xs ((of_nat (length xs) - 1) * q)))"
proof -
  have whole: "p - of_int \<lfloor>p\<rfloor> = 0" if "\<lfloor>p\<rfloor> = \<lceil>p\<rceil>" for p :: rat using that by linarith
  show ?thesis
    unfolding quantile_def Let_def
    by (cases "sort (usable vs)") (auto simp: interpolate_def whole algebra_simps)
qed

lemma quantile_within:
  assumes "quantile vs q = Inr v" and "0 \<le> q" and "q \<le> 1"
  shows "\<exists>lo \<in> set (usable vs). \<exists>hi \<in> set (usable vs). lo \<le> v \<and> v \<le> hi" and "0 \<le> v"
proof -
  let ?xs = "sort (usable vs)" let ?p = "(of_nat (length ?xs) - 1) * q"
  have xs: "?xs \<noteq> []" "v = interpolate ?xs ?p" using assms(1) by (auto simp: quantile_eq Let_def split: if_splits)
  then have n: "0 \<le> (of_nat (length ?xs) - 1 :: rat)" by (cases ?xs) auto
  then have p: "0 \<le> ?p" "?p \<le> of_nat (length ?xs) - 1"
    using assms(2,3) mult_left_le [of q "of_nat (length ?xs) - 1"] by auto
  have "nat \<lfloor>?p\<rfloor> < length ?xs" "nat \<lceil>?p\<rceil> < length ?xs"
    using last_index [OF p] by simp_all
  then have "?xs ! nat \<lfloor>?p\<rfloor> \<in> set (usable vs)" "?xs ! nat \<lceil>?p\<rceil> \<in> set (usable vs)"
    using nth_mem [of _ ?xs] by (simp_all only: set_sort)
  moreover have "?xs ! nat \<lfloor>?p\<rfloor> \<le> v" "v \<le> ?xs ! nat \<lceil>?p\<rceil>"
    using interpolate_between [OF _ p] xs(2) by simp_all
  ultimately show "\<exists>lo \<in> set (usable vs). \<exists>hi \<in> set (usable vs). lo \<le> v \<and> v \<le> hi" "0 \<le> v"
    by (blast, force simp: usable_def split: sample.splits)
qed

lemma quantile_mono:
  assumes "quantile vs q = Inr v" and "quantile vs q' = Inr v'" and "0 \<le> q" and "q \<le> q'" and "q' \<le> 1"
  shows "v \<le> v'"
proof -
  let ?xs = "sort (usable vs)"
  have v: "?xs \<noteq> []" "v = interpolate ?xs ((of_nat (length ?xs) - 1) * q)"
    "v' = interpolate ?xs ((of_nat (length ?xs) - 1) * q')"
    using assms(1,2) by (auto simp: quantile_eq Let_def split: if_splits)
  then have n: "0 \<le> (of_nat (length ?xs) - 1 :: rat)" by (cases ?xs) auto
  show ?thesis unfolding v(2,3)
    using n assms mult_left_mono [OF assms(4) n] mult_left_le [of q' "of_nat (length ?xs) - 1"]
    by (intro interpolate_mono) auto
qed

lemma bind_exn_Inr: "bind_exn m f = Inr y \<longleftrightarrow> (\<exists>x. m = Inr x \<and> f x = Inr y)"
  by (cases m) (simp_all add: bind_exn_def)

lemma percentiles_ofD:
  assumes "percentiles_of vs = Inr p"
  shows "quantile vs (50 / 100) = Inr (pc_p50 p)" "quantile vs (95 / 100) = Inr (pc_p95 p)"
    "quantile vs (99 / 100) = Inr (pc_p99 p)"
  using assms by (auto simp: percentiles_of_def bind_exn_Inr mk_percentiles_def split: if_splits)

lemma percentiles_of_cases:
  "percentiles_of vs = (if usable vs = [] then Inl (PyError ''ValueError'')
     else Inr \<lparr>pc_p50 = interpolate (sort (usable vs)) ((of_nat (length (usable vs)) - 1) * (50 / 100)),
       pc_p95 = interpolate (sort (usable vs)) ((of_nat (length (usable vs)) - 1) * (95 / 100)),
       pc_p99 = interpolate (sort (usable vs)) ((of_nat (length (usable vs)) - 1) * (99 / 100))\<rparr>)"
proof -
  have nonneg: "0 \<le> interpolate (sort (usable vs)) ((of_nat (length (usable vs)) - 1) * q)"
    if "usable vs \<noteq> []" "0 \<le> q" "q \<le> 1" for q
  proof -
    have "sort (usable vs) \<noteq> []" using that(1) by (metis length_sort list.size(3) length_0_conv)
    then show ?thesis using quantile_within(2) [of vs q] that by (simp add: quantile_eq Let_def)
  qed
  have "sort (usable vs) = [] \<longleftrightarrow> usable vs = []" by (metis length_sort length_0_conv)
  then show ?thesis
    using nonneg [of "50 / 100"] nonneg [of "95 / 100"] nonneg [of "99 / 100"]
    by (simp add: percentiles_of_def quantile_eq Let_def bind_exn_def mk_percentiles_def percentiles_valid_def)
qed

lemma usable_mset: "mset vs = mset ws \<Longrightarrow> mset (usable vs) = mset (usable ws)"
proof -
  have "mset (usable vs) = (\<Sum>x\<in>#mset vs. case x of Finite v \<Rightarrow> if 0 \<le> v then {#v#} else {#} | NotFinite \<Rightarrow> {#})" for vs
    by (induction vs) (auto simp: usable_def split: sample.splits)
  then show "mset vs = mset ws \<Longrightarrow> mset (usable vs) = mset (usable ws)" by simp
qed

text \<open>C23. The usage figures are sound: percentiles exist exactly when there is a finite, non-negative sample, they
  lie between two such samples, grow from the median to the 99th, and do not depend on the order in which
  the samples were delivered.\<close>

theorem percentiles_sound:
  "(percentiles_of vs = Inl (PyError ''ValueError'') \<longleftrightarrow> usable vs = []) \<and>
   (case percentiles_of vs of
      Inl e \<Rightarrow> usable vs = []
    | Inr p \<Rightarrow> 0 \<le> pc_p50 p \<and> pc_p50 p \<le> pc_p95 p \<and> pc_p95 p \<le> pc_p99 p \<and>
        (\<exists>hi \<in> set (usable vs). pc_p99 p \<le> hi) \<and> (\<exists>lo \<in> set (usable vs). lo \<le> pc_p50 p)) \<and>
   (mset vs = mset ws \<longrightarrow> percentiles_of vs = percentiles_of ws)"
proof (intro conjI impI)
  show "percentiles_of vs = Inl (PyError ''ValueError'') \<longleftrightarrow> usable vs = []" by (simp add: percentiles_of_cases)
  show "case percentiles_of vs of
      Inl e \<Rightarrow> usable vs = []
    | Inr p \<Rightarrow> 0 \<le> pc_p50 p \<and> pc_p50 p \<le> pc_p95 p \<and> pc_p95 p \<le> pc_p99 p \<and>
        (\<exists>hi \<in> set (usable vs). pc_p99 p \<le> hi) \<and> (\<exists>lo \<in> set (usable vs). lo \<le> pc_p50 p)"
  proof (cases "percentiles_of vs")
    case (Inl e)
    then show ?thesis by (simp add: percentiles_of_cases split: if_splits)
  next
    case (Inr p)
    note q = percentiles_ofD [OF Inr]
    have "pc_p50 p \<le> pc_p95 p" "pc_p95 p \<le> pc_p99 p"
      by (rule quantile_mono [OF q(1,2)], simp_all, rule quantile_mono [OF q(2,3)], simp_all)
    then show ?thesis using quantile_within [OF q(1)] quantile_within [OF q(3)] Inr by auto
  qed
  show "percentiles_of vs = percentiles_of ws" if "mset vs = mset ws"
  proof -
    have "sort (usable vs) = sort (usable ws)" "length (usable vs) = length (usable ws)" "usable vs = [] \<longleftrightarrow> usable ws = []"
      using usable_mset [OF that] by (simp add: properties_for_sort, metis size_mset, metis mset_zero_iff)
    then show ?thesis by (simp add: percentiles_of_cases)
  qed
qed

section \<open>Recommendations\<close>

text \<open>A proposed figure: the request itself, or a smaller one that still covers the observed p95 with its
  headroom and the configured minimum, and saves at least the configured fraction.\<close>

definition safe_figure :: "rat \<Rightarrow> rat \<Rightarrow> rat \<Rightarrow> rat \<Rightarrow> rat \<Rightarrow> bool" where
  "safe_figure request proposed needed minimum fraction \<longleftrightarrow>
     proposed = request \<or>
     proposed < request \<and> needed \<le> proposed \<and> minimum \<le> proposed \<and> fraction * request \<le> request - proposed"

lemma round_cpu_up_ge: "v \<le> round_cpu_up v"
  using le_of_int_ceiling [of "v * 100"] by (simp add: round_cpu_up_def field_simps)

lemma round_memory_up_ge: "v \<le> of_int (round_memory_up v)"
proof -
  obtain c where c: "\<lceil>v / of_int MIB\<rceil> = c" by blast
  have "v / of_int MIB \<le> of_int c" unfolding c [symmetric] by (rule le_of_int_ceiling)
  then show ?thesis unfolding round_memory_up_def c by (simp add: MIB_def field_simps)
qed

lemma rightsize_safe:
  assumes "0 < wo_cpu_request_cores ob" and "0 < wo_memory_request_bytes ob" and "z = rightsize P ob cpu memory"
  shows "safe_figure (wo_cpu_request_cores ob) (rz_cpu z) (pc_p95 cpu * fp_cpu_headroom_factor P)
      (fp_minimum_cpu_cores P) (fp_minimum_reduction_fraction P)" (is ?cpu)
    and "safe_figure (wo_memory_request_bytes ob) (memory_of ob (rz_memory z)) (pc_p95 memory * fp_memory_headroom_factor P)
      (of_int (fp_minimum_memory_bytes P)) (fp_minimum_reduction_fraction P)" (is ?memory)
    and "0 \<le> rz_cpu_reduction z" and "0 \<le> rz_memory_reduction z"
    and "rz_cpu_reduction z = 0 \<longleftrightarrow> rz_cpu z = wo_cpu_request_cores ob"
    and "rz_memory_reduction z = 0 \<longleftrightarrow> memory_of ob (rz_memory z) = wo_memory_request_bytes ob"
proof -
  have cpu: "max (pc_p95 cpu * fp_cpu_headroom_factor P) (fp_minimum_cpu_cores P) \<le>
      round_cpu_up (max (pc_p95 cpu * fp_cpu_headroom_factor P) (fp_minimum_cpu_cores P))"
    by (rule round_cpu_up_ge)
  have memory: "max (pc_p95 memory * fp_memory_headroom_factor P) (of_int (fp_minimum_memory_bytes P)) \<le>
      of_int (round_memory_up (max (pc_p95 memory * fp_memory_headroom_factor P) (of_int (fp_minimum_memory_bytes P))))"
    by (rule round_memory_up_ge)
  show ?cpu using cpu assms by (auto simp: rightsize_def Let_def safe_figure_def min_def field_simps)
  show ?memory using memory assms by (auto simp: rightsize_def Let_def safe_figure_def memory_of_def field_simps)
  show "0 \<le> rz_cpu_reduction z" "rz_cpu_reduction z = 0 \<longleftrightarrow> rz_cpu z = wo_cpu_request_cores ob"
    using assms by (auto simp: rightsize_def Let_def min_def field_simps)
  show "0 \<le> rz_memory_reduction z"
    "rz_memory_reduction z = 0 \<longleftrightarrow> memory_of ob (rz_memory z) = wo_memory_request_bytes ob"
    using assms by (auto simp: rightsize_def Let_def memory_of_def field_simps split: if_splits)
qed

lemma round_to_bounds:
  assumes "of_int a / 10 ^ n \<le> x" and "x \<le> of_int b / 10 ^ n"
  shows "of_int a / 10 ^ n \<le> round_to n x" "round_to n x \<le> of_int b / 10 ^ n"
proof -
  have "of_int a \<le> x * 10 ^ n" "x * 10 ^ n \<le> of_int b" using assms by (simp_all add: field_simps)
  from py_round_bounds [OF this] show "of_int a / 10 ^ n \<le> round_to n x" "round_to n x \<le> of_int b / 10 ^ n"
    by (simp_all add: round_to_def divide_right_mono)
qed

lemma workload_confidence_bounds:
  assumes "evidence_window_valid (wo_window ob)"
  shows "0 \<le> workload_confidence ob" "workload_confidence ob \<le> 99 / 100"
proof -
  define c where "c = min 1 (of_int (ew_observed_seconds (wo_window ob)) / of_int (ew_requested_seconds (wo_window ob)) :: rat)"
  define k where "k = (if ca_total_cost (wo_allocation ob) \<noteq> None then 1 else 85 / 100 :: rat)"
  have "0 \<le> c * k" using assms by (auto simp: c_def k_def evidence_window_valid_def)
  then have "of_int 0 / 10 ^ 2 \<le> min (99 / 100) (c * k)" "min (99 / 100) (c * k) \<le> of_int 99 / 10 ^ 2" by auto
  from round_to_bounds [OF this] show "0 \<le> workload_confidence ob" "workload_confidence ob \<le> 99 / 100"
    by (simp_all add: workload_confidence_def Let_def c_def k_def)
qed

lemma length_finops_digest [simp]: "length (finops_digest d) = 64"
  by (simp add: finops_digest_def length_sha256_hex)

lemma workload_draft_valid:
  assumes "workload_observation_valid ob" and "z = rightsize P ob cpu memory"
  shows "recommendation_draft_valid (workload_draft P ob cpu memory z)"
proof -
  have ob: "0 < wo_cpu_request_cores ob" "0 < wo_memory_request_bytes ob" "wo_environment ob \<in> finops_environments"
    "evidence_window_valid (wo_window ob)" using assms(1) by (simp_all add: workload_observation_valid_def)
  note conf = workload_confidence_bounds [OF ob(4)]
  have "0 \<le> max (rz_cpu_reduction z) (rz_memory_reduction z)" using rightsize_safe(3) [OF ob(1,2) assms(2)] by simp
  then have "of_int 10 \<le> 10 + max (rz_cpu_reduction z) (rz_memory_reduction z) * 35 + (1 - workload_confidence ob) * 25 +
      (if wo_environment ob = ''production'' then 20 else 0)" (is "_ \<le> ?x") using conf by simp
  then have "10 \<le> py_round ?x" using py_round_mono [of "of_int 10" ?x] by (simp only: py_round_of_int)
  then have "0 \<le> workload_risk ob (max (rz_cpu_reduction z) (rz_memory_reduction z)) (workload_confidence ob)"
    unfolding workload_risk_def by linarith
  then show ?thesis using ob conf
    by (simp add: recommendation_draft_valid_def workload_draft_def Let_def) (simp add: workload_risk_def)
qed

lemma node_draft_valid:
  assumes "node_observation_valid ob"
  shows "recommendation_draft_valid (node_draft ob cpu memory)"
proof -
  have w: "evidence_window_valid (no_window ob)" "no_environment ob \<in> finops_environments"
    using assms by (simp_all add: node_observation_valid_def)
  let ?r = "of_int (ew_observed_seconds (no_window ob)) / of_int (ew_requested_seconds (no_window ob)) :: rat"
  have "0 \<le> ?r" using w by (simp add: evidence_window_valid_def)
  then have "of_int 0 / 10 ^ 2 \<le> min (95 / 100) ?r" "min (95 / 100) ?r \<le> of_int 95 / 10 ^ 2"
    using min.cobounded1 [of "95 / 100" ?r] by simp_all
  from round_to_bounds [OF this] show ?thesis using w
    by (simp add: recommendation_draft_valid_def node_draft_def Let_def)
qed

lemma node_draft_claims [simp]:
  "dict_get (rd_recommended_config (node_draft ob cpu memory)) ''automatic_change'' = Some (JBool False)"
  "dict_get (rd_estimated_savings (node_draft ob cpu memory)) ''value'' = Some JNull"
  by (simp_all add: node_draft_def Let_def dict_get_def)

lemma analyze_workload_cases:
  assumes "workload_observation_valid ob"
  shows "analyze_workload P ob =
    (case window_problem P (wo_environment ob) (ew_requested_seconds (wo_window ob)) (ew_observed_seconds (wo_window ob))
        (min (length (wo_cpu_usage_cores ob)) (length (wo_memory_usage_bytes ob))) of
       Some problem \<Rightarrow> Inr (no_result F1 INSUFFICIENT_DATA problem (WorkloadObserved ob None))
     | None \<Rightarrow>
         bind_exn (percentiles_of (wo_cpu_usage_cores ob)) (\<lambda>cpu.
         bind_exn (percentiles_of (wo_memory_usage_bytes ob)) (\<lambda>memory.
         let z = rightsize P ob cpu memory in
         Inr (if rz_cpu_reduction z = 0 \<and> rz_memory_reduction z = 0
           then no_result F1 NO_RECOMMENDATION
             ''Observed p95 usage plus configured safety headroom does not support a safe reduction.''
             (WorkloadObserved ob (Some (cpu, memory)))
           else \<lparr>ar_scenario_id = F1, ar_outcome = RECOMMENDED, ar_reason = rd_why (workload_draft P ob cpu memory z),
             ar_recommendation = Some (workload_draft P ob cpu memory z), ar_observed = WorkloadObserved ob None\<rparr>))))"
  unfolding analyze_workload_def mk_recommendation_draft_def
  by (auto simp: bind_exn_def Let_def workload_draft_valid [OF assms] split: option.splits sum.splits)

text \<open>C22. Rightsizing never cuts below what was observed. Whenever the analysis of a valid observation recommends a
  change, the evidence window was sufficient, the recommendation changes nothing but the requests (replicas
  and limits are the current ones), no request grows and at least one shrinks, every changed request still
  covers the observed p95 times its headroom factor as well as the configured minimum, and saves at least
  the configured fraction; its risk is between 0 and 100 and its confidence at most 0.99.\<close>

theorem rightsizing_keeps_headroom:
  assumes "workload_observation_valid ob" and "analyze_workload P ob = Inr r" and "ar_recommendation r = Some d"
  shows "\<exists>cpu memory c m. percentiles_of (wo_cpu_usage_cores ob) = Inr cpu \<and>
    percentiles_of (wo_memory_usage_bytes ob) = Inr memory \<and>
    window_problem P (wo_environment ob) (ew_requested_seconds (wo_window ob)) (ew_observed_seconds (wo_window ob))
      (min (length (wo_cpu_usage_cores ob)) (length (wo_memory_usage_bytes ob))) = None \<and>
    rd_current_config d = workload_config ob (wo_cpu_request_cores ob) None \<and>
    rd_recommended_config d = workload_config ob c m \<and>
    safe_figure (wo_cpu_request_cores ob) c (pc_p95 cpu * fp_cpu_headroom_factor P)
      (fp_minimum_cpu_cores P) (fp_minimum_reduction_fraction P) \<and>
    safe_figure (wo_memory_request_bytes ob) (memory_of ob m) (pc_p95 memory * fp_memory_headroom_factor P)
      (of_int (fp_minimum_memory_bytes P)) (fp_minimum_reduction_fraction P) \<and>
    (c < wo_cpu_request_cores ob \<or> memory_of ob m < wo_memory_request_bytes ob) \<and>
    0 \<le> rd_risk_score d \<and> rd_risk_score d \<le> 100 \<and> 0 \<le> rd_confidence d \<and> rd_confidence d \<le> 99 / 100"
proof -
  have ob: "0 < wo_cpu_request_cores ob" "0 < wo_memory_request_bytes ob" "evidence_window_valid (wo_window ob)"
    using assms(1) by (simp_all add: workload_observation_valid_def)
  obtain cpu memory where pc: "percentiles_of (wo_cpu_usage_cores ob) = Inr cpu"
      "percentiles_of (wo_memory_usage_bytes ob) = Inr memory"
    and win: "window_problem P (wo_environment ob) (ew_requested_seconds (wo_window ob)) (ew_observed_seconds (wo_window ob))
      (min (length (wo_cpu_usage_cores ob)) (length (wo_memory_usage_bytes ob))) = None"
    and z: "\<not> (rz_cpu_reduction (rightsize P ob cpu memory) = 0 \<and> rz_memory_reduction (rightsize P ob cpu memory) = 0)"
    and d: "d = workload_draft P ob cpu memory (rightsize P ob cpu memory)"
    using assms(2,3) unfolding analyze_workload_cases [OF assms(1)]
    by (auto simp: bind_exn_Inr Let_def no_result_def split: option.splits if_splits)
  note safe = rightsize_safe [OF ob(1,2) refl, of P cpu memory]
  have "rz_cpu (rightsize P ob cpu memory) < wo_cpu_request_cores ob \<or>
      memory_of ob (rz_memory (rightsize P ob cpu memory)) < wo_memory_request_bytes ob"
    using z safe by (auto simp: safe_figure_def)
  moreover have "0 \<le> rd_risk_score d \<and> rd_risk_score d \<le> 100"
    using workload_draft_valid [OF assms(1) refl, of P cpu memory] d by (simp add: recommendation_draft_valid_def)
  ultimately show ?thesis using pc win safe(1,2) workload_confidence_bounds [OF ob(3)]
    by (intro exI [of _ cpu] exI [of _ memory] exI [of _ "rz_cpu (rightsize P ob cpu memory)"]
        exI [of _ "rz_memory (rightsize P ob cpu memory)"]) (simp add: d workload_draft_def Let_def)
qed


section \<open>Witnesses\<close>

definition demo_evidence_window :: evidence_window where
  "demo_evidence_window = \<lparr>ew_start = 0, ew_end = 900000000, ew_requested_seconds = 900, ew_observed_seconds = 900,
     ew_sample_count = 5, ew_demo_oriented = True\<rparr>"

definition demo_allocation :: cost_allocation where
  "demo_allocation = \<lparr>ca_total_cost = Some 3, ca_cpu_cost = Some 2, ca_memory_cost = Some 1, ca_currency = ''USD''\<rparr>"

definition demo_workload :: workload_observation where
  "demo_workload = \<lparr>wo_service = ''demo'', wo_environment = ''staging'', wo_namespace = ''cloudward-staging'',
     wo_deployment = ''demo'', wo_replicas = 2, wo_cpu_request_cores = 1, wo_cpu_limit_cores = None,
     wo_memory_request_bytes = 1073741824, wo_memory_limit_bytes = None,
     wo_cpu_usage_cores = [Finite (1 / 10), Finite (1 / 10), NotFinite, Finite (1 / 10), Finite (1 / 10)],
     wo_memory_usage_bytes = replicate 5 (Finite 104857600), wo_allocation = demo_allocation,
     wo_window = demo_evidence_window, wo_source_queries = []\<rparr>"

definition demo_nodes :: node_observation where
  "demo_nodes = \<lparr>no_environment = ''staging'', no_node_count = 3, no_allocatable_cpu_cores = 12,
     no_allocatable_memory_bytes = 51539607552, no_requested_cpu_cores = 3, no_requested_memory_bytes = 8589934592,
     no_cpu_usage_cores = replicate 5 (Finite 2), no_memory_usage_bytes = replicate 5 (Finite 4294967296),
     no_pod_count = 20, no_allocation = demo_allocation, no_window = demo_evidence_window, no_source_queries = []\<rparr>"

lemma demo_finops_valid: "workload_observation_valid demo_workload" "node_observation_valid demo_nodes"
  by (simp_all add: workload_observation_valid_def node_observation_valid_def demo_workload_def demo_nodes_def
      demo_evidence_window_def demo_allocation_def evidence_window_valid_def cost_allocation_valid_def at_least_def
      more_than_def finops_environments_def)

lemma demo_percentiles:
  "percentiles_of (wo_cpu_usage_cores demo_workload) = Inr \<lparr>pc_p50 = 1 / 10, pc_p95 = 1 / 10, pc_p99 = 1 / 10\<rparr>"
  "percentiles_of (wo_memory_usage_bytes demo_workload) =
     Inr \<lparr>pc_p50 = 104857600, pc_p95 = 104857600, pc_p99 = 104857600\<rparr>"
  by code_simp+


theorem rightsizing_keeps_headroom_witness:
  "\<exists>r d c m. analyze_workload default_finops_policy demo_workload = Inr r \<and> ar_recommendation r = Some d \<and>
     rd_recommended_config d = workload_config demo_workload c m \<and> c \<le> 1 \<and> 15 / 100 \<le> c \<and>
     135 / 100 * 104857600 \<le> memory_of demo_workload m"
proof -
  have window: "window_problem default_finops_policy (wo_environment demo_workload)
      (ew_requested_seconds (wo_window demo_workload)) (ew_observed_seconds (wo_window demo_workload))
      (min (length (wo_cpu_usage_cores demo_workload)) (length (wo_memory_usage_bytes demo_workload))) = None"
    by code_simp
  have size: "rz_cpu_reduction (rightsize default_finops_policy demo_workload
      \<lparr>pc_p50 = 1 / 10, pc_p95 = 1 / 10, pc_p99 = 1 / 10\<rparr>
      \<lparr>pc_p50 = 104857600, pc_p95 = 104857600, pc_p99 = 104857600\<rparr>) \<noteq> 0" by code_simp
  obtain r d where r: "analyze_workload default_finops_policy demo_workload = Inr r" "ar_recommendation r = Some d"
    unfolding analyze_workload_cases [OF demo_finops_valid(1)] window demo_percentiles
    using size by (simp add: bind_exn_def Let_def)
  have "wo_cpu_request_cores demo_workload = 1" "wo_memory_request_bytes demo_workload = 1073741824"
    "fp_cpu_headroom_factor default_finops_policy = 3 / 2" "fp_memory_headroom_factor default_finops_policy = 135 / 100"
    by (simp_all add: demo_workload_def default_finops_policy_def)
  then show ?thesis
    using rightsizing_keeps_headroom [OF demo_finops_valid(1) r] r
    unfolding demo_percentiles by (force simp: safe_figure_def)
qed

theorem percentiles_sound_witness:
  "percentiles_of [Finite 1, NotFinite, Finite 3] = percentiles_of [Finite 3, Finite 1, NotFinite] \<and>
   (case percentiles_of [Finite 1, NotFinite, Finite 3] of Inl e \<Rightarrow> False
    | Inr p \<Rightarrow> pc_p50 p \<le> pc_p95 p \<and> pc_p95 p \<le> pc_p99 p)"
proof -
  have "usable [Finite 1, NotFinite, Finite 3] \<noteq> []" by code_simp
  moreover have "mset [Finite 1, NotFinite, Finite 3] = mset [Finite 3, Finite 1, NotFinite]" by simp
  ultimately show ?thesis
    using percentiles_sound [of "[Finite 1, NotFinite, Finite 3]" "[Finite 3, Finite 1, NotFinite]"]
    by (auto split: sum.splits)
qed

end
