(* ===== verification/CW_GitHub.thy ===== *)
theory CW_GitHub
  imports CW_Notify CW_Json CW_Demo
begin

text \<open>
  The GitHub App integration (\<open>github/policy.py\<close>, \<open>github/app.py\<close>, \<open>github/service.py\<close>,
  \<open>github/schemas.py\<close>, \<open>github/factory.py\<close>): the allowlists in front of every call, the client
  operations that read a file, open an issue, create a branch, write a file and open a pull request,
  and the two services that run them at most once per subject. The HTTP exchange and the installation
  token are parameters, of which nothing is assumed; a response is any JSON document or a failure.
  Every mutating request is logged. Text is the list of its bytes.
\<close>

section \<open>Allowlists\<close>

definition repository_char :: "char \<Rightarrow> bool" where
  "repository_char c \<longleftrightarrow> is_alnum_char c \<or> c \<in> set ''_.-''"

definition repository_pattern :: "string \<Rightarrow> bool" where
  "repository_pattern s \<longleftrightarrow>
     (case py_split (CHR ''/'') s of
        [owner, name] \<Rightarrow> owner \<noteq> [] \<and> name \<noteq> [] \<and> list_all repository_char owner \<and> list_all repository_char name
      | _ \<Rightarrow> False)"

definition repository_forbidden :: "string \<Rightarrow> exn" where
  "repository_forbidden m = cw_error ''GITHUB_REPOSITORY_FORBIDDEN'' m 403"

definition path_forbidden :: "string \<Rightarrow> exn" where
  "path_forbidden m = cw_error ''GITHUB_PATH_FORBIDDEN'' m 403"

definition normalize_repository :: "string \<Rightarrow> exn + string" where
  "normalize_repository v =
     (let normalized = py_strip is_space_char v in
      if \<not> repository_pattern normalized then Inl (repository_forbidden ''GitHub repository is not valid'')
      else Inr (py_lower normalized))"

text \<open>\<open>PurePosixPath\<close> of a relative path: empty and \<open>.\<close> components are dropped, and a path with no
  component left is written as \<open>.\<close>.\<close>

definition path_parts :: "string \<Rightarrow> string list" where
  "path_parts v = filter (\<lambda>p. p \<noteq> [] \<and> p \<noteq> ''.'') (py_split (CHR ''/'') v)"

definition posix_path :: "string \<Rightarrow> string" where
  "posix_path v = (if path_parts v = [] then ''.'' else join_with ''/'' (path_parts v))"

definition normalize_path :: "string \<Rightarrow> exn + string" where
  "normalize_path v =
     (if v = [] \<or> CHR 0x5C \<in> set v \<or> py_startswith v ''/'' then Inl (path_forbidden ''GitHub path is forbidden'')
      else if ''..'' \<in> set (path_parts v) \<or> ''.'' \<in> set (path_parts v) then Inl (path_forbidden ''GitHub path is forbidden'')
      else if length (posix_path v) > 1024 then Inl (path_forbidden ''GitHub path exceeds limit'')
      else Inr (posix_path v))"

subsection \<open>Shell patterns\<close>

text \<open>\<open>fnmatch.fnmatchcase\<close>: a star matches any run of characters (slashes included), a question mark
  any character, a bracket a set of characters and ranges, with \<open>!\<close> its complement; a bracket that is
  not closed is a literal. A descending range is empty.\<close>

datatype fn_token = FnStar | FnAny | FnSet bool "(char \<times> char) list" | FnLit char

fun fn_ranges :: "string \<Rightarrow> (char \<times> char) list" where
  "fn_ranges [] = []"
| "fn_ranges [a] = [(a, a)]"
| "fn_ranges [a, b] = [(a, a), (b, b)]"
| "fn_ranges (a # b # c # r) = (if b = CHR ''-'' then (a, c) # fn_ranges r else (a, a) # fn_ranges (b # c # r))"

definition fn_set :: "string \<Rightarrow> fn_token" where
  "fn_set t =
     (let live = filter (\<lambda>(a, b). a \<le> b)
        (if py_startswith t ''!'' then (CHR ''!'', CHR ''!'') # fn_ranges (tl t) else fn_ranges t)
      in case live of
           [] \<Rightarrow> FnSet False []
         | r # rs \<Rightarrow> if r = (CHR ''!'', CHR ''!'') then FnSet True rs else FnSet False live)"

definition fn_start :: "string \<Rightarrow> nat" where
  "fn_start s = (let k = (if py_startswith s ''!'' then 1 else 0) in if py_startswith (drop k s) '']'' then k + 1 else k)"

definition fn_bracket :: "string \<Rightarrow> (string \<times> string) option" where
  "fn_bracket s =
     (let rest = dropWhile (\<lambda>c. c \<noteq> CHR '']'') (drop (fn_start s) s)
      in if rest = [] then None
         else Some (take (fn_start s) s @ takeWhile (\<lambda>c. c \<noteq> CHR '']'') (drop (fn_start s) s), tl rest))"

lemma fn_bracket_shorter:
  assumes "fn_bracket s = Some (t, r)"
  shows "length r < length s"
proof -
  let ?rest = "dropWhile (\<lambda>c. c \<noteq> CHR '']'') (drop (fn_start s) s)"
  have "r = tl ?rest" "0 < length ?rest"
    using assms by (auto simp: fn_bracket_def Let_def split: if_splits)
  moreover have "length ?rest \<le> length s" by (rule le_trans [OF length_dropWhile_le]) simp
  ultimately show ?thesis by (metis diff_less length_tl less_le_trans zero_less_one)
qed

function fn_tokens :: "string \<Rightarrow> fn_token list" where
  "fn_tokens [] = []"
| "fn_tokens (c # cs) =
     (if c = CHR ''*'' then FnStar # fn_tokens cs
      else if c = CHR ''?'' then FnAny # fn_tokens cs
      else if c = CHR ''['' then
        (case fn_bracket cs of None \<Rightarrow> FnLit c # fn_tokens cs | Some (t, r) \<Rightarrow> fn_set t # fn_tokens r)
      else FnLit c # fn_tokens cs)"
  by pat_completeness auto
termination
  by (relation "measure length") (auto dest: fn_bracket_shorter)

fun fn_char :: "fn_token \<Rightarrow> char \<Rightarrow> bool" where
  "fn_char FnStar c = True"
| "fn_char FnAny c = True"
| "fn_char (FnSet negated rs) c = (list_ex (\<lambda>(a, b). a \<le> c \<and> c \<le> b) rs \<noteq> negated)"
| "fn_char (FnLit d) c = (c = d)"

fun fn_matches :: "fn_token list \<Rightarrow> string \<Rightarrow> bool" where
  "fn_matches [] s = (s = [])"
| "fn_matches (t # ts) [] = (t = FnStar \<and> fn_matches ts [])"
| "fn_matches (t # ts) (c # cs) =
     (if t = FnStar then fn_matches ts (c # cs) \<or> fn_matches (t # ts) cs
      else fn_char t c \<and> fn_matches ts cs)"

definition fnmatchcase :: "string \<Rightarrow> string \<Rightarrow> bool" where
  "fnmatchcase name pat = fn_matches (fn_tokens pat) name"


subsection \<open>The automation policy\<close>

record github_policy =
  gp_read_repositories :: "string set"
  gp_issue_repositories :: "string set"
  gp_write_paths :: "(string \<times> string list) list"

primrec map_exn :: "('a \<Rightarrow> exn + 'b) \<Rightarrow> 'a list \<Rightarrow> exn + 'b list" where
  "map_exn f [] = Inr []"
| "map_exn f (x # xs) =
     (case f x of Inl e \<Rightarrow> Inl e | Inr y \<Rightarrow> case map_exn f xs of Inl e \<Rightarrow> Inl e | Inr ys \<Rightarrow> Inr (y # ys))"

definition pattern_refused :: "string \<Rightarrow> bool" where
  "pattern_refused p \<longleftrightarrow> py_startswith p ''/'' \<or> py_in ''..'' p"

definition mk_github_policy :: "string list \<Rightarrow> string list \<Rightarrow> (string \<times> string list) list \<Rightarrow> exn + github_policy" where
  "mk_github_policy reads issues writes =
     (case (map_exn normalize_repository reads, map_exn normalize_repository issues,
            map_exn (\<lambda>(r, ps). map_sum id (\<lambda>n. (n, ps)) (normalize_repository r)) writes) of
        (Inr rs, Inr is, Inr ws) \<Rightarrow>
          (let table = dict_merge [] ws in
           if \<exists>(r, ps) \<in> set table. ps = [] \<or> list_ex pattern_refused ps then Inl (PyError ''ValueError'')
           else Inr \<lparr>gp_read_repositories = set rs, gp_issue_repositories = set is, gp_write_paths = table\<rparr>)
      | (Inl e, _, _) \<Rightarrow> Inl e
      | (Inr _, Inl e, _) \<Rightarrow> Inl e
      | (Inr _, Inr _, Inl e) \<Rightarrow> Inl e)"

definition require_in :: "string set \<Rightarrow> string \<Rightarrow> string \<Rightarrow> exn + string" where
  "require_in allowed m repository =
     (case normalize_repository repository of
        Inl e \<Rightarrow> Inl e
      | Inr r \<Rightarrow> if r \<notin> allowed then Inl (repository_forbidden m) else Inr r)"

definition require_read :: "github_policy \<Rightarrow> string \<Rightarrow> exn + string" where
  "require_read P = require_in (gp_read_repositories P) ''Repository is outside the GitHub read allowlist''"

definition require_issue_write :: "github_policy \<Rightarrow> string \<Rightarrow> exn + string" where
  "require_issue_write P = require_in (gp_issue_repositories P) ''Repository is outside the GitHub Issue allowlist''"

definition require_pull_request :: "github_policy \<Rightarrow> string \<Rightarrow> exn + string" where
  "require_pull_request P = require_in (fst ` set (gp_write_paths P))
     ''Repository is outside the GitHub pull-request allowlist''"

definition require_path_write :: "github_policy \<Rightarrow> string \<Rightarrow> string \<Rightarrow> exn + string \<times> string" where
  "require_path_write P repository path =
     (case normalize_repository repository of
        Inl e \<Rightarrow> Inl e
      | Inr r \<Rightarrow>
          case normalize_path path of
            Inl e \<Rightarrow> Inl e
          | Inr p \<Rightarrow>
              if \<not> list_ex (fnmatchcase p) (case dict_get (gp_write_paths P) r of None \<Rightarrow> [] | Some ps \<Rightarrow> ps)
              then Inl (path_forbidden ''Path is outside the GitHub write allowlist'')
              else Inr (r, p))"

text \<open>\<open>_csv\<close> and \<open>_write_allowlist\<close> of \<open>factory.py\<close>: the policy the configuration describes.\<close>

definition string_list :: "json \<Rightarrow> string list option" where
  "string_list v = (case v of JList xs \<Rightarrow> those (map (\<lambda>x. case x of JStr s \<Rightarrow> Some s | _ \<Rightarrow> None) xs) | _ \<Rightarrow> None)"

definition write_allowlist :: "string \<Rightarrow> exn + (string \<times> string list) list" where
  "write_allowlist v =
     (case json_loads v of
        None \<Rightarrow> Inl (cw_error ''GITHUB_ALLOWLIST_INVALID'' ''GitHub write allowlist is not valid JSON'' 503)
      | Some (JObj kvs) \<Rightarrow>
          (case those (map (\<lambda>(k, x). map_option (Pair k) (string_list x)) kvs) of
             None \<Rightarrow> Inl (cw_error ''GITHUB_ALLOWLIST_INVALID''
               ''GitHub write allowlist must map repositories to path lists'' 503)
           | Some ws \<Rightarrow> Inr ws)
      | Some _ \<Rightarrow> Inl (cw_error ''GITHUB_ALLOWLIST_INVALID''
          ''GitHub write allowlist must map repositories to path lists'' 503))"

definition policy_of_settings :: "string \<Rightarrow> string \<Rightarrow> string \<Rightarrow> exn + github_policy" where
  "policy_of_settings read_repositories issue_repositories allowlist =
     (case write_allowlist allowlist of
        Inl e \<Rightarrow> Inl e
      | Inr ws \<Rightarrow> mk_github_policy (comma_items read_repositories) (comma_items issue_repositories) ws)"

section \<open>Encodings\<close>

text \<open>\<^verbatim>\<open>base64.b64encode\<close>, and \<^verbatim>\<open>base64.b64decode(_, validate=False)\<close>: characters outside the alphabet are
  skipped, a padded group ends the data, and an unfinished group is an error. The decoder keeps the
  position in the group, the bits left over and the number of padding characters.\<close>

definition b64_alphabet :: string where
  "b64_alphabet = ''ABCDEFGHIJKLMNOPQRSTUVWXYZabcdefghijklmnopqrstuvwxyz0123456789+/''"

definition b64_char :: "nat \<Rightarrow> char" where
  "b64_char n = b64_alphabet ! n"

fun b64_encode :: "nat list \<Rightarrow> string" where
  "b64_encode [] = []"
| "b64_encode [a] = [b64_char (a div 4), b64_char (a mod 4 * 16), CHR ''='', CHR ''='']"
| "b64_encode [a, b] = [b64_char (a div 4), b64_char (a mod 4 * 16 + b div 16), b64_char (b mod 16 * 4), CHR ''='']"
| "b64_encode (a # b # c # r) =
     [b64_char (a div 4), b64_char (a mod 4 * 16 + b div 16), b64_char (b mod 16 * 4 + c div 64), b64_char (c mod 64)] @
     b64_encode r"

definition index_of :: "char \<Rightarrow> string \<Rightarrow> nat option" where
  "index_of c s = map_of (zip s [0..<length s]) c"

fun b64_scan :: "nat \<Rightarrow> nat \<Rightarrow> nat \<Rightarrow> string \<Rightarrow> nat list option" where
  "b64_scan quad left pads [] = (if quad = 0 then Some [] else None)"
| "b64_scan quad left pads (c # cs) =
     (if c = CHR ''='' then
        (if 2 \<le> quad \<and> 4 \<le> quad + pads + 1 then Some [] else b64_scan quad left (if 2 \<le> quad then pads + 1 else pads) cs)
      else case index_of c b64_alphabet of
        None \<Rightarrow> b64_scan quad left pads cs
      | Some v \<Rightarrow>
          if quad = 0 then b64_scan 1 v 0 cs
          else if quad = 1 then map_option (Cons (left * 4 + v div 16)) (b64_scan 2 (v mod 16) 0 cs)
          else if quad = 2 then map_option (Cons (left * 16 + v div 4)) (b64_scan 3 (v mod 4) 0 cs)
          else map_option (Cons (left * 64 + v)) (b64_scan 0 0 0 cs))"

definition text_bytes :: "string \<Rightarrow> nat list" where
  "text_bytes s = map of_char s"

definition b64encode :: "string \<Rightarrow> string" where
  "b64encode s = b64_encode (text_bytes s)"

definition b64decode :: "string \<Rightarrow> string option" where
  "b64decode s = map_option (map char_of) (b64_scan 0 0 0 s)"

text \<open>\<^verbatim>\<open>urllib.parse.quote(path, safe="/")\<close>.\<close>

definition quote_char :: "char \<Rightarrow> string" where
  "quote_char c = (if is_alnum_char c \<or> c \<in> set ''_.-~/'' then [c]
     else CHR ''%'' # map (\<lambda>d. if is_lower_char d then char_of (of_char d - 32 :: nat) else d) (hex_digits 2 (of_char c)))"

definition url_quote :: "string \<Rightarrow> string" where
  "url_quote s = concat (map quote_char s)"

lemma b64_example:
  "b64encode ''light w'' = ''bGlnaHQgdw=='' \<and> b64decode ''bGln aHQgdw==xx'' = Some ''light w'' \<and> b64decode ''bGlna'' = None"
  by code_simp

lemma fnmatch_example:
  "fnmatchcase ''environments/staging/values.yaml'' ''environments/*/values.y[a-b]ml'' \<and>
   \<not> fnmatchcase ''x/values.yaml'' ''[!x]*'' \<and> url_quote ''a b/c'' = ''a%20b/c'' \<and>
   normalize_path ''a//./b'' = Inr ''a/b''"
  by code_simp

section \<open>The client\<close>

text \<open>The installation token and the HTTP exchange of a request with its method, path, query and body:
  \<open>Inl\<close> stands for the transport, status and decoding errors the client catches.\<close>

record 'w github_app =
  ga_policy :: github_policy
  ga_token :: "'w \<Rightarrow> (exn + string) \<times> 'w"
  ga_exchange :: "string \<Rightarrow> string \<Rightarrow> string \<Rightarrow> (string \<times> string) list \<Rightarrow> json \<Rightarrow> 'w \<Rightarrow> (string + json) \<times> 'w"

definition github_failure :: exn where
  "github_failure = cw_error ''GITHUB_API_FAILURE'' ''GitHub App request failed'' 502"

definition github_invalid :: "string \<Rightarrow> exn" where
  "github_invalid m = cw_error ''GITHUB_RESPONSE_INVALID'' m 502"

definition github_request :: "'w github_app \<Rightarrow> string \<Rightarrow> string \<Rightarrow> (string \<times> string) list \<Rightarrow> json \<Rightarrow> ('w, jdict) H" where
  "github_request G meth path params body =
     bindM (worldM (ga_token G)) (\<lambda>token.
     bindM (liftR token) (\<lambda>bearer.
     thenM (whenM (meth \<noteq> ''GET'') (logM (EvGitHub meth path body)))
     (bindM (worldM (ga_exchange G bearer meth path params body)) (\<lambda>reply.
      case reply of Inr (JObj payload) \<Rightarrow> returnM payload | _ \<Rightarrow> raiseM github_failure))))"

definition is_hex_char :: "char \<Rightarrow> bool" where
  "is_hex_char c \<longleftrightarrow> is_digit_char c \<or> c \<in> set ''abcdefABCDEF''"

definition sha_pattern :: "string \<Rightarrow> bool" where
  "sha_pattern s \<longleftrightarrow> 7 \<le> length s \<and> length s \<le> 64 \<and> list_all is_hex_char s"

definition branch_char :: "char \<Rightarrow> bool" where
  "branch_char c \<longleftrightarrow> is_alnum_char c \<or> c \<in> set ''._/-''"

definition branch_pattern :: "string \<Rightarrow> bool" where
  "branch_pattern s \<longleftrightarrow> s \<noteq> [] \<and> is_alnum_char (hd s) \<and> is_alnum_char (last s) \<and>
     list_all branch_char s \<and> length s \<le> 255"

definition require_sha :: "string \<Rightarrow> exn + unit" where
  "require_sha v = (if \<not> sha_pattern v then Inl (cw_error ''GITHUB_REF_INVALID'' ''GitHub commit reference is invalid'' 422)
     else Inr ())"

definition require_branch :: "string \<Rightarrow> exn + unit" where
  "require_branch v =
     (if \<not> branch_pattern v \<or> py_in ''..'' v \<or> py_in ''//'' v \<or> py_endswith v ''.lock''
      then Inl (cw_error ''GITHUB_REF_INVALID'' ''GitHub branch name is invalid'' 422) else Inr ())"

definition positive_int :: "json \<Rightarrow> exn + int" where
  "positive_int v = (case v of JInt n \<Rightarrow> if n < 1 then Inl (github_invalid ''GitHub response has no record number'') else Inr n
     | _ \<Rightarrow> Inl (github_invalid ''GitHub response has no record number''))"

definition MAX_SOURCE_BYTES :: nat where
  "MAX_SOURCE_BYTES = 20000"

record source_file_evidence =
  sf_repository :: string
  sf_path :: string
  sf_ref :: string
  sf_content :: string
  sf_sha :: "string option"

definition truthy_str :: "json \<Rightarrow> string option" where
  "truthy_str v = (if py_truth v then Some (py_str v) else None)"

definition read_file :: "'w github_app \<Rightarrow> string \<Rightarrow> string \<Rightarrow> string \<Rightarrow> ('w, source_file_evidence) H" where
  "read_file G repository path ref =
     bindM (liftR (require_read (ga_policy G) repository)) (\<lambda>r.
     bindM (liftR (normalize_path path)) (\<lambda>p.
     bindM (github_request G ''GET'' (''/repos/'' @ r @ ''/contents/'' @ url_quote p) [(''ref'', ref)] JNull) (\<lambda>payload.
      case jget payload ''content'' of
        JStr encoded \<Rightarrow>
          if jget payload ''encoding'' \<noteq> JStr ''base64'' then raiseM (github_invalid ''GitHub content response is invalid'')
          else (case b64decode encoded of
             None \<Rightarrow> raiseM (github_invalid ''GitHub content response is invalid'')
           | Some decoded \<Rightarrow>
               if length decoded > MAX_SOURCE_BYTES
               then raiseM (cw_error ''GITHUB_SOURCE_TOO_LARGE'' ''Source file exceeds diagnosis bound'' 422)
               else if length (redact_text decoded) > 20000 then raiseM validation_error
               else returnM \<lparr>sf_repository = r, sf_path = p, sf_ref = ref, sf_content = redact_text decoded,
                 sf_sha = truthy_str (jget payload ''sha'')\<rparr>)
      | _ \<Rightarrow> raiseM (github_invalid ''GitHub content response is invalid''))))"

record issue_content =
  ic_title :: string
  ic_body :: string
  ic_labels :: "string list"

definition issue_content_valid :: "issue_content \<Rightarrow> bool" where
  "issue_content_valid c \<longleftrightarrow> 1 \<le> length (ic_title c) \<and> length (ic_title c) \<le> 200 \<and>
     1 \<le> length (ic_body c) \<and> length (ic_body c) \<le> 10000 \<and> length (ic_labels c) \<le> 10"

record issue_result =
  ir_repository :: string
  ir_number :: int
  ir_url :: string
  ir_title :: string

definition issue_body :: "issue_content \<Rightarrow> json" where
  "issue_body c = JObj [(''title'', JStr (redact_text (ic_title c))), (''body'', JStr (redact_text (ic_body c))),
     (''labels'', JList (map (\<lambda>l. JStr (take 50 (redact_text l))) (ic_labels c)))]"

definition create_issue :: "'w github_app \<Rightarrow> string \<Rightarrow> issue_content \<Rightarrow> ('w, issue_result) H" where
  "create_issue G repository c =
     bindM (liftR (require_issue_write (ga_policy G) repository)) (\<lambda>r.
     bindM (github_request G ''POST'' (''/repos/'' @ r @ ''/issues'') [] (issue_body c)) (\<lambda>payload.
     bindM (liftR (positive_int (jget payload ''number''))) (\<lambda>n.
     returnM \<lparr>ir_repository = r, ir_number = n, ir_url = py_str (jget payload ''html_url''), ir_title = ic_title c\<rparr>)))"

definition file_body :: "string \<Rightarrow> string \<Rightarrow> string \<Rightarrow> string option \<Rightarrow> json" where
  "file_body branch message content blob = JObj ([(''message'', JStr (take 500 (redact_text message))),
     (''content'', JStr (b64encode content)), (''branch'', JStr branch)] @
     (case blob of Some b \<Rightarrow> if b = [] then [] else [(''sha'', JStr b)] | None \<Rightarrow> []))"

definition contents_path :: "string \<Rightarrow> string \<Rightarrow> string" where
  "contents_path r p = ''/repos/'' @ r @ ''/contents/'' @ url_quote p"

definition update_file :: "'w github_app \<Rightarrow> string \<Rightarrow> string \<Rightarrow> string \<Rightarrow> string \<Rightarrow> string \<Rightarrow> string option \<Rightarrow> ('w, string) H" where
  "update_file G repository path branch message content blob =
     bindM (liftR (require_path_write (ga_policy G) repository path)) (\<lambda>(r, p).
     thenM (liftR (case blob of Some b \<Rightarrow> if b = [] then Inr () else require_sha b | None \<Rightarrow> Inr ()))
     (bindM (github_request G ''PUT'' (contents_path r p) [] (file_body branch message content blob)) (\<lambda>payload.
      case (case jget payload ''commit'' of JObj k \<Rightarrow> jget k ''sha'' | _ \<Rightarrow> JNull) of
        JStr sha \<Rightarrow> returnM sha
      | _ \<Rightarrow> raiseM (github_invalid ''GitHub write response is invalid''))))"

definition branch_body :: "string \<Rightarrow> string \<Rightarrow> json" where
  "branch_body branch sha = JObj [(''ref'', JStr (''refs/heads/'' @ branch)), (''sha'', JStr sha)]"

definition create_branch :: "'w github_app \<Rightarrow> string \<Rightarrow> string \<Rightarrow> string \<Rightarrow> ('w, unit) H" where
  "create_branch G repository branch from_sha =
     bindM (liftR (require_pull_request (ga_policy G) repository)) (\<lambda>r.
     thenM (liftR (require_branch branch))
     (thenM (liftR (require_sha from_sha))
     (voidM (github_request G ''POST'' (''/repos/'' @ r @ ''/git/refs'') [] (branch_body branch from_sha)))))"

record pr_content =
  pc_title :: string
  pc_body :: string
  pc_head :: string
  pc_base :: string
  pc_draft :: bool

definition pr_content_valid :: "pr_content \<Rightarrow> bool" where
  "pr_content_valid c \<longleftrightarrow> str_bounds 1 200 (pc_title c) \<and> str_bounds 1 20000 (pc_body c) \<and>
     str_bounds 1 255 (pc_head c) \<and> str_bounds 1 255 (pc_base c)"

record pull_request_result =
  prr_repository :: string
  prr_number :: int
  prr_url :: string
  prr_head :: string
  prr_base :: string

definition pull_body :: "pr_content \<Rightarrow> json" where
  "pull_body c =
     (let body = redact_text (pc_body c);
          marked = (if \<not> py_in ''Created by CloudWard'' body
                    then ''Created by CloudWard'' @ [CHR 0x0A, CHR 0x0A] @ body else body)
      in JObj [(''title'', JStr (redact_text (pc_title c))), (''body'', JStr marked), (''head'', JStr (pc_head c)),
           (''base'', JStr (pc_base c)), (''draft'', JBool (pc_draft c))])"

definition create_pull_request :: "'w github_app \<Rightarrow> string \<Rightarrow> pr_content \<Rightarrow> ('w, pull_request_result) H" where
  "create_pull_request G repository c =
     bindM (liftR (require_pull_request (ga_policy G) repository)) (\<lambda>r.
     bindM (github_request G ''POST'' (''/repos/'' @ r @ ''/pulls'') [] (pull_body c)) (\<lambda>payload.
     bindM (liftR (positive_int (jget payload ''number''))) (\<lambda>n.
     returnM \<lparr>prr_repository = r, prr_number = n, prr_url = py_str (jget payload ''html_url''),
       prr_head = pc_head c, prr_base = pc_base c\<rparr>)))"

section \<open>Issues, once per incident\<close>

text \<open>A stored reference is complete when it has a number and an address, both truthy.\<close>

definition complete_reference :: "github_automation_record \<Rightarrow> (int \<times> string) option" where
  "complete_reference g =
     (case (gar_external_number g, gar_external_url g) of
        (Some n, Some u) \<Rightarrow> if n \<noteq> 0 \<and> u \<noteq> [] then Some (n, u) else None
      | _ \<Rightarrow> None)"

definition find_automation :: "string \<Rightarrow> ('w, github_automation_record option) H" where
  "find_automation key = dbM (\<lambda>d. find (\<lambda>g. gar_dedupe_key g = key) (db_github_records d))"

definition issue_key :: "uuid \<Rightarrow> string \<Rightarrow> string" where
  "issue_key i r = sha256_hex (''incident-issue:'' @ uuid_str i @ '':'' @ r)"

definition title_or :: "string option \<Rightarrow> string" where
  "title_or v = (case v of Some s \<Rightarrow> if s = [] then ''CloudWard incident'' else s | None \<Rightarrow> ''CloudWard incident'')"

definition complete_issue :: "issue_result \<Rightarrow> issue_content \<Rightarrow> github_automation_record \<Rightarrow> github_automation_record" where
  "complete_issue issue c g = g\<lparr>gar_external_number := Some (ir_number issue), gar_external_url := Some (ir_url issue),
     gar_status := ''CREATED'', gar_title := Some (take 255 (redact_text (ir_title issue))),
     gar_summary := Some (take 2000 (redact_text (ic_body c))),
     gar_details := [(''labels'', JList (map (\<lambda>l. JStr (take 50 (redact_text l))) (ic_labels c)))]\<rparr>"

definition store_issue :: "'w env \<Rightarrow> github_automation_record option \<Rightarrow> string \<Rightarrow> uuid \<Rightarrow> issue_result \<Rightarrow> issue_content \<Rightarrow> ('w, unit) H" where
  "store_issue E existing key incident_id issue c =
     (case existing of
        Some g \<Rightarrow> updM (db_github_records_update (upd_row gar_id (gar_id g) (complete_issue issue c)))
      | None \<Rightarrow> voidM (insert_row E db_github_records_update github_record_ok
          (\<lambda>i t. complete_issue issue c
             \<lparr>gar_id = i, gar_created_at = t, gar_dedupe_key = key, gar_incident_id = Some incident_id,
              gar_operation = ''ISSUE'', gar_repository = ir_repository issue, gar_external_number = None,
              gar_external_url = None, gar_status = [], gar_title = None, gar_summary = None, gar_details = []\<rparr>)))"

definition create_issue_once :: "'w env \<Rightarrow> 'w github_app \<Rightarrow> uuid \<Rightarrow> string \<Rightarrow> string \<Rightarrow> issue_content \<Rightarrow>
    ('w, issue_result \<times> bool) H" where
  "create_issue_once E G incident_id correlation_id repository c =
     bindM (liftR (require_issue_write (ga_policy G) repository)) (\<lambda>r.
     bindM (find_automation (issue_key incident_id r)) (\<lambda>existing.
     case Option.bind existing (\<lambda>g. map_option (Pair g) (complete_reference g)) of
       Some (g, n, u) \<Rightarrow>
         if n < 1 then raiseM validation_error
         else returnM (\<lparr>ir_repository = gar_repository g, ir_number = n, ir_url = u, ir_title = title_or (gar_title g)\<rparr>, False)
     | None \<Rightarrow>
         bindM (create_issue G r c) (\<lambda>issue.
         thenM (store_issue E existing (issue_key incident_id r) incident_id issue c)
         (thenM (record_audit E ((audit_args ''GITHUB_ISSUE_CREATED'' correlation_id ''SUCCEEDED'')
            \<lparr>aa_incident_id := Some incident_id, aa_action := Some ''CREATE_GITHUB_ISSUE'',
             aa_metadata := [(''repository'', JStr (ir_repository issue)), (''issue_number'', JInt (ir_number issue)),
               (''issue_url'', JStr (ir_url issue)), (''dedupe_key'', JStr (issue_key incident_id r))]\<rparr>))
         (returnM (issue, True))))))"

section \<open>Change proposals, once per subject\<close>

record change_request =
  cr_repository :: string
  cr_path :: string
  cr_base :: string
  cr_base_commit_sha :: string
  cr_head :: string
  cr_expected_blob_sha :: "string option"
  cr_proposed_content :: string
  cr_commit_message :: string
  cr_title :: string
  cr_reason :: string
  cr_current_state :: jdict
  cr_proposed_state :: jdict
  cr_evidence :: jdict
  cr_risk_score :: int
  cr_verification_plan :: string
  cr_rollback_plan :: string
  cr_draft :: bool

definition head_pattern :: "string \<Rightarrow> bool" where
  "head_pattern h \<longleftrightarrow> py_startswith h ''cloudward/'' \<and>
     (case drop (length ''cloudward/'') h of [] \<Rightarrow> False | c # cs \<Rightarrow> is_alnum_char c \<and> list_all branch_char cs)"

definition change_request_valid :: "change_request \<Rightarrow> bool" where
  "change_request_valid q \<longleftrightarrow> str_bounds 1 1024 (cr_path q) \<and> str_bounds 1 255 (cr_base q) \<and>
     str_bounds 7 64 (cr_base_commit_sha q) \<and> str_bounds 12 255 (cr_head q) \<and> head_pattern (cr_head q) \<and>
     pred_option (str_bounds 7 64) (cr_expected_blob_sha q) \<and> str_bounds 1 100000 (cr_proposed_content q) \<and>
     str_bounds 1 500 (cr_commit_message q) \<and> str_bounds 1 200 (cr_title q) \<and> str_bounds 1 2000 (cr_reason q) \<and>
     0 \<le> cr_risk_score q \<and> cr_risk_score q \<le> 100 \<and> str_bounds 1 2000 (cr_verification_plan q) \<and>
     str_bounds 1 2000 (cr_rollback_plan q)"

definition mk_change_request :: "change_request \<Rightarrow> exn + change_request" where
  "mk_change_request q = (if change_request_valid q then Inr q else Inl validation_error)"

record change_response =
  cs_subject_id :: string
  cs_path :: string
  cs_commit_sha :: string
  cs_pull_request :: pull_request_result
  cs_created :: bool

text \<open>\<^verbatim>\<open>json.dumps(value, sort_keys=True)\<close>, with a space after each comma and colon.\<close>

fun json_spaced :: "json \<Rightarrow> string" where
  "json_spaced (JList xs) = ''['' @ join_with '', '' (map json_spaced xs) @ '']''"
| "json_spaced (JObj kvs) =
     [CHR 0x7B] @ join_with '', '' (map (\<lambda>(k, v). json_string k @ '': '' @ json_spaced v) kvs) @ [CHR 0x7D]"
| "json_spaced v = json_text v"

definition json_block :: "jdict \<Rightarrow> string" where
  "json_block d = ''```json'' @ [CHR 0x0A] @ take 3000 (json_spaced (sorted_json (redact_untrusted 0 (JObj d)))) @
     [CHR 0x0A] @ ''```''"

definition change_pr_body :: "uuid \<Rightarrow> string \<Rightarrow> change_request \<Rightarrow> string" where
  "change_pr_body subject operation q = join_with [CHR 0x0A, CHR 0x0A]
     [''Created by CloudWard'',
      ''Automation: `'' @ take 64 (redact_text operation) @ ''`'',
      ''Subject ID: `'' @ uuid_str subject @ ''`'',
      ''Reason: '' @ take 2000 (redact_text (cr_reason q)),
      ''Current state:'' @ [CHR 0x0A] @ json_block (cr_current_state q),
      ''Proposed state:'' @ [CHR 0x0A] @ json_block (cr_proposed_state q),
      ''Risk: '' @ str_of_int (cr_risk_score q) @ ''/100'',
      ''Evidence:'' @ [CHR 0x0A] @ json_block (cr_evidence q),
      ''Verification plan: '' @ redact_text (cr_verification_plan q),
      ''Rollback plan: '' @ redact_text (cr_rollback_plan q),
      ''CloudWard made no direct persistent change; merge remains a human decision.'']"

definition change_key :: "string \<Rightarrow> uuid \<Rightarrow> string \<Rightarrow> string \<Rightarrow> string" where
  "change_key operation subject r p =
     sha256_hex (''change-pr:'' @ operation @ '':'' @ uuid_str subject @ '':'' @ r @ '':'' @ p)"

definition dict_str :: "jdict \<Rightarrow> string \<Rightarrow> string \<Rightarrow> string" where
  "dict_str d k dflt = (case dict_get d k of None \<Rightarrow> dflt | Some v \<Rightarrow> py_str v)"

definition stored_change :: "uuid \<Rightarrow> string \<Rightarrow> change_request \<Rightarrow> github_automation_record \<Rightarrow> int \<Rightarrow> string \<Rightarrow> exn + change_response" where
  "stored_change subject p q g n u =
     (let sha = dict_str (gar_details g) ''commit_sha'' [] in
      if sha = [] then Inl (cw_error ''GITHUB_AUTOMATION_RECORD_INVALID'' ''Stored GitHub automation record is incomplete'' 500)
      else if n < 1 then Inl validation_error
      else Inr \<lparr>cs_subject_id = uuid_str subject, cs_path = p, cs_commit_sha = sha,
        cs_pull_request = \<lparr>prr_repository = gar_repository g, prr_number = n, prr_url = u,
          prr_head = dict_str (gar_details g) ''head'' (cr_head q), prr_base = dict_str (gar_details g) ''base'' (cr_base q)\<rparr>,
        cs_created = False\<rparr>)"

definition change_content :: "uuid \<Rightarrow> string \<Rightarrow> change_request \<Rightarrow> pr_content" where
  "change_content subject operation q = \<lparr>pc_title = cr_title q, pc_body = change_pr_body subject operation q,
     pc_head = cr_head q, pc_base = cr_base q, pc_draft = cr_draft q\<rparr>"

definition open_change :: "'w github_app \<Rightarrow> uuid \<Rightarrow> string \<Rightarrow> change_request \<Rightarrow> string \<Rightarrow> string \<Rightarrow> ('w, string \<times> pull_request_result) H" where
  "open_change G subject operation q r p =
     thenM (create_branch G r (cr_head q) (cr_base_commit_sha q))
     (bindM (update_file G r p (cr_head q) (cr_commit_message q) (cr_proposed_content q) (cr_expected_blob_sha q)) (\<lambda>sha.
      thenM (raise_if (\<not> pr_content_valid (change_content subject operation q)) validation_error)
      (bindM (create_pull_request G r (change_content subject operation q)) (\<lambda>pull. returnM (sha, pull)))))"

definition change_record :: "uuid \<Rightarrow> string \<Rightarrow> uuid option \<Rightarrow> change_request \<Rightarrow> string \<Rightarrow> string \<Rightarrow> string \<Rightarrow>
    pull_request_result \<Rightarrow> uuid \<Rightarrow> time \<Rightarrow> github_automation_record" where
  "change_record subject operation incident_id q key p sha pull = (\<lambda>i t.
     \<lparr>gar_id = i, gar_created_at = t, gar_dedupe_key = key, gar_incident_id = incident_id,
      gar_operation = take 32 operation, gar_repository = prr_repository pull,
      gar_external_number = Some (prr_number pull), gar_external_url = Some (prr_url pull), gar_status = ''CREATED'',
      gar_title = Some (cr_title q), gar_summary = Some (take 2000 (redact_text (change_pr_body subject operation q))),
      gar_details = [(''subject_id'', JStr (uuid_str subject)), (''path'', JStr p), (''head'', JStr (cr_head q)),
        (''base'', JStr (cr_base q)), (''commit_sha'', JStr sha)]\<rparr>)"

definition store_change :: "'w env \<Rightarrow> uuid \<Rightarrow> string \<Rightarrow> change_request \<Rightarrow> string \<Rightarrow> uuid option \<Rightarrow> string \<Rightarrow> string \<Rightarrow>
    string \<Rightarrow> pull_request_result \<Rightarrow> ('w, change_response) H" where
  "store_change E subject operation q correlation_id incident_id r p sha pull =
     thenM (insert_row E db_github_records_update github_record_ok
        (change_record subject operation incident_id q (change_key operation subject r p) p sha pull))
     (thenM (record_audit E ((audit_args ''GITHUB_PR_CREATED'' correlation_id ''SUCCEEDED'')
        \<lparr>aa_incident_id := incident_id, aa_action := Some ''CREATE_GITOPS_PR'', aa_risk_score := Some (cr_risk_score q),
         aa_metadata := [(''subject_id'', JStr (uuid_str subject)), (''operation'', JStr operation), (''repository'', JStr r),
           (''path'', JStr p), (''commit_sha'', JStr sha), (''pull_request_number'', JInt (prr_number pull)),
           (''pull_request_url'', JStr (prr_url pull)), (''direct_change'', JBool False)]\<rparr>))
     (returnM \<lparr>cs_subject_id = uuid_str subject, cs_path = p, cs_commit_sha = sha, cs_pull_request = pull,
        cs_created = True\<rparr>))"

definition propose_change :: "'w env \<Rightarrow> 'w github_app \<Rightarrow> uuid \<Rightarrow> string \<Rightarrow> change_request \<Rightarrow> string \<Rightarrow> uuid option \<Rightarrow>
    string \<Rightarrow> string \<Rightarrow> ('w, change_response) H" where
  "propose_change E G subject operation q correlation_id incident_id r p =
     bindM (open_change G subject operation q r p) (\<lambda>(sha, pull).
     store_change E subject operation q correlation_id incident_id r p sha pull)"

definition create_change_once :: "'w env \<Rightarrow> 'w github_app \<Rightarrow> uuid \<Rightarrow> string \<Rightarrow> change_request \<Rightarrow> string \<Rightarrow> uuid option \<Rightarrow>
    ('w, change_response) H" where
  "create_change_once E G subject operation q correlation_id incident_id =
     bindM (liftR (require_path_write (ga_policy G) (cr_repository q) (cr_path q))) (\<lambda>(r, p).
     bindM (find_automation (change_key operation subject r p)) (\<lambda>existing.
     case Option.bind existing (\<lambda>g. map_option (Pair g) (complete_reference g)) of
       Some (g, n, u) \<Rightarrow> liftR (stored_change subject p q g n u)
     | None \<Rightarrow> propose_change E G subject operation q correlation_id incident_id r p))"

section \<open>Splitting, joining and normalising\<close>

lemma join_with_simps [simp]:
  "join_with sep [] = []" "join_with sep [x] = x" "join_with sep (x # y # ys) = x @ sep @ join_with sep (y # ys)"
  by (simp_all add: join_with_def)

lemma py_split_ne [simp]: "py_split c s \<noteq> []"
  by (induction s) (auto split: list.splits)

lemma py_split_no_sep: "p \<in> set (py_split c s) \<Longrightarrow> c \<notin> set p"
  by (induction s arbitrary: p) (auto split: list.splits if_splits)

lemma py_split_atom: "c \<notin> set s \<Longrightarrow> py_split c s = [s]"
  by (induction s) auto

lemma py_split_append: "c \<notin> set a \<Longrightarrow> py_split c (a @ c # b) = a # py_split c b"
  by (induction a) auto

lemma py_split_join: "ps \<noteq> [] \<Longrightarrow> \<forall>p \<in> set ps. c \<notin> set p \<Longrightarrow> py_split c (join_with [c] ps) = ps"
proof (induction ps rule: induct_list012)
  case (3 x y zs)
  then show ?case by (simp add: py_split_append)
qed (simp_all add: py_split_atom)

lemma set_join_with: "x \<in> set (join_with sep ps) \<Longrightarrow> x \<in> set sep \<or> (\<exists>p \<in> set ps. x \<in> set p)"
  by (induction ps rule: induct_list012) auto

lemma join_py_split: "join_with [c] (py_split c s) = s"
proof (induction s)
  case (Cons x s)
  then show ?case by (cases "py_split c s" rule: list.exhaust [case_product list.exhaust]) (auto simp: join_with_def split: list.splits)
qed (simp add: join_with_def)

lemma set_py_split: "p \<in> set (py_split c s) \<Longrightarrow> x \<in> set p \<Longrightarrow> x \<in> set s"
proof -
  have "p \<in> set ps \<Longrightarrow> x \<in> set p \<Longrightarrow> x \<in> set (join_with [c] ps)" for ps
    by (induction ps rule: induct_list012) auto
  from this [of "py_split c s"] show "p \<in> set (py_split c s) \<Longrightarrow> x \<in> set p \<Longrightarrow> x \<in> set s" by (simp add: join_py_split)
qed

text \<open>What normalisation promises of a repository and of a path, and that it is idempotent: the services
  normalise once and hand the result to client operations that normalise again.\<close>

lemma lower_char_cases:
  "(is_upper_char c \<and> is_lower_char (lower_char c)) \<or> (\<not> is_upper_char c \<and> lower_char c = c)"
  by (auto simp: lower_char_def is_upper_char_def is_lower_char_def Let_def)

lemma case_disjoint: "is_lower_char c \<Longrightarrow> \<not> is_upper_char c" "is_lower_char c \<Longrightarrow> \<not> is_space_char c"
    "is_upper_char c \<Longrightarrow> \<not> is_space_char c" "is_digit_char c \<Longrightarrow> \<not> is_space_char c" "is_lower_char c \<Longrightarrow> c \<noteq> CHR ''/''"
  by (auto simp: is_upper_char_def is_lower_char_def is_digit_char_def is_space_char_def)

lemma lower_char_idem [simp]: "lower_char (lower_char c) = lower_char c"
  using lower_char_cases [of c] lower_char_cases [of "lower_char c"] case_disjoint(1) by auto

lemma repository_charD:
  assumes "repository_char c"
  shows "repository_char (lower_char c)" "\<not> is_space_char (lower_char c)" "\<not> is_space_char c" "c \<noteq> CHR ''/''"
    "lower_char c \<noteq> CHR ''/''"
proof -
  have s: "\<not> is_space_char d" "d \<noteq> CHR ''/''" if "repository_char d" for d
    using that case_disjoint(2-) [of d] by (auto simp: repository_char_def is_alnum_char_def is_space_char_def
        is_digit_char_def is_upper_char_def is_lower_char_def)
  show l: "repository_char (lower_char c)"
    using lower_char_cases [of c] assms by (auto simp: repository_char_def is_alnum_char_def)
  show "\<not> is_space_char (lower_char c)" "lower_char c \<noteq> CHR ''/''" by (rule s [OF l])+
  show "\<not> is_space_char c" "c \<noteq> CHR ''/''" by (rule s [OF assms])+
qed

lemma repository_patternE:
  assumes "repository_pattern s"
  obtains a b where "s = a @ CHR ''/'' # b" "a \<noteq> []" "b \<noteq> []" "list_all repository_char a" "list_all repository_char b"
proof -
  from assms obtain a b where ab: "py_split (CHR ''/'') s = [a, b]" "a \<noteq> []" "b \<noteq> []" "list_all repository_char a"
    "list_all repository_char b" by (auto simp: repository_pattern_def split: list.splits)
  have "s = a @ CHR ''/'' # b" using join_py_split [of "CHR ''/''" s] ab(1) by simp
  with ab(2-) that show ?thesis by blast
qed

lemma repository_pattern_lower: "repository_pattern s \<Longrightarrow> repository_pattern (py_lower s)"
proof -
  assume "repository_pattern s"
  then obtain a b where s: "s = a @ CHR ''/'' # b" "a \<noteq> []" "b \<noteq> []" "list_all repository_char a" "list_all repository_char b"
    by (rule repository_patternE)
  have l: "CHR ''/'' \<notin> set (map lower_char x)" "list_all repository_char (map lower_char x)" if "list_all repository_char x" for x
    using that by (induction x) (auto simp: repository_charD(1) dest: repository_charD(5) [THEN not_sym])
  have "py_split (CHR ''/'') (py_lower s) = [map lower_char a, map lower_char b]"
    using l [OF s(4)] l [OF s(5)] by (simp add: s(1) py_lower_def py_split_append py_split_atom lower_char_def)
  then show ?thesis using s l by (simp add: repository_pattern_def)
qed

lemma repository_pattern_no_space:
  assumes "repository_pattern s" "c \<in> set s"
  shows "\<not> is_space_char c"
proof -
  obtain a b where s: "s = a @ CHR ''/'' # b" "list_all repository_char a" "list_all repository_char b"
    using assms(1) by (rule repository_patternE)
  have "\<not> is_space_char (CHR ''/'')" by code_simp
  then show ?thesis using assms(2) s repository_charD(3) by (auto simp: list_all_iff)
qed

lemma normalize_repository_idem:
  assumes "normalize_repository v = Inr r"
  shows "normalize_repository r = Inr r"
proof -
  have r: "repository_pattern r" "py_lower r = r"
    using assms repository_pattern_lower by (auto simp: normalize_repository_def Let_def py_lower_def split: if_splits)
  have "py_strip is_space_char r = r"
    by (rule py_strip_no_space) (use repository_pattern_no_space [OF r(1)] in blast)
  then show ?thesis using r by (simp add: normalize_repository_def)
qed

text \<open>A path that may be written: no parent, current or empty component, hence relative, no backslash.\<close>

definition confined_path :: "string \<Rightarrow> bool" where
  "confined_path p \<longleftrightarrow> p = ''.'' \<or>
     p \<noteq> [] \<and> (\<forall>c \<in> set (py_split (CHR ''/'') p). c \<noteq> [] \<and> c \<noteq> ''.'' \<and> c \<noteq> ''..'') \<and> CHR 0x5C \<notin> set p \<and> length p \<le> 1024"

lemma normalize_pathD:
  assumes "normalize_path v = Inr p"
  shows "confined_path p" "normalize_path p = Inr p"
proof -
  let ?ps = "path_parts v"
  have v: "CHR 0x5C \<notin> set v" "''..'' \<notin> set ?ps" "length (posix_path v) \<le> 1024" "p = posix_path v"
    using assms by (auto simp: normalize_path_def split: if_splits)
  have ps: "\<forall>c \<in> set ?ps. c \<noteq> [] \<and> c \<noteq> ''.'' \<and> c \<noteq> ''..'' \<and> CHR ''/'' \<notin> set c \<and> CHR 0x5C \<notin> set c"
    using v(1,2) py_split_no_sep [of _ "CHR ''/''" v] set_py_split [of _ "CHR ''/''" v] by (auto simp: path_parts_def)
  have "confined_path p \<and> normalize_path p = Inr p"
  proof (cases "?ps = []")
    case True
    moreover have "normalize_path ''.'' = Inr ''.''" by code_simp
    ultimately show ?thesis using v(4) by (simp add: posix_path_def confined_path_def)
  next
    case False
    have p: "p = join_with ''/'' ?ps" using False v(4) by (simp add: posix_path_def)
    have split: "py_split (CHR ''/'') p = ?ps" unfolding p by (rule py_split_join [OF False]) (use ps in blast)
    have parts: "path_parts p = ?ps" using ps by (simp add: path_parts_def [of p] split filter_id_conv)
    have bs: "CHR 0x5C \<notin> set p" using ps set_join_with [of "CHR 0x5C" "''/''" ?ps] by (auto simp: p)
    obtain c cs where c: "?ps = c # cs" "c \<noteq> []" using False ps by (cases ?ps) auto
    have "hd p = hd c" "p \<noteq> []" using c by (cases cs; simp add: p)+
    moreover have "hd c \<noteq> CHR ''/''" using c ps by (metis hd_in_set list.set_intros(1))
    ultimately have "\<not> py_startswith p ''/''" by (cases p) (auto simp: py_startswith_def)
    moreover have "posix_path p = p" using parts False p by (simp add: posix_path_def)
    moreover have len: "length p \<le> 1024" using v(3,4) by simp
    moreover have "''.'' \<notin> set ?ps" using ps by blast
    ultimately have "normalize_path p = Inr p"
      unfolding normalize_path_def using ps bs \<open>p \<noteq> []\<close> v(2) by (simp add: parts)
    moreover have "confined_path p" unfolding confined_path_def split using ps bs len \<open>p \<noteq> []\<close> by simp
    ultimately show ?thesis by simp
  qed
  then show "confined_path p" "normalize_path p = Inr p" by simp_all
qed

lemma require_inD: "require_in allowed m v = Inr r \<Longrightarrow> r \<in> allowed \<and> normalize_repository r = Inr r"
  using normalize_repository_idem by (auto simp: require_in_def split: sum.splits if_splits)

lemma require_path_writeD:
  assumes "require_path_write P v w = Inr (r, p)"
  shows "confined_path p" "require_path_write P r p = Inr (r, p)" "require_pull_request P r = Inr r"
    "\<exists>pats. dict_get (gp_write_paths P) r = Some pats \<and> list_ex (fnmatchcase p) pats"
proof -
  have n: "normalize_repository r = Inr r" "normalize_path w = Inr p"
    and l: "list_ex (fnmatchcase p) (case dict_get (gp_write_paths P) r of None \<Rightarrow> [] | Some ps \<Rightarrow> ps)"
    using assms normalize_repository_idem by (auto simp: require_path_write_def split: sum.splits if_splits)
  show "confined_path p" by (rule normalize_pathD(1) [OF n(2)])
  show "require_path_write P r p = Inr (r, p)" using n(1) normalize_pathD(2) [OF n(2)] l by (simp add: require_path_write_def)
  show pats: "\<exists>pats. dict_get (gp_write_paths P) r = Some pats \<and> list_ex (fnmatchcase p) pats" using l by (simp split: option.splits)
  then have "r \<in> fst ` set (gp_write_paths P)"
    by (auto simp: dict_get_def dest: map_of_SomeD intro: rev_image_eqI)
  then show "require_pull_request P r = Inr r" using n(1) by (simp add: require_pull_request_def require_in_def)
qed

section \<open>The content survives its encoding\<close>

lemma index_b64 [simp]: "n < 64 \<Longrightarrow> index_of (b64_char n) b64_alphabet = Some n" "n < 64 \<Longrightarrow> b64_char n \<noteq> CHR ''=''"
proof -
  have d: "distinct b64_alphabet" "length b64_alphabet = 64" "CHR ''='' \<notin> set b64_alphabet" by code_simp+
  show "n < 64 \<Longrightarrow> index_of (b64_char n) b64_alphabet = Some n"
    using map_of_zip_nth [of b64_alphabet "[0..<64]" n] d by (simp add: index_of_def b64_char_def)
  show "n < 64 \<Longrightarrow> b64_char n \<noteq> CHR ''=''" using d unfolding b64_char_def by (metis nth_mem)
qed

definition b64_known :: "char \<Rightarrow> bool" where
  "b64_known c \<longleftrightarrow> c = CHR ''='' \<or> c \<in> set b64_alphabet"

lemma b64_scan_known: "b64_scan q l k s = b64_scan q l k (filter b64_known s)"
proof (induction s arbitrary: q l k)
  case (Cons c s)
  have "c \<notin> set b64_alphabet \<Longrightarrow> index_of c b64_alphabet = None"
    by (simp add: index_of_def map_of_zip_is_None)
  then show ?case using Cons by (auto simp: b64_known_def split: option.splits)
qed simp

lemma b64_scan_encode: "\<forall>b \<in> set bs. b < 256 \<Longrightarrow> b64_scan 0 0 0 (b64_encode bs) = Some bs"
proof (induction bs rule: b64_encode.induct)
  case (2 a)
  then have "a div 4 < 64" "a mod 4 * 16 < 64" by simp_all
  then show ?case by simp
next
  case (3 a b)
  then have "a div 4 < 64" "a mod 4 * 16 + b div 16 < 64" "b mod 16 * 4 < 64" "b div 16 < 16" by auto
  then show ?case by simp
next
  case (4 a b c r)
  then have "a div 4 < 64" "a mod 4 * 16 + b div 16 < 64" "b mod 16 * 4 + c div 64 < 64" "c mod 64 < 64"
    "b div 16 < 16" "c div 64 < 4" by auto
  then show ?case using 4 by simp
qed simp



section \<open>Requests of an operation\<close>

text \<open>\<open>emits m es\<close>: when \<open>m\<close> returns it has sent exactly the requests \<open>es\<close>, in order; when it raises, a first part
  of them.\<close>

definition emits :: "('w, 'a) H \<Rightarrow> ext_event list \<Rightarrow> bool" where
  "emits m es \<longleftrightarrow> (\<forall>s. wp m (\<lambda>_ t. effects t = effects s @ es) (\<lambda>_ t. \<exists>k. effects t = effects s @ take k es) s)"

lemma emits_keeps: "keeps effects m \<Longrightarrow> emits m []"
  by (simp add: emits_def wp_total keeps_def)

lemma emits_bindM:
  fixes m :: "('w, 'a) H" and f :: "'a \<Rightarrow> ('w, 'b) H"
  assumes "emits m es" and "\<And>x. emits (f x) fs"
  shows "emits (bindM m f) (es @ fs)"
  unfolding emits_def
proof
  fix s :: "'w sys"
  have m: "wp m (\<lambda>_ t. effects t = effects s @ es) (\<lambda>_ t. \<exists>k. effects t = effects s @ take k es) s"
    using assms(1) by (simp add: emits_def)
  show "wp (bindM m f) (\<lambda>_ t. effects t = effects s @ es @ fs) (\<lambda>_ t. \<exists>k. effects t = effects s @ take k (es @ fs)) s"
    unfolding wp_bindM
  proof (rule wp_mono [OF m])
    fix x :: 'a and t :: "'w sys" assume t: "effects t = effects s @ es"
    have "wp (f x) (\<lambda>_ u. effects u = effects t @ fs) (\<lambda>_ u. \<exists>k. effects u = effects t @ take k fs) t"
      using assms(2) by (simp add: emits_def)
    then show "wp (f x) (\<lambda>_ t. effects t = effects s @ es @ fs) (\<lambda>_ t. \<exists>k. effects t = effects s @ take k (es @ fs)) t"
    proof (rule wp_mono)
      fix e u assume "\<exists>k. effects u = effects t @ take k fs"
      then obtain k where "effects u = effects s @ take (length es + k) (es @ fs)" by (auto simp: t)
      then show "\<exists>k. effects u = effects s @ take k (es @ fs)" by blast
    qed (simp add: t)
  next
    fix e t assume "\<exists>k. effects t = effects s @ take k es"
    then obtain k where "effects t = effects s @ take k es" by blast
    then have "effects t = effects s @ take (min k (length es)) (es @ fs)" by (simp add: min_def)
    then show "\<exists>k. effects t = effects s @ take k (es @ fs)" by blast
  qed
qed

lemma emits_thenM: "emits m es \<Longrightarrow> emits n fs \<Longrightarrow> emits (thenM m n) (es @ fs)"
  unfolding thenM_def by (rule emits_bindM)

lemma emits_after: "keeps effects m \<Longrightarrow> (\<And>x. emits (f x) es) \<Longrightarrow> emits (bindM m f) es"
  using emits_bindM [OF emits_keeps, of m f es] by simp

lemma emits_before: "emits m es \<Longrightarrow> (\<And>x. keeps effects (f x)) \<Longrightarrow> emits (bindM m f) es"
  using emits_bindM [of m es f "[]"] by (simp add: emits_keeps)

lemma emits_voidM: "emits m es \<Longrightarrow> emits (voidM m) es"
  unfolding voidM_def thenM_def by (rule emits_before) (auto intro: frame)

lemma emits_raise: "emits (raiseM e) es"
  by (auto simp: emits_def intro: exI [of _ 0])

lemma emits_liftR_bind: "(\<And>x. r = Inr x \<Longrightarrow> emits (f x) es) \<Longrightarrow> emits (bindM (liftR r) f) es"
proof (cases r)
  case (Inl e)
  then have "bindM (liftR r) f = raiseM e" by (simp add: fun_eq_iff bindM_def liftR_def raiseM_def)
  then show ?thesis by (simp add: emits_raise)
next
  case (Inr x)
  then have "bindM (liftR r) f = f x" by (simp add: fun_eq_iff bindM_def liftR_def)
  then show "(\<And>x. r = Inr x \<Longrightarrow> emits (f x) es) \<Longrightarrow> ?thesis" using Inr by simp
qed

lemma emits_liftR_then: "emits n es \<Longrightarrow> emits (thenM (liftR r) n) es"
  unfolding thenM_def by (rule emits_liftR_bind)

lemma emits_log: "\<not> is_task e \<Longrightarrow> emits (logM e) [e]"
  by (simp add: emits_def wp_logM effects_def)

lemma emits_request: "meth \<noteq> ''GET'' \<Longrightarrow> emits (github_request G meth path params body) [EvGitHub meth path body]"
  unfolding github_request_def
proof (rule emits_after, (intro frame)[], rule emits_liftR_bind)
  assume "meth \<noteq> ''GET''"
  then have "emits (whenM (meth \<noteq> ''GET'') (logM (EvGitHub meth path body))) [EvGitHub meth path body]"
    by (simp add: whenM_def emits_log is_task_def)
  then show "emits (thenM (whenM (meth \<noteq> ''GET'') (logM (EvGitHub meth path body)))
     (bindM (worldM (ga_exchange G bearer meth path params body)) (\<lambda>reply.
      case reply of Inr (JObj payload) \<Rightarrow> returnM payload | _ \<Rightarrow> raiseM github_failure))) [EvGitHub meth path body]" for bearer
    unfolding thenM_def by (rule emits_before) (intro frame, auto split: sum.splits json.splits intro: frame)
qed

definition change_requests :: "uuid \<Rightarrow> string \<Rightarrow> change_request \<Rightarrow> string \<Rightarrow> string \<Rightarrow> ext_event list" where
  "change_requests subject operation q r p =
     [EvGitHub ''POST'' (''/repos/'' @ r @ ''/git/refs'') (branch_body (cr_head q) (cr_base_commit_sha q)),
      EvGitHub ''PUT'' (contents_path r p)
        (file_body (cr_head q) (cr_commit_message q) (cr_proposed_content q) (cr_expected_blob_sha q)),
      EvGitHub ''POST'' (''/repos/'' @ r @ ''/pulls'') (pull_body (change_content subject operation q))]"

lemma emits_create_branch: "require_pull_request (ga_policy G) r = Inr r \<Longrightarrow>
    emits (create_branch G r b sha) [EvGitHub ''POST'' (''/repos/'' @ r @ ''/git/refs'') (branch_body b sha)]"
  unfolding create_branch_def by (intro emits_liftR_bind emits_liftR_then emits_voidM) (simp add: emits_request)

lemma emits_update_file: "require_path_write (ga_policy G) r p = Inr (r, p) \<Longrightarrow>
    emits (update_file G r p b m c blob) [EvGitHub ''PUT'' (contents_path r p) (file_body b m c blob)]"
  unfolding update_file_def
  by (intro emits_liftR_bind)
    (auto intro!: emits_liftR_then emits_before emits_request split: json.splits intro: frame)

lemma emits_create_pull_request: "require_pull_request (ga_policy G) r = Inr r \<Longrightarrow>
    emits (create_pull_request G r c) [EvGitHub ''POST'' (''/repos/'' @ r @ ''/pulls'') (pull_body c)]"
  unfolding create_pull_request_def
  by (intro emits_liftR_bind) (auto intro!: emits_before emits_request intro: frame)

lemma emits_open_change:
  assumes "require_path_write (ga_policy G) v w = Inr (r, p)"
  shows "emits (open_change G subject operation q r p) (change_requests subject operation q r p)"
proof -
  note d = require_path_writeD [OF assms]
  have "emits (open_change G subject operation q r p)
     ([EvGitHub ''POST'' (''/repos/'' @ r @ ''/git/refs'') (branch_body (cr_head q) (cr_base_commit_sha q))] @
      [EvGitHub ''PUT'' (contents_path r p)
        (file_body (cr_head q) (cr_commit_message q) (cr_proposed_content q) (cr_expected_blob_sha q))] @
      [] @ [EvGitHub ''POST'' (''/repos/'' @ r @ ''/pulls'') (pull_body (change_content subject operation q))] @ [])"
    unfolding open_change_def
    by (intro emits_thenM emits_bindM emits_create_branch emits_update_file emits_create_pull_request d(2,3) emits_keeps) (intro frame)+
  then show ?thesis by (simp add: change_requests_def)
qed


section \<open>Properties of the services\<close>

lemma bindM_liftR [simp]: "bindM (liftR (Inr x)) f = f x" "bindM (liftR (Inl e)) f = raiseM e"
  by (simp_all add: fun_eq_iff bindM_def liftR_def raiseM_def)

lemma bindM_dbM: "bindM (dbM g) f s = f (g (sy_db s)) s"
  by (simp add: bindM_def dbM_def readM_def)

lemma bindM_raiseM [simp]: "bindM (raiseM e) f = raiseM e"
  by (simp add: fun_eq_iff bindM_def raiseM_def)

lemma open_change_refused:
  assumes "require_branch (cr_head q) = Inl e"
  shows "\<exists>e. propose_change E G subject operation q c i r p s = (Inl e, s)"
proof (cases "require_pull_request (ga_policy G) r")
  case (Inl e')
  then show ?thesis by (simp add: propose_change_def open_change_def create_branch_def thenM_def, simp add: raiseM_def)
next
  case (Inr r')
  then show ?thesis using assms by (simp add: propose_change_def open_change_def create_branch_def thenM_def, simp add: raiseM_def)
qed

lemma keeps_store_change: "keeps effects (case x of (sha, pull) \<Rightarrow> store_change E subject operation q corr inc r p sha pull)"
  unfolding store_change_def by (intro frame)

definition complete_change :: "'w sys \<Rightarrow> string \<Rightarrow> bool" where
  "complete_change s key \<longleftrightarrow> (\<exists>g. find (\<lambda>g. gar_dedupe_key g = key) (db_github_records (sy_db s)) = Some g \<and>
     complete_reference g \<noteq> None)"

text \<open>A run for an allowlisted path is a lookup, and a proposal when no complete reference is found.\<close>

definition known_change :: "'w sys \<Rightarrow> string \<Rightarrow> (github_automation_record \<times> int \<times> string) option" where
  "known_change s key = Option.bind (find (\<lambda>g. gar_dedupe_key g = key) (db_github_records (sy_db s)))
     (\<lambda>g. map_option (Pair g) (complete_reference g))"

lemma create_change_once_run:
  assumes "require_path_write (ga_policy G) (cr_repository q) (cr_path q) = Inr (r, p)"
  shows "create_change_once E G subject operation q c i s =
    (case known_change s (change_key operation subject r p) of
       Some (g, n, u) \<Rightarrow> (stored_change subject p q g n u, s)
     | None \<Rightarrow> propose_change E G subject operation q c i r p s)"
  by (simp add: create_change_once_def find_automation_def bindM_dbM assms known_change_def split: option.splits)
    (simp add: liftR_def)

lemma known_change_None: "known_change s key = None \<Longrightarrow> \<not> complete_change s key"
  by (auto simp: complete_change_def known_change_def)

lemma propose_change_requests:
  assumes "require_path_write (ga_policy G) v w = Inr (r, p)"
    and "propose_change E G subject operation q c i r p s = (res, t)"
  obtains k where "effects t = effects s @ take k (change_requests subject operation q r p)"
    and "\<And>resp. res = Inr resp \<Longrightarrow> cs_created resp \<and> 3 \<le> k"
    and "require_branch (cr_head q) \<noteq> Inr () \<Longrightarrow> k = 0"
proof -
  let ?reqs = "change_requests subject operation q r p"
  have e: "wp (propose_change E G subject operation q c i r p)
      (\<lambda>resp t. effects t = effects s @ take 3 ?reqs) (\<lambda>_ t. \<exists>k. effects t = effects s @ take k ?reqs) s"
    unfolding propose_change_def
    using emits_before [OF emits_open_change [OF assms(1)] keeps_store_change] by (simp add: emits_def change_requests_def)
  have c: "wp (propose_change E G subject operation q c i r p) (\<lambda>resp t. cs_created resp) (\<lambda>_ t. True) s"
    unfolding propose_change_def wp_bindM by (rule wp_always) (auto simp: store_change_def wp_simps Let_def split: prod.splits)
  show thesis
  proof (cases "require_branch (cr_head q)")
    case (Inl x)
    have "\<exists>e. res = Inl e \<and> t = s" using open_change_refused [OF Inl] assms(2) by (metis Pair_inject)
    then show thesis by (intro that [of 0]) auto
  next
    case (Inr x)
    then show thesis using e c assms(2) that by (cases res) (auto simp: wp_def)
  qed
qed

text \<open>C25. A proposed change touches nothing but its own branch of an allowlisted repository. Whatever GitHub answers, a
  run sends a first part of three requests and nothing else: create the proposal's branch, write the one
  file on that branch, and open a pull request from it; all three when it reports a new pull request, none
  when it reports a stored one. Requests are sent only when no complete reference is stored, the path has
  no parent component and matches a pattern allowlisted for the repository, and the branch name is valid.\<close>

theorem change_requests_confined:
  "let run = create_change_once E G subject operation q correlation_id incident_id s in
   \<exists>es. effects (snd run) = effects s @ es \<and>
     (es \<noteq> [] \<longrightarrow> (\<exists>r p k pats. require_path_write (ga_policy G) (cr_repository q) (cr_path q) = Inr (r, p) \<and>
        es = take k (change_requests subject operation q r p) \<and> confined_path p \<and>
        dict_get (gp_write_paths (ga_policy G)) r = Some pats \<and> list_ex (fnmatchcase p) pats \<and>
        require_branch (cr_head q) = Inr () \<and> \<not> complete_change s (change_key operation subject r p))) \<and>
     (case fst run of
        Inl e \<Rightarrow> True
      | Inr resp \<Rightarrow> if cs_created resp then length es = 3 else es = [])"
proof (cases "require_path_write (ga_policy G) (cr_repository q) (cr_path q)")
  case (Inl e)
  then show ?thesis by (simp add: create_change_once_def bindM_def liftR_def Let_def)
next
  case (Inr rp)
  obtain r p where rp: "rp = (r, p)" by (cases rp)
  note ok = Inr [unfolded rp]
  note run = create_change_once_run [OF ok, of E subject operation correlation_id incident_id s]
  show ?thesis
  proof (cases "known_change s (change_key operation subject r p)")
    case (Some gnu)
    then show ?thesis unfolding run by (cases gnu) (auto simp: stored_change_def Let_def)
  next
    case None
    obtain res t where step: "propose_change E G subject operation q correlation_id incident_id r p s = (res, t)"
      by (cases "propose_change E G subject operation q correlation_id incident_id r p s")
    from ok step obtain k where k: "effects t = effects s @ take k (change_requests subject operation q r p)"
        "\<And>resp. res = Inr resp \<Longrightarrow> cs_created resp \<and> 3 \<le> k" "require_branch (cr_head q) \<noteq> Inr () \<Longrightarrow> k = 0"
      by (rule propose_change_requests) blast
    obtain pats where pats: "dict_get (gp_write_paths (ga_policy G)) r = Some pats" "list_ex (fnmatchcase p) pats"
      using require_path_writeD(4) [OF ok] by blast
    show ?thesis unfolding run None Let_def option.case step fst_conv snd_conv
      by (intro exI [of _ "take k (change_requests subject operation q r p)"] conjI impI exI [of _ r] exI [of _ p]
          exI [of _ k] exI [of _ pats] ok pats require_path_writeD(1) [OF ok] known_change_None [OF None] refl k(1))
        (use k(2,3) in \<open>force simp: change_requests_def split: sum.splits\<close>)+
  qed
qed

lemma find_appended: "\<forall>x \<in> set xs. \<not> P x \<Longrightarrow> P y \<Longrightarrow> find P (xs @ [y]) = Some y"
  by (induction xs) auto

definition opened :: "change_request \<Rightarrow> pull_request_result \<Rightarrow> bool" where
  "opened q pull \<longleftrightarrow> 1 \<le> prr_number pull \<and> prr_head pull = cr_head q \<and> prr_base pull = cr_base q"

lemma open_change_result: "results (\<lambda>(sha, pull). opened q pull) (open_change G subject operation q r p)"
proof -
  have "results (\<lambda>n. 1 \<le> n) (liftR (positive_int v))" for v
    by (simp add: results_def wp_liftR positive_int_def split: sum.splits json.splits)
  then have "results (opened q) (create_pull_request G r (change_content subject operation q))"
    unfolding create_pull_request_def
    by (intro result_rules results_bindM_of) (auto intro!: results_bindM_of result_rules simp: opened_def change_content_def)
  then show ?thesis unfolding open_change_def
    by (intro results_thenM results_bindM [where m = "update_file _ _ _ _ _ _ _"]) (auto elim!: results_bindM_of intro: result_rules)
qed

lemma store_change_result:
  assumes "opened q pull"
  shows "wp (store_change E subject operation q c i r p sha pull)
     (\<lambda>resp t. cs_commit_sha resp \<noteq> [] \<and> prr_url (cs_pull_request resp) \<noteq> [] \<longrightarrow>
        (\<exists>g. find (\<lambda>g. gar_dedupe_key g = change_key operation subject r p) (db_github_records (sy_db t)) = Some g \<and>
          complete_reference g = Some (prr_number pull, prr_url pull) \<and>
          (\<forall>q'. stored_change subject p q' g (prr_number pull) (prr_url pull) = Inr (resp\<lparr>cs_created := False\<rparr>))))
     (\<lambda>_ _. True) s"
  using assms unfolding store_change_def
  by (auto simp: opened_def wp_simps Let_def github_record_ok_def change_record_def complete_reference_def stored_change_def
      dict_str_def dict_get_def find_appended split: prod.splits)

lemma propose_change_result:
  "wp (propose_change E G subject operation q c i r p)
     (\<lambda>resp t. cs_commit_sha resp \<noteq> [] \<and> prr_url (cs_pull_request resp) \<noteq> [] \<longrightarrow>
        (\<exists>g n v. find (\<lambda>g. gar_dedupe_key g = change_key operation subject r p) (db_github_records (sy_db t)) = Some g \<and>
          complete_reference g = Some (n, v) \<and>
          (\<forall>q'. stored_change subject p q' g n v = Inr (resp\<lparr>cs_created := False\<rparr>)))) (\<lambda>_ _. True) s"
  unfolding propose_change_def wp_bindM
  by (rule wp_mono [OF open_change_result [unfolded results_def, rule_format]]) (auto intro!: wp_mono [OF store_change_result])

text \<open>C26. A change is proposed once. After a run that opened a pull request, with an address and a commit as GitHub
  gives them, every later run for the same subject, operation, repository and path that sees the stored
  reference returns the same pull request as not newly created, sends nothing and changes nothing, whatever
  else the new request asks for and whatever GitHub would answer.\<close>

theorem change_proposed_once:
  fixes G' :: "'w github_app"
  assumes "create_change_once E G subject operation q c i s = (Inr resp, t)"
    and "cs_commit_sha resp \<noteq> []" and "prr_url (cs_pull_request resp) \<noteq> []" and "cs_created resp"
    and "db_github_records (sy_db u) = db_github_records (sy_db t)" and "ga_policy G' = ga_policy G"
    and "cr_repository q' = cr_repository q" and "cr_path q' = cr_path q"
  shows "create_change_once E' G' subject operation q' c' i' u = (Inr (resp\<lparr>cs_created := False\<rparr>), u)"
proof -
  obtain r p where rp: "require_path_write (ga_policy G) (cr_repository q) (cr_path q) = Inr (r, p)"
    using assms(1) by (auto simp: create_change_once_def liftR_def elim!: bindM_returnedE)
  have rp': "require_path_write (ga_policy G') (cr_repository q') (cr_path q') = Inr (r, p)" using rp assms(6-8) by simp
  have step: "propose_change E G subject operation q c i r p s = (Inr resp, t)"
    using assms(1,4) unfolding create_change_once_run [OF rp]
    by (auto simp: stored_change_def Let_def split: option.splits prod.splits if_splits)
  obtain g n v where "known_change t (change_key operation subject r p) = Some (g, n, v)"
      "stored_change subject p q' g n v = Inr (resp\<lparr>cs_created := False\<rparr>)"
    using wp_returned [OF propose_change_result step] assms(2,3) by (auto simp: known_change_def)
  then show ?thesis unfolding create_change_once_run [OF rp'] using assms(5) by (simp add: known_change_def)
qed

section \<open>Witnesses\<close>

definition demo_reply :: json where
  "demo_reply = JObj [(''commit'', JObj [(''sha'', JStr ''0a1b2c3'')]), (''number'', JInt 12),
     (''html_url'', JStr ''https://github.example/pull/12'')]"

definition demo_policy :: github_policy where
  "demo_policy = \<lparr>gp_read_repositories = {''cloudward/gitops''}, gp_issue_repositories = {},
     gp_write_paths = [(''cloudward/gitops'', [''environments/*/values.yaml''])]\<rparr>"

definition demo_github :: "demo_world github_app" where
  "demo_github = \<lparr>ga_policy = demo_policy, ga_token = (\<lambda>w. (Inr ''t'', w)),
     ga_exchange = (\<lambda>bearer meth path params body w. (Inr demo_reply, w))\<rparr>"

definition demo_change :: change_request where
  "demo_change = \<lparr>cr_repository = '' CloudWard/gitops'', cr_path = ''environments//staging/values.yaml'', cr_base = ''main'',
     cr_base_commit_sha = ''0a1b2c3'', cr_head = ''cloudward/finops-1'', cr_expected_blob_sha = Some ''aabbccd'',
     cr_proposed_content = ''a: 1'', cr_commit_message = ''m'', cr_title = ''t'', cr_reason = ''r'', cr_current_state = [],
     cr_proposed_state = [], cr_evidence = [], cr_risk_score = 10, cr_verification_plan = ''v'', cr_rollback_plan = ''b'',
     cr_draft = True\<rparr>"

lemma demo_change_facts:
  "require_path_write demo_policy (cr_repository demo_change) (cr_path demo_change) =
     Inr (''cloudward/gitops'', ''environments/staging/values.yaml'')"
  "require_path_write demo_policy ''cloudward/gitops'' ''environments/staging/values.yaml'' =
     Inr (''cloudward/gitops'', ''environments/staging/values.yaml'')"
  "require_pull_request demo_policy ''cloudward/gitops'' = Inr ''cloudward/gitops''"
  "require_branch (cr_head demo_change) = Inr ()" "require_sha ''0a1b2c3'' = Inr ()" "require_sha ''aabbccd'' = Inr ()"
  "jget [(''commit'', JObj [(''sha'', JStr ''0a1b2c3'')]), (''number'', JInt 12),
     (''html_url'', JStr ''https://github.example/pull/12'')] ''commit'' = JObj [(''sha'', JStr ''0a1b2c3'')]"
  by code_simp+

lemma length_json_block: "length (json_block d) \<le> 3013"
  by (simp add: json_block_def)

lemma change_pr_body_bound:
  assumes "length (redact_text (cr_verification_plan q)) \<le> 3000" "length (redact_text (cr_rollback_plan q)) \<le> 3000"
    and "length (str_of_int (cr_risk_score q)) \<le> 3"
  shows "length (change_pr_body subject operation q) \<le> 20000" "change_pr_body subject operation q \<noteq> []"
proof -
  have "length (uuid_str subject) = 36" by (simp add: uuid_str_def uuid_hex_def Let_def)
  then show "length (change_pr_body subject operation q) \<le> 20000"
    using assms length_json_block [of "cr_current_state q"] length_json_block [of "cr_proposed_state q"]
      length_json_block [of "cr_evidence q"]
    by (simp add: change_pr_body_def min_def)
  show "change_pr_body subject operation q \<noteq> []" by (simp add: change_pr_body_def)
qed

lemma demo_change_valid: "pr_content_valid (change_content 7 ''FINOPS'' demo_change)"
proof -
  have "length (str_of_int 10) = 2" by code_simp
  then show ?thesis
    using change_pr_body_bound [of demo_change 7 "''FINOPS''"]
    by (simp add: pr_content_valid_def change_content_def str_bounds_def redact_text_short demo_change_def Suc_le_eq)
qed

lemma demo_change_opens:
  "\<exists>resp t. create_change_once demo_env demo_github 7 ''FINOPS'' demo_change ''c'' None demo_sys = (Inr resp, t) \<and>
     cs_created resp \<and> cs_commit_sha resp = ''0a1b2c3'' \<and> prr_url (cs_pull_request resp) = ''https://github.example/pull/12''"
proof -
  let ?r = "''cloudward/gitops''" and ?p = "''environments/staging/values.yaml''"
  have q: "cr_base_commit_sha demo_change = ''0a1b2c3''" "cr_expected_blob_sha demo_change = Some ''aabbccd''" by (simp_all add: demo_change_def)
  have o: "wp (open_change demo_github 7 ''FINOPS'' demo_change ?r ?p)
     (\<lambda>(sha, pull) t. sha = ''0a1b2c3'' \<and> prr_url pull = ''https://github.example/pull/12'' \<and> db_github_records (sy_db t) = db_github_records (sy_db s))
     (\<lambda>_ _. False) s" for s
    using demo_change_facts demo_change_valid
    by (simp add: open_change_def create_branch_def update_file_def q create_pull_request_def github_request_def
        wp_simps demo_github_def demo_reply_def positive_int_def jget_def dict_get_def)
  have c: "wp (store_change demo_env 7 ''FINOPS'' demo_change ''c'' None ?r ?p sha pull)
     (\<lambda>resp _. cs_created resp \<and> cs_commit_sha resp = sha \<and> cs_pull_request resp = pull) (\<lambda>_ _. False) t"
    if "db_github_records (sy_db t) = []" for sha pull t
    using that by (simp add: store_change_def wp_simps github_record_ok_def Let_def split: prod.splits)
  have e: "db_github_records (sy_db demo_sys) = []" by (simp add: demo_sys_def empty_database_def)
  have w: "wp (create_change_once demo_env demo_github 7 ''FINOPS'' demo_change ''c'' None)
    (\<lambda>resp _. cs_created resp \<and> cs_commit_sha resp = ''0a1b2c3'' \<and>
       prr_url (cs_pull_request resp) = ''https://github.example/pull/12'') (\<lambda>_ _. False) demo_sys"
  proof -
    have p: "ga_policy demo_github = demo_policy" by (simp add: demo_github_def)
    show ?thesis unfolding create_change_once_def p demo_change_facts(1)
      by (simp add: find_automation_def propose_change_def wp_bindM wp_dbM e)
        (rule wp_mono [OF o], auto intro!: wp_mono [OF c] simp: e)
  qed
  show ?thesis using w by (auto simp: wp_def split: prod.splits sum.splits)
qed

theorem change_proposed_once_witness:
  "\<exists>resp t. create_change_once demo_env demo_github 7 ''FINOPS'' demo_change ''c'' None demo_sys = (Inr resp, t) \<and>
     create_change_once demo_env demo_github 7 ''FINOPS'' (demo_change\<lparr>cr_title := ''u''\<rparr>) ''d'' (Some 9) t =
       (Inr (resp\<lparr>cs_created := False\<rparr>), t)"
proof -
  obtain resp t where r: "create_change_once demo_env demo_github 7 ''FINOPS'' demo_change ''c'' None demo_sys = (Inr resp, t)"
      "cs_created resp" "cs_commit_sha resp = ''0a1b2c3''" "prr_url (cs_pull_request resp) = ''https://github.example/pull/12''"
    using demo_change_opens by blast
  have "create_change_once demo_env demo_github 7 ''FINOPS'' (demo_change\<lparr>cr_title := ''u''\<rparr>) ''d'' (Some 9) t =
      (Inr (resp\<lparr>cs_created := False\<rparr>), t)"
    by (rule change_proposed_once [OF r(1)]) (simp_all add: r)
  with r(1) show ?thesis by blast
qed

theorem change_requests_confined_witness:
  "\<exists>es r p k. effects (snd (create_change_once demo_env demo_github 7 ''FINOPS'' demo_change ''c'' None demo_sys)) =
     effects demo_sys @ es \<and> length es = 3 \<and> es = take k (change_requests 7 ''FINOPS'' demo_change r p) \<and> confined_path p"
proof -
  obtain resp t where r: "create_change_once demo_env demo_github 7 ''FINOPS'' demo_change ''c'' None demo_sys = (Inr resp, t)"
      "cs_created resp" using demo_change_opens by blast
  from change_requests_confined [of demo_env demo_github 7 "''FINOPS''" demo_change "''c''" None demo_sys, unfolded r(1) Let_def]
  obtain es where es: "effects t = effects demo_sys @ es" "length es = 3"
    "es \<noteq> [] \<longrightarrow> (\<exists>r p k pats. es = take k (change_requests 7 ''FINOPS'' demo_change r p) \<and> confined_path p)"
    using r(2) by auto
  have "es \<noteq> []" using es(2) by auto
  with es(3) obtain r' p k where "es = take k (change_requests 7 ''FINOPS'' demo_change r' p)" "confined_path p" by blast
  then show ?thesis unfolding r(1) using es(1,2)
    by (intro exI [of _ es] exI [of _ r'] exI [of _ p] exI [of _ k]) simp
qed

end
