(* ===== verification/Spec2Isabelle.thy ===== *)
theory Spec2Isabelle
  imports CW_StateMachine CW_Rbac CW_Actions CW_Risk CW_Redaction CW_Policy CW_Memory CW_Notify
    CW_Incidents CW_Kube CW_Execution CW_Approvals CW_Verification CW_Runbooks CW_Pipeline CW_Intake
    CW_Alerts CW_Security CW_Probe CW_Quarantine CW_Containment CW_Finops CW_GitHub CW_Demo
begin

text \<open>
  CloudWard: a verification development of the backend's remediation core (\<open>src/backend/app\<close>).

  \<^bold>\<open>The program.\<close> CloudWard receives alerts and runtime security events, opens incidents, collects
  evidence from a Kubernetes cluster, matches a runbook, scores the risk of the runbook's action, asks
  an Open Policy Agent server for a decision, executes the action through a typed executor, verifies
  the result and closes or escalates the incident. Everything it does is recorded in the database:
  events, audit entries, approvals, executions, notifications, incident memories.

  \<^bold>\<open>The theories\<close>, each importing the ones it calls:

  \<^item> \<open>CW_Prelude\<close>: JSON values, \<open>CloudWardError\<close> (\<open>errors.py\<close>) and other exceptions as values, Python
    string operations, the state-and-exception monad with its weakest preconditions, frames,
    invariants, result and exception bounds, and the table interface (locale \<open>table\<close>).
  \<^item> \<open>CW_Pylib\<close>: dictionaries, \<open>repr\<close>, canonical JSON text, SHA-256, ISO dates.
  \<^item> \<open>CW_StateMachine\<close> (\<open>incidents/state_machine.py\<close>), \<open>CW_Rbac\<close> (\<open>rbac/policy.py\<close>), \<open>CW_Actions\<close>
    (\<open>remediation/actions.py\<close>), \<open>CW_Risk\<close> (\<open>risk/engine.py\<close>), \<open>CW_Redaction\<close>
    (\<open>security/redaction.py\<close>, \<open>logging.py\<close>), \<open>CW_Policy\<close> (\<open>policies/opa.py\<close>): the pure parts.
  \<^item> \<open>CW_Models\<close> (\<open>db/models.py\<close> and the model modules beside it): one record per table, the database as
    the record of its tables, check and unique constraints as predicates.
  \<^item> \<open>CW_Env\<close>: the configuration values that are read, the outside world as a record of functions, and
    the state \<open>sys\<close> of a request. \<open>CW_Demo\<close> is a concrete world for the witnesses.
  \<^item> \<open>CW_Audit\<close> (\<open>audit/service.py\<close>, \<open>events/service.py\<close>), \<open>CW_Memory\<close> (\<open>incident_memory/\<close>), \<open>CW_Notify\<close>
    (\<open>notifications/\<close>), \<open>CW_Incidents\<close> (\<open>incidents/service.py\<close> and the part of \<open>approvals/service.py\<close> it
    calls), \<open>CW_Approvals\<close> (\<open>approvals/service.py\<close>), \<open>CW_Kube\<close> (\<open>kubernetes/executor.py\<close>), \<open>CW_Execution\<close>
    (\<open>remediation/execution.py\<close>), \<open>CW_Verification\<close> (\<open>verification/engine.py\<close>, \<open>evidence/collector.py\<close>),
    \<open>CW_Runbooks\<close> (\<open>runbooks/\<close>): the services.
  \<^item> \<open>CW_Pipeline\<close> (\<open>remediation/pipeline.py\<close>): the composition of all of them.
  \<^item> \<open>CW_Intake\<close> (\<open>security/webhook_auth.py\<close>, \<open>security/rate_limit.py\<close>): the gate in front of the webhooks.
    \<open>CW_Alerts\<close> (\<open>alerts/\<close>) and \<open>CW_Security\<close> (\<open>security/service.py\<close>, \<open>security/normalization.py\<close>,
    \<open>security/schemas.py\<close>): what the webhooks deliver, from the schema to the incident. \<open>CW_Json\<close> is the
    JSON reader they and the executor use.
  \<^item> \<open>CW_Probe\<close> (the probes, scenarios, events and Argo CD reads of \<open>kubernetes/executor.py\<close>) and
    \<open>CW_Quarantine\<close> (\<open>security/quarantine.py\<close>): containment of a pod. \<open>CW_Containment\<close> holds the properties
    of the containment, across ingestion, policy, executor and waits.
  \<^item> \<open>CW_Finops\<close> (\<open>finops/engine.py\<close>, \<open>finops/schemas.py\<close>): rightsizing and node efficiency.
  \<^item> \<open>CW_GitHub\<close> (\<open>github/policy.py\<close>, \<open>github/app.py\<close>, \<open>github/service.py\<close>, \<open>github/schemas.py\<close>,
    \<open>github/factory.py\<close>): allowlists, the client's reads and writes, issues and change proposals.

  A Python function keeps its name without the leading underscore; a method of a service class is a
  function of the environment; a long function is split into the stages its comments and commits
  suggest, composed in the order of the source.

  \<^bold>\<open>State.\<close> A handler has type \<open>'w sys \<Rightarrow> (exn + 'a) \<times> 'w sys\<close>: it returns or raises, and keeps what it
  did before raising. \<open>sys\<close> holds the session's view of the database, the committed database, the outside
  world, the gauge of active incidents, the supply of keys and a log of the external effects in order.
  The world answers every call by a function of its own state, about which nothing is assumed unless
  a theorem says so (\<open>steady_clock\<close>, \<open>steady_intake\<close>).

  \<^bold>\<open>What is shown.\<close>
  \<^item> The pipeline: each deletion directly follows an allowing policy decision for exactly that pod, in
    every run, whatever the world answers; what a run reports is committed and true; the event log
    replays to the state of each incident.
  \<^item> Approvals: granted only while everything they were bound to still holds, decided once, claimed once.
  \<^item> Policy: every failure of the policy engine is a denial. Executor: every mutation is confined to
    its target. Verification: the polling loop ends and reports the truth.
  \<^item> State machine: resolution only after policy and execution (locales \<open>lifecycle\<close> and
    \<open>gated_lifecycle\<close>, interpreted on the incident table). Registry, roles, risk, redaction, runbooks and
    memory: exact lookups, monotonicity, bounds, fixed points.
  \<^item> The gate: forged requests leave no trace, replays are possible only at the edge of the window,
    the gate fails closed in production, and the limiter refines a budget.
  \<^item> Alerts and security events: every valid delivery is settled, redelivery changes nothing but counters
    and the audit trail, and records stay unique. Containment: the cluster is touched only after an
    allowing decision about exactly that pod, and what is recorded as contained was verified (locales
    \<open>watch\<close> and \<open>world_blind\<close>, interpreted on both waits and on the handlers).
  \<^item> FinOps: percentiles are sound, a recommendation never cuts below observed use with its headroom, and
    the analyses fail only for want of a usable sample.
  \<^item> GitHub: a proposal writes only its own branch of an allowlisted repository, is made once, and the
    uploaded content survives its encoding.

  \<^bold>\<open>Bounds and fuel.\<close> \<open>verify_loop\<close> runs on fuel; \<open>verify_fuel\<close> gives one round more than poll
  intervals fit into the timeout, and \<open>verify_until_terminates\<close> shows that this is enough on a clock
  that does not go backwards; running out of fuel (only possible on another clock) is the exception
  \<open>diverged\<close>. The two waits of the quarantine workflow poll on the same fuel and
  \<open>quarantine_waits_terminate\<close> shows that it is enough. Every other recursion is structural or has a
  measure on the length of its input.

  \<^bold>\<open>Idealisations.\<close> Floats are exact rationals; \<open>uuid4\<close> is a counter; strings are ASCII except in
  headers, which are Latin-1; \<open>session.add\<close> inserts at once with the column defaults, so a constraint is
  checked at the insertion; row locks, foreign keys, column lengths and \<open>updated_at\<close> are left out, as are
  metric counters other than the gauge of active incidents and the text of validation errors.
  Datetimes are UTC microseconds. The YAML parser, Redis, the policy server, the Kubernetes API and the
  task broker are parameters.

  \<^bold>\<open>Not modelled.\<close> The HTTP routes, sessions and login, the middleware and process wiring, migrations and
  demo fixtures are glue of the web framework; the observability and FinOps providers, the installation
  tokens of the GitHub App and the language-model client are HTTP clients. The reliability workflow,
  multi-signal verification, the lifecycle of a stored FinOps recommendation, source correlation, the
  chaos policy and the action boundary of the AI have logic of their own that is not modelled.
\<close>

end
